(* ===== verification/Abi.thy ===== *)
theory Abi
  imports Prelude
begin

unbundle bit_operations_syntax

text \<open>
  The module \<open>chainio::abi\<close> (\<open>crates/chainio/src/abi.rs\<close>): the static ABI codec. A word is
  its 32 bytes; an address is 20 bytes. The cursor \<open>decoder\<close> is the Rust \<open>Decoder\<close> (data and
  offset), each read returning the value and the advanced cursor or the error. The locale
  \<open>word_codec\<close> is the contract the typed readers share: reading accepts exactly the canonical
  encodings. It is interpreted for \<open>uint256\<close> as \<open>u128\<close>, \<open>bool\<close>, \<open>address\<close> and
  \<open>enum\<close>; the tuple decoders of the other theories rest on these four instances.
\<close>

type_synonym word32 = bytes
type_synonym address = bytes

datatype abi_error =
    TooShort (need: nat) (got: nat)
  | Overflow | BadBool | BadAddress | BadHex | BadString

definition abi_error_display :: "abi_error \<Rightarrow> string" where
  "abi_error_display e = (case e of
     TooShort n g \<Rightarrow> ''ABI data too short: need '' @ dec_nat n @ '' words, got '' @ dec_nat g
   | Overflow \<Rightarrow> ''uint256 overflows target integer width''
   | BadBool \<Rightarrow> ''bool word is neither 0 nor 1''
   | BadAddress \<Rightarrow> ''address has dirty high bytes''
   | BadHex \<Rightarrow> ''malformed hex''
   | BadString \<Rightarrow> ''string field is not valid UTF-8'')"

section \<open>Encoding\<close>

definition word_from_u128 :: "u128 \<Rightarrow> word32" where
  "word_from_u128 v = replicate 16 0 @ u128_to_be v"

definition word_from_address :: "address \<Rightarrow> word32" where
  "word_from_address a = replicate 12 0 @ a"

definition encode_call :: "bytes \<Rightarrow> word32 list \<Rightarrow> bytes" where
  "encode_call selector args = selector @ concat args"

definition encode_bytes_tail :: "bytes \<Rightarrow> bytes" where
  "encode_bytes_tail bs =
     (let padded = div_ceil (length bs) 32 * 32
      in word_from_u128 (of_nat (length bs)) @ bs @ replicate (padded - length bs) 0)"

section \<open>The decoder\<close>

record decoder =
  d_data :: bytes
  d_offset :: nat

definition decoder_new :: "bytes \<Rightarrow> decoder" where
  "decoder_new data = \<lparr>d_data = data, d_offset = 0\<rparr>"

definition dec_word :: "decoder \<Rightarrow> abi_error + word32 \<times> decoder" where
  "dec_word d =
     (let end = d_offset d + 32
      in if length (d_data d) < end
         then Inl (TooShort (div_ceil end 32) (length (d_data d) div 32))
         else Inr (take 32 (drop (d_offset d) (d_data d)), d\<lparr>d_offset := end\<rparr>))"

definition dec_u128 :: "decoder \<Rightarrow> abi_error + u128 \<times> decoder" where
  "dec_u128 d = rbind (dec_word d) (\<lambda>(w, d').
     if list_ex (\<lambda>b. b \<noteq> 0) (take 16 w) then Inl Overflow
     else Inr (u128_from_be (drop 16 w), d'))"

definition dec_u256_word :: "decoder \<Rightarrow> abi_error + word32 \<times> decoder" where
  "dec_u256_word d = dec_word d"

definition dec_bool :: "decoder \<Rightarrow> abi_error + bool \<times> decoder" where
  "dec_bool d = rbind (dec_word d) (\<lambda>(w, d').
     if list_ex (\<lambda>b. b \<noteq> 0) (take 31 w) then Inl BadBool
     else if w ! 31 = 0 then Inr (False, d')
     else if w ! 31 = 1 then Inr (True, d')
     else Inl BadBool)"

definition dec_address :: "decoder \<Rightarrow> abi_error + address \<times> decoder" where
  "dec_address d = rbind (dec_word d) (\<lambda>(w, d').
     if list_ex (\<lambda>b. b \<noteq> 0) (take 12 w) then Inl BadAddress
     else Inr (drop 12 w, d'))"

definition dec_u8_enum :: "decoder \<Rightarrow> abi_error + u8 \<times> decoder" where
  "dec_u8_enum d = rbind (dec_word d) (\<lambda>(w, d').
     if list_ex (\<lambda>b. b \<noteq> 0) (take 31 w) then Inl Overflow
     else Inr (w ! 31, d'))"

section \<open>Hexadecimal text\<close>

definition nib :: "char \<Rightarrow> abi_error + u8" where
  "nib c =
     (let n = (of_char c :: nat)
      in if 48 \<le> n \<and> n \<le> 57 then Inr (of_nat (n - 48))
         else if 97 \<le> n \<and> n \<le> 102 then Inr (of_nat (n - 97 + 10))
         else if 65 \<le> n \<and> n \<le> 70 then Inr (of_nat (n - 65 + 10))
         else Inl BadHex)"

fun hex_pairs :: "string \<Rightarrow> abi_error + bytes" where
  "hex_pairs [] = Inr []"
| "hex_pairs [_] = Inl BadHex"
| "hex_pairs (a # b # s) =
     rbind (nib a) (\<lambda>h. rbind (nib b) (\<lambda>l. rbind (hex_pairs s) (\<lambda>out.
       Inr ((push_bit 4 h OR l) # out))))"

definition hex_decode :: "string \<Rightarrow> abi_error + bytes" where
  "hex_decode s = rbind (ok_or BadHex (strip_prefix ''0x'' s)) (\<lambda>s.
     if length s mod 2 \<noteq> 0 then Inl BadHex else hex_pairs s)"

definition hex_byte :: "u8 \<Rightarrow> string" where
  "hex_byte b = [digit_char (unat (drop_bit 4 b)), digit_char (unat (b AND 15))]"

definition hex_encode :: "bytes \<Rightarrow> string" where
  "hex_encode bs = ''0x'' @ concat (map hex_byte bs)"

definition address_from_hex :: "string \<Rightarrow> abi_error + address" where
  "address_from_hex s = rbind (hex_decode s) (\<lambda>bs.
     if length bs \<noteq> 20 then Inl BadHex else Inr bs)"

section \<open>Words: lengths and canonical forms\<close>

lemma length_word_from_u128 [simp]: "length (word_from_u128 v) = 32"
  by (simp add: word_from_u128_def)

lemma length_word_from_address [simp]: "length a = 20 \<Longrightarrow> length (word_from_address a) = 32"
  by (simp add: word_from_address_def)

lemma length_encode_call: "(\<And>w. w \<in> set args \<Longrightarrow> length w = 32) \<Longrightarrow>
    length (encode_call sel args) = length sel + 32 * length args"
  by (induction args) (simp_all add: encode_call_def)

lemma not_list_ex_zero: "\<not> list_ex (\<lambda>b. b \<noteq> 0) xs \<longleftrightarrow> xs = replicate (length xs) 0"
  by (induction xs) auto

lemma zero_prefix_split:
  "length w = 32 \<Longrightarrow> n \<le> 32 \<Longrightarrow> \<not> list_ex (\<lambda>b. b \<noteq> 0) (take n w) \<longleftrightarrow> w = replicate n 0 @ drop n w"
  by (metis append_take_drop_id length_take min.absorb2 not_list_ex_zero append_eq_append_conv
      length_replicate)

lemma dec_word_Inr:
  "dec_word d = Inr (w, d') \<longleftrightarrow>
     d_offset d + 32 \<le> length (d_data d) \<and> w = take 32 (drop (d_offset d) (d_data d)) \<and>
     d' = d\<lparr>d_offset := d_offset d + 32\<rparr>"
  by (auto simp: dec_word_def Let_def)

lemma dec_word_length: "dec_word d = Inr (w, d') \<Longrightarrow> length w = 32"
  by (auto simp: dec_word_Inr)

text \<open>The word that starts at an offset.\<close>

definition word_at_offset :: "bytes \<Rightarrow> nat \<Rightarrow> word32 \<Rightarrow> bool" where
  "word_at_offset data n w \<longleftrightarrow> n + 32 \<le> length data \<and> take 32 (drop n data) = w"

lemma dec_word_at:
  "word_at_offset data n w \<Longrightarrow>
     dec_word \<lparr>d_data = data, d_offset = n\<rparr> = Inr (w, \<lparr>d_data = data, d_offset = n + 32\<rparr>)"
  by (simp add: dec_word_Inr word_at_offset_def)

lemma word_at_append: "length w = 32 \<Longrightarrow> length pre = n \<Longrightarrow> word_at_offset (pre @ w @ post) n w"
  by (simp add: word_at_offset_def)

lemma word_at_concat:
  assumes "\<And>w. w \<in> set ws \<Longrightarrow> length w = 32" "i < length ws"
  shows "word_at_offset (concat ws @ post) (32 * i) (ws ! i)"
proof -
  have len: "length (concat (take i ws)) = 32 * i" if "i \<le> length ws" for i
    using that assms(1) by (induction i) (auto simp: take_Suc_conv_app_nth)
  have "ws = take i ws @ ws ! i # drop (Suc i) ws"
    using assms(2) by (rule id_take_nth_drop)
  then have "concat ws = concat (take i ws) @ ws ! i @ concat (drop (Suc i) ws)"
    by (metis concat.simps(2) concat_append)
  then show ?thesis
    using word_at_append [of "ws ! i" "concat (take i ws)" "32 * i" "concat (drop (Suc i) ws) @ post"]
      assms len [of i] by simp
qed

text \<open>A cursor between the words already read and those still to read; the readers move one word
  from the right to the left, which is how the tuple decoders are evaluated symbolically.\<close>

definition cursor :: "word32 list \<Rightarrow> word32 list \<Rightarrow> bytes \<Rightarrow> decoder" where
  "cursor pre ws post = \<lparr>d_data = concat pre @ concat ws @ post, d_offset = 32 * length pre\<rparr>"

definition words32 :: "word32 list \<Rightarrow> bool" where
  "words32 ws \<longleftrightarrow> (\<forall>w \<in> set ws. length w = 32)"

lemma words32_simps [simp]:
  "words32 []" "words32 (w # ws) \<longleftrightarrow> length w = 32 \<and> words32 ws"
  "words32 (vs @ ws) \<longleftrightarrow> words32 vs \<and> words32 ws"
  by (auto simp: words32_def)

lemma length_concat_words: "words32 ws \<Longrightarrow> length (concat ws) = 32 * length ws"
  by (induction ws) simp_all

lemma decoder_new_cursor: "decoder_new (concat ws @ post) = cursor [] ws post"
  by (simp add: decoder_new_def cursor_def)

lemma dec_word_cursor [codec_simps]:
  "words32 pre \<Longrightarrow> length w = 32 \<Longrightarrow>
     dec_word (cursor pre (w # ws) post) = Inr (w, cursor (pre @ [w]) ws post)"
  by (simp add: dec_word_Inr cursor_def length_concat_words)

text \<open>Consecutive words from an offset: what a run of successful reads has seen.\<close>

fun words_at :: "bytes \<Rightarrow> nat \<Rightarrow> word32 list \<Rightarrow> bool" where
  "words_at data n [] \<longleftrightarrow> True"
| "words_at data n (w # ws) \<longleftrightarrow> word_at_offset data n w \<and> words_at data (n + 32) ws"

lemma words_at_length: "words_at data n ws \<Longrightarrow> words32 ws"
  by (induction data n ws rule: words_at.induct) (auto simp: word_at_offset_def)

lemma words_at_concat: "words_at data n ws \<Longrightarrow> n \<le> length data \<Longrightarrow>
    n + 32 * length ws \<le> length data \<and> take (32 * length ws) (drop n data) = concat ws"
proof (induction data n ws rule: words_at.induct)
  case (2 data n w ws)
  then have w: "n + 32 \<le> length data" "take 32 (drop n data) = w"
    and IH: "n + 32 + 32 * length ws \<le> length data"
      "take (32 * length ws) (drop (n + 32) data) = concat ws"
    by (simp_all add: word_at_offset_def)
  have "take (32 + 32 * length ws) (drop n data) =
      take 32 (drop n data) @ take (32 * length ws) (drop 32 (drop n data))"
    by (rule take_add)
  with w IH show ?case by (simp add: add.commute)
qed simp

lemma dec_word_iff: "dec_word d = Inr (w, d') \<longleftrightarrow>
    word_at_offset (d_data d) (d_offset d) w \<and> d' = d\<lparr>d_offset := d_offset d + 32\<rparr>"
  by (auto simp: dec_word_Inr word_at_offset_def)

section \<open>The contract of the typed readers\<close>

locale word_codec =
  fixes enc :: "'a \<Rightarrow> word32"
    and rd :: "decoder \<Rightarrow> abi_error + 'a \<times> decoder"
    and valid :: "'a \<Rightarrow> bool"
  assumes enc_length: "valid v \<Longrightarrow> length (enc v) = 32"
    and rd_enc: "valid v \<Longrightarrow> dec_word d = Inr (enc v, d') \<Longrightarrow> rd d = Inr (v, d')"
    and rd_canonical: "rd d = Inr (v, d') \<Longrightarrow> valid v \<and> dec_word d = Inr (enc v, d')"
begin

lemma rd_at:
  "valid v \<Longrightarrow> word_at_offset data n (enc v) \<Longrightarrow>
     rd \<lparr>d_data = data, d_offset = n\<rparr> = Inr (v, \<lparr>d_data = data, d_offset = n + 32\<rparr>)"
  by (rule rd_enc) (simp_all add: dec_word_at)

lemma rd_cursor:
  "words32 pre \<Longrightarrow> valid v \<Longrightarrow>
     rd (cursor pre (enc v # ws) post) = Inr (v, cursor (pre @ [enc v]) ws post)"
  by (rule rd_enc) (simp_all add: dec_word_cursor enc_length)

lemma rd_roundtrip: "valid v \<Longrightarrow> rd (decoder_new (enc v @ post)) = Inr (v, \<lparr>d_data = enc v @ post, d_offset = 32\<rparr>)"
  using rd_at [of v "enc v @ post" 0] enc_length [of v]
  by (simp add: decoder_new_def word_at_offset_def)

lemma rd_iff: "rd d = Inr (v, d') \<longleftrightarrow> valid v \<and> dec_word d = Inr (enc v, d')"
  using rd_enc rd_canonical by blast

lemma enc_inj: "valid v \<Longrightarrow> valid w \<Longrightarrow> enc v = enc w \<Longrightarrow> v = w"
  using rd_roundtrip [of v "[]"] rd_roundtrip [of w "[]"] by simp

lemma rd_offset: "rd d = Inr (v, d') \<Longrightarrow> d_offset d' = d_offset d + 32 \<and> d_data d' = d_data d"
  using rd_canonical by (fastforce simp: dec_word_Inr)

end

definition word_from_bool :: "bool \<Rightarrow> word32" where
  "word_from_bool b = replicate 31 0 @ [if b then 1 else 0]"

definition word_from_u8 :: "u8 \<Rightarrow> word32" where
  "word_from_u8 b = replicate 31 0 @ [b]"

lemma drop_31: "length w = 32 \<Longrightarrow> drop 31 w = [w ! 31]"
  using Cons_nth_drop_Suc [of 31 w] by simp

interpretation cu128: word_codec word_from_u128 dec_u128 "\<lambda>_. True"
proof
  fix v :: u128 and d d'
  show "dec_u128 d = Inr (v, d')" if "dec_word d = Inr (word_from_u128 v, d')"
    using that by (auto simp: dec_u128_def word_from_u128_def not_list_ex_zero)
  show "True \<and> dec_word d = Inr (word_from_u128 v, d')" if "dec_u128 d = Inr (v, d')"
  proof -
    from that obtain w where w: "dec_word d = Inr (w, d')" "\<not> list_ex (\<lambda>b. b \<noteq> 0) (take 16 w)"
      "v = u128_from_be (drop 16 w)"
      by (auto simp: dec_u128_def split: if_splits)
    moreover have "length w = 32" using w(1) by (rule dec_word_length)
    ultimately show ?thesis
      by (simp add: zero_prefix_split word_from_u128_def u128_to_from_be)
  qed
qed simp

interpretation cbool: word_codec word_from_bool dec_bool "\<lambda>_. True"
proof
  fix v :: bool and d d'
  show "dec_bool d = Inr (v, d')" if "dec_word d = Inr (word_from_bool v, d')"
    using that by (auto simp: dec_bool_def word_from_bool_def not_list_ex_zero nth_append)
  show "True \<and> dec_word d = Inr (word_from_bool v, d')" if "dec_bool d = Inr (v, d')"
  proof -
    from that obtain w where w: "dec_word d = Inr (w, d')" "\<not> list_ex (\<lambda>b. b \<noteq> 0) (take 31 w)"
      "w ! 31 = (if v then 1 else 0)"
      by (auto simp: dec_bool_def split: if_splits)
    moreover have "length w = 32" using w(1) by (rule dec_word_length)
    ultimately show ?thesis
      by (simp add: zero_prefix_split word_from_bool_def drop_31)
  qed
qed (simp add: word_from_bool_def)

interpretation caddr: word_codec word_from_address dec_address "\<lambda>a. length a = 20"
proof
  fix v :: address and d d'
  show "dec_address d = Inr (v, d')"
    if "length v = 20" "dec_word d = Inr (word_from_address v, d')"
    using that by (auto simp: dec_address_def word_from_address_def not_list_ex_zero)
  show "length v = 20 \<and> dec_word d = Inr (word_from_address v, d')"
    if "dec_address d = Inr (v, d')"
  proof -
    from that obtain w where w: "dec_word d = Inr (w, d')" "\<not> list_ex (\<lambda>b. b \<noteq> 0) (take 12 w)"
      "v = drop 12 w"
      by (auto simp: dec_address_def split: if_splits)
    moreover have "length w = 32" using w(1) by (rule dec_word_length)
    ultimately show ?thesis
      by (simp add: zero_prefix_split word_from_address_def)
  qed
qed simp

interpretation cenum: word_codec word_from_u8 dec_u8_enum "\<lambda>_. True"
proof
  fix v :: u8 and d d'
  show "dec_u8_enum d = Inr (v, d')" if "dec_word d = Inr (word_from_u8 v, d')"
    using that by (auto simp: dec_u8_enum_def word_from_u8_def not_list_ex_zero nth_append)
  show "True \<and> dec_word d = Inr (word_from_u8 v, d')" if "dec_u8_enum d = Inr (v, d')"
  proof -
    from that obtain w where w: "dec_word d = Inr (w, d')" "\<not> list_ex (\<lambda>b. b \<noteq> 0) (take 31 w)"
      "v = w ! 31"
      by (auto simp: dec_u8_enum_def split: if_splits)
    moreover have "length w = 32" using w(1) by (rule dec_word_length)
    ultimately show ?thesis
      by (simp add: zero_prefix_split word_from_u8_def drop_31)
  qed
qed (simp add: word_from_u8_def)

lemmas codec_cursors [codec_simps] =
  cu128.rd_cursor [OF _ TrueI] cbool.rd_cursor [OF _ TrueI] caddr.rd_cursor cenum.rd_cursor [OF _ TrueI]

lemmas codec_lengths [codec_simps] = cbool.enc_length [OF TrueI] cenum.enc_length [OF TrueI]

lemma dec_u256_word_eq [codec_simps]: "dec_u256_word d = dec_word d"
  by (simp add: dec_u256_word_def)

section \<open>Dynamic bytes\<close>

text \<open>A reference reader for the tail of a dynamic \<open>bytes\<close> value, as a contract's ABI decoder
  performs it: a length word at the offset, then that many bytes.\<close>

definition abi_bytes_at :: "bytes \<Rightarrow> nat \<Rightarrow> bytes option" where
  "abi_bytes_at block off =
     (if off + 32 \<le> length block
      then (let len = nat_of_be (take 32 (drop off block))
            in if off + 32 + len \<le> length block then Some (take len (drop (off + 32) block)) else None)
      else None)"

lemma nat_of_be_zeros: "nat_of_be (replicate n 0 @ bs) = nat_of_be bs"
proof -
  have "foldl (\<lambda>a b. a * 256 + unat (b :: u8)) 0 (replicate n 0) = 0" by (induction n) simp_all
  then show ?thesis by (simp add: nat_of_be_def)
qed

lemma nat_of_be_word: "nat_of_be (word_from_u128 v) = unat v"
proof -
  have "unat v < 256 ^ 16" using unat_lt_2p [of v] by simp
  then show ?thesis
    by (simp add: word_from_u128_def nat_of_be_zeros u128_to_be_def nat_of_be_of_nat)
qed

lemma div_ceil_32: "n \<le> div_ceil n 32 * 32" "div_ceil n 32 * 32 mod 32 = 0"
  unfolding div_ceil_def by (presburger, simp)

lemma length_encode_bytes_tail:
  "length (encode_bytes_tail bs) = 32 + div_ceil (length bs) 32 * 32"
  using div_ceil_32(1) [of "length bs"] by (simp add: encode_bytes_tail_def Let_def)

lemma length_encode_bytes_tail_mod: "length (encode_bytes_tail bs) mod 32 = 0"
  by (simp add: length_encode_bytes_tail mod_add_eq [symmetric] div_ceil_32)

lemma abi_bytes_at_tail:
  assumes "length bs < 2 ^ 128" "length pre = off"
  shows "abi_bytes_at (pre @ encode_bytes_tail bs @ post) off = Some bs"
proof -
  have "nat_of_be (word_from_u128 (of_nat (length bs))) = length bs"
    using assms(1) by (simp add: nat_of_be_word unat_of_nat take_bit_eq_mod)
  then show ?thesis
    using assms(2) by (simp add: abi_bytes_at_def encode_bytes_tail_def Let_def)
qed

section \<open>Hexadecimal round trip\<close>

lemma nib_digit_char: "d < 16 \<Longrightarrow> nib (digit_char d) = Inr (of_nat d)"
  by (auto simp: nib_def digit_char_def Let_def)

lemma unat_high_nibble: "unat (drop_bit 4 (b :: u8)) < 16"
proof -
  have "unat (drop_bit 4 b) = unat b div 16" by (simp add: drop_bit_eq_div unat_simps)
  also have "\<dots> < 16" using unat_byte_lt [of b] by (simp add: less_mult_imp_div_less)
  finally show ?thesis .
qed

lemma low_nibble_take: "b AND 15 = take_bit 4 (b :: u8)"
  by (simp add: take_bit_eq_mask mask_eq_exp_minus_1)

lemma unat_low_nibble: "unat (b AND 15 :: u8) < 16"
  by (simp add: low_nibble_take take_bit_eq_mod unat_simps)

lemma nibbles_join: "push_bit 4 (drop_bit 4 b) OR (b AND 15) = (b :: u8)"
  unfolding low_nibble_take by (rule bit_eqI) (auto simp: bit_simps)

lemma hex_pairs_bytes: "hex_pairs (concat (map hex_byte bs)) = Inr bs"
  by (induction bs)
    (simp_all add: hex_byte_def nib_digit_char unat_high_nibble unat_low_nibble nibbles_join)

lemma even_hex_bytes: "length (concat (map hex_byte bs)) mod 2 = 0"
  by (induction bs) (simp_all add: hex_byte_def)

lemma length_hex_text: "length (concat (map hex_byte bs)) = 2 * length bs"
  by (induction bs) (simp_all add: hex_byte_def)

lemma hex_text_chars: "c \<in> set (concat (map hex_byte bs)) \<Longrightarrow> \<exists>d < 16. c = digit_char d"
proof (induction bs)
  case (Cons b bs)
  then show ?case using unat_high_nibble [of b] unat_low_nibble [of b] by (auto simp: hex_byte_def)
qed simp

lemma hex_decode_encode: "hex_decode (hex_encode bs) = Inr bs"
  using even_hex_bytes [of bs]
  by (simp add: hex_decode_def hex_encode_def hex_pairs_bytes)

lemma hex_encode_inj [simp]: "hex_encode a = hex_encode b \<longleftrightarrow> a = b"
  by (metis hex_decode_encode sum.inject(2))

lemma hex_pairs_length: "hex_pairs s = Inr bs \<Longrightarrow> length s = 2 * length bs"
  by (induction s arbitrary: bs rule: hex_pairs.induct) auto

lemma hex_decode_length: "hex_decode s = Inr bs \<Longrightarrow> length s = 2 + 2 * length bs"
  by (auto simp: hex_decode_def dest!: hex_pairs_length split: if_splits)

end
