(* ===== verification/Selectors.thy ===== *)
theory Selectors
  imports Prelude
begin

text \<open>
  The module \<open>chainio::selectors\<close> (\<open>crates/chainio/src/selectors.rs\<close>): function selectors are
  the first four bytes of the Keccak-256 digest of the signature. The digest (tiny-keccak) is the
  parameter \<open>kec\<close>; \<open>hash32 kec\<close> states its documented output length.
\<close>

definition hash32 :: "(bytes \<Rightarrow> bytes) \<Rightarrow> bool" where
  "hash32 kec \<longleftrightarrow> (\<forall>x. length (kec x) = 32)"

definition selector :: "(bytes \<Rightarrow> bytes) \<Rightarrow> string \<Rightarrow> bytes" where
  "selector kec signature = take 4 (kec (bytes_of_string signature))"

lemma hash32_length: "hash32 kec \<Longrightarrow> length (kec x) = 32"
  by (simp add: hash32_def)

lemma length_selector: "hash32 kec \<Longrightarrow> length (selector kec s) = 4"
  by (simp add: selector_def hash32_length)

definition sel_get_provider :: "(bytes \<Rightarrow> bytes) \<Rightarrow> bytes" where
  "sel_get_provider kec = selector kec ''getProvider(address)''"

definition sel_get_job :: "(bytes \<Rightarrow> bytes) \<Rightarrow> bytes" where
  "sel_get_job kec = selector kec ''getJob(uint256)''"

definition sel_get_provider_count :: "(bytes \<Rightarrow> bytes) \<Rightarrow> bytes" where
  "sel_get_provider_count kec = selector kec ''getProviderCount()''"

definition sel_get_model :: "(bytes \<Rightarrow> bytes) \<Rightarrow> bytes" where
  "sel_get_model kec = selector kec ''getModel(bytes32)''"

definition sel_claimable :: "(bytes \<Rightarrow> bytes) \<Rightarrow> bytes" where
  "sel_claimable kec = selector kec ''claimable(address)''"

definition sel_claim_rewards :: "(bytes \<Rightarrow> bytes) \<Rightarrow> bytes" where
  "sel_claim_rewards kec = selector kec ''claimRewards()''"

definition sel_get_record :: "(bytes \<Rightarrow> bytes) \<Rightarrow> bytes" where
  "sel_get_record kec = selector kec ''getRecord(uint256)''"

definition sel_commitment_block :: "(bytes \<Rightarrow> bytes) \<Rightarrow> bytes" where
  "sel_commitment_block kec = selector kec ''commitmentBlock(uint256)''"

definition sel_result_verified_at :: "(bytes \<Rightarrow> bytes) \<Rightarrow> bytes" where
  "sel_result_verified_at kec = selector kec ''resultVerifiedAt(uint256)''"

definition sel_dispute_resolved_for_provider :: "(bytes \<Rightarrow> bytes) \<Rightarrow> bytes" where
  "sel_dispute_resolved_for_provider kec = selector kec ''disputeResolvedForProvider(uint256)''"

definition sel_register_provider :: "(bytes \<Rightarrow> bytes) \<Rightarrow> bytes" where
  "sel_register_provider kec = selector kec ''registerProvider(bytes32[])''"

definition sel_bid_on_job :: "(bytes \<Rightarrow> bytes) \<Rightarrow> bytes" where
  "sel_bid_on_job kec = selector kec ''bidOnJob(uint256,uint256,uint256)''"

definition sel_assign_best_bid :: "(bytes \<Rightarrow> bytes) \<Rightarrow> bytes" where
  "sel_assign_best_bid kec = selector kec ''assignBestBid(uint256)''"

definition sel_start_execution :: "(bytes \<Rightarrow> bytes) \<Rightarrow> bytes" where
  "sel_start_execution kec = selector kec ''startExecution(uint256)''"

definition sel_submit_commitment :: "(bytes \<Rightarrow> bytes) \<Rightarrow> bytes" where
  "sel_submit_commitment kec = selector kec ''submitCommitment(uint256,bytes32)''"

definition sel_submit_result :: "(bytes \<Rightarrow> bytes) \<Rightarrow> bytes" where
  "sel_submit_result kec = selector kec ''submitResult(uint256,bytes,bytes)''"

definition sel_complete_job :: "(bytes \<Rightarrow> bytes) \<Rightarrow> bytes" where
  "sel_complete_job kec = selector kec ''completeJob(uint256)''"

definition sel_salt_per_pflop_hour :: "(bytes \<Rightarrow> bytes) \<Rightarrow> bytes" where
  "sel_salt_per_pflop_hour kec = selector kec ''saltPerPflopHour()''"

definition sel_is_price_stale :: "(bytes \<Rightarrow> bytes) \<Rightarrow> bytes" where
  "sel_is_price_stale kec = selector kec ''isPriceStale()''"

definition sel_heartbeat :: "(bytes \<Rightarrow> bytes) \<Rightarrow> bytes" where
  "sel_heartbeat kec = selector kec ''heartbeat()''"

definition sel_pin_register_pinner :: "(bytes \<Rightarrow> bytes) \<Rightarrow> bytes" where
  "sel_pin_register_pinner kec = selector kec ''registerPinner()''"

definition sel_pin_seal_commit :: "(bytes \<Rightarrow> bytes) \<Rightarrow> bytes" where
  "sel_pin_seal_commit kec = selector kec ''sealCommit(bytes32,uint256,bytes32,uint256,bytes32,bytes32,bytes32,bytes)''"

definition sel_pin_challenge :: "(bytes \<Rightarrow> bytes) \<Rightarrow> bytes" where
  "sel_pin_challenge kec = selector kec ''challenge(bytes32,uint256)''"

definition sel_pin_submit_post :: "(bytes \<Rightarrow> bytes) \<Rightarrow> bytes" where
  "sel_pin_submit_post kec = selector kec ''submitPoSt(bytes32,uint256,bytes32,bytes32,uint256,bytes)''"

definition sel_pin_claim :: "(bytes \<Rightarrow> bytes) \<Rightarrow> bytes" where
  "sel_pin_claim kec = selector kec ''claim(bytes32,uint256)''"

definition sel_pin_return_bond :: "(bytes \<Rightarrow> bytes) \<Rightarrow> bytes" where
  "sel_pin_return_bond kec = selector kec ''returnBond(bytes32,uint256)''"

definition sel_pin_get_pin :: "(bytes \<Rightarrow> bytes) \<Rightarrow> bytes" where
  "sel_pin_get_pin kec = selector kec ''getPin(address,bytes32,uint256)''"

definition sel_pin_get_slot :: "(bytes \<Rightarrow> bytes) \<Rightarrow> bytes" where
  "sel_pin_get_slot kec = selector kec ''getSlot(bytes32,uint256)''"

definition sel_pin_owed_of :: "(bytes \<Rightarrow> bytes) \<Rightarrow> bytes" where
  "sel_pin_owed_of kec = selector kec ''owedOf(address,bytes32,uint256)''"

definition sel_pin_registered :: "(bytes \<Rightarrow> bytes) \<Rightarrow> bytes" where
  "sel_pin_registered kec = selector kec ''registered(address)''"

definition sel_pin_unallocated_slot_funding :: "(bytes \<Rightarrow> bytes) \<Rightarrow> bytes" where
  "sel_pin_unallocated_slot_funding kec = selector kec ''unallocatedSlotFunding()''"

lemmas sel_defs = sel_get_provider_def
  sel_get_job_def
  sel_get_provider_count_def
  sel_get_model_def
  sel_claimable_def
  sel_claim_rewards_def
  sel_get_record_def
  sel_commitment_block_def
  sel_result_verified_at_def
  sel_dispute_resolved_for_provider_def
  sel_register_provider_def
  sel_bid_on_job_def
  sel_assign_best_bid_def
  sel_start_execution_def
  sel_submit_commitment_def
  sel_submit_result_def
  sel_complete_job_def
  sel_salt_per_pflop_hour_def
  sel_is_price_stale_def
  sel_heartbeat_def
  sel_pin_register_pinner_def
  sel_pin_seal_commit_def
  sel_pin_challenge_def
  sel_pin_submit_post_def
  sel_pin_claim_def
  sel_pin_return_bond_def
  sel_pin_get_pin_def
  sel_pin_get_slot_def
  sel_pin_owed_of_def
  sel_pin_registered_def
  sel_pin_unallocated_slot_funding_def

lemma length_sel:
  assumes "hash32 kec"
  shows "length (sel_get_provider kec) = 4"
    "length (sel_get_job kec) = 4"
    "length (sel_get_provider_count kec) = 4"
    "length (sel_get_model kec) = 4"
    "length (sel_claimable kec) = 4"
    "length (sel_claim_rewards kec) = 4"
    "length (sel_get_record kec) = 4"
    "length (sel_commitment_block kec) = 4"
    "length (sel_result_verified_at kec) = 4"
    "length (sel_dispute_resolved_for_provider kec) = 4"
    "length (sel_register_provider kec) = 4"
    "length (sel_bid_on_job kec) = 4"
    "length (sel_assign_best_bid kec) = 4"
    "length (sel_start_execution kec) = 4"
    "length (sel_submit_commitment kec) = 4"
    "length (sel_submit_result kec) = 4"
    "length (sel_complete_job kec) = 4"
    "length (sel_salt_per_pflop_hour kec) = 4"
    "length (sel_is_price_stale kec) = 4"
    "length (sel_heartbeat kec) = 4"
    "length (sel_pin_register_pinner kec) = 4"
    "length (sel_pin_seal_commit kec) = 4"
    "length (sel_pin_challenge kec) = 4"
    "length (sel_pin_submit_post kec) = 4"
    "length (sel_pin_claim kec) = 4"
    "length (sel_pin_return_bond kec) = 4"
    "length (sel_pin_get_pin kec) = 4"
    "length (sel_pin_get_slot kec) = 4"
    "length (sel_pin_owed_of kec) = 4"
    "length (sel_pin_registered kec) = 4"
    "length (sel_pin_unallocated_slot_funding kec) = 4"
  using assms by (simp_all add: sel_defs length_selector)

end
