(* ===== verification/Marketplace.thy ===== *)
theory Marketplace
  imports Abi Selectors "HOL-Library.Monad_Syntax"
begin

text \<open>
  The module \<open>chainio::marketplace\<close> (\<open>crates/chainio/src/marketplace.rs\<close>): the typed reads of
  \<open>ComputeMarketplace\<close> and \<open>ComputePricingOracle\<close> and the calldata builders of the writes.
  The live RPC helpers are compositions of these with an \<open>eth_call\<close>, whose answer is a
  parameter (\<open>live_*\<close> below). The round trips are stated against reference encoders written
  as the contract's ABI lays the values out.
\<close>

record provider_profile =
  is_registered :: bool
  stake_wei :: u128
  total_jobs_completed :: u128
  total_jobs_failed :: u128
  reputation_score_bps :: u128
  pp_current_active_jobs :: u128
  pp_max_concurrent_jobs :: u128

definition decode_provider :: "bytes \<Rightarrow> abi_error + provider_profile" where
  "decode_provider data =
     rbind (dec_bool (decoder_new data)) (\<lambda>(reg, d).
     rbind (dec_u128 d) (\<lambda>(stake, d).
     rbind (dec_u128 d) (\<lambda>(completed, d).
     rbind (dec_u128 d) (\<lambda>(failed, d).
     rbind (dec_u128 d) (\<lambda>(rep, d).
     rbind (dec_u128 d) (\<lambda>(active, d).
     rbind (dec_u128 d) (\<lambda>(max_jobs, d).
       Inr \<lparr>is_registered = reg, stake_wei = stake, total_jobs_completed = completed,
            total_jobs_failed = failed, reputation_score_bps = rep,
            pp_current_active_jobs = active, pp_max_concurrent_jobs = max_jobs\<rparr>)))))))"

datatype job_state =
    Posted | Bidding | Assigned | Executing | Verifying | Completed | Expired | Timeout | Failed
  | Disputed

definition job_state_from_u8 :: "u8 \<Rightarrow> abi_error + job_state" where
  "job_state_from_u8 v =
     (if v = 0 then Inr Posted
      else if v = 1 then Inr Bidding
      else if v = 2 then Inr Assigned
      else if v = 3 then Inr Executing
      else if v = 4 then Inr Verifying
      else if v = 5 then Inr Completed
      else if v = 6 then Inr Expired
      else if v = 7 then Inr Timeout
      else if v = 8 then Inr Failed
      else if v = 9 then Inr Disputed
      else Inl Overflow)"

datatype tier = Commitment | ZKProof | Tee

definition tier_from_u8 :: "u8 \<Rightarrow> abi_error + tier" where
  "tier_from_u8 v =
     (if v = 0 then Inr Commitment
      else if v = 1 then Inr ZKProof
      else if v = 2 then Inr Tee
      else Inl Overflow)"

record job =
  job_id :: u128
  requester :: address
  model_hash :: word32
  max_price_wei :: u128
  job_tier :: tier
  state_of :: job_state
  assigned_provider :: address
  escrow_wei :: u128
  bid_deadline_block :: u128
  execution_deadline_block :: u128
  created_at_block :: u128
  bid_count :: u128
  input_hash :: "word32 option"

definition word_usize :: "word32 \<Rightarrow> nat option" where
  "word_usize w =
     (if list_ex (\<lambda>b. b \<noteq> 0) (take 24 w) then None
      else Some (unat (u64_from_be (drop 24 w))))"

definition decode_input_hash :: "bytes \<Rightarrow> word32 \<Rightarrow> word32 \<Rightarrow> word32 option" where
  "decode_input_hash data tuple_offset rel_offset =
     do { t \<leftarrow> word_usize tuple_offset;
          r \<leftarrow> word_usize rel_offset;
          len_at \<leftarrow> checked_add_usize t r;
          len_end \<leftarrow> checked_add_usize len_at 32;
          len_word \<leftarrow> slice_get data len_at len_end;
          len \<leftarrow> word_usize len_word;
          if len \<noteq> 32 then None
          else do { end \<leftarrow> checked_add_usize len_end 32;
                    slice_get data len_end end } }"

definition decode_job :: "bytes \<Rightarrow> abi_error + job" where
  "decode_job data =
     rbind (dec_word (decoder_new data)) (\<lambda>(tuple_offset, d).
     rbind (dec_u128 d) (\<lambda>(i, d).
     rbind (dec_address d) (\<lambda>(req, d).
     rbind (dec_u256_word d) (\<lambda>(mh, d).
     rbind (dec_word d) (\<lambda>(input_hash_offset, d).
     rbind (dec_u128 d) (\<lambda>(max_price, d).
     rbind (dec_u8_enum d) (\<lambda>(t, d).
     rbind (tier_from_u8 t) (\<lambda>tr.
     rbind (dec_u8_enum d) (\<lambda>(s, d).
     rbind (job_state_from_u8 s) (\<lambda>st.
     rbind (dec_address d) (\<lambda>(prov, d).
     rbind (dec_u128 d) (\<lambda>(escrow, d).
     rbind (dec_u128 d) (\<lambda>(bid_dl, d).
     rbind (dec_u128 d) (\<lambda>(exec_dl, d).
     rbind (dec_u128 d) (\<lambda>(created, d).
     rbind (dec_u128 d) (\<lambda>(bids, d).
       Inr \<lparr>job_id = i, requester = req, model_hash = mh, max_price_wei = max_price,
            job_tier = tr, state_of = st, assigned_provider = prov, escrow_wei = escrow,
            bid_deadline_block = bid_dl, execution_deadline_block = exec_dl,
            created_at_block = created, bid_count = bids,
            input_hash = decode_input_hash data tuple_offset input_hash_offset\<rparr>))))))))))))))))"

definition decode_salt_per_pflop_hour :: "bytes \<Rightarrow> abi_error + u128" where
  "decode_salt_per_pflop_hour data = rbind (dec_u128 (decoder_new data)) (\<lambda>(v, _). Inr v)"

definition decode_is_price_stale :: "bytes \<Rightarrow> abi_error + bool" where
  "decode_is_price_stale data = rbind (dec_bool (decoder_new data)) (\<lambda>(v, _). Inr v)"

section \<open>Calldata\<close>

definition encode_get_provider :: "(bytes \<Rightarrow> bytes) \<Rightarrow> address \<Rightarrow> bytes" where
  "encode_get_provider kec provider = encode_call (sel_get_provider kec) [word_from_address provider]"

definition encode_get_job :: "(bytes \<Rightarrow> bytes) \<Rightarrow> u128 \<Rightarrow> bytes" where
  "encode_get_job kec i = encode_call (sel_get_job kec) [word_from_u128 i]"

definition encode_salt_per_pflop_hour :: "(bytes \<Rightarrow> bytes) \<Rightarrow> bytes" where
  "encode_salt_per_pflop_hour kec = encode_call (sel_salt_per_pflop_hour kec) []"

definition encode_is_price_stale :: "(bytes \<Rightarrow> bytes) \<Rightarrow> bytes" where
  "encode_is_price_stale kec = encode_call (sel_is_price_stale kec) []"

definition encode_bid_on_job :: "(bytes \<Rightarrow> bytes) \<Rightarrow> u128 \<Rightarrow> u128 \<Rightarrow> u128 \<Rightarrow> bytes" where
  "encode_bid_on_job kec i price_wei estimated_latency_ms =
     encode_call (sel_bid_on_job kec)
       [word_from_u128 i, word_from_u128 price_wei, word_from_u128 estimated_latency_ms]"

definition encode_assign_best_bid :: "(bytes \<Rightarrow> bytes) \<Rightarrow> u128 \<Rightarrow> bytes" where
  "encode_assign_best_bid kec i = encode_call (sel_assign_best_bid kec) [word_from_u128 i]"

definition encode_start_execution :: "(bytes \<Rightarrow> bytes) \<Rightarrow> u128 \<Rightarrow> bytes" where
  "encode_start_execution kec i = encode_call (sel_start_execution kec) [word_from_u128 i]"

definition encode_submit_commitment :: "(bytes \<Rightarrow> bytes) \<Rightarrow> u128 \<Rightarrow> word32 \<Rightarrow> bytes" where
  "encode_submit_commitment kec i commitment =
     encode_call (sel_submit_commitment kec) [word_from_u128 i, commitment]"

definition encode_complete_job :: "(bytes \<Rightarrow> bytes) \<Rightarrow> u128 \<Rightarrow> bytes" where
  "encode_complete_job kec i = encode_call (sel_complete_job kec) [word_from_u128 i]"

definition encode_submit_result :: "(bytes \<Rightarrow> bytes) \<Rightarrow> u128 \<Rightarrow> bytes \<Rightarrow> bytes \<Rightarrow> bytes" where
  "encode_submit_result kec i output_hash proof_data =
     (let head_len = 3 * 32;
          output_tail = encode_bytes_tail output_hash;
          proof_tail = encode_bytes_tail proof_data;
          off_output = of_nat head_len;
          off_proof = of_nat (head_len + length output_tail)
      in sel_submit_result kec @ word_from_u128 i @ word_from_u128 off_output @
         word_from_u128 off_proof @ output_tail @ proof_tail)"

definition encode_register_provider :: "(bytes \<Rightarrow> bytes) \<Rightarrow> word32 list \<Rightarrow> bytes" where
  "encode_register_provider kec supported_models =
     encode_call (sel_register_provider kec)
       (word_from_u128 0x20 # word_from_u128 (of_nat (length supported_models)) # supported_models)"

definition encode_result_verified_at :: "(bytes \<Rightarrow> bytes) \<Rightarrow> u128 \<Rightarrow> bytes" where
  "encode_result_verified_at kec i = encode_call (sel_result_verified_at kec) [word_from_u128 i]"

definition encode_dispute_resolved_for_provider :: "(bytes \<Rightarrow> bytes) \<Rightarrow> u128 \<Rightarrow> bytes" where
  "encode_dispute_resolved_for_provider kec i =
     encode_call (sel_dispute_resolved_for_provider kec) [word_from_u128 i]"

section \<open>Reference encodings\<close>

definition job_state_to_u8 :: "job_state \<Rightarrow> u8" where
  "job_state_to_u8 s = (case s of Posted \<Rightarrow> 0 | Bidding \<Rightarrow> 1 | Assigned \<Rightarrow> 2 | Executing \<Rightarrow> 3
     | Verifying \<Rightarrow> 4 | Completed \<Rightarrow> 5 | Expired \<Rightarrow> 6 | Timeout \<Rightarrow> 7 | Failed \<Rightarrow> 8 | Disputed \<Rightarrow> 9)"

definition tier_to_u8 :: "tier \<Rightarrow> u8" where
  "tier_to_u8 t = (case t of Commitment \<Rightarrow> 0 | ZKProof \<Rightarrow> 1 | Tee \<Rightarrow> 2)"

lemma enum_roundtrips [simp]:
  "job_state_from_u8 (job_state_to_u8 s) = Inr s" "tier_from_u8 (tier_to_u8 t) = Inr t"
  by (cases s; simp add: job_state_from_u8_def job_state_to_u8_def)
    (cases t; simp add: tier_from_u8_def tier_to_u8_def)

definition provider_words :: "provider_profile \<Rightarrow> word32 list" where
  "provider_words p =
     [word_from_bool (is_registered p), word_from_u128 (stake_wei p),
       word_from_u128 (total_jobs_completed p), word_from_u128 (total_jobs_failed p),
       word_from_u128 (reputation_score_bps p), word_from_u128 (pp_current_active_jobs p),
       word_from_u128 (pp_max_concurrent_jobs p)]"

definition abi_encode_provider :: "provider_profile \<Rightarrow> bytes" where
  "abi_encode_provider p = concat (provider_words p)"

text \<open>The return of \<open>getJob\<close>: the offset of the tuple, the thirteen head words (the fourth the
  offset of \<open>inputHash\<close> in the tuple) and the tail holding \<open>inputHash\<close>.\<close>

definition job_head :: "job \<Rightarrow> word32 list" where
  "job_head j =
     [word_from_u128 0x20, word_from_u128 (job_id j), word_from_address (requester j), model_hash j,
      word_from_u128 (of_nat (13 * 32)), word_from_u128 (max_price_wei j),
      word_from_u8 (tier_to_u8 (job_tier j)), word_from_u8 (job_state_to_u8 (state_of j)),
      word_from_address (assigned_provider j), word_from_u128 (escrow_wei j),
      word_from_u128 (bid_deadline_block j), word_from_u128 (execution_deadline_block j),
      word_from_u128 (created_at_block j), word_from_u128 (bid_count j)]"

definition abi_encode_job :: "job \<Rightarrow> bytes \<Rightarrow> bytes" where
  "abi_encode_job j input = concat (job_head j) @ encode_bytes_tail input"

definition wf_job :: "job \<Rightarrow> bool" where
  "wf_job j \<longleftrightarrow> length (requester j) = 20 \<and> length (assigned_provider j) = 20 \<and>
     length (model_hash j) = 32"

text \<open>A contract's reading of the \<open>submitResult\<close> arguments, from the block after the selector.\<close>

definition abi_submit_result_args :: "bytes \<Rightarrow> (nat \<times> bytes option \<times> bytes option)" where
  "abi_submit_result_args block =
     (nat_of_be (take 32 block),
      abi_bytes_at block (nat_of_be (take 32 (drop 32 block))),
      abi_bytes_at block (nat_of_be (take 32 (drop 64 block))))"

section \<open>Decoding undoes encoding\<close>

lemma decode_provider_encode: "decode_provider (abi_encode_provider p @ post) = Inr p"
  unfolding decode_provider_def abi_encode_provider_def decoder_new_cursor provider_words_def
  by (simp add: codec_simps)

lemma decode_provider_words:
  assumes "decode_provider data = Inr p"
  shows "words_at data 0 (provider_words p)"
  using assms
  by (auto simp: decode_provider_def provider_words_def cbool.rd_iff cu128.rd_iff dec_word_iff
      decoder_new_def)

lemma decode_provider_canonical:
  "decode_provider data = Inr p \<longleftrightarrow> take 224 data = abi_encode_provider p"
proof
  assume "decode_provider data = Inr p"
  then have "words_at data 0 (provider_words p)" by (rule decode_provider_words)
  from words_at_concat [OF this] show "take 224 data = abi_encode_provider p"
    by (simp add: abi_encode_provider_def provider_words_def)
next
  assume "take 224 data = abi_encode_provider p"
  then have "data = abi_encode_provider p @ drop 224 data" by (metis append_take_drop_id)
  then show "decode_provider data = Inr p" by (metis decode_provider_encode)
qed

lemma word_usize_word: "unat v < 2 ^ 64 \<Longrightarrow> word_usize (word_from_u128 v) = Some (unat v)"
proof -
  assume small: "unat v < 2 ^ 64"
  have "u128_to_be v = replicate 8 0 @ be_of_nat 8 (unat v)"
    using be_of_nat_zeros [of "unat v" 8 8] small by (simp add: u128_to_be_def)
  then have w: "word_from_u128 v = replicate 24 0 @ be_of_nat 8 (unat v)"
    by (simp add: word_from_u128_def replicate_add [symmetric])
  have "unat (u64_from_be (be_of_nat 8 (unat v))) = unat v"
    using small by (simp add: unat_u64_from_be nat_of_be_of_nat)
  with w show ?thesis
    by (simp add: word_usize_def not_list_ex_zero)
qed

lemma decode_input_hash_tail:
  assumes "words32 ws" "length ws = 14" "length input < 2 ^ 64"
  shows "decode_input_hash (concat ws @ encode_bytes_tail input)
      (word_from_u128 0x20) (word_from_u128 416) = (if length input = 32 then Some input else None)"
proof -
  let ?data = "concat ws @ encode_bytes_tail input"
  let ?len = "word_from_u128 (of_nat (length input))"
  have len: "length (concat ws) = 448" using assms by (simp add: length_concat_words)
  have usize: "word_usize ?len = Some (length input)"
    using assms(3) word_usize_word [of "of_nat (length input)"]
    by (simp add: unat_of_nat take_bit_eq_mod)
  have word: "slice_get ?data 448 480 = Some ?len"
    by (simp add: slice_get_def len encode_bytes_tail_def Let_def)
  have bytes: "length input = 32 \<Longrightarrow> slice_get ?data 480 512 = Some input"
    by (simp add: slice_get_def len encode_bytes_tail_def Let_def)
  show ?thesis
    using word_usize_word [of "0x20"] word_usize_word [of 416] word bytes usize
    by (simp add: decode_input_hash_def checked_add_usize_def)
qed

lemma decode_job_encode:
  assumes "wf_job j" "length input < 2 ^ 64"
  shows "decode_job (abi_encode_job j input) =
    Inr (j\<lparr>input_hash := if length input = 32 then Some input else None\<rparr>)"
proof -
  have ws: "words32 (job_head j)" "length (job_head j) = 14"
    using assms(1) by (simp_all add: job_head_def wf_job_def codec_simps)
  note ih = decode_input_hash_tail [OF ws assms(2)]
  have "decode_job (concat (job_head j) @ encode_bytes_tail input) =
    Inr (j\<lparr>input_hash := decode_input_hash (concat (job_head j) @ encode_bytes_tail input)
      (word_from_u128 0x20) (word_from_u128 416)\<rparr>)"
    unfolding decode_job_def decoder_new_cursor
    unfolding job_head_def using assms(1)
    by (simp add: codec_simps wf_job_def)
  then show ?thesis by (simp add: abi_encode_job_def ih)
qed

lemma three_head_words:
  assumes "length w0 = 32" "length w1 = 32" "length w2 = 32"
  shows "take 32 (w0 @ w1 @ w2 @ t) = w0" "take 32 (drop 32 (w0 @ w1 @ w2 @ t)) = w1"
    "take 32 (drop 64 (w0 @ w1 @ w2 @ t)) = w2"
  using assms by simp_all

lemma submit_result_selector:
  "hash32 kec \<Longrightarrow> take 4 (encode_submit_result kec i output_hash proof_data) = sel_submit_result kec"
  unfolding encode_submit_result_def Let_def by (simp add: length_sel)

lemma block_length_mod:
  assumes "a mod 32 = 0" "b mod 32 = 0"
  shows "(100 + a + b) mod 32 = (4::nat)"
proof -
  obtain k l where "a = 32 * k" "b = 32 * l" using assms by (auto simp: mod_eq_0_iff_dvd elim!: dvdE)
  moreover have "100 + 32 * k + 32 * l = 4 + 32 * (3 + k + l)" by simp
  ultimately show ?thesis by (simp only: mod_mult_self2) simp
qed

lemma submit_result_length:
  assumes "hash32 kec"
  shows "length (encode_submit_result kec i output_hash proof_data) =
      100 + length (encode_bytes_tail output_hash) + length (encode_bytes_tail proof_data)"
  unfolding encode_submit_result_def Let_def using assms by (simp add: length_sel)

lemma submit_result_block:
  assumes "hash32 kec"
  shows "length (encode_submit_result kec i output_hash proof_data) mod 32 = 4"
  unfolding submit_result_length [OF assms]
  by (rule block_length_mod [OF length_encode_bytes_tail_mod length_encode_bytes_tail_mod])

lemma submit_result_args:
  assumes "hash32 kec" "length output_hash < 2 ^ 64" "length proof_data < 2 ^ 64"
  shows "abi_submit_result_args (drop 4 (encode_submit_result kec i output_hash proof_data)) =
    (unat i, Some output_hash, Some proof_data)"
proof -
  let ?ot = "encode_bytes_tail output_hash" and ?pt = "encode_bytes_tail proof_data"
  define w0 w1 w2 where ws: "w0 = word_from_u128 i" "w1 = word_from_u128 (of_nat (3 * 32))"
    "w2 = word_from_u128 (of_nat (3 * 32 + length ?ot))"
  have len: "length w0 = 32" "length w1 = 32" "length w2 = 32" by (simp_all add: ws)
  have block: "drop 4 (encode_submit_result kec i output_hash proof_data) =
      w0 @ w1 @ w2 @ ?ot @ ?pt"
    unfolding ws encode_submit_result_def Let_def using assms(1) by (simp add: length_sel)
  have "div_ceil (length output_hash) 32 * 32 \<le> length output_hash + 31"
    unfolding div_ceil_def by presburger
  then have "length ?ot < 2 ^ 65" using assms(2) by (simp add: length_encode_bytes_tail)
  then have off2: "nat_of_be w2 = 96 + length ?ot"
    by (simp add: ws nat_of_be_word unat_of_nat take_bit_eq_mod del: of_nat_add)
  have off1: "nat_of_be w1 = 96" and id0: "nat_of_be w0 = unat i"
    by (simp_all add: ws nat_of_be_word)
  have "abi_bytes_at ((w0 @ w1 @ w2) @ ?ot @ ?pt) 96 = Some output_hash"
    by (rule abi_bytes_at_tail) (use assms len in simp_all)
  moreover have "abi_bytes_at ((w0 @ w1 @ w2 @ ?ot) @ ?pt @ []) (96 + length ?ot) = Some proof_data"
    by (rule abi_bytes_at_tail) (use assms len in simp_all)
  ultimately show ?thesis
    unfolding block abi_submit_result_args_def three_head_words [OF len] off1 off2 id0 by simp
qed

section \<open>Properties\<close>

text \<open>The provider decoder accepts exactly the canonical ABI encodings: it returns a profile
  if and only if the first seven words are the encoding of that profile, so a dirty boolean, a
  value over 128 bits or a short buffer is an error, and the profile is determined by the data.\<close>

theorem provider_decode_exact:
  "decode_provider data = Inr p \<longleftrightarrow> take 224 data = abi_encode_provider p"
  by (rule decode_provider_canonical)

text \<open>C31: Decoding the \<open>getJob\<close> return of any job gives back every field, the requester, the
  provider, the model and the four block heights included, and the dynamic \<open>inputHash\<close> exactly
  when the job carries the 32 bytes that a provider can check; any other length reads as none.\<close>

theorem job_decode_roundtrip:
  assumes "wf_job j" "length input < 2 ^ 64"
  shows "decode_job (abi_encode_job j input) =
    Inr (j\<lparr>input_hash := if length input = 32 then Some input else None\<rparr>)"
  using assms by (rule decode_job_encode)

definition sample_chain_job :: job where
  "sample_chain_job = \<lparr>job_id = 42, requester = replicate 20 1, model_hash = replicate 32 2,
     max_price_wei = 1000, job_tier = Commitment, state_of = Bidding,
     assigned_provider = replicate 20 3, escrow_wei = 7, bid_deadline_block = 100,
     execution_deadline_block = 200, created_at_block = 90, bid_count = 1, input_hash = None\<rparr>"

lemma job_decode_roundtrip_witness:
  "decode_job (abi_encode_job sample_chain_job (replicate 32 9)) =
     Inr (sample_chain_job\<lparr>input_hash := Some (replicate 32 9)\<rparr>)"
  using job_decode_roundtrip [of sample_chain_job "replicate 32 9"]
  by (simp add: sample_chain_job_def wf_job_def)

text \<open>C32: The calldata of \<open>submitResult\<close> read by a contract's ABI decoder gives back the job id,
  the output hash and the proof, whatever their lengths: both dynamic offsets point at their
  tails, and the block is a whole number of words.\<close>

theorem submit_result_readable:
  assumes "hash32 kec" "length output_hash < 2 ^ 64" "length proof_data < 2 ^ 64"
  shows "abi_submit_result_args (drop 4 (encode_submit_result kec i output_hash proof_data)) =
      (unat i, Some output_hash, Some proof_data) \<and>
    take 4 (encode_submit_result kec i output_hash proof_data) = sel_submit_result kec \<and>
    length (encode_submit_result kec i output_hash proof_data) mod 32 = 4"
  using submit_result_args [OF assms] submit_result_block [OF assms(1)]
    submit_result_selector [OF assms(1)] by blast

lemma submit_result_readable_witness:
  "abi_submit_result_args (drop 4 (encode_submit_result (\<lambda>_. replicate 32 0) 42 [1, 2] [3])) =
     (42, Some [1, 2], Some [3])"
  using submit_result_readable [of "\<lambda>_. replicate 32 0" "[1, 2]" "[3]" 42]
  by (simp add: hash32_def)

end
