(* ===== verification/Lifecycle.thy ===== *)
theory Lifecycle
  imports Marketplace
begin

text \<open>
  The crates \<open>lifecycle\<close> and \<open>earnings\<close> (\<open>crates/lifecycle/src/lib.rs\<close>,
  \<open>crates/earnings/src/lib.rs\<close>): which unsigned write a won job needs next, and when accrued
  rewards are claimed. \<open>plan\<close> is translated branch by branch. \<open>write_due\<close> states the
  settlement rules as a predicate on the job and the chain reads; the lemmas relate the two, in
  particular that a reveal is signed only inside its deadline and after the commitment's block,
  and a completion only after the dispute window.
\<close>

definition DISPUTE_WINDOW_BLOCKS :: u128 where
  "DISPUTE_WINDOW_BLOCKS = 100"

definition COMMITMENT_TIER_VALUE_THRESHOLD_WEI :: u128 where
  "COMMITMENT_TIER_VALUE_THRESHOLD_WEI = 10 * 10 ^ 18"

record chain_gates =
  effective_tier_read :: "tier option"
  commitment_block :: u128
  result_verified_at :: u128
  dispute_resolved_for_provider :: bool

definition chain_gates_default :: chain_gates where
  "chain_gates_default = \<lparr>effective_tier_read = None, commitment_block = 0,
     result_verified_at = 0, dispute_resolved_for_provider = False\<rparr>"

datatype write_intent =
    StartExecution | SubmitCommitment | SubmitResult | CompleteJob | ClaimRewards | BidOnJob
  | HeartbeatWrite

definition intent_label :: "write_intent \<Rightarrow> string" where
  "intent_label i = (case i of
     StartExecution \<Rightarrow> ''startExecution''
   | SubmitCommitment \<Rightarrow> ''submitCommitment''
   | SubmitResult \<Rightarrow> ''submitResult''
   | CompleteJob \<Rightarrow> ''completeJob''
   | ClaimRewards \<Rightarrow> ''claimRewards''
   | BidOnJob \<Rightarrow> ''bidOnJob''
   | HeartbeatWrite \<Rightarrow> ''heartbeat'')"

record signature_request =
  sr_intent :: write_intent
  sr_to :: address
  sr_calldata :: bytes
  sr_value_wei :: u128
  sr_chain_id :: u64
  sr_context :: string
  sr_expires_block :: u128

record commitment_artifacts =
  commitment :: word32
  output_hash :: word32
  proof_bytes :: bytes

record plan_input =
  pi_job :: job
  pi_me :: address
  pi_current_block :: u128
  pi_marketplace :: address
  pi_chain_id :: u64
  pi_committed :: bool
  pi_artifacts :: "commitment_artifacts option"
  pi_gates :: chain_gates

datatype wait_reason =
    DisputeWindow (ready_at_block: u128)
  | AwaitingVerification
  | RevealAfterCommitBlock (commit_block: u128)

datatype abort_reason =
    NotAssignedProvider | ExecutionDeadlinePassed | JobExpired | JobTimedOut | JobFailedOnChain
  | JobDisputed | UnsupportedTier

datatype lifecycle_action =
    Sign signature_request | RunInference | Idle | Done | Abort abort_reason | Wait wait_reason

definition effective_tier :: "plan_input \<Rightarrow> tier" where
  "effective_tier inp =
     (case effective_tier_read (pi_gates inp) of
        Some t \<Rightarrow> t
      | None \<Rightarrow>
          if job_tier (pi_job inp) = Commitment \<and>
             COMMITMENT_TIER_VALUE_THRESHOLD_WEI < max_price_wei (pi_job inp)
          then ZKProof
          else job_tier (pi_job inp))"

definition sign :: "write_intent \<Rightarrow> bytes \<Rightarrow> plan_input \<Rightarrow> lifecycle_action" where
  "sign intent calldata inp =
     Sign \<lparr>sr_intent = intent, sr_to = pi_marketplace inp, sr_calldata = calldata,
       sr_value_wei = 0, sr_chain_id = pi_chain_id inp,
       sr_context = intent_label intent @ '' job '' @ dec (job_id (pi_job inp)),
       sr_expires_block =
         (case intent of CompleteJob \<Rightarrow> 0 | _ \<Rightarrow> execution_deadline_block (pi_job inp))\<rparr>"

definition plan_executing :: "(bytes \<Rightarrow> bytes) \<Rightarrow> plan_input \<Rightarrow> lifecycle_action" where
  "plan_executing kec inp =
     (if pi_me inp \<noteq> assigned_provider (pi_job inp) then Abort NotAssignedProvider
      else case pi_artifacts inp of
        None \<Rightarrow> RunInference
      | Some art \<Rightarrow>
          if \<not> pi_committed inp
          then sign SubmitCommitment
                 (encode_submit_commitment kec (job_id (pi_job inp)) (commitment art)) inp
          else if execution_deadline_block (pi_job inp) < pi_current_block inp
          then Abort ExecutionDeadlinePassed
          else (let cb = commitment_block (pi_gates inp)
                in if cb \<noteq> 0 \<and> pi_current_block inp \<le> cb then Wait (RevealAfterCommitBlock cb)
                   else sign SubmitResult
                     (encode_submit_result kec (job_id (pi_job inp)) (output_hash art)
                        (proof_bytes art)) inp))"

definition plan_verifying :: "(bytes \<Rightarrow> bytes) \<Rightarrow> plan_input \<Rightarrow> lifecycle_action" where
  "plan_verifying kec inp =
     (if pi_me inp \<noteq> assigned_provider (pi_job inp) then Abort NotAssignedProvider
      else let complete = sign CompleteJob (encode_complete_job kec (job_id (pi_job inp))) inp
           in if \<not> dispute_resolved_for_provider (pi_gates inp)
              then (let verified_at = result_verified_at (pi_gates inp)
                    in if verified_at = 0 then Wait AwaitingVerification
                       else let ready_at = sat_add verified_at DISPUTE_WINDOW_BLOCKS
                            in if pi_current_block inp < ready_at then Wait (DisputeWindow ready_at)
                               else complete)
              else complete)"

definition plan :: "(bytes \<Rightarrow> bytes) \<Rightarrow> plan_input \<Rightarrow> lifecycle_action" where
  "plan kec inp =
     (if state_of (pi_job inp) \<in> {Assigned, Executing, Verifying} \<and>
         effective_tier inp \<noteq> Commitment
      then Abort UnsupportedTier
      else case state_of (pi_job inp) of
        Posted \<Rightarrow> Idle
      | Bidding \<Rightarrow> Idle
      | Assigned \<Rightarrow>
          if pi_me inp \<noteq> assigned_provider (pi_job inp) then Abort NotAssignedProvider
          else sign StartExecution (encode_start_execution kec (job_id (pi_job inp))) inp
      | Executing \<Rightarrow> plan_executing kec inp
      | Verifying \<Rightarrow> plan_verifying kec inp
      | Completed \<Rightarrow> Done
      | Expired \<Rightarrow> Abort JobExpired
      | Timeout \<Rightarrow> Abort JobTimedOut
      | Failed \<Rightarrow> Abort JobFailedOnChain
      | Disputed \<Rightarrow> Abort JobDisputed)"

section \<open>The signing seam\<close>

datatype job_signer_error = JobRelay string

definition job_signer_error_display :: "job_signer_error \<Rightarrow> string" where
  "job_signer_error_display e = (case e of JobRelay m \<Rightarrow> ''job signer relay failed: '' @ m)"

record tx_observed =
  tx_hash_seen :: "string option"

text \<open>The key-less default signer: it records the request and broadcasts nothing.\<close>

definition unsigned_request ::
    "signature_request \<Rightarrow> signature_request list \<Rightarrow>
       signature_request list \<times> (job_signer_error + tx_observed)" where
  "unsigned_request req recorded = (recorded @ [req], Inr \<lparr>tx_hash_seen = None\<rparr>)"

section \<open>Earnings\<close>

record earnings_config =
  ec_threshold_wei :: u128
  ec_accounting :: address
  ec_chain_id :: u64

datatype earnings_action = Claim signature_request | Hold

definition encode_claim_rewards :: "(bytes \<Rightarrow> bytes) \<Rightarrow> bytes" where
  "encode_claim_rewards kec = sel_claim_rewards kec"

definition plan_claim ::
    "(bytes \<Rightarrow> bytes) \<Rightarrow> u128 \<Rightarrow> bool \<Rightarrow> earnings_config \<Rightarrow> earnings_action" where
  "plan_claim kec claimable_wei claim_in_flight cfg =
     (if claim_in_flight \<or> claimable_wei = 0 \<or> claimable_wei < ec_threshold_wei cfg then Hold
      else Claim \<lparr>sr_intent = ClaimRewards, sr_to = ec_accounting cfg,
             sr_calldata = encode_claim_rewards kec, sr_value_wei = 0,
             sr_chain_id = ec_chain_id cfg,
             sr_context = ''claimRewards ('' @ dec claimable_wei @ '' wei claimable)'',
             sr_expires_block = 0\<rparr>)"

section \<open>The settlement rules\<close>

text \<open>The arithmetic of the dispute window: the saturation only matters at heights the chain
  cannot reach; there the window never opens.\<close>

definition window_elapsed :: "chain_gates \<Rightarrow> u128 \<Rightarrow> bool" where
  "window_elapsed g now \<longleftrightarrow>
     result_verified_at g \<noteq> 0 \<and>
     min (unat (result_verified_at g) + 100) (2 ^ 128 - 1) \<le> unat now"

lemma not_before_ready:
  "\<not> now < sat_add v DISPUTE_WINDOW_BLOCKS \<longleftrightarrow> min (unat v + 100) (2 ^ 128 - 1) \<le> unat now"
  by (simp add: not_less word_le_nat_alt unat_sat_add DISPUTE_WINDOW_BLOCKS_def)

lemma window_elapsed_iff: "window_elapsed g now \<longleftrightarrow>
    result_verified_at g \<noteq> 0 \<and> sat_add (result_verified_at g) DISPUTE_WINDOW_BLOCKS \<le> now"
  unfolding window_elapsed_def not_before_ready [symmetric] not_less by (rule refl)

text \<open>Which write is due for a job, stated on the chain's facts.\<close>

definition write_due :: "plan_input \<Rightarrow> write_intent \<Rightarrow> bool" where
  "write_due inp w \<longleftrightarrow>
     effective_tier inp = Commitment \<and> pi_me inp = assigned_provider (pi_job inp) \<and>
     (case w of
        StartExecution \<Rightarrow> state_of (pi_job inp) = Assigned
      | SubmitCommitment \<Rightarrow>
          state_of (pi_job inp) = Executing \<and> pi_artifacts inp \<noteq> None \<and> \<not> pi_committed inp
      | SubmitResult \<Rightarrow>
          state_of (pi_job inp) = Executing \<and> pi_artifacts inp \<noteq> None \<and> pi_committed inp \<and>
          pi_current_block inp \<le> execution_deadline_block (pi_job inp) \<and>
          (commitment_block (pi_gates inp) = 0 \<or>
             commitment_block (pi_gates inp) < pi_current_block inp)
      | CompleteJob \<Rightarrow>
          state_of (pi_job inp) = Verifying \<and>
          (dispute_resolved_for_provider (pi_gates inp) \<or>
             window_elapsed (pi_gates inp) (pi_current_block inp))
      | _ \<Rightarrow> False)"

definition write_calldata ::
    "(bytes \<Rightarrow> bytes) \<Rightarrow> job \<Rightarrow> commitment_artifacts option \<Rightarrow> write_intent \<Rightarrow> bytes" where
  "write_calldata kec j arts w = (case w of
     StartExecution \<Rightarrow> encode_start_execution kec (job_id j)
   | SubmitCommitment \<Rightarrow> encode_submit_commitment kec (job_id j) (commitment (the arts))
   | SubmitResult \<Rightarrow>
       encode_submit_result kec (job_id j) (output_hash (the arts)) (proof_bytes (the arts))
   | _ \<Rightarrow> encode_complete_job kec (job_id j))"

lemma sign_eq [simp]: "sign w c inp = Sign r \<longleftrightarrow>
    r = \<lparr>sr_intent = w, sr_to = pi_marketplace inp, sr_calldata = c, sr_value_wei = 0,
      sr_chain_id = pi_chain_id inp, sr_context = intent_label w @ '' job '' @ dec (job_id (pi_job inp)),
      sr_expires_block = (case w of CompleteJob \<Rightarrow> 0 | _ \<Rightarrow> execution_deadline_block (pi_job inp))\<rparr>"
  by (auto simp: sign_def)

lemma sign_neq [simp]:
  "sign w c inp \<noteq> RunInference" "sign w c inp \<noteq> Idle" "sign w c inp \<noteq> Done"
  "sign w c inp \<noteq> Abort a" "sign w c inp \<noteq> Wait b"
  by (simp_all add: sign_def)

lemma plan_executing_Sign:
  "plan_executing kec inp = Sign r \<longleftrightarrow>
     pi_me inp = assigned_provider (pi_job inp) \<and>
     (\<exists>art. pi_artifacts inp = Some art \<and>
       (if pi_committed inp
        then pi_current_block inp \<le> execution_deadline_block (pi_job inp) \<and>
             (commitment_block (pi_gates inp) = 0 \<or>
                commitment_block (pi_gates inp) < pi_current_block inp) \<and>
             sign SubmitResult (encode_submit_result kec (job_id (pi_job inp)) (output_hash art)
                (proof_bytes art)) inp = Sign r
        else sign SubmitCommitment
               (encode_submit_commitment kec (job_id (pi_job inp)) (commitment art)) inp = Sign r))"
  by (auto simp: plan_executing_def Let_def not_less not_le split: option.splits if_splits)

lemma plan_verifying_Sign:
  "plan_verifying kec inp = Sign r \<longleftrightarrow>
     pi_me inp = assigned_provider (pi_job inp) \<and>
     (dispute_resolved_for_provider (pi_gates inp) \<or>
        window_elapsed (pi_gates inp) (pi_current_block inp)) \<and>
     sign CompleteJob (encode_complete_job kec (job_id (pi_job inp))) inp = Sign r"
  unfolding plan_verifying_def window_elapsed_def not_before_ready [symmetric]
  by (auto simp: Let_def split: if_splits)

lemma plan_Sign_iff:
  "plan kec inp = Sign r \<longleftrightarrow>
     (\<exists>w. write_due inp w \<and>
       sign w (write_calldata kec (pi_job inp) (pi_artifacts inp) w) inp = Sign r)"
proof (cases "state_of (pi_job inp)")
  case Assigned
  have "write_due inp w \<longleftrightarrow> w = StartExecution \<and> effective_tier inp = Commitment \<and>
      pi_me inp = assigned_provider (pi_job inp)" for w
    using Assigned by (cases w) (auto simp: write_due_def)
  with Assigned show ?thesis by (auto simp: plan_def write_calldata_def)
next
  case Executing
  have "write_due inp w \<longleftrightarrow> effective_tier inp = Commitment \<and>
      pi_me inp = assigned_provider (pi_job inp) \<and> pi_artifacts inp \<noteq> None \<and>
      (if pi_committed inp
       then w = SubmitResult \<and> pi_current_block inp \<le> execution_deadline_block (pi_job inp) \<and>
         (commitment_block (pi_gates inp) = 0 \<or> commitment_block (pi_gates inp) < pi_current_block inp)
       else w = SubmitCommitment)" for w
    using Executing by (cases w) (auto simp: write_due_def)
  with Executing show ?thesis
    by (auto simp: plan_def write_calldata_def plan_executing_Sign)
next
  case Verifying
  have "write_due inp w \<longleftrightarrow> w = CompleteJob \<and> effective_tier inp = Commitment \<and>
      pi_me inp = assigned_provider (pi_job inp) \<and>
      (dispute_resolved_for_provider (pi_gates inp) \<or>
        window_elapsed (pi_gates inp) (pi_current_block inp))" for w
    using Verifying by (cases w) (auto simp: write_due_def)
  with Verifying show ?thesis
    by (auto simp: plan_def write_calldata_def plan_verifying_Sign)
qed (simp_all add: plan_def write_due_def split: write_intent.splits)

lemma write_due_unique: "write_due inp v \<Longrightarrow> write_due inp w \<Longrightarrow> v = w"
  by (cases v; cases w) (auto simp: write_due_def)

lemma plan_inference_iff:
  "plan kec inp = RunInference \<longleftrightarrow>
     state_of (pi_job inp) = Executing \<and> effective_tier inp = Commitment \<and>
     pi_me inp = assigned_provider (pi_job inp) \<and> pi_artifacts inp = None"
  by (auto simp: plan_def plan_executing_def plan_verifying_def Let_def
      split: job_state.splits option.splits if_splits)

lemma plan_waits_reveal:
  "plan kec inp = Wait (RevealAfterCommitBlock cb) \<longleftrightarrow>
     state_of (pi_job inp) = Executing \<and> effective_tier inp = Commitment \<and>
     pi_me inp = assigned_provider (pi_job inp) \<and> pi_artifacts inp \<noteq> None \<and>
     pi_committed inp \<and> pi_current_block inp \<le> execution_deadline_block (pi_job inp) \<and>
     cb = commitment_block (pi_gates inp) \<and> cb \<noteq> 0 \<and> pi_current_block inp \<le> cb"
  by (auto simp: plan_def plan_executing_def plan_verifying_def Let_def
      split: job_state.splits option.splits if_splits)

lemma plan_waits_window:
  "plan kec inp = Wait (DisputeWindow b) \<longleftrightarrow>
     state_of (pi_job inp) = Verifying \<and> effective_tier inp = Commitment \<and>
     pi_me inp = assigned_provider (pi_job inp) \<and> \<not> dispute_resolved_for_provider (pi_gates inp) \<and>
     result_verified_at (pi_gates inp) \<noteq> 0 \<and>
     b = sat_add (result_verified_at (pi_gates inp)) DISPUTE_WINDOW_BLOCKS \<and> pi_current_block inp < b"
  by (auto simp: plan_def plan_executing_def plan_verifying_def Let_def
      split: job_state.splits option.splits if_splits)

lemma effective_tier_block [simp]:
  "effective_tier (inp\<lparr>pi_current_block := b\<rparr>) = effective_tier inp"
  by (simp add: effective_tier_def split: option.splits)

section \<open>Properties\<close>

text \<open>C2: The planner signs exactly the write the settlement rules make due, and signs it in
  full: an unsigned request to the marketplace, of value zero, for the configured chain, with the
  calldata of that write for this job and these artifacts, labelled with the job's id, expiring at
  the execution deadline (a completion has none). The rules are those of \<open>write_due\<close>: only a
  job settled under the Commitment tier and assigned to this provider; a commitment before a
  reveal; a reveal not past the deadline and in a block after the commitment's; a completion only
  when a dispute was resolved for the provider or a hundred blocks after the verification.\<close>

theorem plan_signs_exactly:
  "plan kec inp = Sign r \<longleftrightarrow>
     (\<exists>w. write_due inp w \<and>
       r = \<lparr>sr_intent = w, sr_to = pi_marketplace inp,
         sr_calldata = write_calldata kec (pi_job inp) (pi_artifacts inp) w,
         sr_value_wei = 0, sr_chain_id = pi_chain_id inp,
         sr_context = intent_label w @ '' job '' @ dec (job_id (pi_job inp)),
         sr_expires_block = (if w = CompleteJob then 0 else execution_deadline_block (pi_job inp))\<rparr>)"
proof -
  have "(case w of CompleteJob \<Rightarrow> 0 | _ \<Rightarrow> d) = (if w = CompleteJob then 0 else d)"
    for w and d :: u128
    by (cases w) simp_all
  then show ?thesis unfolding plan_Sign_iff sign_eq by simp
qed

text \<open>C22: Waiting ends: a planner that waits for the dispute window signs the completion at every
  later block from the announced height on, and one that waits after its own commitment signs the
  reveal in every later block up to the execution deadline, the chain reads being the same.\<close>

theorem plan_wait_resolves:
  assumes "plan kec inp = Wait w"
    and "case w of DisputeWindow ready \<Rightarrow> ready \<le> b
       | RevealAfterCommitBlock cb \<Rightarrow> cb < b \<and> b \<le> execution_deadline_block (pi_job inp)
       | AwaitingVerification \<Rightarrow> False"
  shows "\<exists>r. plan kec (inp\<lparr>pi_current_block := b\<rparr>) = Sign r \<and>
    sr_intent r = (case w of DisputeWindow _ \<Rightarrow> CompleteJob | _ \<Rightarrow> SubmitResult)"
proof (cases w)
  case (DisputeWindow ready)
  with assms have "write_due (inp\<lparr>pi_current_block := b\<rparr>) CompleteJob"
    by (auto simp: plan_waits_window write_due_def window_elapsed_iff)
  then show ?thesis using DisputeWindow by (force simp: plan_Sign_iff)
next
  case (RevealAfterCommitBlock cb)
  with assms have "write_due (inp\<lparr>pi_current_block := b\<rparr>) SubmitResult"
    by (auto simp: plan_waits_reveal write_due_def)
  then show ?thesis using RevealAfterCommitBlock by (force simp: plan_Sign_iff)
qed (use assms in simp)

definition sample_plan_input :: plan_input where
  "sample_plan_input = \<lparr>pi_job = sample_chain_job\<lparr>state_of := Verifying\<rparr>,
     pi_me = replicate 20 3, pi_current_block = 150, pi_marketplace = replicate 20 8,
     pi_chain_id = 40204, pi_committed = True, pi_artifacts = None,
     pi_gates = \<lparr>effective_tier_read = Some Commitment, commitment_block = 110,
       result_verified_at = 120, dispute_resolved_for_provider = False\<rparr>\<rparr>"

lemma plan_wait_resolves_witness:
  "\<exists>r. plan (\<lambda>_. []) (sample_plan_input\<lparr>pi_current_block := 220\<rparr>) = Sign r \<and>
     sr_intent r = CompleteJob"
  using plan_wait_resolves [of "\<lambda>_. []" sample_plan_input "DisputeWindow 220" 220]
  by (simp add: plan_waits_window sample_plan_input_def sample_chain_job_def effective_tier_def
      sat_add_def DISPUTE_WINDOW_BLOCKS_def)

text \<open>Rewards are claimed exactly when no claim is in flight and the balance is positive and
  at or above the threshold; the request then is the argument-less \<open>claimRewards()\<close> call on the
  accounting contract, with no value and no deadline.\<close>

theorem plan_claim_exact:
  "plan_claim kec w in_flight cfg = Claim r \<longleftrightarrow>
     \<not> in_flight \<and> 0 < w \<and> ec_threshold_wei cfg \<le> w \<and>
     r = \<lparr>sr_intent = ClaimRewards, sr_to = ec_accounting cfg, sr_calldata = sel_claim_rewards kec,
       sr_value_wei = 0, sr_chain_id = ec_chain_id cfg,
       sr_context = ''claimRewards ('' @ dec w @ '' wei claimable)'', sr_expires_block = 0\<rparr>"
  by (auto simp: plan_claim_def encode_claim_rewards_def not_less word_gt_0)

end
