(* ===== verification/Commitment_Proof.thy ===== *)
theory Commitment_Proof
  imports Lifecycle
begin

text \<open>
  The module \<open>executor::proof\<close> (\<open>crates/executor/src/proof.rs\<close>): the artifacts of the
  Commitment tier. Keccak-256 is the parameter \<open>kec\<close>. \<open>verify_commitment\<close> is the verifier's
  predicate as the module's documentation gives it: the proof is cut into commitment, nonce and
  output, and the digest of output and nonce must be the recorded commitment.
\<close>

definition keccak256 :: "(bytes \<Rightarrow> bytes) \<Rightarrow> bytes list \<Rightarrow> bytes" where
  "keccak256 kec parts = kec (concat parts)"

definition keccak256_bytes :: "(bytes \<Rightarrow> bytes) \<Rightarrow> bytes \<Rightarrow> bytes" where
  "keccak256_bytes kec data = keccak256 kec [data]"

definition prover_commitment :: "(bytes \<Rightarrow> bytes) \<Rightarrow> bytes \<Rightarrow> bytes \<Rightarrow> bytes" where
  "prover_commitment kec outp nonce = keccak256 kec [outp, nonce]"

definition prover_output_hash :: "(bytes \<Rightarrow> bytes) \<Rightarrow> bytes \<Rightarrow> bytes" where
  "prover_output_hash kec outp = keccak256 kec [outp]"

definition proof_data :: "bytes \<Rightarrow> bytes \<Rightarrow> bytes \<Rightarrow> bytes" where
  "proof_data com nonce outp = com @ nonce @ outp"

definition build :: "(bytes \<Rightarrow> bytes) \<Rightarrow> bytes \<Rightarrow> bytes \<Rightarrow> commitment_artifacts" where
  "build kec outp nonce =
     (let com = prover_commitment kec outp nonce
      in \<lparr>commitment = com, output_hash = prover_output_hash kec outp,
          proof_bytes = proof_data com nonce outp\<rparr>)"

definition verify_commitment :: "(bytes \<Rightarrow> bytes) \<Rightarrow> bytes \<Rightarrow> bytes \<Rightarrow> bool" where
  "verify_commitment kec recorded proof \<longleftrightarrow>
     64 \<le> length proof \<and> take 32 proof = recorded \<and>
     kec (drop 64 proof @ take 32 (drop 32 proof)) = recorded"

lemma build_simps:
  "commitment (build kec outp nonce) = kec (outp @ nonce)"
  "output_hash (build kec outp nonce) = kec outp"
  "proof_bytes (build kec outp nonce) = kec (outp @ nonce) @ nonce @ outp"
  by (simp_all add: build_def Let_def prover_commitment_def prover_output_hash_def proof_data_def
      keccak256_def)

lemma proof_parts:
  assumes "hash32 kec" "length nonce = 32"
  shows "take 32 (proof_bytes (build kec outp nonce)) = commitment (build kec outp nonce)"
    "take 32 (drop 32 (proof_bytes (build kec outp nonce))) = nonce"
    "drop 64 (proof_bytes (build kec outp nonce)) = outp"
    "64 \<le> length (proof_bytes (build kec outp nonce))"
  using assms by (simp_all add: build_simps hash32_length)

lemma build_verifies:
  assumes "hash32 kec" "length nonce = 32"
  shows "verify_commitment kec (commitment (build kec outp nonce)) (proof_bytes (build kec outp nonce))"
  using assms by (simp add: verify_commitment_def proof_parts) (simp add: build_simps)

text \<open>Only the artifacts of the recorded commitment are accepted: another output or nonce needs a
  collision.\<close>

lemma reveal_needs_preimage:
  assumes "hash32 kec" "length nonce' = 32"
    and "verify_commitment kec (commitment (build kec outp nonce)) (proof_bytes (build kec outp' nonce'))"
  shows "kec (outp' @ nonce') = kec (outp @ nonce)"
  using assms by (simp add: verify_commitment_def proof_parts) (simp add: build_simps)

lemma build_inj:
  assumes "hash32 kec" "length n = 32" "length n' = 32" "build kec a n = build kec b n'"
  shows "a = b \<and> n = n'"
  using proof_parts [OF assms(1,2), of a] proof_parts [OF assms(1,3), of b] assms(4) by metis

end
