(* ===== verification/Text.thy ===== *)
theory Text
  imports Prelude
begin

text \<open>
  The string functions of the Rust standard library that the sources use, on UTF-8 bytes: trimming
  of Unicode white space, ASCII case, splitting, and the parsing of unsigned integers
  (\<open>str::parse\<close> and \<open>from_str_radix\<close>, which accept a leading plus sign).
\<close>

section \<open>White space\<close>

text \<open>The UTF-8 encodings of the characters with the Unicode property \<open>White_Space\<close>.\<close>

definition white_space :: "string list" where
  "white_space =
     map (\<lambda>c. [c]) [CHR 0x09, CHR 0x0A, CHR 0x0B, CHR 0x0C, CHR 0x0D, CHR 0x20] @
     [[CHR 0xC2, CHR 0x85], [CHR 0xC2, CHR 0xA0], [CHR 0xE1, CHR 0x9A, CHR 0x80]] @
     map (\<lambda>n. [CHR 0xE2, CHR 0x80, char_of n]) [128..<139] @
     [[CHR 0xE2, CHR 0x80, CHR 0xA8], [CHR 0xE2, CHR 0x80, CHR 0xA9], [CHR 0xE2, CHR 0x80, CHR 0xAF],
      [CHR 0xE2, CHR 0x81, CHR 0x9F], [CHR 0xE3, CHR 0x80, CHR 0x80]]"

definition starts_with :: "string \<Rightarrow> string \<Rightarrow> bool" where
  "starts_with p s \<longleftrightarrow> take (length p) s = p"

lemma starts_with_iff: "starts_with p s \<longleftrightarrow> (\<exists>r. s = p @ r)"
  unfolding starts_with_def by (metis append_eq_conv_conj append_take_drop_id)

text \<open>\<open>str::contains\<close> of a text.\<close>

fun contains :: "string \<Rightarrow> string \<Rightarrow> bool" where
  "contains p [] \<longleftrightarrow> p = []"
| "contains p (c # s) \<longleftrightarrow> starts_with p (c # s) \<or> contains p s"

lemma contains_iff: "contains p s \<longleftrightarrow> (\<exists>a b. s = a @ p @ b)"
proof (induction s)
  case IH: (Cons c s)
  show ?case
  proof
    assume "contains p (c # s)"
    then consider r where "c # s = p @ r" | a b where "s = a @ p @ b"
      using IH by (auto simp: starts_with_iff)
    then show "\<exists>a b. c # s = a @ p @ b"
    proof cases
      case 1
      then have "c # s = [] @ p @ r" by simp
      then show ?thesis by blast
    next
      case 2
      then have "c # s = (c # a) @ p @ b" by simp
      then show ?thesis by blast
    qed
  next
    assume "\<exists>a b. c # s = a @ p @ b"
    then obtain a b where ab: "c # s = a @ p @ b" by blast
    show "contains p (c # s)"
    proof (cases a)
      case Nil
      then have "starts_with p (c # s)" using ab by (auto simp: starts_with_iff)
      then show ?thesis by simp
    next
      case (Cons d a')
      then have "\<exists>a b. s = a @ p @ b" using ab by auto
      then show ?thesis using IH by simp
    qed
  qed
qed simp

definition drop_one :: "string list \<Rightarrow> string \<Rightarrow> string option" where
  "drop_one ws s = (case find (\<lambda>w. starts_with w s) ws of
     None \<Rightarrow> None | Some w \<Rightarrow> if w = [] then None else Some (drop (length w) s))"

lemma drop_one_shorter: "drop_one ws s = Some r \<Longrightarrow> length r < length s"
  by (auto simp: drop_one_def find_Some_iff starts_with_iff split: option.splits if_splits)

function drop_while_any :: "string list \<Rightarrow> string \<Rightarrow> string" where
  "drop_while_any ws s = (case drop_one ws s of None \<Rightarrow> s | Some r \<Rightarrow> drop_while_any ws r)"
  by pat_completeness auto
termination
  by (relation "measure (\<lambda>(ws, s). length s)") (auto dest: drop_one_shorter)

declare drop_while_any.simps [simp del]

definition trim :: "string \<Rightarrow> string" where
  "trim s = rev (drop_while_any (map rev white_space) (rev (drop_while_any white_space s)))"

lemma drop_while_any_suffix: "\<exists>p. s = p @ drop_while_any ws s"
proof (induction ws s rule: drop_while_any.induct)
  case (1 ws s)
  show ?case
  proof (cases "drop_one ws s")
    case None
    then show ?thesis by (subst drop_while_any.simps) simp
  next
    case (Some r)
    then obtain p where "r = p @ drop_while_any ws r" using 1 by blast
    moreover obtain w where "s = w @ r"
      using Some by (auto simp: drop_one_def find_Some_iff starts_with_iff split: option.splits if_splits)
    ultimately show ?thesis using Some by (subst drop_while_any.simps) (metis append.assoc option.simps(5))
  qed
qed

lemma drop_while_any_done: "drop_one ws (drop_while_any ws s) = None"
proof (induction ws s rule: drop_while_any.induct)
  case (1 ws s)
  then show ?case by (subst drop_while_any.simps) (simp split: option.splits)
qed

section \<open>Case, splitting, integers\<close>

definition ascii_lower :: "char \<Rightarrow> char" where
  "ascii_lower c = (let n = (of_char c :: nat) in if 65 \<le> n \<and> n \<le> 90 then char_of (n + 32) else c)"

definition to_ascii_lowercase :: "string \<Rightarrow> string" where
  "to_ascii_lowercase s = map ascii_lower s"

definition eq_ignore_ascii_case :: "string \<Rightarrow> string \<Rightarrow> bool" where
  "eq_ignore_ascii_case s t \<longleftrightarrow> to_ascii_lowercase s = to_ascii_lowercase t"

fun split_once :: "string \<Rightarrow> string \<Rightarrow> (string \<times> string) option" where
  "split_once p [] = (if p = [] then Some ([], []) else None)"
| "split_once p (c # s) =
     (if starts_with p (c # s) then Some ([], drop (length p) (c # s))
      else map_option (\<lambda>(a, b). (c # a, b)) (split_once p s))"

lemma split_once_Some: "split_once p s = Some (a, b) \<Longrightarrow> s = a @ p @ b"
  by (induction p s arbitrary: a b rule: split_once.induct)
    (auto simp: starts_with_iff split: if_splits)

fun split_on :: "char \<Rightarrow> string \<Rightarrow> string list" where
  "split_on d [] = [[]]"
| "split_on d (c # s) =
     (if c = d then [] # split_on d s
      else case split_on d s of [] \<Rightarrow> [[c]] | x # xs \<Rightarrow> (c # x) # xs)"

definition digit_value :: "nat \<Rightarrow> char \<Rightarrow> nat option" where
  "digit_value radix c =
     (let n = (of_char c :: nat);
          v = (if 48 \<le> n \<and> n \<le> 57 then n - 48
               else if 97 \<le> n \<and> n \<le> 122 then n - 97 + 10
               else if 65 \<le> n \<and> n \<le> 90 then n - 65 + 10
               else radix)
      in if v < radix then Some v else None)"

definition is_digit :: "nat \<Rightarrow> char \<Rightarrow> bool" where
  "is_digit radix c \<longleftrightarrow> digit_value radix c \<noteq> None"

definition digits_value :: "nat \<Rightarrow> string \<Rightarrow> nat" where
  "digits_value radix s = foldl (\<lambda>a c. a * radix + the (digit_value radix c)) 0 s"

text \<open>\<open>from_str_radix\<close> of an unsigned type with the given number of values: \<open>None\<close> is any error.\<close>

definition parse_uint :: "nat \<Rightarrow> nat \<Rightarrow> string \<Rightarrow> nat option" where
  "parse_uint radix bound s =
     (let ds = (case s of [] \<Rightarrow> [] | c # cs \<Rightarrow> if c = CHR ''+'' then cs else s)
      in if ds = [] \<or> \<not> list_all (is_digit radix) ds then None
         else if digits_value radix ds < bound then Some (digits_value radix ds) else None)"

lemma digits_value_snoc: "digits_value radix (s @ [c]) = digits_value radix s * radix + the (digit_value radix c)"
  by (simp add: digits_value_def)

lemma digit_value_digit_char: "d < radix \<Longrightarrow> radix \<le> 16 \<Longrightarrow> digit_value radix (digit_char d) = Some d"
  by (auto simp: digit_value_def digit_char_def Let_def)

lemma dec_nat_digits: "list_all (is_digit 10) (dec_nat n) \<and> digits_value 10 (dec_nat n) = n"
proof (induction n rule: dec_nat.induct)
  case (1 n)
  show ?case
  proof (cases "n < 10")
    case True
    then show ?thesis
      by (subst (1 2) dec_nat.simps) (simp add: is_digit_def digits_value_def digit_value_digit_char)
  next
    case False
    have "digit_value 10 (digit_char (n mod 10)) = Some (n mod 10)"
      by (rule digit_value_digit_char) simp_all
    then have "is_digit 10 (digit_char (n mod 10))" "the (digit_value 10 (digit_char (n mod 10))) = n mod 10"
      by (simp_all add: is_digit_def)
    with 1 [OF False] False show ?thesis
      by (subst (1 2) dec_nat.simps) (simp add: digits_value_snoc)
  qed
qed

lemma dec_nat_nonempty [simp]: "dec_nat n \<noteq> []"
  by (subst dec_nat.simps) simp

lemma dec_nat_plus: "hd (dec_nat n) \<noteq> CHR ''+''"
proof -
  have "is_digit 10 (hd (dec_nat n))"
    using dec_nat_digits [of n] dec_nat_nonempty [of n] by (metis list.set_sel(1) list_all_iff)
  then show ?thesis by (auto simp: is_digit_def digit_value_def)
qed

lemma parse_uint_dec: "n < bound \<Longrightarrow> parse_uint 10 bound (dec_nat n) = Some n"
  using dec_nat_digits [of n] dec_nat_plus [of n]
  by (cases "dec_nat n") (auto simp: parse_uint_def Let_def)

section \<open>UTF-8 validity\<close>

text \<open>\<open>String::from_utf8\<close>: the well-formed byte sequences of the Unicode standard.\<close>

definition cont :: "u8 \<Rightarrow> bool" where
  "cont b \<longleftrightarrow> 0x80 \<le> b \<and> b \<le> 0xBF"

fun utf8_valid :: "bytes \<Rightarrow> bool" where
  "utf8_valid [] = True"
| "utf8_valid (a # bs) =
     (if a < 0x80 then utf8_valid bs
      else case bs of
        [] \<Rightarrow> False
      | b # cs \<Rightarrow>
          if 0xC2 \<le> a \<and> a \<le> 0xDF then cont b \<and> utf8_valid cs
          else (case cs of
            [] \<Rightarrow> False
          | c # ds \<Rightarrow>
              if 0xE0 \<le> a \<and> a \<le> 0xEF
              then cont b \<and> cont c \<and> (a = 0xE0 \<longrightarrow> 0xA0 \<le> b) \<and> (a = 0xED \<longrightarrow> b \<le> 0x9F) \<and> utf8_valid ds
              else (case ds of
                [] \<Rightarrow> False
              | d # es \<Rightarrow>
                  0xF0 \<le> a \<and> a \<le> 0xF4 \<and> cont b \<and> cont c \<and> cont d \<and>
                  (a = 0xF0 \<longrightarrow> 0x90 \<le> b) \<and> (a = 0xF4 \<longrightarrow> b \<le> 0x8F) \<and> utf8_valid es)))"

definition string_from_utf8 :: "bytes \<Rightarrow> string option" where
  "string_from_utf8 bs = (if utf8_valid bs then Some (string_of_bytes bs) else None)"

text \<open>\<open>String::from_utf8_lossy\<close>: every maximal ill-formed part becomes U+FFFD. The step gives the
  number of bytes it takes and whether they are one character.\<close>

definition second_ok :: "u8 \<Rightarrow> u8 \<Rightarrow> bool" where
  "second_ok a b \<longleftrightarrow> cont b \<and> (a = 0xE0 \<longrightarrow> 0xA0 \<le> b) \<and> (a = 0xED \<longrightarrow> b \<le> 0x9F) \<and>
     (a = 0xF0 \<longrightarrow> 0x90 \<le> b) \<and> (a = 0xF4 \<longrightarrow> b \<le> 0x8F)"

definition utf8_step :: "u8 \<Rightarrow> bytes \<Rightarrow> nat \<times> bool" where
  "utf8_step a bs =
     (let want = (if a < 0x80 then 0 else if 0xC2 \<le> a \<and> a \<le> 0xDF then 1
                  else if 0xE0 \<le> a \<and> a \<le> 0xEF then 2
                  else if 0xF0 \<le> a \<and> a \<le> 0xF4 then 3 else (4 :: nat))
      in if want = 0 then (1, True)
         else if want = 4 then (1, False)
         else case bs of
           [] \<Rightarrow> (1, False)
         | b # cs \<Rightarrow>
             if \<not> second_ok a b then (1, False)
             else let more = length (takeWhile cont (take (want - 1) cs))
                  in (2 + more, more = want - 1))"

lemma utf8_step_pos: "0 < fst (utf8_step a bs)"
  by (auto simp: utf8_step_def Let_def split: list.splits)

function from_utf8_lossy :: "bytes \<Rightarrow> string" where
  "from_utf8_lossy [] = []"
| "from_utf8_lossy (a # bs) =
     (if snd (utf8_step a bs) then string_of_bytes (take (fst (utf8_step a bs)) (a # bs))
      else [CHR 0xEF, CHR 0xBF, CHR 0xBD]) @
     from_utf8_lossy (drop (fst (utf8_step a bs)) (a # bs))"
  by pat_completeness auto
termination
  by (relation "measure length") (simp_all add: utf8_step_pos)

section \<open>Paths\<close>

text \<open>\<open>Path::join\<close> with a relative component.\<close>

definition path_join :: "string \<Rightarrow> string \<Rightarrow> string" where
  "path_join dir name =
     (if dir = [] then name else if last dir = CHR ''/'' then dir @ name else dir @ ''/'' @ name)"

definition trim_end_slashes :: "string \<Rightarrow> string" where
  "trim_end_slashes s = rev (dropWhile (\<lambda>c. c = CHR ''/'') (rev s))"

lemma path_join_inj: "path_join dir a = path_join dir b \<Longrightarrow> a = b"
  by (auto simp: path_join_def split: if_splits)

end
