(* ===== verification/Net_Addr.thy ===== *)
theory Net_Addr
  imports Text
begin

text \<open>
  The address parsers of \<open>std::net\<close> that the sources call through \<open>str::parse\<close>: dotted IPv4
  without leading zeros, IPv6 with \<open>::\<close> and an embedded IPv4 tail, and socket addresses. Each
  reader returns the value and the rest of the text, or nothing, as the library's parser does.
\<close>

definition read_number :: "nat \<Rightarrow> nat option \<Rightarrow> bool \<Rightarrow> nat \<Rightarrow> string \<Rightarrow> (nat \<times> string) option" where
  "read_number radix max_digits allow_zero_prefix bound s =
     (let ds = takeWhile (is_digit radix) s; v = digits_value radix ds
      in if ds = [] \<or> (\<exists>m \<in> set_option max_digits. m < length ds) \<or>
            (\<not> allow_zero_prefix \<and> hd ds = CHR ''0'' \<and> 1 < length ds) \<or> bound \<le> v
         then None else Some (v, drop (length ds) s))"

definition read_char :: "char \<Rightarrow> string \<Rightarrow> string option" where
  "read_char c s = (case s of [] \<Rightarrow> None | d # r \<Rightarrow> if d = c then Some r else None)"

definition read_separator :: "char \<Rightarrow> nat \<Rightarrow> (string \<Rightarrow> ('a \<times> string) option) \<Rightarrow> string \<Rightarrow> ('a \<times> string) option" where
  "read_separator sep i inner s =
     (if 0 < i then Option.bind (read_char sep s) inner else inner s)"

definition read_octet :: "string \<Rightarrow> (nat \<times> string) option" where
  "read_octet s = read_number 10 (Some 3) False 256 s"

definition read_ipv4 :: "string \<Rightarrow> ((nat \<times> nat \<times> nat \<times> nat) \<times> string) option" where
  "read_ipv4 s =
     Option.bind (read_octet s) (\<lambda>(a, s). Option.bind (read_separator (CHR ''.'') 1 read_octet s) (\<lambda>(b, s).
     Option.bind (read_separator (CHR ''.'') 2 read_octet s) (\<lambda>(c, s).
     Option.bind (read_separator (CHR ''.'') 3 read_octet s) (\<lambda>(d, s). Some ((a, b, c, d), s)))))"

definition parse_ipv4 :: "string \<Rightarrow> (nat \<times> nat \<times> nat \<times> nat) option" where
  "parse_ipv4 s = (if 15 < length s then None
     else case read_ipv4 s of Some (a, []) \<Rightarrow> Some a | _ \<Rightarrow> None)"

text \<open>\<open>k\<close> groups are left to fill, \<open>i\<close> are read; an embedded IPv4 address takes two.\<close>

fun read_groups :: "nat \<Rightarrow> nat \<Rightarrow> string \<Rightarrow> nat list \<times> bool \<times> string" where
  "read_groups 0 i s = ([], False, s)"
| "read_groups (Suc k) i s =
     (case (if 0 < k then read_separator (CHR '':'') i read_ipv4 s else None) of
        Some ((a, b, c, d), r) \<Rightarrow> ([a * 256 + b, c * 256 + d], True, r)
      | None \<Rightarrow>
          (case read_separator (CHR '':'') i (read_number 16 (Some 4) True 65536) s of
             None \<Rightarrow> ([], False, s)
           | Some (g, r) \<Rightarrow> (let (gs, v4, r') = read_groups k (Suc i) r in (g # gs, v4, r'))))"

definition read_ipv6 :: "string \<Rightarrow> (nat list \<times> string) option" where
  "read_ipv6 s =
     (let (hd_groups, v4, r) = read_groups 8 0 s
      in if length hd_groups = 8 then Some (hd_groups, r)
         else if v4 then None
         else Option.bind (read_char (CHR '':'') r) (\<lambda>r. Option.bind (read_char (CHR '':'') r) (\<lambda>r.
           let (tl_groups, _, r') = read_groups (8 - (length hd_groups + 1)) 0 r
           in Some (hd_groups @ replicate (8 - length hd_groups - length tl_groups) 0 @ tl_groups, r'))))"

definition parse_ipv6 :: "string \<Rightarrow> nat list option" where
  "parse_ipv6 s = (case read_ipv6 s of Some (gs, []) \<Rightarrow> Some gs | _ \<Rightarrow> None)"

definition ipv4_is_loopback :: "nat \<times> nat \<times> nat \<times> nat \<Rightarrow> bool" where
  "ipv4_is_loopback a \<longleftrightarrow> fst a = 127"

definition ipv6_is_loopback :: "nat list \<Rightarrow> bool" where
  "ipv6_is_loopback gs \<longleftrightarrow> gs = [0, 0, 0, 0, 0, 0, 0, 1]"

datatype socket_addr = V4 "nat \<times> nat \<times> nat \<times> nat" nat | V6 "nat list" nat nat

definition read_port :: "string \<Rightarrow> (nat \<times> string) option" where
  "read_port s = Option.bind (read_char (CHR '':'') s) (read_number 10 None True 65536)"

definition read_scope :: "string \<Rightarrow> nat \<times> string" where
  "read_scope s = (case Option.bind (read_char (CHR ''%'') s) (read_number 10 None True (2 ^ 32)) of
     None \<Rightarrow> (0, s) | Some r \<Rightarrow> r)"

definition parse_socket_addr :: "string \<Rightarrow> socket_addr option" where
  "parse_socket_addr s =
     (case Option.bind (read_ipv4 s) (\<lambda>(a, r). map_option (\<lambda>(p, r). (V4 a p, r)) (read_port r)) of
        Some (a, r) \<Rightarrow> if r = [] then Some a else None
      | None \<Rightarrow>
          (case Option.bind (read_char (CHR ''['') s) (\<lambda>r. Option.bind (read_ipv6 r) (\<lambda>(gs, r).
             let (scope, r) = read_scope r
             in Option.bind (read_char (CHR '']'') r) (\<lambda>r.
                map_option (\<lambda>(p, r). (V6 gs scope p, r)) (read_port r)))) of
             Some (a, []) \<Rightarrow> Some a
           | _ \<Rightarrow> None))"

definition socket_is_loopback :: "socket_addr \<Rightarrow> bool" where
  "socket_is_loopback a = (case a of V4 ip _ \<Rightarrow> ipv4_is_loopback ip | V6 gs _ _ \<Rightarrow> ipv6_is_loopback gs)"

section \<open>What the IPv4 reader accepts\<close>

definition show_ipv4 :: "nat \<times> nat \<times> nat \<times> nat \<Rightarrow> string" where
  "show_ipv4 = (\<lambda>(a, b, c, d). dec_nat a @ ''.'' @ dec_nat b @ ''.'' @ dec_nat c @ ''.'' @ dec_nat d)"

lemma digit_char_of_value: "digit_value 10 c = Some v \<Longrightarrow> digit_char v = c \<and> v < 10"
proof -
  assume "digit_value 10 c = Some v"
  then have "48 \<le> (of_char c :: nat)" "(of_char c :: nat) \<le> 57" "v = of_char c - 48"
    by (auto simp: digit_value_def Let_def split: if_splits)
  moreover from this have "(of_char c :: nat) - 48 < 10" by linarith
  ultimately show ?thesis by (simp add: digit_char_def)
qed

text \<open>A digit string without a superfluous leading zero is the decimal text of its value.\<close>

lemma dec_nat_digits_value:
  "list_all (is_digit 10) ds \<Longrightarrow> ds \<noteq> [] \<Longrightarrow> hd ds \<noteq> CHR ''0'' \<or> length ds = 1 \<Longrightarrow>
     dec_nat (digits_value 10 ds) = ds"
proof (induction ds rule: rev_induct)
  case (snoc c ds)
  obtain v where v: "digit_value 10 c = Some v"
    using snoc.prems(1) by (auto simp: is_digit_def)
  then have c: "digit_char v = c" "v < 10" using digit_char_of_value by auto
  show ?case
  proof (cases "ds = []")
    case True
    with v c show ?thesis by (subst dec_nat.simps) (simp add: digits_value_def)
  next
    case False
    have IH: "dec_nat (digits_value 10 ds) = ds"
      using snoc.IH snoc.prems False by auto
    have "digits_value 10 ds \<noteq> 0"
    proof
      assume "digits_value 10 ds = 0"
      then have "ds = dec_nat 0" using IH by simp
      then have "ds = ''0''" by (subst (asm) dec_nat.simps) (simp add: digit_char_def char_of_def bit_0)
      then show False using snoc.prems(3) by simp
    qed
    then have "10 \<le> digits_value 10 (ds @ [c])" by (simp add: digits_value_snoc v)
    then show ?thesis using IH c v
      by (subst dec_nat.simps) (simp add: digits_value_snoc)
  qed
qed simp

lemma read_number_dec:
  assumes "read_number 10 m False b s = Some (v, r)"
  shows "s = dec_nat v @ r \<and> v < b"
proof -
  let ?ds = "takeWhile (is_digit 10) s"
  have ds: "?ds \<noteq> []" "hd ?ds \<noteq> CHR ''0'' \<or> length ?ds = 1" "v = digits_value 10 ?ds"
    "r = drop (length ?ds) s" "v < b"
    using assms by (auto simp: read_number_def Let_def not_le length_Suc_conv neq_Nil_conv split: if_splits)
  have "list_all (is_digit 10) ?ds" by (auto simp: list_all_iff dest: set_takeWhileD)
  then have "dec_nat v = ?ds" using dec_nat_digits_value ds(1-3) by blast
  then show ?thesis using ds(4,5) by (metis takeWhile_dropWhile_id dropWhile_eq_drop)
qed

lemma read_octet_dec: "read_octet s = Some (v, r) \<Longrightarrow> s = dec_nat v @ r \<and> v < 256"
  unfolding read_octet_def by (rule read_number_dec)

lemma read_sep_octet: "0 < i \<Longrightarrow> read_separator c i read_octet s = Some (v, r) \<Longrightarrow>
    s = c # dec_nat v @ r \<and> v < 256"
  by (auto simp: read_separator_def read_char_def bind_eq_Some_conv dest: read_octet_dec
      split: list.splits if_splits)

lemma read_ipv4_show:
  "read_ipv4 s = Some (a, r) \<Longrightarrow> s = show_ipv4 a @ r"
  by (auto simp: read_ipv4_def bind_eq_Some_conv show_ipv4_def dest!: read_octet_dec read_sep_octet
      [rotated])

lemma parse_ipv4_show: "parse_ipv4 s = Some a \<Longrightarrow> s = show_ipv4 a"
  by (auto simp: parse_ipv4_def split: if_splits option.splits list.splits dest: read_ipv4_show)

end
