(* ===== verification/Outbound.thy ===== *)
theory Outbound
  imports Net_Addr
begin

text \<open>
  The module \<open>chainio::outbound\<close> (\<open>crates/chainio/src/outbound.rs\<close>): which endpoint URLs a
  client may be built for, the timeouts and the body cap from the environment (\<open>env\<close> is the
  process environment), and the capped reading of a streamed body. An HTTP response (reqwest) is
  the record of what the code reads of it: its status, its declared length and its chunks, each a
  piece of the body or a transport error.
\<close>

definition ALLOW_INSECURE_ENV :: string where
  "ALLOW_INSECURE_ENV = ''CITRATE_NODE_AGENT_ALLOW_INSECURE_OUTBOUND''"

definition HTTP_TIMEOUT_ENV :: string where "HTTP_TIMEOUT_ENV = ''CITRATE_HTTP_TIMEOUT_SECS''"
definition HTTP_CONNECT_TIMEOUT_ENV :: string where
  "HTTP_CONNECT_TIMEOUT_ENV = ''CITRATE_HTTP_CONNECT_TIMEOUT_SECS''"
definition HTTP_READ_TIMEOUT_ENV :: string where
  "HTTP_READ_TIMEOUT_ENV = ''CITRATE_HTTP_READ_TIMEOUT_SECS''"
definition MAX_RESPONSE_BYTES_ENV :: string where
  "MAX_RESPONSE_BYTES_ENV = ''CITRATE_MAX_RESPONSE_BYTES''"

definition DEFAULT_HTTP_TIMEOUT_SECS :: nat where "DEFAULT_HTTP_TIMEOUT_SECS = 30"
definition DEFAULT_HTTP_CONNECT_TIMEOUT_SECS :: nat where "DEFAULT_HTTP_CONNECT_TIMEOUT_SECS = 10"
definition DEFAULT_HTTP_READ_TIMEOUT_SECS :: nat where "DEFAULT_HTTP_READ_TIMEOUT_SECS = 60"
definition DEFAULT_MAX_RESPONSE_BYTES :: nat where "DEFAULT_MAX_RESPONSE_BYTES = 16 * 1024 * 1024"

type_synonym env = "string \<Rightarrow> string option"

definition positive_from_env :: "env \<Rightarrow> string \<Rightarrow> nat \<Rightarrow> nat" where
  "positive_from_env env var dflt =
     (case Option.bind (env var) (\<lambda>v. parse_uint 10 (2 ^ 64) (trim v)) of
        Some v \<Rightarrow> if 0 < v then v else dflt
      | None \<Rightarrow> dflt)"

definition secs_from_env :: "env \<Rightarrow> string \<Rightarrow> nat \<Rightarrow> nat" where
  "secs_from_env env var dflt = positive_from_env env var dflt"

definition max_response_bytes :: "env \<Rightarrow> nat" where
  "max_response_bytes env = positive_from_env env MAX_RESPONSE_BYTES_ENV DEFAULT_MAX_RESPONSE_BYTES"

text \<open>The settings of a reqwest client the agent builds; redirects are never followed.\<close>

record http_client =
  hc_connect_timeout :: nat
  hc_timeout :: "nat option"
  hc_read_timeout :: "nat option"
  hc_follow_redirects :: bool

definition timed_http_client :: "env \<Rightarrow> http_client" where
  "timed_http_client env = \<lparr>
     hc_connect_timeout = secs_from_env env HTTP_CONNECT_TIMEOUT_ENV DEFAULT_HTTP_CONNECT_TIMEOUT_SECS,
     hc_timeout = Some (secs_from_env env HTTP_TIMEOUT_ENV DEFAULT_HTTP_TIMEOUT_SECS),
     hc_read_timeout = None, hc_follow_redirects = False\<rparr>"

definition streaming_http_client :: "env \<Rightarrow> http_client" where
  "streaming_http_client env = \<lparr>
     hc_connect_timeout = secs_from_env env HTTP_CONNECT_TIMEOUT_ENV DEFAULT_HTTP_CONNECT_TIMEOUT_SECS,
     hc_timeout = None,
     hc_read_timeout = Some (secs_from_env env HTTP_READ_TIMEOUT_ENV DEFAULT_HTTP_READ_TIMEOUT_SECS),
     hc_follow_redirects = False\<rparr>"

section \<open>Capped reading\<close>

record 'e http_response =
  resp_status :: nat
  resp_content_length :: "u64 option"
  resp_chunks :: "('e + bytes) list"

definition is_redirection :: "nat \<Rightarrow> bool" where
  "is_redirection status \<longleftrightarrow> 300 \<le> status \<and> status < 400"

datatype 'e capped_read_error = Redirect nat | TooLarge nat | ReadHttp 'e

fun read_chunks :: "nat \<Rightarrow> bytes \<Rightarrow> ('e + bytes) list \<Rightarrow> 'e capped_read_error + bytes" where
  "read_chunks max_len buf [] = Inr buf"
| "read_chunks max_len buf (Inl e # cs) = Inl (ReadHttp e)"
| "read_chunks max_len buf (Inr c # cs) =
     (if max_len < min (length buf + length c) (2 ^ 64 - 1) then Inl (TooLarge max_len)
      else read_chunks max_len (buf @ c) cs)"

definition read_body_capped :: "'e http_response \<Rightarrow> nat \<Rightarrow> 'e capped_read_error + bytes" where
  "read_body_capped resp max_len =
     (if is_redirection (resp_status resp) then Inl (Redirect (resp_status resp))
      else case resp_content_length resp of
        Some len \<Rightarrow> if max_len < unat len then Inl (TooLarge max_len)
                   else read_chunks max_len [] (resp_chunks resp)
      | None \<Rightarrow> read_chunks max_len [] (resp_chunks resp))"

definition capped_read_error_display :: "(nat \<Rightarrow> string) \<Rightarrow> ('e \<Rightarrow> string) \<Rightarrow> 'e capped_read_error \<Rightarrow> string" where
  "capped_read_error_display show_status show_http e = (case e of
     Redirect s \<Rightarrow> ''endpoint answered with redirect '' @ show_status s @
       ''; redirects are refused (PBA-L6b-024)''
   | TooLarge m \<Rightarrow> ''response body exceeds the '' @ dec_nat m @ ''-byte cap (PBA-L6b-024)''
   | ReadHttp h \<Rightarrow> ''reading response body: '' @ show_http h)"

section \<open>URLs\<close>

datatype outbound_url_error = UnsupportedScheme string | PlaintextNonLoopback string | Malformed string

definition outbound_url_error_display :: "(string \<Rightarrow> string) \<Rightarrow> outbound_url_error \<Rightarrow> string" where
  "outbound_url_error_display debug e = (case e of
     UnsupportedScheme u \<Rightarrow> ''outbound endpoint '' @ debug u @
       '' has an unsupported scheme: only https:// (any host) or http:// (loopback) are allowed (FUA-NODE-AGENT-06)''
   | PlaintextNonLoopback u \<Rightarrow> ''outbound endpoint '' @ debug u @
       '' is plaintext http:// to a non-loopback host; use https://, or set '' @ ALLOW_INSECURE_ENV @
       ''=1 (dev-only) to override (FUA-NODE-AGENT-06)''
   | Malformed u \<Rightarrow> ''outbound endpoint '' @ debug u @
       '' has an unparseable or unsafe authority (empty host / userinfo); refusing fail-closed (FUA-NODE-AGENT-06)'')"

definition authority_of :: "string \<Rightarrow> string" where
  "authority_of rest = takeWhile (\<lambda>c. c \<notin> {CHR ''/'', CHR ''?'', CHR ''#''}) rest"

definition host_port :: "string \<Rightarrow> string option" where
  "host_port auth = (case split_on (CHR '':'') auth of
     [] \<Rightarrow> None
   | [host] \<Rightarrow> if host = [] then None else Some host
   | [host, port] \<Rightarrow>
       if parse_uint 10 65536 port = None then None else if host = [] then None else Some host
   | _ \<Rightarrow> None)"

definition host_of :: "string \<Rightarrow> string option" where
  "host_of rest =
     (let auth = authority_of rest
      in if auth = [] \<or> CHR ''@'' \<in> set auth then None
         else case strip_prefix ''['' auth of
           Some v6 \<Rightarrow> Option.bind (split_once '']'' v6) (\<lambda>(inside, after).
             if \<not> (after = [] \<or> starts_with '':'' after) then None else Some inside)
         | None \<Rightarrow> host_port auth)"

definition is_loopback_host :: "string \<Rightarrow> bool" where
  "is_loopback_host host =
     (if eq_ignore_ascii_case host ''localhost'' then True
      else case parse_ipv4 host of
        Some v4 \<Rightarrow> ipv4_is_loopback v4
      | None \<Rightarrow> (case parse_ipv6 host of Some v6 \<Rightarrow> ipv6_is_loopback v6 | None \<Rightarrow> False))"

definition validate_outbound_url_with :: "string \<Rightarrow> bool \<Rightarrow> outbound_url_error + unit" where
  "validate_outbound_url_with url allow_insecure =
     (case split_once ''://'' url of
        None \<Rightarrow> Inl (UnsupportedScheme url)
      | Some (s, rest) \<Rightarrow>
          let scheme = to_ascii_lowercase s
          in if scheme = ''https'' then
               (case host_of rest of None \<Rightarrow> Inl (Malformed url) | Some _ \<Rightarrow> Inr ())
             else if scheme = ''http'' then
               (case host_of rest of None \<Rightarrow> Inl (Malformed url)
                | Some host \<Rightarrow>
                    if is_loopback_host host then Inr ()
                    else if allow_insecure then Inr ()
                    else Inl (PlaintextNonLoopback url))
             else Inl (UnsupportedScheme url))"

definition validate_outbound_url :: "env \<Rightarrow> string \<Rightarrow> outbound_url_error + unit" where
  "validate_outbound_url env url =
     validate_outbound_url_with url (case env ALLOW_INSECURE_ENV of Some v \<Rightarrow> trim v = ''1'' | None \<Rightarrow> False)"

section \<open>Reading a body\<close>

lemma read_chunks_Inr:
  assumes "max_len < 2 ^ 64 - 1"
  shows "read_chunks max_len buf cs = Inr body \<longleftrightarrow>
    (\<exists>ps. cs = map Inr ps \<and> body = buf @ concat ps \<and> (ps = [] \<or> length body \<le> max_len))"
proof (induction cs arbitrary: buf)
  case (Cons c cs)
  show ?case
  proof (cases c)
    case (Inr p)
    have "read_chunks max_len buf (c # cs) = Inr body \<longleftrightarrow>
        length (buf @ p) \<le> max_len \<and> read_chunks max_len (buf @ p) cs = Inr body"
      using Inr assms by (auto simp: min_def)
    also have "\<dots> \<longleftrightarrow> (\<exists>ps. c # cs = map Inr ps \<and> body = buf @ concat ps \<and> length body \<le> max_len)"
      using Inr unfolding Cons.IH by (auto simp: Cons_eq_map_conv)
    finally show ?thesis using Inr by (auto simp: Cons_eq_map_conv)
  qed auto
qed auto

section \<open>Hosts\<close>

lemma authority_prefix: "rest = authority_of rest @ drop (length (authority_of rest)) rest"
  unfolding authority_of_def by (metis takeWhile_dropWhile_id dropWhile_eq_drop)

lemma split_on_nonempty [simp]: "split_on d s \<noteq> []"
  by (induction s) (auto split: list.splits)

lemma split_on_join: "split_on d s = x # xs \<Longrightarrow> s = x @ concat (map (\<lambda>y. d # y) xs) \<and> d \<notin> set x"
proof (induction s arbitrary: x xs)
  case (Cons c s)
  show ?case
  proof (cases "c = d")
    case False
    obtain y ys where y: "split_on d s = y # ys" using Cons.prems False by (cases "split_on d s") auto
    then show ?thesis using Cons.IH [OF y] Cons.prems False by auto
  next
    case True
    then have "x = []" "xs = split_on d s" using Cons.prems by auto
    moreover obtain y ys where y: "split_on d s = y # ys"
      by (metis list.exhaust split_on_nonempty)
    ultimately show ?thesis using Cons.IH [OF y] True by simp
  qed
qed simp

text \<open>The host of a URL as the client will see it: the authority is the host, alone or with a port
  after it, the host in brackets when it holds colons, and there is no user information.\<close>

definition authority_host :: "string \<Rightarrow> string \<Rightarrow> bool" where
  "authority_host auth host \<longleftrightarrow> CHR ''@'' \<notin> set auth \<and>
     (\<exists>port. (auth = host @ port \<and> host \<noteq> [] \<and> CHR '':'' \<notin> set host \<or> auth = ''['' @ host @ '']'' @ port) \<and>
       (port = [] \<or> (\<exists>p. port = CHR '':'' # p)))"

lemma host_of_authority: "host_of rest = Some host \<Longrightarrow> authority_host (authority_of rest) host"
proof -
  let ?a = "authority_of rest"
  assume h: "host_of rest = Some host"
  then have at: "CHR ''@'' \<notin> set ?a" by (auto simp: host_of_def Let_def split: if_splits)
  show ?thesis
  proof (cases "strip_prefix ''['' ?a")
    case (Some v6)
    then obtain after where "split_once '']'' v6 = Some (host, after)" "after = [] \<or> starts_with '':'' after"
      using h at by (auto simp: host_of_def Let_def bind_eq_Some_conv split: if_splits)
    moreover from this have "v6 = host @ '']'' @ after" by (intro split_once_Some)
    ultimately show ?thesis using Some at
      by (auto simp: authority_host_def starts_with_iff)
  next
    case None
    then have "host_port ?a = Some host" using h by (auto simp: host_of_def Let_def split: if_splits)
    then obtain xs where xs: "split_on (CHR '':'') ?a = host # xs" "host \<noteq> []" "xs = [] \<or> (\<exists>p. xs = [p])"
      by (auto simp: host_port_def split: list.splits if_splits)
    from split_on_join [OF xs(1)] xs(2,3) at show ?thesis by (auto simp: authority_host_def)
  qed
qed

definition loopback_name :: "string \<Rightarrow> bool" where
  "loopback_name host \<longleftrightarrow> to_ascii_lowercase host = ''localhost'' \<or>
     (\<exists>b c d. host = show_ipv4 (127, b, c, d)) \<or>
     parse_ipv6 host = Some [0, 0, 0, 0, 0, 0, 0, 1]"

lemma loopback_host_name: "is_loopback_host host \<Longrightarrow> loopback_name host"
  using parse_ipv4_show [of host]
  by (fastforce simp: is_loopback_host_def loopback_name_def eq_ignore_ascii_case_def
      to_ascii_lowercase_def ascii_lower_def ipv4_is_loopback_def ipv6_is_loopback_def
      split: if_splits option.splits)

section \<open>Properties\<close>

lemma validated_cases:
  "validate_outbound_url_with url allow = Inr () \<Longrightarrow>
     \<exists>s rest host. url = s @ ''://'' @ rest \<and> host_of rest = Some host \<and>
       (to_ascii_lowercase s = ''https'' \<or>
        to_ascii_lowercase s = ''http'' \<and> (is_loopback_host host \<or> allow))"
proof -
  assume ok: "validate_outbound_url_with url allow = Inr ()"
  then obtain s rest where parts: "split_once ''://'' url = Some (s, rest)"
    by (auto simp: validate_outbound_url_with_def split: option.splits)
  then have "url = s @ ''://'' @ rest" by (rule split_once_Some)
  moreover have "\<exists>host. host_of rest = Some host \<and> (to_ascii_lowercase s = ''https'' \<or>
      to_ascii_lowercase s = ''http'' \<and> (is_loopback_host host \<or> allow))"
    using ok parts by (auto simp: validate_outbound_url_with_def Let_def split: option.splits if_splits)
  ultimately show ?thesis by blast
qed

text \<open>C17: An accepted endpoint is encrypted or local: without the development override, every URL
  that a client may be built for has the scheme https, or has the scheme http and an authority
  without user information whose host is the name localhost, a dotted address 127.b.c.d, or the
  IPv6 loopback address; the readers of these addresses are those of the standard library.\<close>

theorem accepted_url_safe:
  assumes "validate_outbound_url_with url False = Inr ()"
  shows "\<exists>s rest host. url = s @ ''://'' @ rest \<and> authority_host (authority_of rest) host \<and>
    (to_ascii_lowercase s = ''https'' \<or> to_ascii_lowercase s = ''http'' \<and> loopback_name host)"
  using validated_cases [OF assms] host_of_authority loopback_host_name by blast

lemma lower_names: "to_ascii_lowercase ''http'' = ''http''" "to_ascii_lowercase ''localhost'' = ''localhost''"
  by (simp_all add: to_ascii_lowercase_def ascii_lower_def)

lemma accepted_url_safe_witness:
  "\<exists>s rest host. ''http://localhost/'' = s @ ''://'' @ rest \<and>
     authority_host (authority_of rest) host \<and>
     (to_ascii_lowercase s = ''https'' \<or> to_ascii_lowercase s = ''http'' \<and> loopback_name host)"
  by (rule accepted_url_safe)
    (simp add: validate_outbound_url_with_def starts_with_def lower_names host_of_def
      authority_of_def host_port_def is_loopback_host_def eq_ignore_ascii_case_def)

text \<open>A body is accepted exactly when the response is not a redirect, neither declares nor
  streams more than the cap, and no chunk fails; it then is the concatenation of the chunks.\<close>

theorem capped_read_exact:
  assumes "max_len < 2 ^ 64 - 1"
  shows "read_body_capped resp max_len = Inr body \<longleftrightarrow>
    \<not> is_redirection (resp_status resp) \<and>
    (\<forall>n \<in> set_option (resp_content_length resp). unat n \<le> max_len) \<and>
    resp_chunks resp = map Inr (map projr (resp_chunks resp)) \<and>
    body = concat (map projr (resp_chunks resp)) \<and>
    (resp_chunks resp = [] \<or> length body \<le> max_len)"
proof -
  have "read_chunks max_len [] cs = Inr body \<longleftrightarrow>
      cs = map Inr (map projr cs) \<and> body = concat (map projr cs) \<and> (cs = [] \<or> length body \<le> max_len)"
    for cs :: "('a + bytes) list"
  proof -
    have "(\<exists>ps. cs = map Inr ps \<and> P ps) \<longleftrightarrow> cs = map Inr (map projr cs) \<and> P (map projr cs)" for P
      by (metis (no_types, lifting) map_map map_idI comp_apply sum.sel(2))
    from this [of "\<lambda>ps. body = [] @ concat ps \<and> (ps = [] \<or> length body \<le> max_len)"]
    show ?thesis unfolding read_chunks_Inr [OF assms] by auto
  qed
  then show ?thesis by (auto simp: read_body_capped_def not_less split: option.splits)
qed

lemma capped_read_exact_witness:
  "read_body_capped \<lparr>resp_status = 200, resp_content_length = Some 3,
     resp_chunks = [Inr [1, 2], Inr [3]] :: (unit + bytes) list\<rparr> 4 = Inr [1, 2, 3]"
  by (subst capped_read_exact) (simp_all add: is_redirection_def)

end
