(* ===== verification/Nonce_Store.thy ===== *)
theory Nonce_Store
  imports Commitment_Proof Outbound
begin

text \<open>
  The module \<open>node_agent::nonce\<close> (\<open>crates/node-agent/src/nonce.rs\<close>): the per-job commitment nonce
  and the committed artifacts on disk. The state directory is a map from paths to contents; every
  file-system call has an outcome in one of the \<open>io\<close> records, an error included, and a failed write
  leaves a prefix of the bytes behind. \<open>stored\<close> says what is on disk for a job: artifacts
  built under the job's persisted nonce; the lemmas say what each operation can change.
\<close>

type_synonym files = "string \<Rightarrow> bytes option"

datatype io_error = InvalidData string | AlreadyExists string | OtherIo string

definition io_error_text :: "io_error \<Rightarrow> string" where
  "io_error_text e = (case e of InvalidData s \<Rightarrow> s | AlreadyExists s \<Rightarrow> s | OtherIo s \<Rightarrow> s)"

record write_io =
  wi_create :: "string option"
  wi_write :: "(nat \<times> string) option"
  wi_sync :: "string option"

record mint_io =
  mi_mkdir :: "string option"
  mi_harden :: "string option"
  mi_random :: "string + bytes"
  mi_file :: write_io

record save_io =
  si_mkdir :: "string option"
  si_harden :: "string option"
  si_remove :: "string option"
  si_file :: write_io
  si_rename :: "string option"
  si_sync_dir :: "string option"

record load_io =
  li_open :: "string option"
  li_read :: "string option"
  li_nonce :: "string option"

definition default_state_dir :: "env \<Rightarrow> string" where
  "default_state_dir env =
     (case env ''CITRATE_NODE_AGENT_STATE_DIR'' of
        Some p \<Rightarrow> if trim p \<noteq> [] then path_join p ''nonces''
          else path_join (path_join (path_join
            (case env ''HOME'' of Some h \<Rightarrow> h | None \<Rightarrow> ''.'') ''.citrate'') ''node-agent'') ''nonces''
      | None \<Rightarrow> path_join (path_join (path_join
            (case env ''HOME'' of Some h \<Rightarrow> h | None \<Rightarrow> ''.'') ''.citrate'') ''node-agent'') ''nonces'')"

definition path_for :: "string \<Rightarrow> u128 \<Rightarrow> string" where
  "path_for dir i = path_join dir (''nonce-'' @ dec i @ ''.bin'')"

definition artifacts_path :: "string \<Rightarrow> u128 \<Rightarrow> string" where
  "artifacts_path dir i = path_join dir (''artifacts-'' @ dec i @ ''.bin'')"

definition artifacts_tmp :: "string \<Rightarrow> u128 \<Rightarrow> string" where
  "artifacts_tmp dir i = path_join dir (''artifacts-'' @ dec i @ ''.bin.tmp'')"

definition write_new_0600 :: "write_io \<Rightarrow> string \<Rightarrow> bytes \<Rightarrow> files \<Rightarrow> (io_error + unit) \<times> files" where
  "write_new_0600 io path bs fs =
     (if fs path \<noteq> None then (Inl (AlreadyExists path), fs)
      else case wi_create io of
        Some e \<Rightarrow> (Inl (OtherIo e), fs)
      | None \<Rightarrow>
          (case wi_write io of
             Some (n, e) \<Rightarrow> (Inl (OtherIo e), fs(path \<mapsto> take n bs))
           | None \<Rightarrow>
               (case wi_sync io of
                  Some e \<Rightarrow> (Inl (OtherIo e), fs(path \<mapsto> bs))
                | None \<Rightarrow> (Inr (), fs(path \<mapsto> bs)))))"

definition nonce_load :: "string option \<Rightarrow> string \<Rightarrow> u128 \<Rightarrow> files \<Rightarrow> io_error + bytes option" where
  "nonce_load fault dir i fs =
     (case fault of
        Some e \<Rightarrow> Inl (OtherIo e)
      | None \<Rightarrow>
          (case fs (path_for dir i) of
             Some bs \<Rightarrow>
               if length bs = 32 then Inr (Some bs)
               else Inl (InvalidData (''persisted nonce for job '' @ dec i @ '' is '' @
                 dec_nat (length bs) @ '' bytes, expected 32 (corrupt)''))
           | None \<Rightarrow> Inr None))"

definition nonce_mint :: "mint_io \<Rightarrow> string \<Rightarrow> u128 \<Rightarrow> files \<Rightarrow> (io_error + bytes) \<times> files" where
  "nonce_mint io dir i fs =
     (case mi_mkdir io of Some e \<Rightarrow> (Inl (OtherIo e), fs)
      | None \<Rightarrow>
     (case mi_harden io of Some e \<Rightarrow> (Inl (OtherIo e), fs)
      | None \<Rightarrow>
     (case mi_random io of Inl e \<Rightarrow> (Inl (OtherIo (''csprng: '' @ e)), fs)
      | Inr nonce \<Rightarrow>
          (case write_new_0600 (mi_file io) (path_for dir i) nonce fs of
             (Inl e, fs') \<Rightarrow> (Inl e, fs')
           | (Inr _, fs') \<Rightarrow> (Inr nonce, fs')))))"

definition save_artifacts ::
    "save_io \<Rightarrow> string \<Rightarrow> u128 \<Rightarrow> commitment_artifacts \<Rightarrow> files \<Rightarrow> (io_error + unit) \<times> files" where
  "save_artifacts io dir i art fs =
     (case si_mkdir io of Some e \<Rightarrow> (Inl (OtherIo e), fs)
      | None \<Rightarrow>
     (case si_harden io of Some e \<Rightarrow> (Inl (OtherIo e), fs)
      | None \<Rightarrow>
     (case (if fs (artifacts_tmp dir i) = None then None else si_remove io) of
        Some e \<Rightarrow> (Inl (OtherIo e), fs)
      | None \<Rightarrow>
          (case write_new_0600 (si_file io) (artifacts_tmp dir i) (proof_bytes art)
                  (fs(artifacts_tmp dir i := None)) of
             (Inl e, fs') \<Rightarrow> (Inl e, fs')
           | (Inr _, fs') \<Rightarrow>
               (case si_rename io of Some e \<Rightarrow> (Inl (OtherIo e), fs')
                | None \<Rightarrow>
                    let fs'' = fs'(artifacts_path dir i := fs' (artifacts_tmp dir i),
                                   artifacts_tmp dir i := None)
                    in (case si_sync_dir io of Some e \<Rightarrow> (Inl (OtherIo e), fs'')
                        | None \<Rightarrow> (Inr (), fs'')))))))"

definition MAX_ARTIFACTS_BYTES :: nat where
  "MAX_ARTIFACTS_BYTES = 64 * 1024 * 1024"

definition corrupt :: "u128 \<Rightarrow> string \<Rightarrow> io_error" where
  "corrupt i why = InvalidData (''persisted artifacts for job '' @ dec i @ '' are corrupt: '' @ why)"

definition concat_sign :: string where
  "concat_sign = [CHR 0x20, CHR 0xE2, CHR 0x80, CHR 0x96, CHR 0x20]"

definition load_artifacts_capped ::
    "(bytes \<Rightarrow> bytes) \<Rightarrow> load_io \<Rightarrow> string \<Rightarrow> u128 \<Rightarrow> nat \<Rightarrow> files \<Rightarrow> io_error + commitment_artifacts option" where
  "load_artifacts_capped kec io dir i max_bytes fs =
     (case li_open io of Some e \<Rightarrow> Inl (OtherIo e)
      | None \<Rightarrow>
     (case fs (artifacts_path dir i) of None \<Rightarrow> Inr None
      | Some content \<Rightarrow>
     (case li_read io of Some e \<Rightarrow> Inl (OtherIo e)
      | None \<Rightarrow>
          let proof = take (max_bytes + 1) content
          in if max_bytes < length proof then Inl (corrupt i ''oversized'')
             else if length proof < 64 then Inl (corrupt i (''shorter than commitment'' @ concat_sign @ ''nonce''))
             else let nonce = take 32 (drop 32 proof);
                      rebuilt = build kec (drop 64 proof) nonce
                  in if proof_bytes rebuilt \<noteq> proof
                     then Inl (corrupt i (''commitment does not match keccak256(output'' @ concat_sign @ ''nonce)''))
                     else rbind (nonce_load (li_nonce io) dir i fs) (\<lambda>n.
                       if n = Some nonce then Inr (Some rebuilt)
                       else Inl (corrupt i ''nonce does not match the persisted commitment nonce'')))))"

definition load_artifacts ::
    "(bytes \<Rightarrow> bytes) \<Rightarrow> load_io \<Rightarrow> string \<Rightarrow> u128 \<Rightarrow> files \<Rightarrow> io_error + commitment_artifacts option" where
  "load_artifacts kec io dir i fs = load_artifacts_capped kec io dir i MAX_ARTIFACTS_BYTES fs"

section \<open>Paths do not collide\<close>

lemma last_nth: "xs @ ''.bin'' = ys @ ''.bin.tmp'' \<Longrightarrow> False"
proof -
  assume "xs @ ''.bin'' = ys @ ''.bin.tmp''"
  then have "last (xs @ ''.bin'') = last (ys @ ''.bin.tmp'')" by simp
  then show False by simp
qed

lemma store_paths [simp]:
  "path_for dir i \<noteq> artifacts_path dir j" "path_for dir i \<noteq> artifacts_tmp dir j"
  "artifacts_path dir i \<noteq> path_for dir j" "artifacts_tmp dir i \<noteq> path_for dir j"
  by (auto simp: path_for_def artifacts_path_def artifacts_tmp_def dest!: path_join_inj)

lemma artifacts_tmp_neq [simp]:
  "artifacts_path dir i \<noteq> artifacts_tmp dir j" "artifacts_tmp dir j \<noteq> artifacts_path dir i"
  unfolding artifacts_path_def artifacts_tmp_def
  by (auto dest!: path_join_inj dest: last_nth [of "''artifacts-'' @ dec i" "''artifacts-'' @ dec j"])

lemma store_path_inj [simp]:
  "path_for dir i = path_for dir j \<longleftrightarrow> i = j"
  "artifacts_path dir i = artifacts_path dir j \<longleftrightarrow> i = j"
  by (auto simp: path_for_def artifacts_path_def dest!: path_join_inj)

section \<open>The store's contract\<close>

lemma write_new_grows: "write_new_0600 io p bs fs = (r, fs') \<Longrightarrow>
    (\<forall>q. fs q \<noteq> None \<longrightarrow> fs' q = fs q) \<and> (\<forall>q. q \<noteq> p \<longrightarrow> fs' q = fs q)"
  by (auto simp: write_new_0600_def split: if_splits option.splits)

lemma write_new_ok: "write_new_0600 io p bs fs = (Inr u, fs') \<Longrightarrow> fs p = None \<and> fs' = fs(p \<mapsto> bs)"
  by (auto simp: write_new_0600_def split: if_splits option.splits)

lemma mint_frame: "nonce_mint io dir i fs = (r, fs') \<Longrightarrow>
    (\<forall>q. fs q \<noteq> None \<longrightarrow> fs' q = fs q) \<and> (\<forall>q. q \<noteq> path_for dir i \<longrightarrow> fs' q = fs q)"
  by (auto simp: nonce_mint_def dest!: write_new_grows split: option.splits sum.splits prod.splits)

lemma mint_ok: "nonce_mint io dir i fs = (Inr n, fs') \<Longrightarrow>
    mi_random io = Inr n \<and> fs (path_for dir i) = None \<and> fs' = fs(path_for dir i \<mapsto> n)"
  by (auto simp: nonce_mint_def dest!: write_new_ok split: option.splits sum.splits prod.splits)

lemma save_frame:
  assumes "save_artifacts io dir i art fs = (r, fs')"
  shows "q \<noteq> artifacts_path dir i \<Longrightarrow> q \<noteq> artifacts_tmp dir i \<Longrightarrow> fs' q = fs q"
    and "fs' (artifacts_path dir i) = fs (artifacts_path dir i) \<or>
         fs' (artifacts_path dir i) = Some (proof_bytes art)"
  using assms
  by (auto simp: save_artifacts_def Let_def fun_upd_def dest!: write_new_grows write_new_ok
      split: option.splits sum.splits prod.splits if_splits)

lemma save_ok: "save_artifacts io dir i art fs = (Inr u, fs') \<Longrightarrow>
    fs' (artifacts_path dir i) = Some (proof_bytes art)"
  by (auto simp: save_artifacts_def Let_def dest!: write_new_ok
      split: option.splits sum.splits prod.splits if_splits)

lemma load_ok_nonce: "nonce_load f dir i fs = Inr (Some n) \<longleftrightarrow>
    f = None \<and> fs (path_for dir i) = Some n \<and> length n = 32"
  by (auto simp: nonce_load_def split: option.splits)

lemma load_none_nonce: "nonce_load f dir i fs = Inr None \<longleftrightarrow> f = None \<and> fs (path_for dir i) = None"
  by (auto simp: nonce_load_def split: option.splits)

text \<open>What is on disk for a job: artifacts built under the job's persisted nonce.\<close>

definition stored :: "(bytes \<Rightarrow> bytes) \<Rightarrow> string \<Rightarrow> u128 \<Rightarrow> files \<Rightarrow> commitment_artifacts \<Rightarrow> bool" where
  "stored kec dir i fs art \<longleftrightarrow>
     (\<exists>outp nonce. length nonce = 32 \<and> art = build kec outp nonce \<and>
        fs (artifacts_path dir i) = Some (proof_bytes art) \<and> fs (path_for dir i) = Some nonce)"

lemma load_artifacts_none: "load_artifacts kec io dir i fs = Inr None \<Longrightarrow> fs (artifacts_path dir i) = None"
  by (auto simp: load_artifacts_def load_artifacts_capped_def Let_def split: option.splits if_splits)

lemma load_artifacts_stored: "load_artifacts kec io dir i fs = Inr (Some art) \<Longrightarrow> stored kec dir i fs art"
  by (auto simp: load_artifacts_def load_artifacts_capped_def Let_def load_ok_nonce stored_def
      intro: sym split: option.splits if_splits)

lemma stored_unique:
  assumes "hash32 kec" "stored kec dir i fs a" "stored kec dir i fs b"
  shows "a = b"
proof -
  obtain x m where a: "a = build kec x m" "fs (artifacts_path dir i) = Some (proof_bytes a)"
    "fs (path_for dir i) = Some m" "length m = 32"
    using assms(2) by (auto simp: stored_def)
  obtain y n where b: "b = build kec y n" "fs (artifacts_path dir i) = Some (proof_bytes b)"
    "fs (path_for dir i) = Some n"
    using assms(3) by (auto simp: stored_def)
  have "m = n" using a b by simp
  moreover have "drop 64 (proof_bytes a) = drop 64 (proof_bytes b)" using a b by simp
  ultimately show ?thesis using proof_parts(3) [OF assms(1) a(4)] a(1) b(1) by metis
qed

lemma stored_verifies: "hash32 kec \<Longrightarrow> stored kec dir i fs art \<Longrightarrow>
    verify_commitment kec (commitment art) (proof_bytes art)"
  by (auto simp: stored_def build_verifies)

lemma stored_mono: "stored kec dir i fs art \<Longrightarrow> (\<And>q. fs q \<noteq> None \<Longrightarrow> fs' q = fs q) \<Longrightarrow> stored kec dir i fs' art"
  unfolding stored_def by (metis option.distinct(1))

text \<open>Saved artifacts load again, as long as the file is within the cap.\<close>

lemma load_after_save:
  assumes "hash32 kec" "length nonce = 32" "art = build kec outp nonce"
    and "save_artifacts io dir i art fs = (Inr u, fs')" "fs (path_for dir i) = Some nonce"
    and "length outp + 64 \<le> MAX_ARTIFACTS_BYTES"
  shows "load_artifacts kec \<lparr>li_open = None, li_read = None, li_nonce = None\<rparr> dir i fs' = Inr (Some art)"
proof -
  have saved: "fs' (artifacts_path dir i) = Some (proof_bytes art)" using assms(4) by (rule save_ok)
  have nonce: "fs' (path_for dir i) = Some nonce"
    using save_frame(1) [OF assms(4), of "path_for dir i"] assms(5) by simp
  have len: "length (proof_bytes art) = 64 + length outp"
    using assms(1-3) by (simp add: build_simps hash32_length)
  have parts: "take 32 (drop 32 (proof_bytes art)) = nonce" "drop 64 (proof_bytes art) = outp"
    using proof_parts [OF assms(1,2)] assms(3) by simp_all
  have "take (MAX_ARTIFACTS_BYTES + 1) (proof_bytes art) = proof_bytes art"
    using len assms(6) by simp
  then show ?thesis
    using len assms(2,3,6) saved nonce parts
    by (simp add: load_artifacts_def load_artifacts_capped_def Let_def nonce_load_def)
qed

end
