(* ===== verification/Models.thy ===== *)
theory Models
  imports Outbound Abi
begin

text \<open>
  The module \<open>executor::models\<close> (\<open>crates/executor/src/models.rs\<close>): the grammar of model
  identifiers, their base32 text, and provisioning: find the digest to check against, re-verify the
  cache, fetch, verify, store. SHA-256 is the parameter \<open>sha\<close>; the weight source is a parameter of
  the trait's type. The cache directory is a map from paths to contents; the outcomes of its I/O are
  the record \<open>cache_io\<close>.
\<close>

type_synonym hash_fun = "bytes \<Rightarrow> bytes"

datatype integrity = Sha256Verified | CidSha256Verified

record provisioned_model =
  pm_model_hash :: word32
  pm_path :: string
  pm_bytes_len :: nat
  pm_integrity :: integrity

datatype provision_error =
    Inactive | EmptyCid | InvalidCid string | Unverifiable string
  | SizeMismatch nat nat | DigestMismatch bytes bytes | Fetch string | Cache string

definition hex32 :: "bytes \<Rightarrow> string" where
  "hex32 bs = concat (map hex_byte bs)"

definition provision_error_display :: "(string \<Rightarrow> string) \<Rightarrow> provision_error \<Rightarrow> string" where
  "provision_error_display debug e = (case e of
     Inactive \<Rightarrow> ''model is deactivated on-chain''
   | EmptyCid \<Rightarrow> ''registry returned an empty ipfsCID''
   | InvalidCid cid \<Rightarrow> ''invalid model CID '' @ debug cid @ '': not a bare CIDv0 (Qm'' @
       [CHR 0xE2, CHR 0x80, CHR 0xA6] @ '', base58btc) or CIDv1 (b'' @ [CHR 0xE2, CHR 0x80, CHR 0xA6] @
       '', base32lower) identifier; refused before URL construction (FUA-NODE-AGENT-05)''
   | Unverifiable cid \<Rightarrow> ''no local integrity commitment for CID '' @ cid @
       '': supply weights_sha256 or use a CIDv1 raw sha2-256 CID (SVC-2 fail-closed)''
   | SizeMismatch want seen \<Rightarrow>
       ''size mismatch: expected '' @ dec_nat want @ '' bytes, got '' @ dec_nat seen
   | DigestMismatch want seen \<Rightarrow> ''weights sha-256 mismatch: expected '' @ hex32 want @
       '', got '' @ hex32 seen @ '' (artifact discarded; SVC-2)''
   | Fetch m \<Rightarrow> ''weight fetch failed: '' @ m
   | Cache m \<Rightarrow> ''model cache error: '' @ m)"

section \<open>Base32\<close>

definition b32_value :: "char \<Rightarrow> nat option" where
  "b32_value c =
     (let n = (of_char c :: nat)
      in if 97 \<le> n \<and> n \<le> 122 then Some (n - 97)
         else if 50 \<le> n \<and> n \<le> 55 then Some (n - 50 + 26)
         else None)"

text \<open>The accumulator holds fewer than twelve bits, so its \<open>u64\<close> never wraps.\<close>

fun b32_loop :: "string \<Rightarrow> bytes \<Rightarrow> nat \<Rightarrow> nat \<Rightarrow> (bytes \<times> nat \<times> nat) option" where
  "b32_loop [] out acc nbits = Some (out, acc, nbits)"
| "b32_loop (c # s) out acc nbits =
     (case b32_value c of
        None \<Rightarrow> None
      | Some v \<Rightarrow>
          let acc = acc * 32 + v; nbits = nbits + 5
          in if 8 \<le> nbits
             then b32_loop s (out @ [of_nat (acc div 2 ^ (nbits - 8))]) (acc mod 2 ^ (nbits - 8)) (nbits - 8)
             else b32_loop s out acc nbits)"

definition base32_lower_decode :: "string \<Rightarrow> bytes option" where
  "base32_lower_decode s = (case b32_loop s [] 0 0 of
     None \<Rightarrow> None
   | Some (out, acc, nbits) \<Rightarrow> if 5 \<le> nbits \<or> acc \<noteq> 0 then None else Some out)"

section \<open>Identifiers\<close>

definition char_in :: "char \<Rightarrow> char \<Rightarrow> char \<Rightarrow> bool" where
  "char_in a b c \<longleftrightarrow> (of_char a :: nat) \<le> of_char c \<and> (of_char c :: nat) \<le> of_char b"

definition base58_char :: "char \<Rightarrow> bool" where
  "base58_char c \<longleftrightarrow> char_in (CHR ''1'') (CHR ''9'') c \<or> char_in (CHR ''A'') (CHR ''H'') c \<or>
     char_in (CHR ''J'') (CHR ''N'') c \<or> char_in (CHR ''P'') (CHR ''Z'') c \<or>
     char_in (CHR ''a'') (CHR ''k'') c \<or> char_in (CHR ''m'') (CHR ''z'') c"

definition validate_cid :: "string \<Rightarrow> bool" where
  "validate_cid cid =
     (if length cid = 46 \<and> starts_with ''Qm'' cid then list_all base58_char cid
      else case strip_prefix ''b'' cid of
        Some rest \<Rightarrow>
          (case base32_lower_decode rest of
             Some bs \<Rightarrow> 4 \<le> length bs \<and> bs ! 0 = 1
           | None \<Rightarrow> False)
      | None \<Rightarrow> False)"

definition cid_embedded_sha256 :: "string \<Rightarrow> bytes option" where
  "cid_embedded_sha256 cid =
     Option.bind (strip_prefix ''b'' cid) (\<lambda>rest. Option.bind (base32_lower_decode rest) (\<lambda>bs.
       if length bs = 36 \<and> bs ! 0 = 0x01 \<and> bs ! 1 = 0x55 \<and> bs ! 2 = 0x12 \<and> bs ! 3 = 0x20
       then Some (drop 4 bs) else None))"

section \<open>Provisioning\<close>

type_synonym file_map = "string \<Rightarrow> bytes option"

record cache_io =
  ci_read_fails :: bool
  ci_remove_fails :: bool
  ci_mkdir_error :: "string option"
  ci_write_error :: "(nat \<times> string) option"

definition cache_file :: "string \<Rightarrow> word32 \<Rightarrow> string" where
  "cache_file cache_dir model_hash = path_join cache_dir (hex32 model_hash @ ''.bin'')"

definition size_ok :: "nat option \<Rightarrow> bytes \<Rightarrow> bool" where
  "size_ok expected bs = (case expected of None \<Rightarrow> True | Some sz \<Rightarrow> sz = length bs)"

text \<open>The step after the digest is known and the cache has missed.\<close>

definition provision_fetch ::
    "hash_fun \<Rightarrow> cache_io \<Rightarrow> word32 \<Rightarrow> string \<Rightarrow> nat option \<Rightarrow> bytes \<Rightarrow> integrity \<Rightarrow> string \<Rightarrow>
       (string \<Rightarrow> provision_error + bytes) \<Rightarrow> file_map \<Rightarrow>
       (provision_error + provisioned_model) \<times> file_map" where
  "provision_fetch sha io mh cid expected_size digest integ path fetch cache =
     (case fetch cid of
        Inl e \<Rightarrow> (Inl e, cache)
      | Inr bs \<Rightarrow>
          if \<not> size_ok expected_size bs then (Inl (SizeMismatch (the expected_size) (length bs)), cache)
          else if sha bs \<noteq> digest then (Inl (DigestMismatch digest (sha bs)), cache)
          else (case ci_mkdir_error io of
            Some e \<Rightarrow> (Inl (Cache e), cache)
          | None \<Rightarrow>
              (case ci_write_error io of
                 Some (n, e) \<Rightarrow> (Inl (Cache e), cache(path \<mapsto> take n bs))
               | None \<Rightarrow>
                   (Inr \<lparr>pm_model_hash = mh, pm_path = path, pm_bytes_len = length bs,
                      pm_integrity = integ\<rparr>, cache(path \<mapsto> bs)))))"

definition provision ::
    "hash_fun \<Rightarrow> cache_io \<Rightarrow> word32 \<Rightarrow> string \<Rightarrow> bool \<Rightarrow> nat option \<Rightarrow> bytes option \<Rightarrow> string \<Rightarrow>
       (string \<Rightarrow> provision_error + bytes) \<Rightarrow> file_map \<Rightarrow>
       (provision_error + provisioned_model) \<times> file_map" where
  "provision sha io mh cid is_active expected_size expected_sha256 cache_dir fetch cache =
     (if \<not> is_active then (Inl Inactive, cache)
      else if cid = [] then (Inl EmptyCid, cache)
      else if \<not> validate_cid cid then (Inl (InvalidCid cid), cache)
      else case (case expected_sha256 of
                   Some d \<Rightarrow> Some (d, Sha256Verified)
                 | None \<Rightarrow> map_option (\<lambda>d. (d, CidSha256Verified)) (cid_embedded_sha256 cid)) of
        None \<Rightarrow> (Inl (Unverifiable cid), cache)
      | Some (digest, integ) \<Rightarrow>
          let path = cache_file cache_dir mh
          in case (if ci_read_fails io then None else cache path) of
               Some cached \<Rightarrow>
                 if size_ok expected_size cached \<and> sha cached = digest
                 then (Inr \<lparr>pm_model_hash = mh, pm_path = path, pm_bytes_len = length cached,
                         pm_integrity = integ\<rparr>, cache)
                 else provision_fetch sha io mh cid expected_size digest integ path fetch
                        (if ci_remove_fails io then cache else cache(path := None))
             | None \<Rightarrow> provision_fetch sha io mh cid expected_size digest integ path fetch cache)"

section \<open>The gateway source\<close>

definition DEFAULT_MAX_WEIGHT_BYTES :: nat where
  "DEFAULT_MAX_WEIGHT_BYTES = 8 * 1024 * 1024 * 1024"

record ipfs_gateway_source =
  gs_gateway :: string
  gs_client :: http_client
  gs_max_bytes :: nat

definition gateway_source_new :: "env \<Rightarrow> string \<Rightarrow> outbound_url_error + ipfs_gateway_source" where
  "gateway_source_new env gateway = rbind (validate_outbound_url env gateway) (\<lambda>_.
     Inr \<lparr>gs_gateway = gateway, gs_client = streaming_http_client env,
       gs_max_bytes = positive_from_env env ''CITRATE_MAX_WEIGHT_BYTES'' DEFAULT_MAX_WEIGHT_BYTES\<rparr>)"

fun fetch_chunks :: "nat \<Rightarrow> bytes \<Rightarrow> (string + bytes) list \<Rightarrow> provision_error + bytes" where
  "fetch_chunks max_bytes buf [] = Inr buf"
| "fetch_chunks max_bytes buf (Inl e # cs) = Inl (Fetch e)"
| "fetch_chunks max_bytes buf (Inr c # cs) =
     (if max_bytes < length buf + length c
      then Inl (Fetch (''weight exceeds '' @ dec_nat max_bytes @ '' byte cap''))
      else fetch_chunks max_bytes (buf @ c) cs)"

definition gateway_url :: "ipfs_gateway_source \<Rightarrow> string \<Rightarrow> string" where
  "gateway_url src cid = trim_end_slashes (gs_gateway src) @ ''/ipfs/'' @ cid"

definition gateway_fetch ::
    "(nat \<Rightarrow> string) \<Rightarrow> (string \<Rightarrow> string + string http_response) \<Rightarrow> ipfs_gateway_source \<Rightarrow> string \<Rightarrow>
       provision_error + bytes" where
  "gateway_fetch show_status http_get src cid =
     (if \<not> validate_cid cid then Inl (InvalidCid cid)
      else rbind (map_err Fetch (http_get (gateway_url src cid))) (\<lambda>resp.
        if \<not> (200 \<le> resp_status resp \<and> resp_status resp < 300)
        then Inl (Fetch (''gateway status '' @ show_status (resp_status resp)))
        else case resp_content_length resp of
          Some len \<Rightarrow>
            if gs_max_bytes src < unat len
            then Inl (Fetch (''weight too large: Content-Length '' @ dec len @ '' > '' @
              dec_nat (gs_max_bytes src) @ '' cap''))
            else fetch_chunks (gs_max_bytes src) [] (resp_chunks resp)
        | None \<Rightarrow> fetch_chunks (gs_max_bytes src) [] (resp_chunks resp)))"

section \<open>Base32 is canonical\<close>

definition b32_char :: "nat \<Rightarrow> char" where
  "b32_char v = (if v < 26 then char_of (97 + v) else char_of (50 + (v - 26)))"

fun b32_of_nat :: "nat \<Rightarrow> nat \<Rightarrow> string" where
  "b32_of_nat 0 v = []"
| "b32_of_nat (Suc n) v = b32_of_nat n (v div 32) @ [b32_char (v mod 32)]"

text \<open>The reference encoder: the bytes as a number, padded with zero bits to a multiple of five.\<close>

definition b32_pad :: "nat \<Rightarrow> nat" where
  "b32_pad n = (5 - (8 * n) mod 5) mod 5"

definition base32_lower_encode :: "bytes \<Rightarrow> string" where
  "base32_lower_encode bs =
     b32_of_nat ((8 * length bs + b32_pad (length bs)) div 5) (nat_of_be bs * 2 ^ b32_pad (length bs))"

lemma b32_value_char: "v < 32 \<Longrightarrow> b32_value (b32_char v) = Some v"
  by (auto simp: b32_value_def b32_char_def Let_def)

lemma b32_char_value: "b32_value c = Some v \<Longrightarrow> b32_char v = c \<and> v < 32"
proof -
  assume v: "b32_value c = Some v"
  then consider "97 \<le> (of_char c :: nat)" "(of_char c :: nat) \<le> 122" "v = of_char c - 97"
    | "50 \<le> (of_char c :: nat)" "(of_char c :: nat) \<le> 55" "v = of_char c - 50 + 26"
    by (auto simp: b32_value_def Let_def split: if_splits)
  then show ?thesis by cases (auto simp: b32_char_def)
qed

definition b32_number :: "string \<Rightarrow> nat option" where
  "b32_number s = (if list_all (\<lambda>c. b32_value c \<noteq> None) s
     then Some (foldl (\<lambda>a c. a * 32 + the (b32_value c)) 0 s) else None)"

lemma b32_number_snoc: "b32_number (s @ [c]) = (case b32_number s of None \<Rightarrow> None
    | Some a \<Rightarrow> map_option (\<lambda>v. a * 32 + v) (b32_value c))"
  by (cases "b32_value c") (auto simp: b32_number_def)

lemma b32_loop_append: "b32_loop (s @ t) out acc n =
    (case b32_loop s out acc n of None \<Rightarrow> None | Some (out', acc', n') \<Rightarrow> b32_loop t out' acc' n')"
  by (induction s out acc n rule: b32_loop.induct) (auto simp: Let_def split: option.splits)

lemma b32_loop_invariant:
  "case b32_number s of
     None \<Rightarrow> b32_loop s [] 0 0 = None
   | Some v \<Rightarrow> \<exists>out acc n. b32_loop s [] 0 0 = Some (out, acc, n) \<and>
       nat_of_be out * 2 ^ n + acc = v \<and> acc < 2 ^ n \<and> n < 8 \<and> 8 * length out + n = 5 * length s"
proof (induction s rule: rev_induct)
  case Nil
  then show ?case by (simp add: b32_number_def)
next
  case (snoc c s)
  show ?case
  proof (cases "b32_number s")
    case None
    then show ?thesis using snoc by (simp add: b32_number_snoc b32_loop_append)
  next
    case (Some a)
    then obtain out acc n where loop: "b32_loop s [] 0 0 = Some (out, acc, n)"
      and a: "nat_of_be out * 2 ^ n + acc = a" "acc < 2 ^ n" "n < 8" "8 * length out + n = 5 * length s"
      using snoc by auto
    show ?thesis
    proof (cases "b32_value c")
      case None
      then show ?thesis using Some loop by (simp add: b32_number_snoc b32_loop_append)
    next
      case (Some v)
      let ?acc = "acc * 32 + v"
      have v: "v < 32" using b32_char_value [OF Some] by simp
      have num: "b32_number (s @ [c]) = Some (a * 32 + v)"
        using \<open>b32_number s = Some a\<close> Some by (simp add: b32_number_snoc)
      have bound: "?acc < 2 ^ (n + 5)"
        using a(2) v by (simp add: power_add)
      have total: "nat_of_be out * 2 ^ (n + 5) + ?acc = a * 32 + v"
        using a(1) by (auto simp: power_add algebra_simps)
      show ?thesis
      proof (cases "8 \<le> n + 5")
        case False
        then show ?thesis using num loop Some a(4) bound total
          by (simp add: b32_loop_append)
      next
        case True
        define m where "m = n + 5 - 8"
        have n5: "n + 5 = m + 8" using True by (simp add: m_def)
        have "?acc div 2 ^ m < 256"
          using bound by (simp add: n5 power_add less_mult_imp_div_less mult.commute)
        then have "nat_of_be (out @ [of_nat (?acc div 2 ^ m)]) * 2 ^ m + ?acc mod 2 ^ m =
            nat_of_be out * 2 ^ (m + 8) + (?acc div 2 ^ m * 2 ^ m + ?acc mod 2 ^ m)"
          by (simp add: unat_of_nat_byte power_add algebra_simps)
        also have "\<dots> = a * 32 + v" using total unfolding n5 div_mult_mod_eq .
        finally show ?thesis using num loop Some a(3,4) True n5
          by (simp add: b32_loop_append Let_def m_def [symmetric])
      qed
    qed
  qed
qed

lemma b32_of_nat_number: "b32_number (b32_of_nat n v) = Some (v mod 32 ^ n) \<and> length (b32_of_nat n v) = n"
proof (induction n arbitrary: v)
  case 0
  then show ?case by (simp add: b32_number_def)
next
  case (Suc n)
  have "v div 32 mod 32 ^ n * 32 + v mod 32 = v mod (32 * 32 ^ n)"
    by (simp only: mod_mult2_eq)
  then show ?case using Suc by (simp add: b32_number_snoc b32_value_char)
qed

lemma b32_number_of_nat: "b32_number s = Some v \<Longrightarrow> s = b32_of_nat (length s) v \<and> v < 32 ^ length s"
proof (induction s arbitrary: v rule: rev_induct)
  case Nil
  then show ?case by (simp add: b32_number_def)
next
  case (snoc c s)
  then obtain a d where "b32_number s = Some a" "b32_value c = Some d" "v = a * 32 + d"
    by (auto simp: b32_number_snoc split: option.splits)
  moreover from this have "d < 32" "b32_char d = c" using b32_char_value by auto
  ultimately show ?case using snoc.IH [of a] by auto
qed

lemma pad_facts: "8 * n + b32_pad n = 5 * ((8 * n + b32_pad n) div 5)" "b32_pad n < 5"
proof -
  define q r where "q = (8 * n) div 5" and "r = (8 * n) mod 5"
  have n: "8 * n = 5 * q + r" "r < 5" by (simp_all add: q_def r_def)
  have pad: "b32_pad n = (5 - r) mod 5" by (simp add: b32_pad_def r_def)
  consider "r = 0" | "0 < r" by blast
  then have "\<exists>k. 8 * n + b32_pad n = 5 * k"
  proof cases
    case 1
    then show ?thesis using n pad by simp
  next
    case 2
    then have "b32_pad n = 5 - r" using pad by simp
    then have "8 * n + b32_pad n = 5 * (q + 1)" using n by simp
    then show ?thesis by blast
  qed
  then show "8 * n + b32_pad n = 5 * ((8 * n + b32_pad n) div 5)" by auto
qed (simp add: b32_pad_def)

lemma pad_unique:
  assumes "8 * n + k = 5 * (l :: nat)" "k < 5"
  shows "k = b32_pad n"
proof -
  obtain l' where l': "8 * n + b32_pad n = 5 * l'" using pad_facts(1) by blast
  have "k = p" if "m + k = 5 * l" "m + p = 5 * l'" "k < 5" "p < 5" for m p :: nat
    using that by presburger
  from this [OF assms(1) l' assms(2) pad_facts(2)] show ?thesis .
qed

lemma base32_decode_iff: "base32_lower_decode s = Some bs \<longleftrightarrow> s = base32_lower_encode bs"
proof
  assume dec: "base32_lower_decode s = Some bs"
  then obtain n where loop: "b32_loop s [] 0 0 = Some (bs, 0, n)" "n < 5"
    by (auto simp: base32_lower_decode_def not_le split: option.splits if_splits)
  then obtain v where num: "b32_number s = Some v" and v: "nat_of_be bs * 2 ^ n = v"
    "8 * length bs + n = 5 * length s"
    using b32_loop_invariant [of s] by (auto split: option.splits)
  have "n = b32_pad (length bs)"
    using v(2) loop(2) by (rule pad_unique)
  moreover have "length s = (8 * length bs + n) div 5" using v(2) by simp
  ultimately show "s = base32_lower_encode bs"
    using b32_number_of_nat [OF num] v(1) by (simp add: base32_lower_encode_def)
next
  assume s: "s = base32_lower_encode bs"
  define k where "k = b32_pad (length bs)"
  define L where "L = (8 * length bs + k) div 5"
  have L: "8 * length bs + k = 5 * L" "k < 5" using pad_facts by (simp_all add: k_def L_def)
  have "nat_of_be bs < 2 ^ (8 * length bs)"
    using nat_of_be_bound [of bs] by (simp add: power_mult)
  then have "nat_of_be bs * 2 ^ k < 2 ^ (8 * length bs) * 2 ^ k" by simp
  also have "\<dots> = 2 ^ (5 * L)" by (simp only: L(1) [symmetric] power_add)
  also have "\<dots> = (32 :: nat) ^ L" by (simp add: power_mult)
  finally have num: "b32_number s = Some (nat_of_be bs * 2 ^ k)" "length s = L"
    using b32_of_nat_number [of L "nat_of_be bs * 2 ^ k"] by (simp_all add: s base32_lower_encode_def k_def L_def)
  then obtain out acc n where loop: "b32_loop s [] 0 0 = Some (out, acc, n)"
    and eq: "nat_of_be out * 2 ^ n + acc = nat_of_be bs * 2 ^ k" "acc < 2 ^ n" "n < 8"
      "8 * length out + n = 5 * L"
    using b32_loop_invariant [of s] by auto
  have "(8 * length out + n) mod 8 = (8 * length bs + k) mod 8" using eq(4) L(1) by simp
  then have n: "n = k" using eq(3) L(2) by simp
  then have "length out = length bs" using eq(4) L(1) by simp
  note n = n this
  have "acc = (nat_of_be out * 2 ^ k + acc) mod 2 ^ k" using eq(2) n by simp
  also have "\<dots> = 0" unfolding eq(1) [unfolded n(1)] by simp
  finally have "acc = 0" .
  then have "nat_of_be out = nat_of_be bs" using eq(1) n by simp
  then have "out = bs" using be_of_nat_of_be [of out] be_of_nat_of_be [of bs] n(2) by metis
  then show "base32_lower_decode s = Some bs"
    using loop \<open>acc = 0\<close> n(1) L(2) by (simp add: base32_lower_decode_def)
qed

section \<open>Identifiers are plain path segments\<close>

lemma b32_value_alnum: "b32_value c \<noteq> None \<Longrightarrow> char_in (CHR ''a'') (CHR ''z'') c \<or> char_in (CHR ''2'') (CHR ''7'') c"
  by (auto simp: b32_value_def char_in_def Let_def split: if_splits)

lemma decode_alphabet: "base32_lower_decode s = Some bs \<Longrightarrow> \<forall>c \<in> set s. b32_value c \<noteq> None"
  using b32_loop_invariant [of s]
  by (auto simp: base32_lower_decode_def b32_number_def list_all_iff split: option.splits if_splits)

definition url_safe :: "char \<Rightarrow> bool" where
  "url_safe c \<longleftrightarrow> char_in (CHR ''0'') (CHR ''9'') c \<or> char_in (CHR ''A'') (CHR ''Z'') c \<or>
     char_in (CHR ''a'') (CHR ''z'') c"

lemma base58_url_safe: "base58_char c \<Longrightarrow> url_safe c"
  by (auto simp: base58_char_def url_safe_def char_in_def)

lemma b32_url_safe: "b32_value c \<noteq> None \<Longrightarrow> url_safe c"
  by (auto simp: b32_value_def url_safe_def char_in_def Let_def split: if_splits)

lemma b_url_safe: "url_safe (CHR ''b'')"
  by (simp add: url_safe_def char_in_def)

lemma validate_cid_url_safe: "validate_cid cid \<Longrightarrow> \<forall>c \<in> set cid. url_safe c"
  by (auto simp: validate_cid_def list_all_iff base58_url_safe b_url_safe
      dest!: decode_alphabet intro: b32_url_safe split: if_splits option.splits)

lemma four_split: "4 \<le> length bs \<Longrightarrow> bs = [bs ! 0, bs ! 1, bs ! 2, bs ! 3] @ drop 4 bs"
  by (auto simp: numeral_eq_Suc Suc_le_length_iff)

lemma embedded_validates: "cid_embedded_sha256 cid = Some d \<Longrightarrow>
    length d = 32 \<and> cid = CHR ''b'' # base32_lower_encode ([0x01, 0x55, 0x12, 0x20] @ d)"
proof -
  assume "cid_embedded_sha256 cid = Some d"
  then obtain rest bs where cid: "cid = CHR ''b'' # rest" "base32_lower_decode rest = Some bs"
    "length bs = 36" "bs ! 0 = 0x01" "bs ! 1 = 0x55" "bs ! 2 = 0x12" "bs ! 3 = 0x20" "d = drop 4 bs"
    by (auto simp: cid_embedded_sha256_def bind_eq_Some_conv split: if_splits)
  have "4 \<le> length bs" using cid(3) by simp
  then have "bs = [bs ! 0, bs ! 1, bs ! 2, bs ! 3] @ drop 4 bs" by (rule four_split)
  moreover have "[bs ! 0, bs ! 1, bs ! 2, bs ! 3] = [0x01, 0x55, 0x12, 0x20]" by (simp only: cid(4-7))
  ultimately have "bs = [0x01, 0x55, 0x12, 0x20] @ d" using cid(8) by metis
  then have "rest = base32_lower_encode ([0x01, 0x55, 0x12, 0x20] @ d)"
    using cid(2) base32_decode_iff by blast
  with cid(1,3,8) show ?thesis by simp
qed

lemma embedded_encode: "length d = 32 \<Longrightarrow>
    cid_embedded_sha256 (CHR ''b'' # base32_lower_encode ([0x01, 0x55, 0x12, 0x20] @ d)) = Some d"
  using base32_decode_iff [THEN iffD2, OF refl, of "[0x01, 0x55, 0x12, 0x20] @ d"]
  by (simp add: cid_embedded_sha256_def)

section \<open>Provisioned weights\<close>

definition trusted_digest :: "bytes option \<Rightarrow> string \<Rightarrow> bytes option" where
  "trusted_digest expected_sha256 cid =
     (case expected_sha256 of Some d \<Rightarrow> Some d | None \<Rightarrow> cid_embedded_sha256 cid)"

lemma provision_fetch_Inr:
  "provision_fetch sha io mh cid sz digest integ path fetch cache = (Inr m, cache') \<Longrightarrow>
     pm_path m = path \<and> pm_model_hash m = mh \<and>
     (\<exists>bs. cache' (pm_path m) = Some bs \<and> sha bs = digest \<and> size_ok sz bs \<and> pm_bytes_len m = length bs)"
  by (auto simp: provision_fetch_def split: sum.splits if_splits option.splits prod.splits)

lemma provision_Inr:
  assumes "provision sha io mh cid active sz expected dir fetch cache = (Inr m, cache')"
  shows "active \<and> validate_cid cid \<and> pm_path m = cache_file dir mh \<and> pm_model_hash m = mh \<and>
    (\<exists>digest bs. trusted_digest expected cid = Some digest \<and> cache' (pm_path m) = Some bs \<and>
       sha bs = digest \<and> size_ok sz bs \<and> pm_bytes_len m = length bs)"
  using assms
  by (auto simp: provision_def trusted_digest_def Let_def dest!: provision_fetch_Inr
      split: if_splits option.splits)

lemma fetch_chunks_bound: "fetch_chunks mx buf cs = Inr bs \<Longrightarrow> length buf \<le> mx \<Longrightarrow> length bs \<le> mx"
  by (induction mx buf cs rule: fetch_chunks.induct) (auto split: if_splits)

section \<open>Properties\<close>

text \<open>Provisioned weights are verified weights: whenever provisioning succeeds, in any state of
  the cache and with any source, the model is active, its identifier well formed, and the file it
  names holds bytes whose SHA-256, computed locally, is the digest supplied by the caller or else
  the one embedded in the identifier; their size is the registered one when that is known.\<close>

theorem provision_verified:
  assumes "provision sha io mh cid active sz expected dir fetch cache = (Inr m, cache')"
  shows "active \<and> validate_cid cid \<and> pm_path m = cache_file dir mh \<and> pm_model_hash m = mh \<and>
    (\<exists>digest bs. trusted_digest expected cid = Some digest \<and> cache' (pm_path m) = Some bs \<and>
       sha bs = digest \<and> size_ok sz bs \<and> pm_bytes_len m = length bs)"
  using assms by (rule provision_Inr)

definition good_io :: cache_io where
  "good_io = \<lparr>ci_read_fails = False, ci_remove_fails = False, ci_mkdir_error = None,
     ci_write_error = None\<rparr>"

definition sample_cid :: string where
  "sample_cid = ''QmYwAPJzv5CZsnA625s3Xf2nemtYgPpHdWEz79ojWnPbdG''"

lemma sample_cid_valid: "validate_cid sample_cid"
  by (simp add: validate_cid_def sample_cid_def starts_with_def base58_char_def char_in_def)

lemma provision_verified_witness:
  "\<exists>digest bs. trusted_digest (Some [7]) sample_cid = Some digest \<and>
     ((\<lambda>_. None)(cache_file ''c'' [1] \<mapsto> [1, 2])) (cache_file ''c'' [1]) = Some bs \<and>
     (\<lambda>_. [7]) bs = digest \<and> size_ok None bs \<and> 2 = length bs"
  using provision_verified [of "\<lambda>_. [7]" good_io "[1]" sample_cid True None "Some [7]" "''c''"
      "\<lambda>_. Inr [1, 2]" "\<lambda>_. None"
      "\<lparr>pm_model_hash = [1], pm_path = cache_file ''c'' [1], pm_bytes_len = 2, pm_integrity = Sha256Verified\<rparr>"
      "(\<lambda>_. None)(cache_file ''c'' [1] \<mapsto> [1, 2])"]
  by (simp add: provision_def provision_fetch_def good_io_def sample_cid_valid size_ok_def Let_def
      trusted_digest_def) (simp add: sample_cid_def)?

text \<open>Nothing is fetched without a digest to check it against: when the caller supplies none and
  the identifier embeds none, or the identifier is malformed, or the model is inactive, the outcome
  is an error that does not depend on the weight source, and the cache is left as it was.\<close>

theorem no_unverifiable_fetch:
  assumes "trusted_digest expected cid = None \<or> \<not> validate_cid cid \<or> \<not> active"
  shows "\<exists>e. \<forall>fetch. provision sha io mh cid active sz expected dir fetch cache = (Inl e, cache)"
  using assms unfolding provision_def trusted_digest_def
  by (cases active; cases "cid = []"; cases "validate_cid cid") (auto split: option.splits)

lemma no_unverifiable_fetch_witness:
  "\<exists>e. \<forall>fetch. provision (\<lambda>_. []) good_io [1] ''../x'' True None (Some [7]) ''c'' fetch (\<lambda>_. None) =
     (Inl e, \<lambda>_. None)"
  by (rule no_unverifiable_fetch) (simp add: validate_cid_def)

text \<open>A validated identifier is one URL-safe path segment: every character is an ASCII letter or
  digit, so the gateway URL built from it stays under the gateway's \<open>/ipfs/\<close> path, and a body
  accepted by the gateway source never exceeds the configured cap.\<close>

theorem validated_cid_url_safe:
  assumes "gateway_fetch show_status http_get src cid = Inr body"
  shows "(\<forall>c \<in> set cid. url_safe c) \<and> length body \<le> gs_max_bytes src \<and>
    (\<exists>resp. http_get (trim_end_slashes (gs_gateway src) @ ''/ipfs/'' @ cid) = Inr resp \<and>
       200 \<le> resp_status resp \<and> resp_status resp < 300)"
  using assms
  by (auto simp: gateway_fetch_def gateway_url_def validate_cid_url_safe fetch_chunks_bound
      split: if_splits option.splits)

lemma validated_cid_url_safe_witness:
  "list_all url_safe sample_cid"
  using validated_cid_url_safe [of "\<lambda>_. []"
      "\<lambda>_. Inr \<lparr>resp_status = 200, resp_content_length = None, resp_chunks = [Inr [1]]\<rparr>"
      "\<lparr>gs_gateway = ''http://localhost'', gs_client = timed_http_client (\<lambda>_. None), gs_max_bytes = 5\<rparr>"
      sample_cid "[1]"]
  by (simp add: gateway_fetch_def sample_cid_valid list_all_iff)

text \<open>C33: The base32 reader is exact: it returns bytes for a text exactly when the text is their
  canonical encoding, so two identifiers never decode to the same bytes and padding bits are zero.\<close>

theorem base32_decode_exact:
  "base32_lower_decode s = Some bs \<longleftrightarrow> s = base32_lower_encode bs"
  by (rule base32_decode_iff)

end
