(* ===== verification/Rpc.thy ===== *)
theory Rpc
  imports Outbound Abi
begin

text \<open>
  The module \<open>chainio::rpc\<close> (\<open>crates/chainio/src/rpc.rs\<close>): JSON-RPC requests and the parsing
  of their answers. The JSON library is a parameter: a record of the accessors the code calls on a
  parsed value. The HTTP transport is a parameter too: it takes the endpoint and the request and
  gives a transport error or a response, whose body is read through the cap of \<open>Outbound\<close>. The
  client's atomic id counter is its state.
\<close>

record 'v json_ops =
  j_parse :: "bytes \<Rightarrow> string + 'v"
  j_get :: "'v \<Rightarrow> string \<Rightarrow> 'v option"
  j_str :: "'v \<Rightarrow> string option"
  j_i64 :: "'v \<Rightarrow> int option"
  j_show :: "'v \<Rightarrow> string"

datatype 'h rpc_error =
    RpcHttp 'h | RpcCode int string | MalformedResponse string | RpcAbi abi_error
  | Refused "'h capped_read_error"

definition show_int :: "int \<Rightarrow> string" where
  "show_int i = (if i < 0 then ''-'' @ dec_nat (nat (- i)) else dec_nat (nat i))"

definition rpc_error_display ::
    "('h \<Rightarrow> string) \<Rightarrow> ('h capped_read_error \<Rightarrow> string) \<Rightarrow> 'h rpc_error \<Rightarrow> string" where
  "rpc_error_display show_http show_capped e = (case e of
     RpcHttp h \<Rightarrow> ''rpc http error: '' @ show_http h
   | RpcCode code message \<Rightarrow> ''rpc error '' @ show_int code @ '': '' @ message
   | MalformedResponse s \<Rightarrow> ''malformed rpc response: '' @ s
   | RpcAbi a \<Rightarrow> ''rpc abi decode error: '' @ abi_error_display a
   | Refused c \<Rightarrow> ''rpc response refused: '' @ show_capped c)"

section \<open>Requests and answers\<close>

text \<open>The JSON literals the code writes.\<close>

datatype json_lit = LStr string | LBool bool | LArr "json_lit list" | LObj "(string \<times> json_lit) list"

record rpc_request =
  rq_jsonrpc :: string
  rq_id :: u64
  rq_method :: string
  rq_params :: json_lit

definition build_request :: "u64 \<Rightarrow> string \<Rightarrow> json_lit \<Rightarrow> rpc_request" where
  "build_request i m params =
     \<lparr>rq_jsonrpc = ''2.0'', rq_id = i, rq_method = m, rq_params = params\<rparr>"

definition rpc_error_of :: "'v json_ops \<Rightarrow> 'v \<Rightarrow> 'h rpc_error" where
  "rpc_error_of J err =
     RpcCode (case Option.bind (j_get J err ''code'') (j_i64 J) of Some c \<Rightarrow> c | None \<Rightarrow> 0)
       (case Option.bind (j_get J err ''message'') (j_str J) of Some m \<Rightarrow> m | None \<Rightarrow> ''unknown'')"

definition parse_result_string :: "'v json_ops \<Rightarrow> 'v \<Rightarrow> 'h rpc_error + string" where
  "parse_result_string J resp =
     (case j_get J resp ''error'' of
        Some err \<Rightarrow> Inl (rpc_error_of J err)
      | None \<Rightarrow>
          (case Option.bind (j_get J resp ''result'') (j_str J) of
             Some s \<Rightarrow> Inr s
           | None \<Rightarrow> Inl (MalformedResponse (j_show J resp))))"

definition parse_result_value :: "'v json_ops \<Rightarrow> 'v \<Rightarrow> 'h rpc_error + 'v" where
  "parse_result_value J resp =
     (case j_get J resp ''error'' of
        Some err \<Rightarrow> Inl (rpc_error_of J err)
      | None \<Rightarrow> ok_or (MalformedResponse (j_show J resp)) (j_get J resp ''result''))"

definition eth_call_params :: "address \<Rightarrow> bytes \<Rightarrow> json_lit" where
  "eth_call_params to data =
     LArr [LObj [(''to'', LStr (hex_encode to)), (''data'', LStr (hex_encode data))], LStr ''latest'']"

definition parse_quantity :: "string \<Rightarrow> 'h rpc_error + u64" where
  "parse_quantity s =
     rbind (ok_or (MalformedResponse s) (strip_prefix ''0x'' s)) (\<lambda>stripped.
     rbind (ok_or (MalformedResponse s) (parse_uint 16 (2 ^ 64) stripped)) (\<lambda>n. Inr (of_nat n)))"

section \<open>The client\<close>

record rpc_client =
  rc_url :: string
  rc_http :: http_client
  rc_next_id :: u64

definition rpc_client_new :: "env \<Rightarrow> string \<Rightarrow> outbound_url_error + rpc_client" where
  "rpc_client_new env url = rbind (validate_outbound_url env url) (\<lambda>_.
     Inr \<lparr>rc_url = url, rc_http = timed_http_client env, rc_next_id = 1\<rparr>)"

text \<open>The world a client acts in: environment, JSON library and transport.\<close>

record ('v, 'h) rpc_world =
  rw_env :: env
  rw_json :: "'v json_ops"
  rw_send :: "string \<Rightarrow> rpc_request \<Rightarrow> 'h + 'h http_response"

definition post_capped :: "('v, 'h) rpc_world \<Rightarrow> rpc_client \<Rightarrow> rpc_request \<Rightarrow> 'h rpc_error + 'v" where
  "post_capped w c req =
     rbind (map_err RpcHttp (rw_send w (rc_url c) req)) (\<lambda>resp.
     rbind (map_err Refused (read_body_capped resp (max_response_bytes (rw_env w)))) (\<lambda>body.
       map_err MalformedResponse (j_parse (rw_json w) body)))"

definition next_id :: "rpc_client \<Rightarrow> u64 \<times> rpc_client" where
  "next_id c = (rc_next_id c, c\<lparr>rc_next_id := rc_next_id c + 1\<rparr>)"

definition call_raw ::
    "('v, 'h) rpc_world \<Rightarrow> string \<Rightarrow> json_lit \<Rightarrow> rpc_client \<Rightarrow> ('h rpc_error + string) \<times> rpc_client" where
  "call_raw w m params c =
     (let (i, c') = next_id c
      in (rbind (post_capped w c (build_request i m params)) (parse_result_string (rw_json w)), c'))"

definition call_raw_value ::
    "('v, 'h) rpc_world \<Rightarrow> string \<Rightarrow> json_lit \<Rightarrow> rpc_client \<Rightarrow> ('h rpc_error + 'v) \<times> rpc_client" where
  "call_raw_value w m params c =
     (let (i, c') = next_id c
      in (rbind (post_capped w c (build_request i m params)) (parse_result_value (rw_json w)), c'))"

definition eth_call ::
    "('v, 'h) rpc_world \<Rightarrow> address \<Rightarrow> bytes \<Rightarrow> rpc_client \<Rightarrow> ('h rpc_error + bytes) \<times> rpc_client" where
  "eth_call w to data c =
     (let (r, c') = call_raw w ''eth_call'' (eth_call_params to data) c
      in (rbind r (\<lambda>s. map_err RpcAbi (hex_decode s)), c'))"

definition eth_get_code ::
    "('v, 'h) rpc_world \<Rightarrow> address \<Rightarrow> rpc_client \<Rightarrow> ('h rpc_error + bytes) \<times> rpc_client" where
  "eth_get_code w addr c =
     (let (r, c') = call_raw w ''eth_getCode'' (LArr [LStr (hex_encode addr), LStr ''latest'']) c
      in (rbind r (\<lambda>s. map_err RpcAbi (hex_decode s)), c'))"

definition quantity ::
    "('v, 'h) rpc_world \<Rightarrow> string \<Rightarrow> rpc_client \<Rightarrow> ('h rpc_error + u64) \<times> rpc_client" where
  "quantity w m c = (let (r, c') = call_raw w m (LArr []) c in (rbind r parse_quantity, c'))"

definition eth_chain_id :: "('v, 'h) rpc_world \<Rightarrow> rpc_client \<Rightarrow> ('h rpc_error + u64) \<times> rpc_client" where
  "eth_chain_id w c = quantity w ''eth_chainId'' c"

definition eth_block_number :: "('v, 'h) rpc_world \<Rightarrow> rpc_client \<Rightarrow> ('h rpc_error + u128) \<times> rpc_client" where
  "eth_block_number w c =
     (let (r, c') = quantity w ''eth_blockNumber'' c in (rbind r (\<lambda>n. Inr (ucast n)), c'))"

fun hex_nat :: "nat \<Rightarrow> string" where
  "hex_nat n = (if n < 16 then [digit_char n] else hex_nat (n div 16) @ [digit_char (n mod 16)])"

declare hex_nat.simps [simp del]

definition eth_block_timestamp ::
    "('v, 'h) rpc_world \<Rightarrow> u128 \<Rightarrow> rpc_client \<Rightarrow> ('h rpc_error + u64) \<times> rpc_client" where
  "eth_block_timestamp w block c =
     (let (r, c') = call_raw_value w ''eth_getBlockByNumber''
            (LArr [LStr (''0x'' @ hex_nat (unat block)), LBool False]) c
      in (rbind r (\<lambda>v.
          rbind (ok_or (MalformedResponse (j_show (rw_json w) v))
                   (Option.bind (j_get (rw_json w) v ''timestamp'') (j_str (rw_json w)))) parse_quantity), c'))"

definition secs_per_block ::
    "('v, 'h) rpc_world \<Rightarrow> u128 \<Rightarrow> rpc_client \<Rightarrow> ('h rpc_error + u64 option) \<times> rpc_client" where
  "secs_per_block w sample c =
     (if sample = 0 then (Inr None, c)
      else case eth_block_number w c of
        (Inl e, c) \<Rightarrow> (Inl e, c)
      | (Inr head, c) \<Rightarrow>
          if head < sample then (Inr None, c)
          else (case eth_block_timestamp w head c of
            (Inl e, c) \<Rightarrow> (Inl e, c)
          | (Inr t_head, c) \<Rightarrow>
              (case eth_block_timestamp w (head - sample) c of
                (Inl e, c) \<Rightarrow> (Inl e, c)
              | (Inr t_prev, c) \<Rightarrow>
                  if t_head \<le> t_prev then (Inr None, c)
                  else (Inr (Some (max ((t_head - t_prev) div ucast sample) 1)), c))))"

section \<open>Quantities\<close>

lemma hex_nat_digits: "list_all (is_digit 16) (hex_nat n) \<and> digits_value 16 (hex_nat n) = n"
proof (induction n rule: hex_nat.induct)
  case (1 n)
  show ?case
  proof (cases "n < 16")
    case True
    then show ?thesis
      by (subst (1 2) hex_nat.simps) (simp add: is_digit_def digits_value_def digit_value_digit_char)
  next
    case False
    have "digit_value 16 (digit_char (n mod 16)) = Some (n mod 16)"
      by (rule digit_value_digit_char) simp_all
    then have "is_digit 16 (digit_char (n mod 16))" "the (digit_value 16 (digit_char (n mod 16))) = n mod 16"
      by (simp_all add: is_digit_def)
    with 1 [OF False] False show ?thesis
      by (subst (1 2) hex_nat.simps) (simp add: digits_value_snoc)
  qed
qed

lemma hex_nat_nonempty [simp]: "hex_nat n \<noteq> []"
  by (subst hex_nat.simps) simp

lemma hex_nat_plus: "hd (hex_nat n) \<noteq> CHR ''+''"
proof -
  have "is_digit 16 (hd (hex_nat n))"
    using hex_nat_digits [of n] hex_nat_nonempty [of n] by (metis list.set_sel(1) list_all_iff)
  then show ?thesis by (auto simp: is_digit_def digit_value_def)
qed

lemma parse_quantity_hex: "n < 2 ^ 64 \<Longrightarrow> parse_quantity (''0x'' @ hex_nat n) = Inr (of_nat n)"
proof -
  assume n: "n < 2 ^ 64"
  have "parse_uint 16 (2 ^ 64) (hex_nat n) = Some n"
    using hex_nat_digits [of n] hex_nat_plus [of n] n
    by (cases "hex_nat n") (auto simp: parse_uint_def Let_def)
  then show ?thesis by (simp add: parse_quantity_def)
qed

text \<open>The block heights the client reports fit 64 bits, so narrowing the sample size cannot give
  zero and the division is safe.\<close>

lemma eth_block_number_bound: "fst (eth_block_number w c) = Inr head \<Longrightarrow> unat head < 2 ^ 64"
proof -
  assume "fst (eth_block_number w c) = Inr head"
  then obtain m :: u64 where "head = ucast m"
    by (auto simp: eth_block_number_def Let_def split: prod.splits)
  then show ?thesis using unat_lt_2p [of m] by (simp add: unat_ucast_up)
qed

lemma secs_per_block_some:
  assumes "fst (secs_per_block w sample c) = Inr (Some n)"
  shows "\<exists>head c1 t_head c2 t_prev.
    eth_block_number w c = (Inr head, c1) \<and> eth_block_timestamp w head c1 = (Inr t_head, c2) \<and>
    fst (eth_block_timestamp w (head - sample) c2) = Inr t_prev \<and>
    0 < unat sample \<and> unat sample \<le> unat head \<and> unat head < 2 ^ 64 \<and> t_prev < t_head \<and>
    unat n = max 1 ((unat t_head - unat t_prev) div unat sample)"
proof -
  obtain head c1 t_head c2 t_prev where steps: "eth_block_number w c = (Inr head, c1)"
    "eth_block_timestamp w head c1 = (Inr t_head, c2)"
    "fst (eth_block_timestamp w (head - sample) c2) = Inr t_prev"
    "sample \<noteq> 0" "sample \<le> head" "t_prev < t_head" "n = max ((t_head - t_prev) div ucast sample) 1"
    using assms by (fastforce simp: secs_per_block_def not_less not_le split: if_splits prod.splits sum.splits)
  have head: "unat head < 2 ^ 64" using eth_block_number_bound [of w c head] steps(1) by simp
  then have small: "unat sample < 2 ^ 64" using steps(5) by (simp add: word_le_nat_alt)
  have "unat (ucast sample :: u64) = unat sample"
    using small by (simp add: unsigned_ucast_eq take_bit_nat_eq_self)
  moreover have "unat (t_head - t_prev) = unat t_head - unat t_prev"
    using steps(6) by (simp add: unat_sub)
  ultimately have "unat n = max 1 ((unat t_head - unat t_prev) div unat sample)"
    unfolding steps(7) by (simp add: max_def word_le_nat_alt unat_word_div)
  then show ?thesis using steps head by (auto simp: word_le_nat_alt unat_gt_0)
qed

end
