(* ===== verification/Runtime.thy ===== *)
theory Runtime
  imports Models Rpc
begin

text \<open>
  The module \<open>executor::runtime\<close> (\<open>crates/executor/src/runtime.rs\<close>), the adapter to a resident
  inference server. The HTTP POST and the JSON reader are parameters.
\<close>

datatype inference_error = Backend string | ModelMissing | ModelMismatch word32 word32

definition inference_error_display :: "inference_error \<Rightarrow> string" where
  "inference_error_display e = (case e of
     Backend m \<Rightarrow> ''inference backend error: '' @ m
   | ModelMissing \<Rightarrow> ''provisioned model file is missing''
   | ModelMismatch want seen \<Rightarrow> ''resident-model mismatch: backend serves '' @ hex32 want @
       '' but job provisioned '' @ hex32 seen)"

definition LLAMA_FIXED_SEED :: u32 where "LLAMA_FIXED_SEED = 40204"

record llama_server =
  ls_base_url :: string
  ls_client :: http_client
  ls_resident_model_hash :: "word32 option"

definition llama_build :: "env \<Rightarrow> string \<Rightarrow> word32 option \<Rightarrow> outbound_url_error + llama_server" where
  "llama_build env base_url resident = rbind (validate_outbound_url env base_url) (\<lambda>_.
     Inr \<lparr>ls_base_url = base_url, ls_client = timed_http_client env,
       ls_resident_model_hash = resident\<rparr>)"

definition llama_new :: "env \<Rightarrow> string \<Rightarrow> outbound_url_error + llama_server" where
  "llama_new env base_url = llama_build env base_url None"

definition llama_with_resident_model :: "env \<Rightarrow> string \<Rightarrow> word32 \<Rightarrow> outbound_url_error + llama_server" where
  "llama_with_resident_model env base_url h = llama_build env base_url (Some h)"

text \<open>The JSON body of a completion; the temperature is the literal zero.\<close>

record completion_request =
  cr_prompt :: string
  cr_n_predict :: nat
  cr_temperature_zero :: bool
  cr_seed :: u32

definition llama_run ::
    "'v json_ops \<Rightarrow> (nat \<Rightarrow> string) \<Rightarrow> env \<Rightarrow>
       (string \<Rightarrow> completion_request \<Rightarrow> string + string http_response) \<Rightarrow> (string \<Rightarrow> bool) \<Rightarrow>
       llama_server \<Rightarrow> provisioned_model \<Rightarrow> bytes \<Rightarrow> inference_error + bytes" where
  "llama_run J show_status env post path_exists srv model input =
     (if \<not> path_exists (pm_path model) then Inl ModelMissing
      else if (\<exists>h \<in> set_option (ls_resident_model_hash srv). h \<noteq> pm_model_hash model)
      then Inl (ModelMismatch (the (ls_resident_model_hash srv)) (pm_model_hash model))
      else
        let body = \<lparr>cr_prompt = from_utf8_lossy input, cr_n_predict = 512,
              cr_temperature_zero = True, cr_seed = LLAMA_FIXED_SEED\<rparr>;
            url = trim_end_slashes (ls_base_url srv) @ ''/completion''
        in rbind (map_err Backend (post url body)) (\<lambda>resp.
           if \<not> (200 \<le> resp_status resp \<and> resp_status resp < 300)
           then Inl (Backend (''server status '' @ show_status (resp_status resp)))
           else rbind (map_err (\<lambda>e. Backend (capped_read_error_display show_status (\<lambda>h. h) e))
                  (read_body_capped resp (max_response_bytes env))) (\<lambda>body.
             rbind (map_err Backend (j_parse J body)) (\<lambda>v.
             rbind (ok_or (Backend ''response had no `content` field'')
               (Option.bind (j_get J v ''content'') (j_str J))) (\<lambda>content.
               Inr (bytes_of_string content))))))"

section \<open>What a served output means\<close>

lemma llama_run_Inr:
  assumes "llama_run J sh env post path_exists srv model input = Inr out"
  shows "path_exists (pm_path model) \<and>
    (\<forall>h \<in> set_option (ls_resident_model_hash srv). h = pm_model_hash model) \<and>
    (\<exists>resp body v. post (trim_end_slashes (ls_base_url srv) @ ''/completion'')
        \<lparr>cr_prompt = from_utf8_lossy input, cr_n_predict = 512, cr_temperature_zero = True,
         cr_seed = LLAMA_FIXED_SEED\<rparr> = Inr resp \<and>
      read_body_capped resp (max_response_bytes env) = Inr body \<and> j_parse J body = Inr v \<and>
      Option.bind (j_get J v ''content'') (j_str J) = Some (string_of_bytes out))"
  using assms by (auto simp: llama_run_def Let_def split: if_splits)

text \<open>A model is never served under another's name: an inference result is only ever returned
  for a model whose verified file exists and, when the operator declared the resident model, whose
  hash is the declared one; it is the content of a capped answer to a greedy request with the fixed
  seed for this input.\<close>

theorem served_model_bound:
  assumes "llama_run J sh env post path_exists srv model input = Inr out"
  shows "path_exists (pm_path model) \<and>
    (\<forall>h \<in> set_option (ls_resident_model_hash srv). h = pm_model_hash model) \<and>
    (\<exists>resp body v. post (trim_end_slashes (ls_base_url srv) @ ''/completion'')
        \<lparr>cr_prompt = from_utf8_lossy input, cr_n_predict = 512, cr_temperature_zero = True,
         cr_seed = LLAMA_FIXED_SEED\<rparr> = Inr resp \<and>
      read_body_capped resp (max_response_bytes env) = Inr body \<and> j_parse J body = Inr v \<and>
      Option.bind (j_get J v ''content'') (j_str J) = Some (string_of_bytes out))"
  using assms by (rule llama_run_Inr)

definition sample_json :: "string json_ops" where
  "sample_json = \<lparr>j_parse = (\<lambda>bs. Inr (string_of_bytes bs)), j_get = (\<lambda>v _. Some v),
     j_str = Some, j_i64 = (\<lambda>_. None), j_show = (\<lambda>v. v)\<rparr>"

definition sample_server :: llama_server where
  "sample_server = \<lparr>ls_base_url = [], ls_client = timed_http_client (\<lambda>_. None), ls_resident_model_hash = Some [7]\<rparr>"

definition sample_model :: provisioned_model where
  "sample_model = \<lparr>pm_model_hash = [7], pm_path = [], pm_bytes_len = 0, pm_integrity = Sha256Verified\<rparr>"

lemma sample_run:
  "llama_run sample_json (\<lambda>_. []) (\<lambda>_. None)
     (\<lambda>_ _. Inr \<lparr>resp_status = 200, resp_content_length = None, resp_chunks = []\<rparr>) (\<lambda>_. True)
     sample_server sample_model [] = Inr []"
  by (simp add: llama_run_def sample_json_def sample_server_def sample_model_def read_body_capped_def
      is_redirection_def string_of_bytes_def bytes_of_string_def)

lemma served_model_bound_witness:
  "ls_resident_model_hash sample_server = Some (pm_model_hash sample_model)"
  using served_model_bound [OF sample_run] by (simp add: sample_server_def)

end
