(* ===== verification/Profiler.thy ===== *)
theory Profiler
  imports Prelude Complex_Main "HOL-Library.Log_Nat"
begin

text \<open>
  The module \<open>node_agent::profiler\<close> (\<open>crates/node-agent/src/profiler.rs\<close>): the moving average of a
  model's measured execution times, which feeds the next bid. Rust's \<open>f64\<close> arithmetic is written out
  for the values the profiler has, which are finite and not negative (\<open>f64_value\<close> stays below
  \<open>2 ^ 65\<close>): \<open>F64 m e\<close> is the double \<open>m * 2 ^ e\<close>, and every operation rounds its exact result to 53 bits
  (fewer below the normal range), to nearest, ties to even.
\<close>

section \<open>Doubles\<close>

datatype f64 = F64 nat int

definition shift_even :: "nat \<Rightarrow> nat \<Rightarrow> nat" where
  "shift_even m s =
     (let q = m div 2 ^ s; r = m mod 2 ^ s
      in if 2 ^ s < 2 * r \<or> 2 * r = 2 ^ s \<and> odd q then q + 1 else q)"

definition round_f64 :: "nat \<Rightarrow> int \<Rightarrow> f64" where
  "round_f64 m e =
     (let s = max (int (floorlog 2 m) - 53) (- 1074 - e)
      in if s \<le> 0 then F64 m e else F64 (shift_even m (nat s)) (e + s))"

definition f64_of_u64 :: "u64 \<Rightarrow> f64" where
  "f64_of_u64 n = round_f64 (unat n) 0"

fun f64_mul :: "f64 \<Rightarrow> f64 \<Rightarrow> f64" where
  "f64_mul (F64 m e) (F64 n d) = round_f64 (m * n) (e + d)"

fun f64_add :: "f64 \<Rightarrow> f64 \<Rightarrow> f64" where
  "f64_add (F64 m e) (F64 n d) =
     (let k = min e d in round_f64 (m * 2 ^ nat (e - k) + n * 2 ^ nat (d - k)) k)"

text \<open>The difference, for a second argument that is not the larger one.\<close>

fun f64_sub :: "f64 \<Rightarrow> f64 \<Rightarrow> f64" where
  "f64_sub (F64 m e) (F64 n d) =
     (let k = min e d in round_f64 (m * 2 ^ nat (e - k) - n * 2 ^ nat (d - k)) k)"

text \<open>\<open>x.round() as u64\<close>: to the nearest integer, ties away from zero, saturating.\<close>

fun f64_round_u64 :: "f64 \<Rightarrow> u64" where
  "f64_round_u64 (F64 m e) =
     (let v = (if 0 \<le> e then m * 2 ^ nat e else (2 * m + 2 ^ nat (- e)) div 2 ^ nat (1 - e))
      in if v < 2 ^ 64 then of_nat v else - 1)"

section \<open>The profiler\<close>

text \<open>The double nearest to 0.3.\<close>

definition ALPHA :: f64 where "ALPHA = F64 5404319552844595 (- 54)"

lemma ALPHA_nearest: "2 * \<bar>10 * 5404319552844595 - 3 * 2 ^ 54 :: int\<bar> \<le> 10"
  by simp

record model_profiler =
  mp_node_pflops_1e18 :: u128
  mp_default_exec_secs :: u64
  mp_profiles :: "bytes \<Rightarrow> f64 option"

definition profiler_new :: "u128 \<Rightarrow> u64 \<Rightarrow> model_profiler" where
  "profiler_new pflops secs =
     \<lparr>mp_node_pflops_1e18 = pflops, mp_default_exec_secs = secs, mp_profiles = (\<lambda>_. None)\<rparr>"

definition f64_blend :: "f64 \<Rightarrow> f64 \<Rightarrow> f64" where
  "f64_blend x entry = f64_add (f64_mul ALPHA x) (f64_mul (f64_sub (F64 1 0) ALPHA) entry)"

definition profiler_record :: "bytes \<Rightarrow> u64 \<Rightarrow> model_profiler \<Rightarrow> model_profiler" where
  "profiler_record h secs p =
     (let entry = (case mp_profiles p h of Some e \<Rightarrow> e | None \<Rightarrow> f64_of_u64 secs)
      in p\<lparr>mp_profiles := (mp_profiles p)(h \<mapsto> f64_blend (f64_of_u64 secs) entry)\<rparr>)"

definition profiler_estimate :: "bytes \<Rightarrow> model_profiler \<Rightarrow> u128 \<times> u64" where
  "profiler_estimate h p =
     (let exec_secs = max (case mp_profiles p h of Some e \<Rightarrow> f64_round_u64 e
                           | None \<Rightarrow> mp_default_exec_secs p) 1;
          pflop_hours = sat_mul (mp_node_pflops_1e18 p) (ucast exec_secs) div 3600
      in (pflop_hours, exec_secs))"

lemma estimate_positive: "1 \<le> snd (profiler_estimate h p)"
  by (simp add: profiler_estimate_def Let_def)

lemma estimate_unprofiled: "mp_profiles p h = None \<Longrightarrow> 1 \<le> mp_default_exec_secs p \<Longrightarrow>
    snd (profiler_estimate h p) = mp_default_exec_secs p"
  by (simp add: profiler_estimate_def Let_def max_def)

section \<open>The error of a rounding\<close>

definition f64_tiny :: real where "f64_tiny = inverse (2 ^ 1074) / 2"

lemma f64_tiny_pos: "0 < f64_tiny"
  by (simp add: f64_tiny_def)

fun f64_value :: "f64 \<Rightarrow> real" where
  "f64_value (F64 m e) = real m * 2 powi e"

lemma shift_even_error: "\<bar>real (shift_even m s) * 2 ^ s - real m\<bar> \<le> 2 ^ s / 2"
proof -
  define q where "q = m div 2 ^ s"
  define r where "r = m mod 2 ^ s"
  have "m = q * 2 ^ s + r" unfolding q_def r_def by (rule div_mult_mod_eq [symmetric])
  then have m: "real m = real q * 2 ^ s + real r" by simp
  have "r < 2 ^ s" unfolding r_def by simp
  then have r: "real r < 2 ^ s" using of_nat_less_iff [of r "2 ^ s", where ?'a = real] by simp
  show ?thesis
  proof (cases "2 ^ s < 2 * r \<or> 2 * r = 2 ^ s \<and> odd q")
    case True
    then have "2 ^ s \<le> 2 * r" by auto
    then have "2 ^ s \<le> 2 * real r" using of_nat_mono [of "2 ^ s" "2 * r", where ?'a = real] by simp
    moreover have "shift_even m s = q + 1" using True by (auto simp: shift_even_def q_def r_def Let_def)
    ultimately show ?thesis using m r by (simp add: distrib_right)
  next
    case False
    then have "2 * r \<le> 2 ^ s" by auto
    then have "2 * real r \<le> 2 ^ s" using of_nat_mono [of "2 * r" "2 ^ s", where ?'a = real] by simp
    moreover have "shift_even m s = q"
      using False unfolding shift_even_def q_def r_def Let_def by (rule if_not_P)
    ultimately show ?thesis using m by simp
  qed
qed

lemma powi_split: "0 \<le> (s :: int) \<Longrightarrow> (2 :: real) powi (e + s) = 2 powi e * 2 ^ nat s"
  by (simp add: power_int_add) (simp add: power_int_def)

lemma round_f64_error:
  "\<bar>f64_value (round_f64 m e) - real m * 2 powi e\<bar> \<le> real m * 2 powi e / 2 ^ 53 + f64_tiny"
proof -
  define s where "s = max (int (floorlog 2 m) - 53) (- 1074 - e)"
  show ?thesis
  proof (cases "s \<le> 0")
    case True
    then show ?thesis using f64_tiny_pos by (simp add: round_f64_def Let_def s_def [symmetric])
  next
    case False
    define p where "p = (2 :: real) powi e"
    have p: "0 < p" by (simp add: p_def)
    have v: "f64_value (round_f64 m e) = real (shift_even m (nat s)) * 2 ^ nat s * p"
      using False by (simp add: round_f64_def Let_def s_def [symmetric] powi_split p_def)
    have "f64_value (round_f64 m e) - real m * p = (real (shift_even m (nat s)) * 2 ^ nat s - real m) * p"
      by (simp add: v left_diff_distrib)
    then have "\<bar>f64_value (round_f64 m e) - real m * p\<bar> = \<bar>real (shift_even m (nat s)) * 2 ^ nat s - real m\<bar> * p"
      using p by (simp add: abs_mult)
    also have "\<dots> \<le> 2 ^ nat s / 2 * p"
      using p by (intro mult_right_mono shift_even_error) simp
    finally have err: "\<bar>f64_value (round_f64 m e) - real m * p\<bar> \<le> 2 ^ nat s / 2 * p" .
    have "2 ^ nat s / 2 * p \<le> real m * p / 2 ^ 53 + f64_tiny"
    proof (cases "s = int (floorlog 2 m) - 53")
      case True
      then have n: "nat s + 53 = floorlog 2 m" "0 < m" using False by (auto simp: floorlog_def split: if_splits)
      then have "2 ^ (floorlog 2 m - 1) \<le> m" using floorlog_bounds [of m 2] by simp
      moreover have "floorlog 2 m - 1 = nat s + 52" using n by simp
      ultimately have "(2 :: nat) ^ (nat s + 52) \<le> m" by simp
      then have "(2 :: real) ^ (nat s + 52) \<le> real m"
        using of_nat_mono [of "2 ^ (nat s + 52)" m, where ?'a = real] by simp
      then have "2 ^ nat s / 2 \<le> real m / 2 ^ 53" by (simp add: power_add)
      then have "2 ^ nat s / 2 * p \<le> real m / 2 ^ 53 * p" using p by (intro mult_right_mono) simp_all
      also have "\<dots> = real m * p / 2 ^ 53" by (rule times_divide_eq_left)
      also have "\<dots> \<le> real m * p / 2 ^ 53 + f64_tiny" by (rule less_imp_le) (simp add: f64_tiny_pos)
      finally show ?thesis .
    next
      case False
      then have s: "e + s = - 1074" by (auto simp: s_def)
      have "2 ^ nat s * p = 2 powi (e + s)" using \<open>\<not> s \<le> 0\<close> by (simp add: powi_split p_def)
      also have "\<dots> = inverse (2 ^ 1074)" by (simp only: s power_int_minus power_int_numeral)
      finally have tiny: "2 ^ nat s * p = inverse (2 ^ 1074)" .
      have "2 ^ nat s / 2 * p = f64_tiny" unfolding f64_tiny_def tiny [symmetric] by simp
      moreover have "0 \<le> real m * p / 2 ^ 53" using p by simp
      ultimately show ?thesis by linarith
    qed
    then show ?thesis using err by (simp add: p_def)
  qed
qed

lemma f64_value_nonneg: "0 \<le> f64_value x"
  by (cases x) simp

lemma f64_mul_error:
  "\<bar>f64_value (f64_mul x y) - f64_value x * f64_value y\<bar> \<le> f64_value x * f64_value y / 2 ^ 53 + f64_tiny"
proof (cases x; cases y)
  fix m e n d assume xy: "x = F64 m e" "y = F64 n d"
  have "f64_value x * f64_value y = real (m * n) * 2 powi (e + d)" by (simp add: xy power_int_add)
  then show ?thesis using round_f64_error [of "m * n" "e + d"] by (simp only: xy f64_mul.simps)
qed

lemma powi_lower: "k \<le> e \<Longrightarrow> real (m * 2 ^ nat (e - k)) * 2 powi k = real m * 2 powi e"
  using powi_split [of "e - k" k] by simp

lemma f64_add_error:
  "\<bar>f64_value (f64_add x y) - (f64_value x + f64_value y)\<bar> \<le> (f64_value x + f64_value y) / 2 ^ 53 + f64_tiny"
proof (cases x; cases y)
  fix m e n d assume xy: "x = F64 m e" "y = F64 n d"
  define k where "k = min e d"
  have "f64_value x + f64_value y = real (m * 2 ^ nat (e - k)) * 2 powi k + real (n * 2 ^ nat (d - k)) * 2 powi k"
    by (simp only: xy f64_value.simps powi_lower k_def min.cobounded1 min.cobounded2)
  also have "\<dots> = real (m * 2 ^ nat (e - k) + n * 2 ^ nat (d - k)) * 2 powi k"
    by (simp only: of_nat_add distrib_right)
  finally show ?thesis
    using round_f64_error [of "m * 2 ^ nat (e - k) + n * 2 ^ nat (d - k)" k]
    by (simp only: xy f64_add.simps Let_def k_def)
qed

text \<open>A \<open>u64\<close> below \<open>2 ^ 53\<close> is a double.\<close>

lemma f64_of_u64_exact: "unat n < 2 ^ 53 \<Longrightarrow> f64_value (f64_of_u64 n) = real (unat n)"
  using floorlog_leI [of "unat n" 2 53] by (simp add: f64_of_u64_def round_f64_def Let_def)

lemma f64_of_u64_error: "\<bar>f64_value (f64_of_u64 n) - real (unat n)\<bar> \<le> real (unat n) / 2 ^ 53 + f64_tiny"
  using round_f64_error [of "unat n" 0] by (simp only: f64_of_u64_def power_int_0_right mult_1_right)

lemma one_minus_ALPHA: "f64_sub (F64 1 0) ALPHA = F64 6305039478318694 (- 53)"
proof -
  have "floorlog 2 12610078956637389 = 54"
    by (rule antisym) (simp_all add: floorlog_le_iff floorlog_geI)
  then show ?thesis by (simp add: ALPHA_def round_f64_def shift_even_def Let_def)
qed

section \<open>The average stays between the samples\<close>

lemma f64_tiny_small: "f64_tiny \<le> 1 / 1000"
proof -
  define y where "y = inverse ((2 :: real) ^ 1074)"
  have "(2 :: real) ^ 9 \<le> 2 ^ 1074" by (rule power_increasing) simp_all
  then have "y \<le> inverse (2 ^ 9)" unfolding y_def by (rule le_imp_inverse_le) simp
  then have "y / 2 \<le> 1 / 1000" by simp
  then show ?thesis by (simp only: f64_tiny_def y_def)
qed

lemma f64_value_negative: "f64_value (F64 m (- numeral k)) = real m / 2 ^ numeral k"
  by (simp only: f64_value.simps power_int_minus power_int_numeral divide_inverse)

lemma blend_bounds:
  assumes "lo \<le> f64_value x" "f64_value x \<le> hi" "lo - 2 / 5 \<le> f64_value e" "f64_value e \<le> hi + 2 / 5"
    "0 \<le> lo" "hi \<le> 2 ^ 48"
  shows "lo - 2 / 5 \<le> f64_value (f64_blend x e) \<and> f64_value (f64_blend x e) \<le> hi + 2 / 5"
proof -
  define A where "A = f64_value (f64_mul ALPHA x)"
  define B where "B = f64_value (f64_mul (f64_sub (F64 1 0) ALPHA) e)"
  define X where "X = f64_value x"
  define E where "E = f64_value e"
  define V where "V = f64_value (f64_blend x e)"
  define t where "t = f64_tiny"
  have alpha: "f64_value ALPHA = 5404319552844595 / 18014398509481984"
    by (simp only: ALPHA_def f64_value_negative) simp
  moreover have "f64_value (f64_sub (F64 1 0) ALPHA) = 6305039478318694 / 9007199254740992"
    by (simp only: one_minus_ALPHA f64_value_negative) simp
  ultimately have a: "f64_value ALPHA = 5404319552844595 / 18014398509481984"
    "f64_value (f64_sub (F64 1 0) ALPHA) = 6305039478318694 / 9007199254740992" .
  have u: "(2 :: real) ^ 53 = 9007199254740992" by simp
  have A: "\<bar>A - 5404319552844595 / 18014398509481984 * X\<bar> \<le>
      5404319552844595 / 18014398509481984 * X / 9007199254740992 + t"
    using f64_mul_error [of ALPHA x] by (simp only: A_def X_def a u t_def)
  have B: "\<bar>B - 6305039478318694 / 9007199254740992 * E\<bar> \<le>
      6305039478318694 / 9007199254740992 * E / 9007199254740992 + t"
    using f64_mul_error [of "f64_sub (F64 1 0) ALPHA" e] by (simp only: B_def E_def a u t_def)
  have V: "\<bar>V - 1 * (A + B)\<bar> \<le> 1 * (A + B) / 9007199254740992 + t"
    using f64_add_error by (simp only: V_def f64_blend_def A_def B_def u t_def mult_1)
  have spread: "(c - c / d) * w - t \<le> v" "v \<le> (c + c / d) * w + t"
    if "\<bar>v - c * w\<bar> \<le> c * w / d + t" for v c w d
    using that by (simp_all add: algebra_simps abs_le_iff)
  have t: "0 \<le> t" "t \<le> 1 / 1000" using less_imp_le [OF f64_tiny_pos] f64_tiny_small by (auto simp: t_def)
  have nn: "0 \<le> X" "0 \<le> E" by (simp_all add: X_def E_def f64_value_nonneg)
  have as: "lo \<le> X" "X \<le> hi" "lo - 2 / 5 \<le> E" "E \<le> hi + 2 / 5" "0 \<le> lo" "hi \<le> 281474976710656"
    using assms by (simp_all add: X_def E_def)
  note bounds = spread [OF A] spread [OF B] spread [OF V]
  have "lo - 2 / 5 \<le> V" using bounds as nn t by (simp add: field_simps)
  moreover have "V \<le> hi + 2 / 5" using bounds as nn t by (simp add: field_simps)
  ultimately show ?thesis by (simp add: V_def)
qed

lemma rounded_between:
  assumes "real lo - 2 / 5 \<le> f64_value x" "f64_value x \<le> real hi + 2 / 5" "hi < 2 ^ 64"
  shows "lo \<le> unat (f64_round_u64 x) \<and> unat (f64_round_u64 x) \<le> hi"
proof (cases x)
  case (F64 m e)
  define v where "v = (if 0 \<le> e then m * 2 ^ nat e else (2 * m + 2 ^ nat (- e)) div 2 ^ nat (1 - e))"
  have "lo \<le> v \<and> v \<le> hi"
  proof (cases "0 \<le> e")
    case True
    then have "f64_value x = real v" using powi_split [of e 0] by (simp add: v_def F64)
    then show ?thesis using assms(1,2) by linarith
  next
    case False
    define k where "k = nat (- e)"
    have e: "e = - int k" "nat (1 - e) = Suc k" using False by (auto simp: k_def)
    have v: "v = (2 * m + 2 ^ k) div 2 ^ Suc k" using False by (simp only: v_def if_False e(2) k_def [symmetric])
    have "f64_value x = real m / 2 ^ k" by (simp add: F64 e(1) power_int_minus divide_inverse)
    then have b: "(real lo - 2 / 5) * 2 ^ k \<le> real m" "real m \<le> (real hi + 2 / 5) * 2 ^ k"
      using assms(1,2) by (simp_all add: pos_le_divide_eq pos_divide_le_eq)
    define P where "P = (2 :: real) ^ k"
    have p: "0 < P" by (simp add: P_def)
    have b: "real lo * P \<le> real m + 2 / 5 * P" "real m \<le> real hi * P + 2 / 5 * P"
      using b by (simp_all add: P_def algebra_simps)
    have "2 * (real lo * P) \<le> 2 * real m + P" using b(1) p by linarith
    then have "real (lo * 2 ^ Suc k) \<le> real (2 * m + 2 ^ k)" by (simp add: P_def algebra_simps)
    then have "lo * 2 ^ Suc k \<le> 2 * m + 2 ^ k" by (simp only: of_nat_le_iff)
    moreover have "2 * real m + P < 2 * (real hi * P) + 2 * P" using b(2) p by linarith
    then have "real (2 * m + 2 ^ k) < real (Suc hi * 2 ^ Suc k)" by (simp add: P_def algebra_simps)
    then have "2 * m + 2 ^ k < Suc hi * 2 ^ Suc k" by (simp only: of_nat_less_iff)
    then have "v < Suc hi" unfolding v by (rule less_mult_imp_div_less)
    ultimately show ?thesis unfolding v by (simp add: less_eq_div_iff_mult_less_eq)
  qed
  moreover have "f64_round_u64 x = (if v < 2 ^ 64 then of_nat v else - 1)"
    by (simp add: F64 v_def Let_def)
  ultimately show ?thesis using assms(3) by (auto simp: unat_of_nat take_bit_nat_eq_self)
qed

text \<open>The records of many runs, and those of one model.\<close>

definition profiler_run :: "(bytes \<times> u64) list \<Rightarrow> model_profiler \<Rightarrow> model_profiler" where
  "profiler_run rs p = fold (\<lambda>(h, secs). profiler_record h secs) rs p"

definition samples_of :: "bytes \<Rightarrow> (bytes \<times> u64) list \<Rightarrow> u64 list" where
  "samples_of h rs = map snd (filter (\<lambda>r. fst r = h) rs)"

lemma record_fields [simp]:
  "mp_node_pflops_1e18 (profiler_record h secs p) = mp_node_pflops_1e18 p"
  "mp_default_exec_secs (profiler_record h secs p) = mp_default_exec_secs p"
  "h \<noteq> k \<Longrightarrow> mp_profiles (profiler_record h secs p) k = mp_profiles p k"
  by (simp_all add: profiler_record_def Let_def)

lemma run_fields [simp]:
  "mp_node_pflops_1e18 (profiler_run rs p) = mp_node_pflops_1e18 p"
  "mp_default_exec_secs (profiler_run rs p) = mp_default_exec_secs p"
  by (induction rs arbitrary: p) (simp_all add: profiler_run_def split_beta)

lemma new_fields [simp]:
  "mp_node_pflops_1e18 (profiler_new pflops dflt) = pflops"
  "mp_default_exec_secs (profiler_new pflops dflt) = dflt"
  by (simp_all add: profiler_new_def)

definition profile_within :: "nat \<Rightarrow> nat \<Rightarrow> f64 \<Rightarrow> bool" where
  "profile_within lo hi e \<longleftrightarrow> real lo - 2 / 5 \<le> f64_value e \<and> f64_value e \<le> real hi + 2 / 5"

lemma record_within:
  assumes "\<And>e. mp_profiles p h = Some e \<Longrightarrow> profile_within lo hi e"
    "lo \<le> unat secs" "unat secs \<le> hi" "hi \<le> 2 ^ 48"
  shows "\<exists>e. mp_profiles (profiler_record h secs p) h = Some e \<and> profile_within lo hi e"
proof -
  define n where "n = unat secs"
  have n: "lo \<le> n" "n \<le> hi" using assms(2,3) by (simp_all add: n_def)
  have x: "f64_value (f64_of_u64 secs) = real n"
    unfolding n_def using n(2) assms(4) by (intro f64_of_u64_exact) (simp add: n_def)
  define entry where "entry = (case mp_profiles p h of Some e \<Rightarrow> e | None \<Rightarrow> f64_of_u64 secs)"
  have "profile_within lo hi entry"
    using assms(1) n x by (cases "mp_profiles p h") (auto simp: entry_def profile_within_def)
  moreover have "real hi \<le> 2 ^ 48" using of_nat_mono [OF assms(4), where ?'a = real] by simp
  ultimately have "profile_within lo hi (f64_blend (f64_of_u64 secs) entry)"
    unfolding profile_within_def using n x by (intro blend_bounds) auto
  then show ?thesis by (simp add: profiler_record_def Let_def entry_def)
qed

lemma run_within:
  assumes "list_all (\<lambda>s. lo \<le> unat s \<and> unat s \<le> hi) (samples_of h rs)" "hi \<le> 2 ^ 48"
    "\<And>e. mp_profiles p h = Some e \<Longrightarrow> profile_within lo hi e"
  shows "(\<forall>e. mp_profiles (profiler_run rs p) h = Some e \<longrightarrow> profile_within lo hi e) \<and>
    (samples_of h rs \<noteq> [] \<or> mp_profiles p h \<noteq> None \<longrightarrow> mp_profiles (profiler_run rs p) h \<noteq> None) \<and>
    (samples_of h rs = [] \<longrightarrow> mp_profiles (profiler_run rs p) h = mp_profiles p h)"
  using assms
proof (induction rs arbitrary: p)
  case (Cons r rs)
  obtain k secs where r: "r = (k, secs)" by (cases r)
  have run: "profiler_run (r # rs) p = profiler_run rs (profiler_record k secs p)"
    by (simp add: profiler_run_def r)
  show ?case
  proof (cases "k = h")
    case True
    then have s: "samples_of h (r # rs) = secs # samples_of h rs" by (simp add: samples_of_def r)
    then have "lo \<le> unat secs" "unat secs \<le> hi" using Cons.prems(1) by auto
    then obtain e where "mp_profiles (profiler_record h secs p) h = Some e" "profile_within lo hi e"
      using record_within [OF Cons.prems(3)] Cons.prems(2) by blast
    then show ?thesis using Cons.IH [of "profiler_record h secs p"] Cons.prems(1,2) True s unfolding run
      by auto
  next
    case False
    then have "samples_of h (r # rs) = samples_of h rs" by (simp add: samples_of_def r)
    then show ?thesis using Cons.IH [of "profiler_record k secs p"] Cons.prems False unfolding run by auto
  qed
qed (simp add: profiler_run_def samples_of_def)

section \<open>Properties\<close>

text \<open>C40: The execution time a bid is priced and timed with stays within what the node has measured, in the
  code's unit of whole seconds and never less than one: after any runs of any models, with every measured time of
  this model between \<open>lo\<close> and \<open>hi\<close> seconds (up to \<open>2 ^ 48\<close>, zero included, which is how the
  executor records a run of less than a second) and at least one measurement, the moving average in
  double precision, rounded back, lies between \<open>lo\<close> and \<open>hi\<close>, each raised to one second if it is
  zero; so equal samples give exactly that time, or one second if they are all zero. Before the first
  measurement of the model the configured default stands, whatever other models measured. The estimate
  is never zero, and the work estimate is the time at the configured throughput, saturating.\<close>

theorem estimate_within_samples:
  assumes "list_all (\<lambda>s. lo \<le> unat s \<and> unat s \<le> hi) (samples_of h rs)" "hi \<le> 2 ^ 48"
  shows "profiler_estimate h (profiler_run rs (profiler_new pflops dflt)) = (work, secs) \<Longrightarrow>
    (if samples_of h rs = [] then secs = max dflt 1
     else max lo 1 \<le> unat secs \<and> unat secs \<le> max hi 1) \<and>
    1 \<le> secs \<and> unat work = min (unat pflops * unat secs) (2 ^ 128 - 1) div 3600"
proof -
  assume est: "profiler_estimate h (profiler_run rs (profiler_new pflops dflt)) = (work, secs)"
  let ?p = "profiler_run rs (profiler_new pflops dflt)"
  have w: "(\<forall>e. mp_profiles ?p h = Some e \<longrightarrow> profile_within lo hi e) \<and>
      (samples_of h rs \<noteq> [] \<longrightarrow> mp_profiles ?p h \<noteq> None) \<and>
      (samples_of h rs = [] \<longrightarrow> mp_profiles ?p h = None)"
    using run_within [OF assms, of "profiler_new pflops dflt"] by (simp add: profiler_new_def)
  have r: "lo \<le> unat (f64_round_u64 e) \<and> unat (f64_round_u64 e) \<le> hi" if "profile_within lo hi e" for e
    using that assms(2) by (intro rounded_between) (auto simp: profile_within_def)
  have secs: "secs = max (case mp_profiles ?p h of Some e \<Rightarrow> f64_round_u64 e | None \<Rightarrow> dflt) 1"
    "work = sat_mul pflops (ucast secs) div 3600"
    using est by (auto simp: profiler_estimate_def Let_def split: option.splits)
  have "unat work = min (unat pflops * unat secs) (2 ^ 128 - 1) div 3600"
    by (simp add: secs(2) unat_div unat_simps unat_ucast_up)
  moreover have clamp: "unat (max a 1) = max (unat a) 1" for a :: u64 by (simp add: max_def word_le_nat_alt)
  have "if samples_of h rs = [] then secs = max dflt 1 else max lo 1 \<le> unat secs \<and> unat secs \<le> max hi 1"
  proof (cases "mp_profiles ?p h")
    case (Some e)
    then have "lo \<le> unat (f64_round_u64 e)" "unat (f64_round_u64 e) \<le> hi" "samples_of h rs \<noteq> []"
      using w r by auto
    then show ?thesis using clamp Some by (simp add: secs(1) max.coboundedI1)
  qed (use w secs(1) in auto)
  moreover have "1 \<le> secs" by (simp add: secs(1))
  ultimately show ?thesis by simp
qed

definition sample_runs :: "(bytes \<times> u64) list" where
  "sample_runs = [([3], 100), ([4], 7), ([3], 200)]"

theorem estimate_within_samples_witness:
  "100 \<le> unat (snd (profiler_estimate [3] (profiler_run sample_runs (profiler_new 6000000000000000000 300)))) \<and>
   unat (snd (profiler_estimate [3] (profiler_run sample_runs (profiler_new 6000000000000000000 300)))) \<le> 200"
proof -
  obtain work secs where e: "profiler_estimate [3] (profiler_run sample_runs (profiler_new 6000000000000000000 300)) =
      (work, secs)" by (cases "profiler_estimate [3] (profiler_run sample_runs (profiler_new 6000000000000000000 300))")
  show ?thesis
    using estimate_within_samples [of 100 200 "[3]" sample_runs, OF _ _ e]
    unfolding e by (simp add: samples_of_def sample_runs_def)
qed

text \<open>Runs of less than a second only: the estimate is one second.\<close>

lemma estimate_of_zero_samples:
  assumes "samples_of h rs \<noteq> []" "list_all (\<lambda>s. s = 0) (samples_of h rs)"
  shows "snd (profiler_estimate h (profiler_run rs (profiler_new pflops dflt))) = 1"
proof -
  obtain work secs where e: "profiler_estimate h (profiler_run rs (profiler_new pflops dflt)) = (work, secs)" by fastforce
  have "list_all (\<lambda>s. 0 \<le> unat s \<and> unat s \<le> 0) (samples_of h rs)"
    using assms(2) by (auto simp: list_all_iff)
  then have "profile_within 0 0 f" if "mp_profiles (profiler_run rs (profiler_new pflops dflt)) h = Some f" for f
    using run_within [of 0 0 h rs "profiler_new pflops dflt"] that by (simp add: profiler_new_def)
  then have "unat (f64_round_u64 f) = 0" if "mp_profiles (profiler_run rs (profiler_new pflops dflt)) h = Some f" for f
    using rounded_between [of 0 f 0] that by (simp add: profile_within_def)
  moreover have "mp_profiles (profiler_run rs (profiler_new pflops dflt)) h \<noteq> None"
    using run_within [of 0 0 h rs "profiler_new pflops dflt"] \<open>list_all (\<lambda>s. 0 \<le> unat s \<and> unat s \<le> 0) _\<close> assms(1)
    by (simp add: profiler_new_def)
  ultimately show ?thesis
    using e by (auto simp: profiler_estimate_def Let_def word_le_nat_alt max_def unat_eq_0)
qed

text \<open>The arithmetic, evaluated: 100 and then 200 seconds average to 130.\<close>

lemma floorlog_eval:
  "floorlog 2 (numeral (num.Bit0 w)) = Suc (floorlog 2 (numeral w))"
  "floorlog 2 (numeral (num.Bit1 w)) = Suc (floorlog 2 (numeral w))"
  "floorlog 2 (Suc 0) = 1"
proof -
  show "floorlog 2 (numeral (num.Bit0 w)) = Suc (floorlog 2 (numeral w))"
    using compute_floorlog [of 2 "numeral (num.Bit0 w)"] by simp
  show "floorlog 2 (numeral (num.Bit1 w)) = Suc (floorlog 2 (numeral w))"
    using compute_floorlog [of 2 "numeral (num.Bit1 w)"] by simp
  show "floorlog 2 (Suc 0) = 1" by (simp add: floorlog_def)
qed

lemma sample_average: "snd (profiler_estimate [3] (profiler_run sample_runs (profiler_new 1 300))) = 130"
  by (simp add: profiler_estimate_def profiler_run_def sample_runs_def profiler_record_def profiler_new_def
      f64_blend_def ALPHA_def f64_of_u64_def round_f64_def shift_even_def floorlog_eval one_minus_ALPHA [unfolded ALPHA_def]
      Let_def word_le_nat_alt max_def)

end
