(* ===== verification/Supervision_State.thy ===== *)
theory Supervision_State
  imports Prelude
begin

text \<open>
  The module \<open>supervision::state\<close> (\<open>crates/supervision/src/state.rs\<close>): the shared
  \<open>AgentState\<close> with its pause flag, operator alerts and the queue of unsigned writes that the
  signing surface drains. Every method that changes the state is one definition; \<open>agent_op\<close>
  names the calls, so that a list of operations is any interleaving of the daemon loop and the
  HTTP handlers (each takes the write lock for one call). The clock reading of
  \<open>now_unix_secs\<close> is an argument.
\<close>

datatype lifecycle_state = LIdle | LBidding | LExecuting | LPaused

definition lifecycle_state_str :: "lifecycle_state \<Rightarrow> string" where
  "lifecycle_state_str s = (case s of LIdle \<Rightarrow> ''idle'' | LBidding \<Rightarrow> ''bidding''
     | LExecuting \<Rightarrow> ''executing'' | LPaused \<Rightarrow> ''paused'')"

record health =
  h_state :: lifecycle_state
  h_heartbeat_age_secs :: "u64 option"
  h_active_jobs :: u32
  h_max_concurrent :: u32
  h_reputation_bps :: u32
  h_last_error :: "string option"
  h_alert :: "string option"

record pending_request =
  pr_id :: u64
  pr_intent :: string
  pr_to :: string
  pr_calldata :: string
  pr_value_wei :: string
  pr_chain_id :: u64
  pr_context :: string
  pr_expires_block :: string
  pr_status :: string
  pr_tx_hash :: "string option"
  pr_dedup_key :: "string option"

definition MAX_PENDING_REQUESTS :: nat where
  "MAX_PENDING_REQUESTS = 256"

record agent_state =
  paused :: bool
  bidding :: bool
  active_jobs :: u32
  max_concurrent :: u32
  reputation_bps :: u32
  last_heartbeat_unix :: "u64 option"
  last_error :: "string option"
  pending_requests :: "pending_request list"
  next_request_id :: u64
  alert :: "string option"
  prev_reputation_bps :: "u32 option"
  prev_stake_wei :: "u128 option"

definition agent_new :: agent_state where
  "agent_new = \<lparr>paused = False, bidding = False, active_jobs = 0, max_concurrent = 0,
     reputation_bps = 0, last_heartbeat_unix = None, last_error = None, pending_requests = [],
     next_request_id = 0, alert = None, prev_reputation_bps = None, prev_stake_wei = None\<rparr>"

section \<open>Pause, inputs and alerts\<close>

definition pause :: "agent_state \<Rightarrow> agent_state" where
  "pause s = s\<lparr>paused := True, bidding := False\<rparr>"

definition resume :: "agent_state \<Rightarrow> agent_state" where
  "resume s = s\<lparr>paused := False\<rparr>"

definition accepts_new_bids :: "agent_state \<Rightarrow> bool" where
  "accepts_new_bids s = (\<not> paused s)"

definition set_bidding :: "bool \<Rightarrow> agent_state \<Rightarrow> agent_state" where
  "set_bidding b s = (if paused s then s\<lparr>bidding := False\<rparr> else s\<lparr>bidding := b\<rparr>)"

definition set_idle :: "agent_state \<Rightarrow> agent_state" where
  "set_idle s = s\<lparr>bidding := False\<rparr>"

definition set_active_jobs :: "u32 \<Rightarrow> agent_state \<Rightarrow> agent_state" where
  "set_active_jobs n s = s\<lparr>active_jobs := n\<rparr>"

definition set_provider_stats :: "u32 \<Rightarrow> u32 \<Rightarrow> agent_state \<Rightarrow> agent_state" where
  "set_provider_stats mx rep s = s\<lparr>max_concurrent := mx, reputation_bps := rep\<rparr>"

text \<open>The arrow of the alert texts is the three UTF-8 bytes of U+2192.\<close>

definition arrow :: string where
  "arrow = [CHR 0x20, CHR 0xE2, CHR 0x86, CHR 0x92, CHR 0x20]"

definition reputation_alert :: "u32 \<Rightarrow> u32 option \<Rightarrow> string list" where
  "reputation_alert rep prev = (case prev of
     None \<Rightarrow> []
   | Some p \<Rightarrow>
       if (ucast rep :: u64) * 100 < (ucast p :: u64) * 95
       then [''reputation dropped >5% since last poll: '' @ dec p @ arrow @ dec rep @ '' bps'']
       else [])"

definition stake_alert :: "u128 \<Rightarrow> u128 option \<Rightarrow> string list" where
  "stake_alert stake prev = (case prev of
     None \<Rightarrow> []
   | Some p \<Rightarrow>
       if stake < p then [''stake slashed: '' @ dec p @ arrow @ dec stake @ '' wei''] else [])"

fun join :: "string \<Rightarrow> string list \<Rightarrow> string" where
  "join sep [] = []"
| "join sep [x] = x"
| "join sep (x # y # ys) = x @ sep @ join sep (y # ys)"

definition record_provider_observation ::
    "u32 \<Rightarrow> u32 \<Rightarrow> u128 \<Rightarrow> agent_state \<Rightarrow> agent_state" where
  "record_provider_observation mx rep stake s =
     (let alerts = reputation_alert rep (prev_reputation_bps s) @ stake_alert stake (prev_stake_wei s);
          s = (if alerts = [] then s else s\<lparr>alert := Some (join ''; '' alerts)\<rparr>);
          s = s\<lparr>prev_reputation_bps := Some rep, prev_stake_wei := Some stake\<rparr>
      in set_provider_stats mx rep s)"

definition clear_alert :: "agent_state \<Rightarrow> agent_state" where
  "clear_alert s = s\<lparr>alert := None\<rparr>"

definition record_heartbeat :: "u64 \<Rightarrow> agent_state \<Rightarrow> agent_state" where
  "record_heartbeat now s = s\<lparr>last_heartbeat_unix := Some now\<rparr>"

definition set_last_error :: "string option \<Rightarrow> agent_state \<Rightarrow> agent_state" where
  "set_last_error e s = s\<lparr>last_error := e\<rparr>"

section \<open>The signing queue\<close>

text \<open>The arguments common to the three enqueue methods.\<close>

record write_args =
  wa_intent :: string
  wa_to :: string
  wa_calldata :: string
  wa_value_wei :: u128
  wa_chain_id :: u64
  wa_context :: string
  wa_expires_block :: u128

definition mk_request :: "u64 \<Rightarrow> string option \<Rightarrow> write_args \<Rightarrow> pending_request" where
  "mk_request i key a = \<lparr>pr_id = i, pr_intent = wa_intent a, pr_to = wa_to a,
     pr_calldata = wa_calldata a, pr_value_wei = dec (wa_value_wei a), pr_chain_id = wa_chain_id a,
     pr_context = wa_context a, pr_expires_block = dec (wa_expires_block a),
     pr_status = ''pending'', pr_tx_hash = None, pr_dedup_key = key\<rparr>"

fun retain_overflow :: "nat \<Rightarrow> pending_request list \<Rightarrow> pending_request list" where
  "retain_overflow k [] = []"
| "retain_overflow k (r # rs) =
     (if 0 < k \<and> pr_status r = ''submitted'' then retain_overflow (k - 1) rs
      else r # retain_overflow k rs)"

definition evict_if_over_cap :: "agent_state \<Rightarrow> agent_state" where
  "evict_if_over_cap s =
     (if length (pending_requests s) \<le> MAX_PENDING_REQUESTS then s
      else s\<lparr>pending_requests :=
        retain_overflow (length (pending_requests s) - MAX_PENDING_REQUESTS) (pending_requests s)\<rparr>)"

definition push_request :: "string option \<Rightarrow> write_args \<Rightarrow> agent_state \<Rightarrow> u64 \<times> agent_state" where
  "push_request key a s =
     (let i = next_request_id s
      in (i, evict_if_over_cap (s\<lparr>next_request_id := i + 1,
               pending_requests := pending_requests s @ [mk_request i key a]\<rparr>)))"

definition enqueue_signature_request :: "write_args \<Rightarrow> agent_state \<Rightarrow> u64 \<times> agent_state" where
  "enqueue_signature_request a s =
     (case find (\<lambda>r. pr_calldata r = wa_calldata a) (pending_requests s) of
        Some r \<Rightarrow> (pr_id r, s)
      | None \<Rightarrow> push_request None a s)"

text \<open>\<open>iter_mut().find(..)\<close>: the first match, updated in place.\<close>

fun update_first :: "('a \<Rightarrow> bool) \<Rightarrow> ('a \<Rightarrow> 'a) \<Rightarrow> 'a list \<Rightarrow> 'a list" where
  "update_first P f [] = []"
| "update_first P f (x # xs) = (if P x then f x # xs else x # update_first P f xs)"

definition supersede :: "write_args \<Rightarrow> pending_request \<Rightarrow> pending_request" where
  "supersede a r =
     (if pr_status r = ''pending''
      then r\<lparr>pr_calldata := wa_calldata a, pr_value_wei := dec (wa_value_wei a),
             pr_context := wa_context a, pr_expires_block := dec (wa_expires_block a)\<rparr>
      else r)"

definition same_key :: "string \<Rightarrow> string \<Rightarrow> pending_request \<Rightarrow> bool" where
  "same_key intent key r \<longleftrightarrow> pr_intent r = intent \<and> pr_dedup_key r = Some key"

definition enqueue_superseding_signature_request ::
    "string \<Rightarrow> write_args \<Rightarrow> agent_state \<Rightarrow> u64 \<times> agent_state" where
  "enqueue_superseding_signature_request key a s =
     (case find (same_key (wa_intent a) key) (pending_requests s) of
        Some r \<Rightarrow> (pr_id r, s\<lparr>pending_requests :=
          update_first (same_key (wa_intent a) key) (supersede a) (pending_requests s)\<rparr>)
      | None \<Rightarrow> push_request (Some key) a s)"

definition rearm :: "pending_request \<Rightarrow> pending_request" where
  "rearm r = (if pr_status r = ''submitted'' then r\<lparr>pr_status := ''pending'', pr_tx_hash := None\<rparr> else r)"

definition enqueue_recurring_signature_request :: "write_args \<Rightarrow> agent_state \<Rightarrow> u64 \<times> agent_state" where
  "enqueue_recurring_signature_request a s =
     (case find (\<lambda>r. pr_calldata r = wa_calldata a) (pending_requests s) of
        Some r \<Rightarrow> (pr_id r, s\<lparr>pending_requests :=
          update_first (\<lambda>r. pr_calldata r = wa_calldata a) rearm (pending_requests s)\<rparr>)
      | None \<Rightarrow> enqueue_signature_request a s)"

definition observe :: "string \<Rightarrow> pending_request \<Rightarrow> pending_request" where
  "observe tx r = r\<lparr>pr_status := ''submitted'', pr_tx_hash := Some tx\<rparr>"

definition mark_request_observed :: "u64 \<Rightarrow> string \<Rightarrow> u64 \<Rightarrow> agent_state \<Rightarrow> bool \<times> agent_state" where
  "mark_request_observed i tx now s =
     (case find (\<lambda>r. pr_id r = i) (pending_requests s) of
        None \<Rightarrow> (False, s)
      | Some r \<Rightarrow>
          let s = s\<lparr>pending_requests :=
                update_first (\<lambda>r. pr_id r = i) (observe tx) (pending_requests s)\<rparr>
          in (True, if pr_intent r = ''heartbeat'' then record_heartbeat now s else s))"

section \<open>Derived views\<close>

definition lifecycle :: "agent_state \<Rightarrow> lifecycle_state" where
  "lifecycle s = (if paused s then LPaused else if 0 < active_jobs s then LExecuting
     else if bidding s then LBidding else LIdle)"

definition heartbeat_age_secs_at :: "u64 \<Rightarrow> agent_state \<Rightarrow> u64 option" where
  "heartbeat_age_secs_at now s = map_option (\<lambda>t. sat_sub now t) (last_heartbeat_unix s)"

definition health_at :: "u64 \<Rightarrow> agent_state \<Rightarrow> health" where
  "health_at now s = \<lparr>h_state = lifecycle s, h_heartbeat_age_secs = heartbeat_age_secs_at now s,
     h_active_jobs = active_jobs s, h_max_concurrent = max_concurrent s,
     h_reputation_bps = reputation_bps s, h_last_error = last_error s, h_alert = alert s\<rparr>"

section \<open>Operations as a sequence\<close>

datatype agent_op =
    OpPause | OpResume | OpSetBidding bool | OpSetIdle | OpSetActiveJobs u32
  | OpSetProviderStats u32 u32 | OpObserveProvider u32 u32 u128 | OpClearAlert
  | OpRecordHeartbeat u64 | OpSetLastError "string option"
  | OpEnqueue write_args | OpSupersede string write_args | OpRecur write_args
  | OpObserved u64 string u64

fun agent_step :: "agent_op \<Rightarrow> agent_state \<Rightarrow> agent_state" where
  "agent_step OpPause s = pause s"
| "agent_step OpResume s = resume s"
| "agent_step (OpSetBidding b) s = set_bidding b s"
| "agent_step OpSetIdle s = set_idle s"
| "agent_step (OpSetActiveJobs n) s = set_active_jobs n s"
| "agent_step (OpSetProviderStats m r) s = set_provider_stats m r s"
| "agent_step (OpObserveProvider m r w) s = record_provider_observation m r w s"
| "agent_step OpClearAlert s = clear_alert s"
| "agent_step (OpRecordHeartbeat t) s = record_heartbeat t s"
| "agent_step (OpSetLastError e) s = set_last_error e s"
| "agent_step (OpEnqueue a) s = snd (enqueue_signature_request a s)"
| "agent_step (OpSupersede k a) s = snd (enqueue_superseding_signature_request k a s)"
| "agent_step (OpRecur a) s = snd (enqueue_recurring_signature_request a s)"
| "agent_step (OpObserved i tx now) s = snd (mark_request_observed i tx now s)"

definition agent_run :: "agent_op list \<Rightarrow> agent_state \<Rightarrow> agent_state" where
  "agent_run ops s = fold agent_step ops s"

end
