(* ===== verification/Execution.thy ===== *)
theory Execution
  imports Nonce_Store Runtime Profiler Supervision_State
begin

text \<open>
  The module \<open>node_agent::execution\<close> (\<open>crates/node-agent/src/execution.rs\<close>): one step of a won
  job. \<open>job_step\<close> is \<open>JobExecutor::step\<close>, \<open>drive_job\<close> the function of that name; the state they
  share is the record \<open>exec_state\<close>. What the outside answers in one step (chain reads, delivered
  input, weight source, inference, signer, file-system outcomes) is the record \<open>tick_world\<close>, chosen
  anew for every step. \<open>xs_signed\<close> is a history variable: the requests handed to the signer so far.
\<close>

record job_progress =
  jp_committed :: bool
  jp_artifacts :: "commitment_artifacts option"
  jp_nonce :: "bytes option"

definition job_progress_default :: job_progress where
  "job_progress_default = \<lparr>jp_committed = False, jp_artifacts = None, jp_nonce = None\<rparr>"

record job_context =
  jc_job :: job
  jc_current_block :: u128
  jc_marketplace :: address
  jc_chain_id :: u64
  jc_me :: address
  jc_ipfs_cid :: string
  jc_is_active :: bool
  jc_expected_size :: "nat option"
  jc_expected_sha256 :: "bytes option"
  jc_input :: bytes
  jc_cache_dir :: string
  jc_gates :: chain_gates

definition DEFAULT_MAX_JOB_INPUT_BYTES :: nat where
  "DEFAULT_MAX_JOB_INPUT_BYTES = 32 * 1024 * 1024"

definition max_job_input_bytes :: "env \<Rightarrow> nat" where
  "max_job_input_bytes env =
     positive_from_env env ''CITRATE_MAX_JOB_INPUT_BYTES'' DEFAULT_MAX_JOB_INPUT_BYTES"

datatype step_outcome =
    Signed write_intent | RanInference | StepDone | StepIdle | AwaitingInput
  | InfeasibleInput nat nat | Aborted abort_reason | Waiting wait_reason | StepError string

text \<open>The fixed parameters of an executor's process: digests, formatting, environment.\<close>

record exec_env =
  ev_kec :: "bytes \<Rightarrow> bytes"
  ev_sha :: hash_fun
  ev_env :: env
  ev_debug :: "string \<Rightarrow> string"

record resolved_job =
  rj_job :: job
  rj_ipfs_cid :: string
  rj_is_active :: bool
  rj_expected_size :: "nat option"
  rj_expected_sha256 :: "bytes option"
  rj_current_block :: u128
  rj_committed :: bool
  rj_gates :: chain_gates

type_synonym signer = "signature_request \<Rightarrow> agent_state \<Rightarrow> (job_signer_error + tx_observed) \<times> agent_state"

record tick_world =
  tw_resolved :: "string + resolved_job"
  tw_input :: "string + bytes option"
  tw_fetch :: "string \<Rightarrow> provision_error + bytes"
  tw_cache_io :: cache_io
  tw_infer :: "provisioned_model \<Rightarrow> bytes \<Rightarrow> inference_error + bytes"
  tw_elapsed :: u64
  tw_signer :: signer
  tw_nonce_read :: "string option"
  tw_mint :: mint_io
  tw_load :: load_io
  tw_save :: save_io

record exec_state =
  xs_agent :: agent_state
  xs_progress :: job_progress
  xs_files :: files
  xs_cache :: file_map
  xs_profiler :: model_profiler
  xs_signed :: "signature_request list"

definition record_error :: "string \<Rightarrow> exec_state \<Rightarrow> step_outcome \<times> exec_state" where
  "record_error msg s = (StepError msg, s\<lparr>xs_agent := set_last_error (Some msg) (xs_agent s)\<rparr>)"

definition with_active :: "u32 \<Rightarrow> exec_state \<Rightarrow> exec_state" where
  "with_active n s = s\<lparr>xs_agent := set_active_jobs n (xs_agent s)\<rparr>"

definition with_error :: "string \<Rightarrow> exec_state \<Rightarrow> exec_state" where
  "with_error msg s = s\<lparr>xs_agent := set_last_error (Some msg) (xs_agent s)\<rparr>"

section \<open>The identifier gate\<close>

definition ascii_alnum :: "char \<Rightarrow> bool" where
  "ascii_alnum c \<longleftrightarrow> char_in (CHR ''0'') (CHR ''9'') c \<or> char_in (CHR ''A'') (CHR ''Z'') c \<or>
     char_in (CHR ''a'') (CHR ''z'') c"

definition svc7 :: string where
  "svc7 = ''SECURITY [SVC-7]: rejecting model CID ''"

definition exec_validate_cid :: "(string \<Rightarrow> string) \<Rightarrow> string \<Rightarrow> string + unit" where
  "exec_validate_cid debug cid =
     (if length cid < 46 \<or> 256 < length cid
      then Inl (''SECURITY [SVC-7]: rejecting model CID with out-of-range length '' @
        dec_nat (length cid) @ '' (allowed 46..=256)'')
      else if \<not> list_all ascii_alnum cid
      then Inl (svc7 @ debug cid @
        '': contains non-CID characters (only base58/base32 alphanumerics allowed)'')
      else let v0 = starts_with ''Qm'' cid;
               v1 = cid ! 0 \<in> {CHR ''b'', CHR ''B'', CHR ''z'', CHR ''f'', CHR ''F''}
           in if \<not> (v0 \<or> v1)
              then Inl (svc7 @ debug cid @ '': unrecognized multibase/version prefix'')
              else if \<not> validate_cid cid
              then Inl (svc7 @ debug cid @
                '': not a CIDv0 (base58btc) or canonical base32lower CIDv1 (NA-03)'')
              else Inr ())"

section \<open>Driving a job\<close>

definition abort_reason_debug :: "abort_reason \<Rightarrow> string" where
  "abort_reason_debug r = (case r of
     NotAssignedProvider \<Rightarrow> ''NotAssignedProvider''
   | ExecutionDeadlinePassed \<Rightarrow> ''ExecutionDeadlinePassed''
   | JobExpired \<Rightarrow> ''JobExpired'' | JobTimedOut \<Rightarrow> ''JobTimedOut''
   | JobFailedOnChain \<Rightarrow> ''JobFailedOnChain'' | JobDisputed \<Rightarrow> ''JobDisputed''
   | UnsupportedTier \<Rightarrow> ''UnsupportedTier'')"

definition infeasible_text :: "u128 \<Rightarrow> nat \<Rightarrow> nat \<Rightarrow> string" where
  "infeasible_text i len max_bytes =
     ''job '' @ dec i @ '' input '' @ dec_nat len @ '' bytes exceeds CITRATE_MAX_JOB_INPUT_BYTES '' @
     dec_nat max_bytes @ ''; refusing to execute an infeasible workload (NA-B-003)''"

definition run_inference ::
    "exec_env \<Rightarrow> tick_world \<Rightarrow> job_context \<Rightarrow> bytes \<Rightarrow> exec_state \<Rightarrow> step_outcome \<times> exec_state" where
  "run_inference ev w ctx nonce_seed s =
     (let s = with_active 1 s;
          max_bytes = max_job_input_bytes (ev_env ev);
          len = length (jc_input ctx)
      in if max_bytes < len
         then (InfeasibleInput len max_bytes,
               with_error (infeasible_text (job_id (jc_job ctx)) len max_bytes) (with_active 0 s))
         else case exec_validate_cid (ev_debug ev) (jc_ipfs_cid ctx) of
           Inl e \<Rightarrow> record_error (''provision: '' @ e) s
         | Inr _ \<Rightarrow>
             (case provision (ev_sha ev) (tw_cache_io w) (model_hash (jc_job ctx)) (jc_ipfs_cid ctx)
                     (jc_is_active ctx) (jc_expected_size ctx) (jc_expected_sha256 ctx)
                     (jc_cache_dir ctx) (tw_fetch w) (xs_cache s) of
                (Inl e, cache) \<Rightarrow>
                  record_error (''provision: '' @ provision_error_display (ev_debug ev) e)
                    (s\<lparr>xs_cache := cache\<rparr>)
              | (Inr m, cache) \<Rightarrow>
                  let s = s\<lparr>xs_cache := cache\<rparr>
                  in (case tw_infer w m (jc_input ctx) of
                        Inl e \<Rightarrow> record_error (''inference: '' @ inference_error_display e) s
                      | Inr outp \<Rightarrow>
                          let s = s\<lparr>xs_profiler := profiler_record
                                (model_hash (jc_job ctx)) (tw_elapsed w) (xs_profiler s)\<rparr>;
                              nonce = (case jp_nonce (xs_progress s) of Some n \<Rightarrow> n | None \<Rightarrow> nonce_seed)
                          in (RanInference, s\<lparr>xs_progress := (xs_progress s)\<lparr>jp_nonce := Some nonce,
                                jp_artifacts := Some (build (ev_kec ev) outp nonce)\<rparr>\<rparr>))))"

definition sign_request ::
    "tick_world \<Rightarrow> signature_request \<Rightarrow> exec_state \<Rightarrow> step_outcome \<times> exec_state" where
  "sign_request w req s =
     (let s = (with_active 1 s)\<lparr>xs_signed := xs_signed s @ [req]\<rparr>
      in case tw_signer w req (xs_agent s) of
           (Inr _, a) \<Rightarrow> (Signed (sr_intent req), s\<lparr>xs_agent := a\<rparr>)
         | (Inl e, a) \<Rightarrow> record_error (''sign '' @ intent_label (sr_intent req) @ '': '' @
             job_signer_error_display e) (s\<lparr>xs_agent := a\<rparr>))"

definition context_plan :: "exec_env \<Rightarrow> job_context \<Rightarrow> job_progress \<Rightarrow> plan_input" where
  "context_plan ev ctx p =
     \<lparr>pi_job = jc_job ctx, pi_me = jc_me ctx, pi_current_block = jc_current_block ctx,
      pi_marketplace = jc_marketplace ctx, pi_chain_id = jc_chain_id ctx,
      pi_committed = jp_committed p, pi_artifacts = jp_artifacts p, pi_gates = jc_gates ctx\<rparr>"

definition drive_job ::
    "exec_env \<Rightarrow> tick_world \<Rightarrow> job_context \<Rightarrow> bytes \<Rightarrow> exec_state \<Rightarrow> step_outcome \<times> exec_state" where
  "drive_job ev w ctx nonce_seed s =
     (case plan (ev_kec ev) (context_plan ev ctx (xs_progress s)) of
        RunInference \<Rightarrow> run_inference ev w ctx nonce_seed s
      | Sign req \<Rightarrow> sign_request w req s
      | Done \<Rightarrow> (StepDone, with_active 0 s)
      | Idle \<Rightarrow> (StepIdle, s)
      | Wait r \<Rightarrow> (Waiting r, s)
      | Abort r \<Rightarrow> (Aborted r, with_error (''job '' @ dec (job_id (jc_job ctx)) @ '' aborted: '' @
          abort_reason_debug r) (with_active 0 s)))"

section \<open>One step of the executor\<close>

record job_executor =
  je_job_id :: u128
  je_me :: address
  je_marketplace :: address
  je_chain_id :: u64
  je_cache_dir :: string
  je_nonce :: bytes
  je_nonce_store :: "string option"

definition job_text :: "job_executor \<Rightarrow> string \<Rightarrow> string" where
  "job_text x msg = ''job '' @ dec (je_job_id x) @ '': '' @ msg"

text \<open>The nonce of this step: the persisted one, or a fresh one when nothing is committed yet.\<close>

definition resolve_nonce ::
    "tick_world \<Rightarrow> job_executor \<Rightarrow> bool \<Rightarrow> files \<Rightarrow> (string + bytes) \<times> files" where
  "resolve_nonce w x committed fs =
     (case je_nonce_store x of
        None \<Rightarrow> (Inr (je_nonce x), fs)
      | Some dir \<Rightarrow>
          (case nonce_load (tw_nonce_read w) dir (je_job_id x) fs of
             Inr (Some n) \<Rightarrow> (Inr n, fs)
           | Inr None \<Rightarrow>
               if committed
               then (Inl (job_text x (''committed on-chain but no persisted commitment nonce; refusing to reveal a fresh nonce that cannot reproduce the commitment (NA-01)'')), fs)
               else (case nonce_mint (tw_mint w) dir (je_job_id x) fs of
                  (Inr n, fs') \<Rightarrow> (Inr n, fs')
                | (Inl e, fs') \<Rightarrow> (Inl (job_text x (''minting commitment nonce: '' @ io_error_text e)), fs'))
           | Inl e \<Rightarrow> (Inl (job_text x (''loading commitment nonce: '' @ io_error_text e)), fs)))"

text \<open>The artifacts of earlier steps, from memory or from disk.\<close>

definition resolve_artifacts ::
    "exec_env \<Rightarrow> tick_world \<Rightarrow> job_executor \<Rightarrow> resolved_job \<Rightarrow> bytes \<Rightarrow> files \<Rightarrow> job_progress \<Rightarrow> string + job_progress" where
  "resolve_artifacts ev w x rj nonce_seed fs p =
     (if jp_artifacts p \<noteq> None then Inr p
      else case je_nonce_store x of
        None \<Rightarrow> Inr p
      | Some dir \<Rightarrow>
          (case load_artifacts (ev_kec ev) (tw_load w) dir (je_job_id x) fs of
             Inr (Some art) \<Rightarrow> Inr (p\<lparr>jp_nonce := Some nonce_seed, jp_artifacts := Some art\<rparr>)
           | Inr None \<Rightarrow>
               if rj_committed rj \<and> state_of (rj_job rj) = Executing
               then Inl (job_text x (''committed on-chain but the committed output was not persisted; refusing to re-run inference and reveal a mismatched output (NA-01 / PBA-L6b-007)''))
               else Inr p
           | Inl e \<Rightarrow> Inl (job_text x (''loading commitment artifacts: '' @ io_error_text e))))"

datatype input_result = InputBytes bytes | InputMissing | InputRefused string

definition resolve_input ::
    "exec_env \<Rightarrow> tick_world \<Rightarrow> job_executor \<Rightarrow> resolved_job \<Rightarrow> job_progress \<Rightarrow> input_result" where
  "resolve_input ev w x rj p =
     (if state_of (rj_job rj) = Executing \<and> jp_artifacts p = None
      then (case tw_input w of
        Inr (Some bs) \<Rightarrow>
          (case input_hash (rj_job rj) of
             Some h \<Rightarrow>
               if keccak256_bytes (ev_kec ev) bs = h then InputBytes bs
               else InputRefused (job_text x (''delivered input does not match the on-chain inputHash; refusing to execute (PBA-L6b-021)''))
           | None \<Rightarrow> InputRefused (job_text x (''on-chain inputHash is not a 32-byte keccak256 binding; refusing to execute an unbindable input (PBA-L6b-021)'')))
      | Inr None \<Rightarrow> InputMissing
      | Inl e \<Rightarrow> InputRefused (''input for job '' @ dec (je_job_id x) @ '': '' @ e))
      else InputBytes [])"

definition step_context :: "job_executor \<Rightarrow> resolved_job \<Rightarrow> bytes \<Rightarrow> job_context" where
  "step_context x rj input =
     \<lparr>jc_job = rj_job rj, jc_current_block = rj_current_block rj, jc_marketplace = je_marketplace x,
      jc_chain_id = je_chain_id x, jc_me = je_me x, jc_ipfs_cid = rj_ipfs_cid rj,
      jc_is_active = rj_is_active rj, jc_expected_size = rj_expected_size rj,
      jc_expected_sha256 = rj_expected_sha256 rj, jc_input = input, jc_cache_dir = je_cache_dir x,
      jc_gates = rj_gates rj\<rparr>"

text \<open>Persist fresh artifacts before anything can be signed for them.\<close>

definition persist ::
    "tick_world \<Rightarrow> job_executor \<Rightarrow> step_outcome \<times> exec_state \<Rightarrow> step_outcome \<times> exec_state" where
  "persist w x r =
     (case r of (outcome, s) \<Rightarrow>
        (case (je_nonce_store x, jp_artifacts (xs_progress s)) of
           (Some dir, Some art) \<Rightarrow>
             if outcome = RanInference
             then (case save_artifacts (tw_save w) dir (je_job_id x) art (xs_files s) of
                (Inr _, fs) \<Rightarrow> (outcome, s\<lparr>xs_files := fs\<rparr>)
              | (Inl e, fs) \<Rightarrow>
                  record_error (job_text x (''persisting commitment artifacts: '' @ io_error_text e))
                    (s\<lparr>xs_files := fs, xs_progress := (xs_progress s)\<lparr>jp_artifacts := None\<rparr>\<rparr>))
             else (outcome, s)
         | _ \<Rightarrow> (outcome, s)))"

definition job_step :: "exec_env \<Rightarrow> job_executor \<Rightarrow> tick_world \<Rightarrow> exec_state \<Rightarrow> step_outcome \<times> exec_state" where
  "job_step ev x w s =
     (case tw_resolved w of
        Inl e \<Rightarrow> record_error (''resolve job '' @ dec (je_job_id x) @ '': '' @ e) s
      | Inr rj \<Rightarrow>
          if assigned_provider (rj_job rj) \<noteq> je_me x then (StepIdle, s)
          else
            let s = s\<lparr>xs_progress := (xs_progress s)\<lparr>jp_committed := rj_committed rj\<rparr>\<rparr>
            in case resolve_nonce w x (rj_committed rj) (xs_files s) of
                 (Inl e, fs) \<Rightarrow> record_error e (s\<lparr>xs_files := fs\<rparr>)
               | (Inr nonce_seed, fs) \<Rightarrow>
                   let s = s\<lparr>xs_files := fs\<rparr>
                   in (case resolve_artifacts ev w x rj nonce_seed fs (xs_progress s) of
                         Inl e \<Rightarrow> record_error e s
                       | Inr p \<Rightarrow>
                           let s = s\<lparr>xs_progress := p\<rparr>
                           in (case resolve_input ev w x rj p of
                                 InputRefused e \<Rightarrow> record_error e s
                               | InputMissing \<Rightarrow> (AwaitingInput, s)
                               | InputBytes input \<Rightarrow>
                                   persist w x (drive_job ev w (step_context x rj input) nonce_seed s))))"

text \<open>A restart of the process: what is on disk and in the relay stays, the job's memory is lost.\<close>

definition restart :: "agent_state \<Rightarrow> model_profiler \<Rightarrow> exec_state \<Rightarrow> exec_state" where
  "restart a prof s = s\<lparr>xs_agent := a, xs_progress := job_progress_default, xs_profiler := prof\<rparr>"

section \<open>Other tick executors\<close>

text \<open>\<open>NoExecutor\<close> and \<open>Both\<close>: tick executors over a state.\<close>

definition no_executor :: "'s \<Rightarrow> 's" where
  "no_executor s = s"

definition both_executors :: "('s \<Rightarrow> 's) \<Rightarrow> ('s \<Rightarrow> 's) \<Rightarrow> 's \<Rightarrow> 's" where
  "both_executors a b s = b (a s)"

definition job_tick :: "exec_env \<Rightarrow> job_executor \<Rightarrow> tick_world \<Rightarrow> exec_state \<Rightarrow> exec_state" where
  "job_tick ev x w s = snd (job_step ev x w s)"

record earnings_state =
  es_agent :: agent_state
  es_in_flight :: bool
  es_signed :: "signature_request list"

definition earnings_tick ::
    "(bytes \<Rightarrow> bytes) \<Rightarrow> earnings_config \<Rightarrow> (string + u128) \<Rightarrow> signer \<Rightarrow> earnings_state \<Rightarrow> earnings_state" where
  "earnings_tick kec cfg claimable sg s =
     (case claimable of
        Inl e \<Rightarrow> s\<lparr>es_agent := set_last_error (Some (''claimable: '' @ e)) (es_agent s)\<rparr>
      | Inr c \<Rightarrow>
          if c = 0 then s\<lparr>es_in_flight := False\<rparr>
          else (case plan_claim kec c (es_in_flight s) cfg of
             Hold \<Rightarrow> s
           | Claim req \<Rightarrow>
               (case sg req (es_agent s) of
                  (Inr _, a) \<Rightarrow> s\<lparr>es_agent := a, es_in_flight := True, es_signed := es_signed s @ [req]\<rparr>
                | (Inl _, a) \<Rightarrow> s\<lparr>es_agent := a, es_signed := es_signed s @ [req]\<rparr>)))"

end
