(* ===== verification/Execution_Safety.thy ===== *)
theory Execution_Safety
  imports Execution
begin

text \<open>
  What the executor promises over every sequence of steps and restarts, whatever the outside
  answers and whichever file-system calls fail: all commitments and reveals it ever requests for a
  job come from one set of artifacts, the one on disk, which the verifier accepts.
\<close>

section \<open>Frames\<close>

lemma files_updates [simp]:
  "xs_files (with_active n s) = xs_files s" "xs_files (with_error m s) = xs_files s"
  "xs_progress (with_active n s) = xs_progress s" "xs_progress (with_error m s) = xs_progress s"
  "xs_signed (with_active n s) = xs_signed s" "xs_signed (with_error m s) = xs_signed s"
  "xs_cache (with_active n s) = xs_cache s"
  by (simp_all add: with_active_def with_error_def)

lemma record_error_frame [simp]:
  "xs_files (snd (record_error m s)) = xs_files s"
  "xs_progress (snd (record_error m s)) = xs_progress s"
  "xs_signed (snd (record_error m s)) = xs_signed s"
  "fst (record_error m s) = StepError m"
  by (simp_all add: record_error_def)

lemma run_inference_frame:
  "xs_files (snd (run_inference ev w ctx seed s)) = xs_files s \<and>
   xs_signed (snd (run_inference ev w ctx seed s)) = xs_signed s"
  by (auto simp: run_inference_def Let_def split: sum.splits prod.splits)

lemma run_inference_progress:
  "xs_progress (snd (run_inference ev w ctx seed s)) = xs_progress s \<and>
     fst (run_inference ev w ctx seed s) \<noteq> RanInference \<or>
   fst (run_inference ev w ctx seed s) = RanInference \<and>
     (\<exists>outp nonce. nonce = (case jp_nonce (xs_progress s) of Some n \<Rightarrow> n | None \<Rightarrow> seed) \<and>
       xs_progress (snd (run_inference ev w ctx seed s)) =
         (xs_progress s)\<lparr>jp_nonce := Some nonce, jp_artifacts := Some (build (ev_kec ev) outp nonce)\<rparr>)"
  by (auto simp: run_inference_def record_error_def Let_def split: sum.splits prod.splits)

lemma sign_request_frame:
  "xs_files (snd (sign_request w req s)) = xs_files s \<and>
   xs_progress (snd (sign_request w req s)) = xs_progress s \<and>
   xs_signed (snd (sign_request w req s)) = xs_signed s @ [req] \<and>
   fst (sign_request w req s) \<noteq> RanInference"
  by (auto simp: sign_request_def record_error_def Let_def split: sum.splits prod.splits)

section \<open>Invariant\<close>

definition commit_write :: "(bytes \<Rightarrow> bytes) \<Rightarrow> commitment_artifacts \<Rightarrow> signature_request \<Rightarrow> bool" where
  "commit_write kec art r \<longleftrightarrow>
     (sr_intent r = SubmitCommitment \<longrightarrow>
        (\<exists>j. sr_calldata r = encode_submit_commitment kec j (commitment art))) \<and>
     (sr_intent r = SubmitResult \<longrightarrow>
        (\<exists>j. sr_calldata r = encode_submit_result kec j (output_hash art) (proof_bytes art)))"

definition is_commit :: "signature_request \<Rightarrow> bool" where
  "is_commit r \<longleftrightarrow> sr_intent r = SubmitCommitment \<or> sr_intent r = SubmitResult"

definition exec_inv :: "(bytes \<Rightarrow> bytes) \<Rightarrow> string \<Rightarrow> u128 \<Rightarrow> exec_state \<Rightarrow> bool" where
  "exec_inv kec dir i s \<longleftrightarrow>
     (\<forall>n. jp_nonce (xs_progress s) = Some n \<longrightarrow> xs_files s (path_for dir i) = Some n \<and> length n = 32) \<and>
     (\<forall>art. jp_artifacts (xs_progress s) = Some art \<longrightarrow> stored kec dir i (xs_files s) art) \<and>
     (\<forall>r \<in> set (xs_signed s). is_commit r \<longrightarrow>
        (\<exists>art. stored kec dir i (xs_files s) art \<and> commit_write kec art r))"

definition world_ok :: "tick_world \<Rightarrow> bool" where
  "world_ok w \<longleftrightarrow> (\<forall>n. mi_random (tw_mint w) = Inr n \<longrightarrow> length n = 32)"

lemma exec_inv_grow:
  assumes "exec_inv kec dir i s" "xs_progress s' = xs_progress s" "xs_signed s' = xs_signed s"
    and "\<And>q. xs_files s q \<noteq> None \<Longrightarrow> xs_files s' q = xs_files s q"
  shows "exec_inv kec dir i s'"
proof -
  have mono: "stored kec dir i (xs_files s) art \<Longrightarrow> stored kec dir i (xs_files s') art" for art
    using stored_mono assms(4) by blast
  have "xs_files s (path_for dir i) = Some n \<Longrightarrow> xs_files s' (path_for dir i) = Some n" for n
    using assms(4) [of "path_for dir i"] by simp
  with mono assms(1-3) show ?thesis unfolding exec_inv_def by metis
qed

lemma exec_inv_same:
  "exec_inv kec dir i s \<Longrightarrow> xs_progress s' = xs_progress s \<Longrightarrow> xs_signed s' = xs_signed s \<Longrightarrow>
     xs_files s' = xs_files s \<Longrightarrow> exec_inv kec dir i s'"
  by (simp add: exec_inv_def)

lemma exec_inv_committed:
  "exec_inv kec dir i s \<Longrightarrow> exec_inv kec dir i (s\<lparr>xs_progress := (xs_progress s)\<lparr>jp_committed := c\<rparr>\<rparr>)"
  by (simp add: exec_inv_def)

lemma exec_inv_no_artifacts:
  "exec_inv kec dir i s \<Longrightarrow> exec_inv kec dir i (s\<lparr>xs_progress := (xs_progress s)\<lparr>jp_artifacts := None\<rparr>\<rparr>)"
  by (simp add: exec_inv_def)

text \<open>Each part of a step keeps the invariant.\<close>

lemma resolve_nonce_inv:
  assumes "exec_inv kec dir (je_job_id x) s" "world_ok w" "je_nonce_store x = Some dir"
    and "resolve_nonce w x c (xs_files s) = (r, fs)"
  shows "exec_inv kec dir (je_job_id x) (s\<lparr>xs_files := fs\<rparr>) \<and>
    (\<forall>n. r = Inr n \<longrightarrow> fs (path_for dir (je_job_id x)) = Some n \<and> length n = 32)"
proof -
  have "exec_inv kec dir (je_job_id x) (s\<lparr>xs_files := fs\<rparr>)"
    if "nonce_mint io dir j (xs_files s) = (r', fs)" for io j r'
    using mint_frame [OF that] by (intro exec_inv_grow [OF assms(1)]) auto
  then show ?thesis
    using assms
    by (auto simp: resolve_nonce_def world_ok_def load_ok_nonce dest: mint_ok
        split: sum.splits option.splits if_splits prod.splits)
qed

lemma resolve_artifacts_inv:
  assumes "exec_inv kec dir (je_job_id x) s" "je_nonce_store x = Some dir" "ev_kec ev = kec"
    and "xs_files s (path_for dir (je_job_id x)) = Some seed" "length seed = 32"
    and "resolve_artifacts ev w x rj seed (xs_files s) (xs_progress s) = Inr p"
  shows "exec_inv kec dir (je_job_id x) (s\<lparr>xs_progress := p\<rparr>) \<and>
    (jp_artifacts p = None \<longrightarrow> xs_files s (artifacts_path dir (je_job_id x)) = None)"
  using assms
  by (auto simp: resolve_artifacts_def exec_inv_def dest: load_artifacts_none load_artifacts_stored
      split: sum.splits option.splits if_splits)

lemma drive_job_inv:
  assumes "exec_inv kec dir i s" "ev_kec ev = kec"
    and "xs_files s (path_for dir i) = Some seed" "length seed = 32"
    and "drive_job ev w ctx seed s = (out, s')"
  shows "exec_inv kec dir i s' \<and> out \<noteq> RanInference \<or>
    out = RanInference \<and> xs_files s' = xs_files s \<and> xs_signed s' = xs_signed s \<and>
      jp_artifacts (xs_progress s) = None \<and>
      (\<exists>outp nonce. xs_files s (path_for dir i) = Some nonce \<and> length nonce = 32 \<and>
         xs_progress s' = (xs_progress s)\<lparr>jp_nonce := Some nonce, jp_artifacts := Some (build kec outp nonce)\<rparr>)"
proof (cases "plan (ev_kec ev) (context_plan ev ctx (xs_progress s))")
  case (Sign req)
  have s': "(out, s') = sign_request w req s" using assms(5) Sign by (simp add: drive_job_def)
  have frame: "xs_files s' = xs_files s" "xs_progress s' = xs_progress s"
    "xs_signed s' = xs_signed s @ [req]" "out \<noteq> RanInference"
    using sign_request_frame [of w req s] s' [symmetric] by auto
  obtain wr where wr: "write_due (context_plan ev ctx (xs_progress s)) wr"
    "sr_intent req = wr"
    "sr_calldata req = write_calldata kec (jc_job ctx) (jp_artifacts (xs_progress s)) wr"
    using Sign assms(2) by (auto simp: plan_Sign_iff context_plan_def)
  have "\<exists>art. stored kec dir i (xs_files s) art \<and> commit_write kec art req" if "is_commit req"
  proof -
    have "jp_artifacts (xs_progress s) \<noteq> None"
      using wr(1,2) that by (auto simp: write_due_def context_plan_def is_commit_def)
    then obtain art where art: "jp_artifacts (xs_progress s) = Some art" by blast
    then have "stored kec dir i (xs_files s) art" using assms(1) by (simp add: exec_inv_def)
    moreover have "commit_write kec art req"
      using wr(2,3) art by (auto simp: commit_write_def write_calldata_def)
    ultimately show ?thesis by blast
  qed
  then have "exec_inv kec dir i s'" using assms(1) frame by (auto simp: exec_inv_def)
  with frame show ?thesis by blast
next
  case RunInference
  have s': "(out, s') = run_inference ev w ctx seed s" using assms(5) RunInference by (simp add: drive_job_def)
  have frame: "xs_files s' = xs_files s" "xs_signed s' = xs_signed s"
    using run_inference_frame [of ev w ctx seed s] s' [symmetric] by auto
  have none: "jp_artifacts (xs_progress s) = None"
    using RunInference by (simp add: plan_inference_iff context_plan_def)
  show ?thesis
  proof (cases "out = RanInference")
    case False
    then have "xs_progress s' = xs_progress s"
      using run_inference_progress [of ev w ctx seed s] s' [symmetric] by auto
    with False frame assms(1) show ?thesis by (blast intro: exec_inv_same)
  next
    case True
    then obtain outp nonce where p: "nonce = (case jp_nonce (xs_progress s) of Some n \<Rightarrow> n | None \<Rightarrow> seed)"
      "xs_progress s' = (xs_progress s)\<lparr>jp_nonce := Some nonce, jp_artifacts := Some (build kec outp nonce)\<rparr>"
      using run_inference_progress [of ev w ctx seed s] s' [symmetric] assms(2) by auto
    have "xs_files s (path_for dir i) = Some nonce \<and> length nonce = 32"
      using p(1) assms(1,3,4) by (auto simp: exec_inv_def split: option.splits)
    with True frame none p(2) show ?thesis by blast
  qed
qed (use assms in \<open>auto simp: drive_job_def intro: exec_inv_same\<close>)

lemma persist_inv:
  assumes "exec_inv kec dir (je_job_id x) s" "je_nonce_store x = Some dir"
    and "out = RanInference \<Longrightarrow> xs_files s (artifacts_path dir (je_job_id x)) = None"
    and "exec_inv kec dir (je_job_id x) s' \<and> out \<noteq> RanInference \<or>
      out = RanInference \<and> xs_files s' = xs_files s \<and> xs_signed s' = xs_signed s \<and>
      jp_artifacts (xs_progress s) = None \<and>
      (\<exists>outp nonce. xs_files s (path_for dir (je_job_id x)) = Some nonce \<and> length nonce = 32 \<and>
         xs_progress s' = (xs_progress s)\<lparr>jp_nonce := Some nonce, jp_artifacts := Some (build kec outp nonce)\<rparr>)"
  shows "exec_inv kec dir (je_job_id x) (snd (persist w x (out, s')))"
proof (cases "out = RanInference")
  case False
  then show ?thesis using assms(2,4) by (auto simp: persist_def split: option.splits)
next
  case True
  let ?i = "je_job_id x"
  obtain outp nonce where p: "xs_files s (path_for dir ?i) = Some nonce" "length nonce = 32"
    "xs_progress s' = (xs_progress s)\<lparr>jp_nonce := Some nonce, jp_artifacts := Some (build kec outp nonce)\<rparr>"
    "xs_files s' = xs_files s" "xs_signed s' = xs_signed s"
    using assms(4) True by blast
  have "xs_files s (artifacts_path dir ?i) = None" using assms(3) True by blast
  then have "\<not> stored kec dir ?i (xs_files s) art" for art by (simp add: stored_def)
  then have fresh: "\<forall>r \<in> set (xs_signed s). \<not> is_commit r" using assms(1) by (auto simp: exec_inv_def)
  obtain r fs where save: "save_artifacts (tw_save w) dir ?i (build kec outp nonce) (xs_files s) = (r, fs)"
    by fastforce
  have nonce: "fs (path_for dir ?i) = Some nonce"
    using save_frame(1) [OF save, of "path_for dir ?i"] p(1) by simp
  show ?thesis
  proof (cases r)
    case (Inl e)
    then show ?thesis using True assms(2) p save fresh nonce
      by (simp add: persist_def record_error_def exec_inv_def)
  next
    case (Inr u)
    then have "stored kec dir ?i fs (build kec outp nonce)"
      using save_ok [of "tw_save w" dir ?i] save nonce p(2) by (auto simp: stored_def)
    then show ?thesis using Inr True assms(2) p save fresh nonce
      by (simp add: persist_def exec_inv_def)
  qed
qed

lemma job_step_inv:
  assumes inv: "exec_inv kec dir (je_job_id x) s" and ok: "world_ok w"
    and store: "je_nonce_store x = Some dir" and kec: "ev_kec ev = kec"
  shows "exec_inv kec dir (je_job_id x) (snd (job_step ev x w s))"
proof (cases "tw_resolved w")
  case (Inl e)
  then show ?thesis using inv by (auto simp: job_step_def intro: exec_inv_same)
next
  case (Inr rj)
  show ?thesis
  proof (cases "assigned_provider (rj_job rj) = je_me x")
    case False
    then show ?thesis using inv Inr by (simp add: job_step_def)
  next
    case True
    define s1 where "s1 = s\<lparr>xs_progress := (xs_progress s)\<lparr>jp_committed := rj_committed rj\<rparr>\<rparr>"
    have inv1: "exec_inv kec dir (je_job_id x) s1" using inv by (simp add: s1_def exec_inv_committed)
    have files1: "xs_files s1 = xs_files s" by (simp add: s1_def)
    obtain r fs where nonce: "resolve_nonce w x (rj_committed rj) (xs_files s1) = (r, fs)" by fastforce
    define s2 where "s2 = s1\<lparr>xs_files := fs\<rparr>"
    have inv2: "exec_inv kec dir (je_job_id x) s2"
      and seed: "\<And>n. r = Inr n \<Longrightarrow> xs_files s2 (path_for dir (je_job_id x)) = Some n \<and> length n = 32"
      using resolve_nonce_inv [OF inv1 ok store nonce] by (simp_all add: s2_def)
    have step: "job_step ev x w s = (case r of
        Inl e \<Rightarrow> record_error e s2
      | Inr seed \<Rightarrow> (case resolve_artifacts ev w x rj seed (xs_files s2) (xs_progress s2) of
          Inl e \<Rightarrow> record_error e s2
        | Inr p \<Rightarrow> (case resolve_input ev w x rj p of
            InputRefused e \<Rightarrow> record_error e (s2\<lparr>xs_progress := p\<rparr>)
          | InputMissing \<Rightarrow> (AwaitingInput, s2\<lparr>xs_progress := p\<rparr>)
          | InputBytes input \<Rightarrow> persist w x (drive_job ev w (step_context x rj input) seed
              (s2\<lparr>xs_progress := p\<rparr>)))))"
      using Inr True nonce unfolding s2_def s1_def
      by (simp add: job_step_def Let_def split: sum.splits input_result.splits)
    show ?thesis
    proof (cases r)
      case (Inl e)
      then show ?thesis using inv2 step by (auto intro: exec_inv_same)
    next
      case (Inr n)
      note n = seed [OF Inr]
      show ?thesis
      proof (cases "resolve_artifacts ev w x rj n (xs_files s2) (xs_progress s2)")
        case (Inl e)
        then show ?thesis using inv2 step Inr by (auto intro: exec_inv_same)
      next
        case (Inr p)
        define s3 where "s3 = s2\<lparr>xs_progress := p\<rparr>"
        have inv3: "exec_inv kec dir (je_job_id x) s3"
          and fresh: "jp_artifacts p = None \<Longrightarrow> xs_files s3 (artifacts_path dir (je_job_id x)) = None"
          using resolve_artifacts_inv [OF inv2 store kec _ _ Inr] n by (simp_all add: s3_def)
        have n3: "xs_files s3 (path_for dir (je_job_id x)) = Some n" "length n = 32"
          using n by (simp_all add: s3_def)
        show ?thesis
        proof (cases "resolve_input ev w x rj p")
          case (InputBytes input)
          obtain out s' where d: "drive_job ev w (step_context x rj input) n s3 = (out, s')" by fastforce
          note di = drive_job_inv [OF inv3 kec n3 d]
          have "out = RanInference \<Longrightarrow> xs_files s3 (artifacts_path dir (je_job_id x)) = None"
            using di fresh by (auto simp: s3_def)
          from persist_inv [OF inv3 store this di]
          show ?thesis using step \<open>r = Inr n\<close> Inr InputBytes d by (simp add: s3_def)
        qed (use inv3 step \<open>r = Inr n\<close> Inr in \<open>auto simp: s3_def intro: exec_inv_same\<close>)
      qed
    qed
  qed
qed

section \<open>Runs\<close>

datatype exec_op = Tick tick_world | Restart agent_state model_profiler

fun exec_op_step :: "exec_env \<Rightarrow> job_executor \<Rightarrow> exec_op \<Rightarrow> exec_state \<Rightarrow> exec_state" where
  "exec_op_step ev x (Tick w) s = job_tick ev x w s"
| "exec_op_step ev x (Restart a prof) s = restart a prof s"

fun op_possible :: "exec_op \<Rightarrow> bool" where
  "op_possible (Tick w) = world_ok w"
| "op_possible (Restart _ _) = True"

definition exec_run :: "exec_env \<Rightarrow> job_executor \<Rightarrow> exec_op list \<Rightarrow> exec_state \<Rightarrow> exec_state" where
  "exec_run ev x ops s = fold (exec_op_step ev x) ops s"

text \<open>The executor of a job with a store, as an instance of the run contract.\<close>

definition stored_job_inv :: "exec_env \<Rightarrow> job_executor \<Rightarrow> exec_state \<Rightarrow> bool" where
  "stored_job_inv ev x s \<longleftrightarrow> (\<forall>dir. je_nonce_store x = Some dir \<longrightarrow> exec_inv (ev_kec ev) dir (je_job_id x) s)"

interpretation exec: invariant_ops "exec_op_step ev x" op_possible "stored_job_inv ev x"
  for ev :: exec_env and x
proof
  fix op :: exec_op and s
  assume "op_possible op" "stored_job_inv ev x s"
  then show "stored_job_inv ev x (exec_op_step ev x op s)"
    by (cases op)
      (auto simp: stored_job_inv_def job_tick_def restart_def job_progress_default_def
        intro: job_step_inv, simp add: exec_inv_def)
qed

lemma exec_run_inv:
  assumes "\<And>op. op \<in> set ops \<Longrightarrow> op_possible op" "exec_inv (ev_kec ev) dir (je_job_id x) s"
    "je_nonce_store x = Some dir"
  shows "exec_inv (ev_kec ev) dir (je_job_id x) (exec_run ev x ops s)"
proof -
  have "stored_job_inv ev x s" using assms(2,3) by (simp add: stored_job_inv_def)
  then have "stored_job_inv ev x (fold (exec_op_step ev x) ops s)"
    using assms(1) by (intro exec.run_inv) auto
  then show ?thesis using assms(3) by (simp add: stored_job_inv_def exec_run_def)
qed

definition fresh_state :: "agent_state \<Rightarrow> model_profiler \<Rightarrow> files \<Rightarrow> file_map \<Rightarrow> exec_state" where
  "fresh_state a prof fs cache = \<lparr>xs_agent = a, xs_progress = job_progress_default, xs_files = fs,
     xs_cache = cache, xs_profiler = prof, xs_signed = []\<rparr>"

lemma fresh_inv: "exec_inv kec dir i (fresh_state a prof fs cache)"
  by (simp add: exec_inv_def fresh_state_def job_progress_default_def)

lemma one_artifact:
  assumes "hash32 kec" "exec_inv kec dir i s"
  shows "\<exists>art. verify_commitment kec (commitment art) (proof_bytes art) \<and>
    (\<forall>r \<in> set (xs_signed s). commit_write kec art r)"
proof (cases "\<exists>r \<in> set (xs_signed s). is_commit r")
  case True
  then obtain art where art: "stored kec dir i (xs_files s) art"
    using assms(2) by (auto simp: exec_inv_def)
  have "commit_write kec art r" if mem: "r \<in> set (xs_signed s)" for r
  proof (cases "is_commit r")
    case True
    then obtain art' where "stored kec dir i (xs_files s) art'" "commit_write kec art' r"
      using assms(2) mem True unfolding exec_inv_def by blast
    then show ?thesis using stored_unique [OF assms(1) art] by blast
  qed (simp add: commit_write_def is_commit_def)
  then show ?thesis using stored_verifies [OF assms(1) art] by blast
next
  case False
  have "verify_commitment kec (commitment (build kec [] (replicate 32 0)))
      (proof_bytes (build kec [] (replicate 32 0)))"
    using assms(1) by (intro build_verifies) simp_all
  moreover have "\<forall>r \<in> set (xs_signed s). commit_write kec (build kec [] (replicate 32 0)) r"
    using False by (auto simp: commit_write_def is_commit_def)
  ultimately show ?thesis by blast
qed

section \<open>What was run\<close>

lemma persist_ran: "fst (persist w x r) = RanInference \<Longrightarrow>
    fst r = RanInference \<and> xs_cache (snd (persist w x r)) = xs_cache (snd r)"
  by (auto simp: persist_def record_error_def split: prod.splits option.splits sum.splits if_splits)

lemma run_inference_ran:
  assumes "fst (run_inference ev w ctx seed s) = RanInference"
  shows "length (jc_input ctx) \<le> max_job_input_bytes (ev_env ev) \<and>
    (\<exists>m cache outp. provision (ev_sha ev) (tw_cache_io w) (model_hash (jc_job ctx)) (jc_ipfs_cid ctx)
       (jc_is_active ctx) (jc_expected_size ctx) (jc_expected_sha256 ctx) (jc_cache_dir ctx)
       (tw_fetch w) (xs_cache s) = (Inr m, cache) \<and>
     xs_cache (snd (run_inference ev w ctx seed s)) = cache \<and> tw_infer w m (jc_input ctx) = Inr outp)"
  using assms by (auto simp: run_inference_def Let_def split: if_splits sum.splits prod.splits)

lemma drive_job_ran: "fst (drive_job ev w ctx seed s) = RanInference \<Longrightarrow>
    drive_job ev w ctx seed s = run_inference ev w ctx seed s \<and>
    plan (ev_kec ev) (context_plan ev ctx (xs_progress s)) = RunInference"
  using sign_request_frame [of w _ s]
  by (auto simp: drive_job_def split: lifecycle_action.splits)

lemma job_step_ran:
  assumes "fst (job_step ev x w s) = RanInference"
  shows "\<exists>rj input seed s1. tw_resolved w = Inr rj \<and> assigned_provider (rj_job rj) = je_me x \<and>
    xs_cache s1 = xs_cache s \<and> resolve_input ev w x rj (xs_progress s1) = InputBytes input \<and>
    fst (drive_job ev w (step_context x rj input) seed s1) = RanInference \<and>
    xs_cache (snd (job_step ev x w s)) = xs_cache (snd (drive_job ev w (step_context x rj input) seed s1))"
proof (cases "tw_resolved w")
  case (Inr rj)
  let ?s1 = "\<lambda>fs p. s\<lparr>xs_files := fs, xs_progress := p\<rparr>"
  have upd: "s\<lparr>xs_progress := q, xs_files := fs, xs_progress := p\<rparr> = ?s1 fs p" for q fs p by simp
  obtain seed fs p input where r: "assigned_provider (rj_job rj) = je_me x"
    "resolve_input ev w x rj p = InputBytes input"
    "job_step ev x w s = persist w x (drive_job ev w (step_context x rj input) seed (?s1 fs p))"
    using assms Inr
    by (auto simp: job_step_def Let_def split: if_splits sum.splits prod.splits input_result.splits)
  from r(3) assms have "fst (drive_job ev w (step_context x rj input) seed (?s1 fs p)) = RanInference \<and>
      xs_cache (snd (job_step ev x w s)) =
        xs_cache (snd (drive_job ev w (step_context x rj input) seed (?s1 fs p)))"
    using persist_ran by metis
  with Inr r(1,2) show ?thesis by (intro exI [of _ rj] exI [of _ input] exI [of _ seed] exI [of _ "?s1 fs p"]) simp
qed (use assms in \<open>simp add: job_step_def\<close>)

lemma job_step_bound:
  assumes "fst (job_step ev x w s) = RanInference"
  shows "\<exists>rj input m. tw_resolved w = Inr rj \<and> assigned_provider (rj_job rj) = je_me x \<and>
    state_of (rj_job rj) = Executing \<and> tw_input w = Inr (Some input) \<and>
    input_hash (rj_job rj) = Some (ev_kec ev input) \<and>
    length input \<le> max_job_input_bytes (ev_env ev) \<and>
    pm_model_hash m = model_hash (rj_job rj) \<and> rj_is_active rj \<and> validate_cid (rj_ipfs_cid rj) \<and>
    (\<exists>digest bs. trusted_digest (rj_expected_sha256 rj) (rj_ipfs_cid rj) = Some digest \<and>
       xs_cache (snd (job_step ev x w s)) (pm_path m) = Some bs \<and> ev_sha ev bs = digest) \<and>
    (\<exists>outp. tw_infer w m input = Inr outp)"
proof -
  obtain rj input seed s1 where r: "tw_resolved w = Inr rj" "assigned_provider (rj_job rj) = je_me x"
    "xs_cache s1 = xs_cache s" "resolve_input ev w x rj (xs_progress s1) = InputBytes input"
    "fst (drive_job ev w (step_context x rj input) seed s1) = RanInference"
    "xs_cache (snd (job_step ev x w s)) = xs_cache (snd (drive_job ev w (step_context x rj input) seed s1))"
    using job_step_ran [OF assms] by blast
  note d = drive_job_ran [OF r(5)]
  have plan: "state_of (rj_job rj) = Executing" "jp_artifacts (xs_progress s1) = None"
    using d by (auto simp: plan_inference_iff context_plan_def step_context_def)
  then have inp: "tw_input w = Inr (Some input)" "input_hash (rj_job rj) = Some (ev_kec ev input)"
    using r(4) by (auto simp: resolve_input_def keccak256_bytes_def keccak256_def
        split: sum.splits option.splits if_splits)
  have run: "fst (run_inference ev w (step_context x rj input) seed s1) = RanInference"
    using d r(5) by simp
  obtain m cache outp where p: "provision (ev_sha ev) (tw_cache_io w) (model_hash (rj_job rj))
      (rj_ipfs_cid rj) (rj_is_active rj) (rj_expected_size rj) (rj_expected_sha256 rj) (je_cache_dir x)
      (tw_fetch w) (xs_cache s1) = (Inr m, cache)"
    "xs_cache (snd (job_step ev x w s)) = cache" "tw_infer w m input = Inr outp"
    "length input \<le> max_job_input_bytes (ev_env ev)"
    using run_inference_ran [OF run] d r(6) by (auto simp: step_context_def)
  show ?thesis
    using provision_Inr [OF p(1)] p(2-4) plan(1) inp r(1,2) by blast
qed

section \<open>Properties\<close>

text \<open>C3: A reveal always matches its commitment. Start an executor that has a nonce store with any
  files on disk, let it take any sequence of steps and restarts, whatever the chain, the sources,
  the inference and the file system answer in each step: there is one set of artifacts such that
  every \<open>submitCommitment\<close> it ever requested carries their commitment and every \<open>submitResult\<close> their
  output hash and proof, and the verifier's check accepts that proof for that commitment. So a crash
  or failed write between commitment and reveal never leads to a slashable mismatch.\<close>

theorem reveal_matches_commitment:
  assumes "hash32 (ev_kec ev)" "je_nonce_store x = Some dir" "\<And>op. op \<in> set ops \<Longrightarrow> op_possible op"
  shows "\<exists>art. verify_commitment (ev_kec ev) (commitment art) (proof_bytes art) \<and>
    (\<forall>r \<in> set (xs_signed (exec_run ev x ops (fresh_state a prof fs cache))).
       commit_write (ev_kec ev) art r)"
  using one_artifact [OF assms(1) exec_run_inv [OF assms(3) fresh_inv assms(2)]] .

definition sample_env :: exec_env where
  "sample_env = \<lparr>ev_kec = (\<lambda>_. replicate 32 0), ev_sha = (\<lambda>_. [7]), ev_env = (\<lambda>_. None),
     ev_debug = (\<lambda>s. s)\<rparr>"

definition sample_executor :: job_executor where
  "sample_executor = \<lparr>je_job_id = 42, je_me = replicate 20 3, je_marketplace = replicate 20 8,
     je_chain_id = 40204, je_cache_dir = ''c'', je_nonce = [], je_nonce_store = Some ''d''\<rparr>"

definition sample_write_io :: write_io where
  "sample_write_io = \<lparr>wi_create = None, wi_write = None, wi_sync = None\<rparr>"

definition sample_resolved :: resolved_job where
  "sample_resolved = \<lparr>rj_job = sample_chain_job\<lparr>state_of := Executing, input_hash := Some (replicate 32 0)\<rparr>,
     rj_ipfs_cid = sample_cid, rj_is_active = True, rj_expected_size = None,
     rj_expected_sha256 = Some [7], rj_current_block = 150, rj_committed = False,
     rj_gates = chain_gates_default\<rparr>"

definition sample_world :: tick_world where
  "sample_world = \<lparr>tw_resolved = Inr sample_resolved, tw_input = Inr (Some [1, 2]),
     tw_fetch = (\<lambda>_. Inr [9]), tw_cache_io = good_io, tw_infer = (\<lambda>_ _. Inr [5]), tw_elapsed = 3,
     tw_signer = (\<lambda>_ a. (Inr \<lparr>tx_hash_seen = None\<rparr>, a)), tw_nonce_read = None,
     tw_mint = \<lparr>mi_mkdir = None, mi_harden = None, mi_random = Inr (replicate 32 1),
       mi_file = sample_write_io\<rparr>,
     tw_load = \<lparr>li_open = None, li_read = None, li_nonce = None\<rparr>,
     tw_save = \<lparr>si_mkdir = None, si_harden = None, si_remove = None, si_file = sample_write_io,
       si_rename = None, si_sync_dir = None\<rparr>\<rparr>"

lemma sample_facts:
  "ev_kec sample_env = (\<lambda>_. replicate 32 0)" "je_nonce_store sample_executor = Some ''d''"
  "op_possible (Tick sample_world)"
  by (simp_all add: sample_env_def sample_executor_def world_ok_def sample_world_def)

lemma reveal_matches_commitment_witness:
  "\<exists>art. verify_commitment (\<lambda>_. replicate 32 0) (commitment art) (proof_bytes art) \<and>
    list_all (commit_write (\<lambda>_. replicate 32 0) art)
      (xs_signed (exec_run sample_env sample_executor
         [Tick sample_world, Tick sample_world, Restart agent_new (profiler_new 1 1), Tick sample_world]
         (fresh_state agent_new (profiler_new 1 1) (\<lambda>_. None) (\<lambda>_. None))))"
proof -
  have "hash32 (ev_kec sample_env)" by (simp add: sample_facts hash32_def)
  moreover have "op_possible op"
    if "op \<in> set [Tick sample_world, Tick sample_world, Restart agent_new (profiler_new 1 1), Tick sample_world]"
    for op using that sample_facts(3) by auto
  ultimately show ?thesis
    using reveal_matches_commitment [of sample_env sample_executor "''d''"
        "[Tick sample_world, Tick sample_world, Restart agent_new (profiler_new 1 1), Tick sample_world]"
        agent_new "profiler_new 1 1" "\<lambda>_. None" "\<lambda>_. None"]
    unfolding sample_facts list_all_iff by blast
qed

text \<open>C26: A committed job whose nonce is gone is left alone: when the chain reports the commitment and
  the store holds no nonce for the job, the step is an error that signs nothing, mints nothing and
  changes no file.\<close>

theorem lost_nonce_refused:
  assumes "tw_resolved w = Inr rj" "assigned_provider (rj_job rj) = je_me x" "rj_committed rj"
    and "je_nonce_store x = Some dir" "xs_files s (path_for dir (je_job_id x)) = None"
  shows "\<exists>e. fst (job_step ev x w s) = StepError e \<and>
    xs_signed (snd (job_step ev x w s)) = xs_signed s \<and> xs_files (snd (job_step ev x w s)) = xs_files s"
  using assms
  by (cases "tw_nonce_read w") (simp_all add: job_step_def resolve_nonce_def nonce_load_def Let_def)

lemma lost_nonce_refused_witness:
  "\<exists>e. fst (job_step sample_env sample_executor
       (sample_world\<lparr>tw_resolved := Inr (sample_resolved\<lparr>rj_committed := True\<rparr>)\<rparr>)
       (fresh_state agent_new (profiler_new 1 1) (\<lambda>_. None) (\<lambda>_. None))) = StepError e"
  using lost_nonce_refused [of "sample_world\<lparr>tw_resolved := Inr (sample_resolved\<lparr>rj_committed := True\<rparr>)\<rparr>"
      "sample_resolved\<lparr>rj_committed := True\<rparr>" sample_executor "''d''"
      "fresh_state agent_new (profiler_new 1 1) (\<lambda>_. None) (\<lambda>_. None)" sample_env]
  by (auto simp: sample_resolved_def sample_executor_def sample_chain_job_def fresh_state_def)

text \<open>C14: Inference runs only on what was bought: a step that ran it did so for a job in execution
  assigned to this provider, on the delivered input whose Keccak-256 digest is the job's on-chain
  input hash and whose size is within the cap, with an active model whose file was verified against
  its trusted digest.\<close>

theorem inference_input_bound:
  assumes "fst (job_step ev x w s) = RanInference"
  shows "\<exists>rj input m. tw_resolved w = Inr rj \<and> assigned_provider (rj_job rj) = je_me x \<and>
    state_of (rj_job rj) = Executing \<and> tw_input w = Inr (Some input) \<and>
    input_hash (rj_job rj) = Some (ev_kec ev input) \<and>
    length input \<le> max_job_input_bytes (ev_env ev) \<and>
    pm_model_hash m = model_hash (rj_job rj) \<and> rj_is_active rj \<and> validate_cid (rj_ipfs_cid rj) \<and>
    (\<exists>digest bs. trusted_digest (rj_expected_sha256 rj) (rj_ipfs_cid rj) = Some digest \<and>
       xs_cache (snd (job_step ev x w s)) (pm_path m) = Some bs \<and> ev_sha ev bs = digest) \<and>
    (\<exists>outp. tw_infer w m input = Inr outp)"
  using assms by (rule job_step_bound)

lemma sample_cid_gate: "exec_validate_cid debug sample_cid = Inr ()"
  using sample_cid_valid
  by (simp add: exec_validate_cid_def sample_cid_def starts_with_def ascii_alnum_def char_in_def)

lemma sample_plan:
  "plan kec (context_plan ev (step_context sample_executor sample_resolved input)
     \<lparr>jp_committed = False, jp_artifacts = None, jp_nonce = None\<rparr>) = RunInference"
  by (simp add: plan_inference_iff context_plan_def step_context_def sample_resolved_def
      sample_executor_def sample_chain_job_def effective_tier_def chain_gates_default_def
      COMMITMENT_TIER_VALUE_THRESHOLD_WEI_def word_less_nat_alt)

lemma sample_provision:
  "provision (\<lambda>_. [7]) good_io mh sample_cid True None (Some [7]) dir (\<lambda>_. Inr [9]) (\<lambda>_. None) =
     (Inr \<lparr>pm_model_hash = mh, pm_path = cache_file dir mh, pm_bytes_len = 1,
        pm_integrity = Sha256Verified\<rparr>, (\<lambda>_. None)(cache_file dir mh \<mapsto> [9]))"
proof -
  have "sample_cid \<noteq> []" by (simp add: sample_cid_def)
  then show ?thesis
    by (simp add: provision_def provision_fetch_def good_io_def sample_cid_valid size_ok_def Let_def)
qed

lemma sample_fields:
  "tw_resolved sample_world = Inr sample_resolved" "tw_input sample_world = Inr (Some [1, 2])"
  "tw_fetch sample_world = (\<lambda>_. Inr [9])" "tw_cache_io sample_world = good_io"
  "tw_infer sample_world = (\<lambda>_ _. Inr [5])" "rj_ipfs_cid sample_resolved = sample_cid"
  "rj_is_active sample_resolved" "rj_expected_size sample_resolved = None"
  "rj_expected_sha256 sample_resolved = Some [7]" "\<not> rj_committed sample_resolved"
  "ev_sha sample_env = (\<lambda>_. [7])" "max_job_input_bytes (ev_env sample_env) = 33554432"
  "ev_debug sample_env = (\<lambda>s. s)"
  by (simp_all add: sample_world_def sample_resolved_def sample_env_def max_job_input_bytes_def
      positive_from_env_def DEFAULT_MAX_JOB_INPUT_BYTES_def)

lemma sample_inference:
  "fst (run_inference sample_env sample_world (step_context sample_executor sample_resolved [1, 2])
     seed (fresh_state a prof fs (\<lambda>_. None))) = RanInference"
  by (simp add: run_inference_def Let_def step_context_def sample_fields sample_cid_gate
      fresh_state_def with_active_def sample_provision)

lemma sample_step:
  "fst (job_step sample_env sample_executor sample_world
     (fresh_state agent_new (profiler_new 1 1) (\<lambda>_. None) (\<lambda>_. None))) = RanInference"
proof -
  let ?s = "\<lambda>fs. fresh_state agent_new (profiler_new 1 1) fs (\<lambda>_. None)"
  let ?fs = "(\<lambda>_. None)(path_for ''d'' 42 \<mapsto> replicate 32 1)"
  let ?p = "\<lparr>jp_committed = False, jp_artifacts = None, jp_nonce = None\<rparr>"
  let ?ctx = "step_context sample_executor sample_resolved [1, 2]"
  have state: "?s fs\<lparr>xs_progress := ?p\<rparr> = ?s fs" "?s (\<lambda>_. None)\<lparr>xs_files := fs\<rparr> = ?s fs"
    "xs_progress (?s fs) = ?p" "xs_files (?s fs) = fs" for fs
    by (simp_all add: fresh_state_def job_progress_default_def)
  obtain s3 where run: "run_inference sample_env sample_world ?ctx (replicate 32 1) (?s ?fs) = (RanInference, s3)"
    using sample_inference [of "replicate 32 1"] by (metis prod.collapse)
  then have drive: "drive_job sample_env sample_world ?ctx (replicate 32 1) (?s ?fs) = (RanInference, s3)"
    by (simp add: drive_job_def sample_plan state)
  have files: "xs_files s3 = ?fs"
    using run_inference_frame [of sample_env sample_world ?ctx "replicate 32 1" "?s ?fs"] run
    by (simp add: state)
  have nonce: "resolve_nonce sample_world sample_executor False (\<lambda>_. None) = (Inr (replicate 32 1), ?fs)"
    by (simp add: resolve_nonce_def sample_executor_def sample_world_def nonce_load_def nonce_mint_def
        write_new_0600_def sample_write_io_def)
  have arts: "resolve_artifacts sample_env sample_world sample_executor sample_resolved (replicate 32 1) ?fs ?p = Inr ?p"
    by (simp add: resolve_artifacts_def sample_executor_def sample_world_def load_artifacts_def
        load_artifacts_capped_def sample_resolved_def)
  have inp: "resolve_input sample_env sample_world sample_executor sample_resolved ?p = InputBytes [1, 2]"
    by (simp add: resolve_input_def sample_resolved_def sample_world_def sample_env_def
        keccak256_bytes_def keccak256_def)
  have mine: "assigned_provider (rj_job sample_resolved) = je_me sample_executor"
    by (simp add: sample_resolved_def sample_executor_def sample_chain_job_def)
  have "job_step sample_env sample_executor sample_world (?s (\<lambda>_. None)) =
      persist sample_world sample_executor (RanInference, s3)"
    by (simp add: job_step_def sample_fields mine state nonce arts inp drive)
  then show ?thesis
    by (auto simp: persist_def sample_world_def sample_write_io_def save_artifacts_def
        write_new_0600_def files split: option.splits)
qed

lemma inference_input_bound_witness:
  "\<exists>rj. tw_resolved sample_world = Inr rj \<and> input_hash (rj_job rj) = Some (ev_kec sample_env [1, 2])"
  using inference_input_bound [OF sample_step] by (auto simp: sample_fields)

end
