(* ===== verification/Settlement.thy ===== *)
theory Settlement
  imports Execution_Safety
begin

text \<open>
  A won job from assignment to payment: the executor of \<open>Execution\<close> against the chain whose
  transitions \<open>crates/lifecycle/src/lib.rs\<close> documents. The chain is a parameter: it answers every
  step with the next reads, and \<open>chain_follows\<close> is what the documentation says of them. The process
  may be restarted between any two steps. \<open>steps_left\<close> bounds the steps to completion.
\<close>

section \<open>The chain's answers\<close>

definition next_state :: "step_outcome \<Rightarrow> job_state \<Rightarrow> job_state" where
  "next_state out st =
     (case out of
        Signed w \<Rightarrow> (case w of StartExecution \<Rightarrow> Executing | SubmitResult \<Rightarrow> Verifying
          | CompleteJob \<Rightarrow> Completed | _ \<Rightarrow> st)
      | _ \<Rightarrow> st)"

text \<open>What the documentation says of the next reads \<open>rj'\<close>: only the write that was signed changes
  the job, when it is mined; blocks go on; the commitment and the verification carry the block they
  landed in.\<close>

definition chain_follows :: "bool \<Rightarrow> step_outcome \<Rightarrow> resolved_job \<Rightarrow> resolved_job \<Rightarrow> bool" where
  "chain_follows mined out rj rj' \<longleftrightarrow>
     rj_current_block rj < rj_current_block rj' \<and>
     rj' = rj\<lparr>rj_current_block := rj_current_block rj',
       rj_job := (rj_job rj)\<lparr>state_of := (if mined then next_state out (state_of (rj_job rj)) else state_of (rj_job rj))\<rparr>,
       rj_committed := (rj_committed rj \<or> mined \<and> out = Signed SubmitCommitment),
       rj_gates := (rj_gates rj)\<lparr>commitment_block := commitment_block (rj_gates rj'),
         result_verified_at := result_verified_at (rj_gates rj')\<rparr>\<rparr> \<and>
     (if mined \<and> out = Signed SubmitCommitment
      then commitment_block (rj_gates rj') \<le> rj_current_block rj'
      else commitment_block (rj_gates rj') = commitment_block (rj_gates rj)) \<and>
     (if mined \<and> out = Signed SubmitResult
      then 0 < result_verified_at (rj_gates rj') \<and> result_verified_at (rj_gates rj') \<le> rj_current_block rj'
      else result_verified_at (rj_gates rj') = result_verified_at (rj_gates rj))"

text \<open>A step, the chain's answer and, possibly, a restart.\<close>

definition restarted :: "(agent_state \<times> model_profiler) option \<Rightarrow> exec_state \<Rightarrow> exec_state" where
  "restarted r s = (case r of None \<Rightarrow> s | Some (a, prof) \<Rightarrow> restart a prof s)"

primrec job_run ::
    "exec_env \<Rightarrow> job_executor \<Rightarrow> (nat \<Rightarrow> tick_world) \<Rightarrow> (nat \<Rightarrow> (agent_state \<times> model_profiler) option) \<Rightarrow>
       (nat \<Rightarrow> step_outcome \<Rightarrow> resolved_job \<Rightarrow> resolved_job) \<Rightarrow> resolved_job \<times> exec_state \<Rightarrow> nat \<Rightarrow>
       resolved_job \<times> exec_state" where
  "job_run ev x W R chain c 0 = c"
| "job_run ev x W R chain c (Suc k) =
     (case job_run ev x W R chain c k of (rj, s) \<Rightarrow>
      case job_step ev x ((W k)\<lparr>tw_resolved := Inr rj\<rparr>) s of (out, s') \<Rightarrow>
        (chain k out rj, restarted (R k) s'))"

definition run_outcome ::
    "exec_env \<Rightarrow> job_executor \<Rightarrow> (nat \<Rightarrow> tick_world) \<Rightarrow> (nat \<Rightarrow> (agent_state \<times> model_profiler) option) \<Rightarrow>
       (nat \<Rightarrow> step_outcome \<Rightarrow> resolved_job \<Rightarrow> resolved_job) \<Rightarrow> resolved_job \<times> exec_state \<Rightarrow> nat \<Rightarrow> step_outcome" where
  "run_outcome ev x W R chain c k =
     (case job_run ev x W R chain c k of (rj, s) \<Rightarrow> fst (job_step ev x ((W k)\<lparr>tw_resolved := Inr rj\<rparr>) s))"

section \<open>Healthy surroundings\<close>

definition quiet_write :: write_io where
  "quiet_write = \<lparr>wi_create = None, wi_write = None, wi_sync = None\<rparr>"

definition quiet_load :: load_io where
  "quiet_load = \<lparr>li_open = None, li_read = None, li_nonce = None\<rparr>"

definition quiet_save :: save_io where
  "quiet_save = \<lparr>si_mkdir = None, si_harden = None, si_remove = None, si_file = quiet_write,
     si_rename = None, si_sync_dir = None\<rparr>"

text \<open>The store, the weight source, the inference server, the delivery and the signer all answer.\<close>

definition healthy :: "exec_env \<Rightarrow> tick_world \<Rightarrow> resolved_job \<Rightarrow> bool" where
  "healthy ev w rj \<longleftrightarrow>
     tw_nonce_read w = None \<and> mi_mkdir (tw_mint w) = None \<and> mi_harden (tw_mint w) = None \<and>
     (case mi_random (tw_mint w) of Inr n \<Rightarrow> length n = 32 | Inl _ \<Rightarrow> False) \<and>
     mi_file (tw_mint w) = quiet_write \<and> tw_load w = quiet_load \<and> tw_save w = quiet_save \<and>
     (case tw_input w of
        Inr (Some bs) \<Rightarrow> input_hash (rj_job rj) = Some (ev_kec ev bs) \<and> length bs \<le> max_job_input_bytes (ev_env ev)
      | _ \<Rightarrow> False) \<and>
     exec_validate_cid (ev_debug ev) (rj_ipfs_cid rj) = Inr () \<and> rj_is_active rj \<and>
     ci_mkdir_error (tw_cache_io w) = None \<and> ci_write_error (tw_cache_io w) = None \<and>
     (case tw_fetch w (rj_ipfs_cid rj) of
        Inr bs \<Rightarrow> size_ok (rj_expected_size rj) bs \<and>
          trusted_digest (rj_expected_sha256 rj) (rj_ipfs_cid rj) = Some (ev_sha ev bs)
      | Inl _ \<Rightarrow> False) \<and>
     (\<forall>m input. case tw_infer w m input of Inr outp \<Rightarrow> length outp + 64 \<le> MAX_ARTIFACTS_BYTES | Inl _ \<Rightarrow> False) \<and>
     (\<forall>req a. case fst (tw_signer w req a) of Inr _ \<Rightarrow> True | Inl _ \<Rightarrow> False)"

text \<open>A job settled under the Commitment tier that this provider won.\<close>

definition won_job :: "exec_env \<Rightarrow> job_executor \<Rightarrow> resolved_job \<Rightarrow> bool" where
  "won_job ev x rj \<longleftrightarrow> assigned_provider (rj_job rj) = je_me x \<and>
     effective_tier (context_plan ev (step_context x rj []) job_progress_default) = Commitment"

text \<open>What the files of the job must be like: no half-written nonce, and saved artifacts that load.\<close>

definition has_artifacts :: "string \<Rightarrow> u128 \<Rightarrow> files \<Rightarrow> bool" where
  "has_artifacts dir i fs \<longleftrightarrow> fs (artifacts_path dir i) \<noteq> None"

definition store_ready :: "(bytes \<Rightarrow> bytes) \<Rightarrow> string \<Rightarrow> u128 \<Rightarrow> files \<Rightarrow> bool" where
  "store_ready kec dir i fs \<longleftrightarrow>
     (case fs (path_for dir i) of None \<Rightarrow> True | Some n \<Rightarrow> length n = 32) \<and>
     (has_artifacts dir i fs \<longrightarrow> (case load_artifacts kec quiet_load dir i fs of Inr (Some _) \<Rightarrow> True | _ \<Rightarrow> False))"

definition ready_inv :: "(bytes \<Rightarrow> bytes) \<Rightarrow> string \<Rightarrow> u128 \<Rightarrow> exec_state \<Rightarrow> bool" where
  "ready_inv kec dir i s \<longleftrightarrow> exec_inv kec dir i s \<and> store_ready kec dir i (xs_files s)"

section \<open>A step in healthy surroundings\<close>

lemma provision_healthy:
  assumes "active" "validate_cid cid" "ci_mkdir_error io = None" "ci_write_error io = None"
    "fetch cid = Inr bs" "size_ok sz bs" "trusted_digest expected cid = Some (sha bs)"
  shows "\<exists>m. fst (provision sha io mh cid active sz expected dir fetch cache) = Inr m"
proof -
  have "cid \<noteq> []" using assms(2) by (auto simp: validate_cid_def)
  then show ?thesis
    using assms by (auto simp: provision_def provision_fetch_def trusted_digest_def Let_def split: option.splits)
qed

lemma cid_gate_valid: "exec_validate_cid debug cid = Inr () \<Longrightarrow> validate_cid cid"
  by (auto simp: exec_validate_cid_def Let_def split: if_splits)

lemma sum_InrE: "(case r of Inr y \<Rightarrow> P y | Inl _ \<Rightarrow> False) \<Longrightarrow> \<exists>y. r = Inr y \<and> P y"
  by (cases r) simp_all

lemma healthy_facts:
  assumes "healthy ev w rj"
  shows "tw_nonce_read w = None" "tw_load w = quiet_load" "tw_save w = quiet_save"
    and "rj_is_active rj" "ci_mkdir_error (tw_cache_io w) = None" "ci_write_error (tw_cache_io w) = None"
    and "exec_validate_cid (ev_debug ev) (rj_ipfs_cid rj) = Inr ()"
  using assms by (simp_all add: healthy_def)

lemma healthy_mint:
  assumes "healthy ev w rj" "fs (path_for dir i) = None"
  shows "\<exists>n. nonce_mint (tw_mint w) dir i fs = (Inr n, fs(path_for dir i \<mapsto> n)) \<and> length n = 32"
proof -
  have "case mi_random (tw_mint w) of Inr n \<Rightarrow> length n = 32 | Inl _ \<Rightarrow> False"
    using assms(1) by (simp add: healthy_def)
  then obtain n where "mi_random (tw_mint w) = Inr n" "length n = 32" using sum_InrE by blast
  moreover have "mi_mkdir (tw_mint w) = None" "mi_harden (tw_mint w) = None" "mi_file (tw_mint w) = quiet_write"
    using assms(1) by (simp_all add: healthy_def)
  ultimately show ?thesis using assms(2) by (simp add: nonce_mint_def write_new_0600_def quiet_write_def)
qed

lemma healthy_input:
  assumes "healthy ev w rj"
  shows "\<exists>bs. tw_input w = Inr (Some bs) \<and> input_hash (rj_job rj) = Some (ev_kec ev bs) \<and>
    length bs \<le> max_job_input_bytes (ev_env ev)"
proof -
  have "case tw_input w of Inr (Some bs) \<Rightarrow> input_hash (rj_job rj) = Some (ev_kec ev bs) \<and>
      length bs \<le> max_job_input_bytes (ev_env ev) | _ \<Rightarrow> False"
    using assms by (simp add: healthy_def)
  then show ?thesis by (auto split: sum.splits option.splits)
qed

lemma healthy_fetch:
  assumes "healthy ev w rj"
  shows "\<exists>bs. tw_fetch w (rj_ipfs_cid rj) = Inr bs \<and> size_ok (rj_expected_size rj) bs \<and>
    trusted_digest (rj_expected_sha256 rj) (rj_ipfs_cid rj) = Some (ev_sha ev bs)"
proof -
  have "case tw_fetch w (rj_ipfs_cid rj) of Inr bs \<Rightarrow> size_ok (rj_expected_size rj) bs \<and>
      trusted_digest (rj_expected_sha256 rj) (rj_ipfs_cid rj) = Some (ev_sha ev bs) | Inl _ \<Rightarrow> False"
    using assms by (simp add: healthy_def)
  from sum_InrE [OF this] show ?thesis .
qed

lemma healthy_infer:
  assumes "healthy ev w rj"
  shows "\<exists>outp. tw_infer w m input = Inr outp \<and> length outp + 64 \<le> MAX_ARTIFACTS_BYTES"
proof -
  have "case tw_infer w m input of Inr outp \<Rightarrow> length outp + 64 \<le> MAX_ARTIFACTS_BYTES | Inl _ \<Rightarrow> False"
    using assms by (simp add: healthy_def)
  from sum_InrE [OF this] show ?thesis .
qed

lemma healthy_signer:
  assumes "healthy ev w rj"
  shows "\<exists>t a'. tw_signer w req a = (Inr t, a')"
proof -
  have "case fst (tw_signer w req a) of Inr _ \<Rightarrow> True | Inl _ \<Rightarrow> False"
    using assms by (simp add: healthy_def)
  then show ?thesis by (cases "tw_signer w req a"; cases "fst (tw_signer w req a)") auto
qed

lemma run_inference_healthy:
  assumes "healthy ev w rj" "tw_input w = Inr (Some input)"
  shows "\<exists>outp. fst (run_inference ev w (step_context x rj input) seed s) = RanInference \<and>
    length outp + 64 \<le> MAX_ARTIFACTS_BYTES \<and>
    xs_progress (snd (run_inference ev w (step_context x rj input) seed s)) = (xs_progress s)\<lparr>
      jp_nonce := Some (case jp_nonce (xs_progress s) of Some n \<Rightarrow> n | None \<Rightarrow> seed),
      jp_artifacts := Some (build (ev_kec ev) outp (case jp_nonce (xs_progress s) of Some n \<Rightarrow> n | None \<Rightarrow> seed))\<rparr>"
proof -
  note h = healthy_facts [OF assms(1)]
  have len: "\<not> max_job_input_bytes (ev_env ev) < length input"
    using healthy_input [OF assms(1)] assms(2) by auto
  obtain bs where f: "tw_fetch w (rj_ipfs_cid rj) = Inr bs" "size_ok (rj_expected_size rj) bs"
    "trusted_digest (rj_expected_sha256 rj) (rj_ipfs_cid rj) = Some (ev_sha ev bs)"
    using healthy_fetch [OF assms(1)] by blast
  obtain m cache where p: "provision (ev_sha ev) (tw_cache_io w) (model_hash (rj_job rj)) (rj_ipfs_cid rj)
      (rj_is_active rj) (rj_expected_size rj) (rj_expected_sha256 rj) (je_cache_dir x) (tw_fetch w) (xs_cache s) =
      (Inr m, cache)"
    using provision_healthy [where sha = "ev_sha ev" and fetch = "tw_fetch w" and bs = bs, OF h(4)
        cid_gate_valid [OF h(7)] h(5,6) f]
    by (metis prod.collapse)
  obtain outp where i: "tw_infer w m input = Inr outp" "length outp + 64 \<le> MAX_ARTIFACTS_BYTES"
    using healthy_infer [OF assms(1)] by blast
  show ?thesis
    using h(7) len p i
    by (intro exI [of _ outp]) (simp add: run_inference_def step_context_def Let_def)
qed

lemma store_ready_artifacts:
  assumes "store_ready kec dir i fs" "has_artifacts dir i fs"
  shows "\<exists>art. load_artifacts kec quiet_load dir i fs = Inr (Some art) \<and> stored kec dir i fs art"
  using assms by (auto simp: store_ready_def intro: load_artifacts_stored split: sum.splits option.splits)

lemma has_artifacts_nonce:
  assumes "store_ready kec dir i fs" "has_artifacts dir i fs"
  shows "\<exists>n. fs (path_for dir i) = Some n \<and> length n = 32"
  using store_ready_artifacts [OF assms] by (auto simp: stored_def)

lemma resolve_nonce_ready:
  assumes "healthy ev w rj" "je_nonce_store x = Some dir" "store_ready kec dir (je_job_id x) fs"
    "c \<Longrightarrow> has_artifacts dir (je_job_id x) fs"
  shows "\<exists>n fs'. resolve_nonce w x c fs = (Inr n, fs') \<and> fs' (path_for dir (je_job_id x)) = Some n \<and>
    length n = 32 \<and> store_ready kec dir (je_job_id x) fs' \<and>
    (has_artifacts dir (je_job_id x) fs' \<longleftrightarrow> has_artifacts dir (je_job_id x) fs)"
proof (cases "fs (path_for dir (je_job_id x))")
  case (Some n)
  then have "length n = 32" using assms(3) by (simp add: store_ready_def)
  then show ?thesis using Some assms(2,3) healthy_facts(1) [OF assms(1)]
    by (simp add: resolve_nonce_def nonce_load_def)
next
  case None
  then have none: "\<not> has_artifacts dir (je_job_id x) fs" using has_artifacts_nonce [OF assms(3)] by auto
  obtain n where n: "nonce_mint (tw_mint w) dir (je_job_id x) fs = (Inr n, fs(path_for dir (je_job_id x) \<mapsto> n))"
    "length n = 32" using healthy_mint [where ?fs = fs, OF assms(1) None] by blast
  have "\<not> has_artifacts dir (je_job_id x) (fs(path_for dir (je_job_id x) \<mapsto> n))"
    using none by (simp add: has_artifacts_def)
  then show ?thesis using None n none assms(2,4) healthy_facts(1) [OF assms(1)]
    by (auto simp: resolve_nonce_def nonce_load_def store_ready_def)
qed

lemma resolve_artifacts_ready:
  assumes "healthy ev w rj" "je_nonce_store x = Some dir" "ready_inv (ev_kec ev) dir (je_job_id x) s"
    "rj_committed rj \<Longrightarrow> has_artifacts dir (je_job_id x) (xs_files s)"
  shows "\<exists>p. resolve_artifacts ev w x rj seed (xs_files s) (xs_progress s) = Inr p \<and>
    jp_committed p = jp_committed (xs_progress s) \<and>
    (jp_artifacts p \<noteq> None \<longleftrightarrow> has_artifacts dir (je_job_id x) (xs_files s))"
proof (cases "jp_artifacts (xs_progress s)")
  case (Some art)
  then have "stored (ev_kec ev) dir (je_job_id x) (xs_files s) art"
    using assms(3) by (simp add: ready_inv_def exec_inv_def)
  then show ?thesis using Some by (auto simp: resolve_artifacts_def has_artifacts_def stored_def)
next
  case None
  show ?thesis
  proof (cases "has_artifacts dir (je_job_id x) (xs_files s)")
    case True
    then show ?thesis
      using None assms(2,3) store_ready_artifacts [of "ev_kec ev" dir "je_job_id x" "xs_files s"]
        healthy_facts(2) [OF assms(1)]
      by (auto simp: resolve_artifacts_def ready_inv_def)
  next
    case False
    then have "load_artifacts (ev_kec ev) quiet_load dir (je_job_id x) (xs_files s) = Inr None"
      by (simp add: has_artifacts_def load_artifacts_def load_artifacts_capped_def quiet_load_def)
    then show ?thesis using None False assms(2,4) healthy_facts(2) [OF assms(1)]
      by (auto simp: resolve_artifacts_def)
  qed
qed

lemma ready_files:
  "exec_inv kec dir i (s\<lparr>xs_files := fs\<rparr>) \<Longrightarrow> store_ready kec dir i fs \<Longrightarrow> ready_inv kec dir i (s\<lparr>xs_files := fs\<rparr>)"
  by (simp add: ready_inv_def)

lemma healthy_world_ok: "healthy ev w rj \<Longrightarrow> world_ok w"
  by (auto simp: healthy_def world_ok_def split: sum.splits)

lemma resolve_input_healthy:
  assumes "healthy ev w rj"
  shows "\<exists>input. resolve_input ev w x rj p = InputBytes input \<and>
    (state_of (rj_job rj) = Executing \<and> jp_artifacts p = None \<longrightarrow> tw_input w = Inr (Some input))"
proof -
  obtain bs where "tw_input w = Inr (Some bs)" "input_hash (rj_job rj) = Some (ev_kec ev bs)"
    using healthy_input [OF assms] by blast
  then show ?thesis
    by (cases "state_of (rj_job rj) = Executing \<and> jp_artifacts p = None")
      (auto simp: resolve_input_def keccak256_bytes_def keccak256_def)
qed

text \<open>A step of a won job in healthy surroundings reaches the planner, with the artifacts of the disk.\<close>

lemma step_reaches_planner:
  assumes h: "healthy ev w rj" and r: "tw_resolved w = Inr rj" and x: "je_nonce_store x = Some dir"
    and me: "assigned_provider (rj_job rj) = je_me x"
    and ready: "ready_inv (ev_kec ev) dir (je_job_id x) s"
    and com: "rj_committed rj \<Longrightarrow> has_artifacts dir (je_job_id x) (xs_files s)"
  shows "\<exists>seed s3 input. job_step ev x w s = persist w x (drive_job ev w (step_context x rj input) seed s3) \<and>
    ready_inv (ev_kec ev) dir (je_job_id x) s3 \<and> xs_files s3 (path_for dir (je_job_id x)) = Some seed \<and>
    length seed = 32 \<and> jp_committed (xs_progress s3) = rj_committed rj \<and>
    (has_artifacts dir (je_job_id x) (xs_files s3) \<longleftrightarrow> has_artifacts dir (je_job_id x) (xs_files s)) \<and>
    (jp_artifacts (xs_progress s3) \<noteq> None \<longleftrightarrow> has_artifacts dir (je_job_id x) (xs_files s)) \<and>
    (state_of (rj_job rj) = Executing \<and> \<not> has_artifacts dir (je_job_id x) (xs_files s) \<longrightarrow>
       tw_input w = Inr (Some input))"
proof -
  let ?i = "je_job_id x"
  define s1 where "s1 = s\<lparr>xs_progress := (xs_progress s)\<lparr>jp_committed := rj_committed rj\<rparr>\<rparr>"
  have f1: "xs_files s1 = xs_files s" by (simp add: s1_def)
  have inv1: "exec_inv (ev_kec ev) dir ?i s1"
    using ready exec_inv_committed by (simp add: ready_inv_def s1_def)
  obtain n fs where n: "resolve_nonce w x (rj_committed rj) (xs_files s) = (Inr n, fs)"
    "fs (path_for dir ?i) = Some n" "length n = 32" "store_ready (ev_kec ev) dir ?i fs"
    "has_artifacts dir ?i fs \<longleftrightarrow> has_artifacts dir ?i (xs_files s)"
    using resolve_nonce_ready [where kec = "ev_kec ev" and c = "rj_committed rj", OF h x _ com] ready
    unfolding ready_inv_def by blast
  define s2 where "s2 = s1\<lparr>xs_files := fs\<rparr>"
  have "exec_inv (ev_kec ev) dir ?i s2"
    using resolve_nonce_inv [OF inv1 healthy_world_ok [OF h] x] n(1) by (simp add: s2_def f1)
  then have r2: "ready_inv (ev_kec ev) dir ?i s2" using n(4) by (simp add: ready_inv_def s2_def)
  have f2: "xs_files s2 = fs" by (simp add: s2_def)
  obtain p where p: "resolve_artifacts ev w x rj n fs (xs_progress s2) = Inr p"
    "jp_committed p = rj_committed rj" "jp_artifacts p \<noteq> None \<longleftrightarrow> has_artifacts dir ?i fs"
    using resolve_artifacts_ready [OF h x r2, of n] com n(5) by (auto simp: f2 s2_def s1_def)
  define s3 where "s3 = s2\<lparr>xs_progress := p\<rparr>"
  have "exec_inv (ev_kec ev) dir ?i s3"
    using resolve_artifacts_inv [where s = s2 and p = p and seed = n, OF _ x refl] r2 n(2,3) p(1)
    by (simp add: ready_inv_def s3_def f2)
  then have r3: "ready_inv (ev_kec ev) dir ?i s3" using n(4) by (simp add: ready_inv_def s3_def s2_def)
  obtain input where i: "resolve_input ev w x rj p = InputBytes input"
    "state_of (rj_job rj) = Executing \<and> jp_artifacts p = None \<longrightarrow> tw_input w = Inr (Some input)"
    using resolve_input_healthy [OF h] by blast
  have "job_step ev x w s = persist w x (drive_job ev w (step_context x rj input) n s3)"
    using r me n(1) p(1) i(1) unfolding s3_def s2_def s1_def
    by (simp add: job_step_def Let_def)
  then show ?thesis
    using r3 n p(2,3) i(2) f2
    by (intro exI [of _ n] exI [of _ s3] exI [of _ input]) (auto simp: s3_def)
qed

section \<open>What a healthy step does\<close>

text \<open>The outcome as a function of the chain reads and of whether artifacts are on disk.\<close>

definition due_outcome :: "bool \<Rightarrow> resolved_job \<Rightarrow> step_outcome" where
  "due_outcome have_artifacts rj =
     (let blk = rj_current_block rj; gates = rj_gates rj; cb = commitment_block gates
      in case state_of (rj_job rj) of
        Assigned \<Rightarrow> Signed StartExecution
      | Executing \<Rightarrow>
          if \<not> have_artifacts then RanInference
          else if \<not> rj_committed rj then Signed SubmitCommitment
          else if execution_deadline_block (rj_job rj) < blk then Aborted ExecutionDeadlinePassed
          else if cb \<noteq> 0 \<and> blk \<le> cb then Waiting (RevealAfterCommitBlock cb)
          else Signed SubmitResult
      | Verifying \<Rightarrow>
          if dispute_resolved_for_provider gates then Signed CompleteJob
          else if result_verified_at gates = 0 then Waiting AwaitingVerification
          else if blk < sat_add (result_verified_at gates) DISPUTE_WINDOW_BLOCKS
          then Waiting (DisputeWindow (sat_add (result_verified_at gates) DISPUTE_WINDOW_BLOCKS))
          else Signed CompleteJob
      | Completed \<Rightarrow> StepDone
      | Posted \<Rightarrow> StepIdle | Bidding \<Rightarrow> StepIdle
      | Expired \<Rightarrow> Aborted JobExpired | Timeout \<Rightarrow> Aborted JobTimedOut
      | Failed \<Rightarrow> Aborted JobFailedOnChain | Disputed \<Rightarrow> Aborted JobDisputed)"

lemma drive_sign:
  assumes "plan (ev_kec ev) (context_plan ev ctx (xs_progress s)) = Sign req" "healthy ev w rj"
  shows "\<exists>s'. drive_job ev w ctx seed s = (Signed (sr_intent req), s') \<and> xs_files s' = xs_files s"
proof -
  obtain t a' where "tw_signer w req (xs_agent (with_active 1 s)) = (Inr t, a')"
    using healthy_signer [OF assms(2)] by blast
  then show ?thesis using assms(1) by (simp add: drive_job_def sign_request_def Let_def)
qed

lemma persist_other: "fst r \<noteq> RanInference \<Longrightarrow> persist w x r = r"
  by (cases r) (auto simp: persist_def split: option.splits)

lemma quiet_save_ok: "\<exists>fs'. save_artifacts quiet_save dir i art fs = (Inr (), fs')"
  by (simp add: save_artifacts_def quiet_save_def quiet_write_def write_new_0600_def Let_def)

lemma drive_inference:
  assumes "plan (ev_kec ev) (context_plan ev (step_context x rj input) (xs_progress s)) = RunInference"
    and "healthy ev w rj" "tw_input w = Inr (Some input)" "je_nonce_store x = Some dir"
    and "ready_inv (ev_kec ev) dir (je_job_id x) s" "hash32 (ev_kec ev)"
    and "xs_files s (path_for dir (je_job_id x)) = Some seed" "length seed = 32"
  shows "\<exists>s'. persist w x (drive_job ev w (step_context x rj input) seed s) = (RanInference, s') \<and>
    store_ready (ev_kec ev) dir (je_job_id x) (xs_files s') \<and> has_artifacts dir (je_job_id x) (xs_files s')"
proof -
  let ?i = "je_job_id x"
  let ?n = "case jp_nonce (xs_progress s) of Some n \<Rightarrow> n | None \<Rightarrow> seed"
  obtain outp s1 where run: "run_inference ev w (step_context x rj input) seed s = (RanInference, s1)"
    "length outp + 64 \<le> MAX_ARTIFACTS_BYTES"
    "jp_artifacts (xs_progress s1) = Some (build (ev_kec ev) outp ?n)"
    using run_inference_healthy [OF assms(2,3), of x seed s]
    by (cases "run_inference ev w (step_context x rj input) seed s") auto
  have files: "xs_files s1 = xs_files s"
    using run_inference_frame [of ev w "step_context x rj input" seed s] run(1) by simp
  have nonce: "xs_files s (path_for dir ?i) = Some ?n" "length ?n = 32"
    using assms(5,7,8) by (auto simp: ready_inv_def exec_inv_def split: option.splits)
  obtain fs' where save: "save_artifacts quiet_save dir ?i (build (ev_kec ev) outp ?n) (xs_files s) = (Inr (), fs')"
    using quiet_save_ok by blast
  have "persist w x (drive_job ev w (step_context x rj input) seed s) = (RanInference, s1\<lparr>xs_files := fs'\<rparr>)"
    using assms(1,4) run save files healthy_facts(3) [OF assms(2)]
    by (simp add: drive_job_def persist_def)
  moreover have "load_artifacts (ev_kec ev) quiet_load dir ?i fs' = Inr (Some (build (ev_kec ev) outp ?n))"
    using load_after_save [OF assms(6) nonce(2) refl save nonce(1) run(2)] by (simp add: quiet_load_def)
  moreover have "fs' (path_for dir ?i) = Some ?n"
    using save_frame(1) [OF save, of "path_for dir ?i"] nonce(1) by simp
  moreover have "has_artifacts dir ?i fs'" using save_ok [OF save] by (simp add: has_artifacts_def)
  ultimately show ?thesis using nonce(2) by (auto simp: store_ready_def)
qed

lemma effective_tier_cong:
  "pi_job a = pi_job b \<Longrightarrow> pi_gates a = pi_gates b \<Longrightarrow> effective_tier a = effective_tier b"
  by (simp add: effective_tier_def split: option.split)

lemma plan_due:
  assumes "won_job ev x rj" "assigned_provider (rj_job rj) = je_me x" "jp_committed p = rj_committed rj"
  shows "case due_outcome (jp_artifacts p \<noteq> None) rj of
      Signed i \<Rightarrow> (\<exists>req. plan (ev_kec ev) (context_plan ev (step_context x rj input) p) = Sign req \<and> sr_intent req = i)
    | RanInference \<Rightarrow> plan (ev_kec ev) (context_plan ev (step_context x rj input) p) = RunInference
    | StepDone \<Rightarrow> plan (ev_kec ev) (context_plan ev (step_context x rj input) p) = Done
    | StepIdle \<Rightarrow> plan (ev_kec ev) (context_plan ev (step_context x rj input) p) = Idle
    | Waiting r \<Rightarrow> plan (ev_kec ev) (context_plan ev (step_context x rj input) p) = Wait r
    | Aborted r \<Rightarrow> plan (ev_kec ev) (context_plan ev (step_context x rj input) p) = Abort r
    | _ \<Rightarrow> False"
proof -
  let ?inp = "context_plan ev (step_context x rj input) p"
  have tier: "effective_tier ?inp = Commitment"
    using assms(1) effective_tier_cong [of ?inp "context_plan ev (step_context x rj []) job_progress_default"]
    by (simp add: won_job_def) (simp add: context_plan_def step_context_def)
  have fields: "pi_job ?inp = rj_job rj" "pi_me ?inp = je_me x" "pi_current_block ?inp = rj_current_block rj"
    "pi_committed ?inp = rj_committed rj" "pi_artifacts ?inp = jp_artifacts p" "pi_gates ?inp = rj_gates rj"
    using assms(3) by (simp_all add: context_plan_def step_context_def)
  show ?thesis
    by (cases "state_of (rj_job rj)"; cases "jp_artifacts p")
      (auto simp: due_outcome_def plan_def plan_executing_def plan_verifying_def tier fields assms(2) Let_def sign_def)
qed

text \<open>In healthy surroundings, whatever happened before, a step does what is due and leaves the store
  ready; artifacts that exist stay.\<close>

lemma healthy_step:
  assumes "healthy ev w rj" "tw_resolved w = Inr rj" "je_nonce_store x = Some dir" "won_job ev x rj"
    and "ready_inv (ev_kec ev) dir (je_job_id x) s" "hash32 (ev_kec ev)"
    and "rj_committed rj \<Longrightarrow> has_artifacts dir (je_job_id x) (xs_files s)"
  shows "fst (job_step ev x w s) = due_outcome (has_artifacts dir (je_job_id x) (xs_files s)) rj \<and>
    ready_inv (ev_kec ev) dir (je_job_id x) (snd (job_step ev x w s)) \<and>
    (has_artifacts dir (je_job_id x) (xs_files (snd (job_step ev x w s))) \<longleftrightarrow>
      has_artifacts dir (je_job_id x) (xs_files s) \<or> fst (job_step ev x w s) = RanInference)"
proof -
  let ?i = "je_job_id x"
  let ?has = "has_artifacts dir ?i (xs_files s)"
  have me: "assigned_provider (rj_job rj) = je_me x" using assms(4) by (simp add: won_job_def)
  obtain seed s3 input where r: "job_step ev x w s = persist w x (drive_job ev w (step_context x rj input) seed s3)"
    "ready_inv (ev_kec ev) dir ?i s3" "xs_files s3 (path_for dir ?i) = Some seed" "length seed = 32"
    "jp_committed (xs_progress s3) = rj_committed rj"
    "has_artifacts dir ?i (xs_files s3) \<longleftrightarrow> ?has" "jp_artifacts (xs_progress s3) \<noteq> None \<longleftrightarrow> ?has"
    "state_of (rj_job rj) = Executing \<and> \<not> ?has \<longrightarrow> tw_input w = Inr (Some input)"
    using step_reaches_planner [OF assms(1-3) me assms(5,7)] by blast
  have inv: "exec_inv (ev_kec ev) dir ?i (snd (job_step ev x w s))"
    using assms(5) healthy_world_ok [OF assms(1)] assms(3)
    by (intro job_step_inv) (simp_all add: ready_inv_def)
  have same: ?thesis
    if "drive_job ev w (step_context x rj input) seed s3 = (due_outcome ?has rj, s')" "xs_files s' = xs_files s3"
      "due_outcome ?has rj \<noteq> RanInference" for s'
    using that r(1,2,6) inv persist_other [of "(due_outcome ?has rj, s')" w x] by (simp add: ready_inv_def)
  note pl = plan_due [OF assms(4) me r(5), of input, unfolded r(7)]
  show ?thesis
  proof (cases "due_outcome ?has rj")
    case (Signed i)
    then obtain req where "plan (ev_kec ev) (context_plan ev (step_context x rj input) (xs_progress s3)) = Sign req"
      "sr_intent req = i" using pl by auto
    then show ?thesis using drive_sign [OF _ assms(1)] Signed same by fastforce
  next
    case RanInference
    then have plan: "plan (ev_kec ev) (context_plan ev (step_context x rj input) (xs_progress s3)) = RunInference"
      using pl by simp
    then have "state_of (rj_job rj) = Executing" "\<not> ?has"
      using r(7) by (simp_all add: plan_inference_iff context_plan_def step_context_def)
    then obtain s' where "job_step ev x w s = (RanInference, s')" "store_ready (ev_kec ev) dir ?i (xs_files s')"
      "has_artifacts dir ?i (xs_files s')"
      using drive_inference [OF plan assms(1) _ assms(3) r(2) assms(6) r(3,4)] r(1,8) by auto
    then show ?thesis using RanInference inv by (simp add: ready_inv_def)
  qed (use pl same in \<open>simp_all add: drive_job_def\<close>)
qed

section \<open>Progress\<close>

definition settling :: "exec_env \<Rightarrow> job_executor \<Rightarrow> string \<Rightarrow> resolved_job \<times> exec_state \<Rightarrow> bool" where
  "settling ev x dir c \<longleftrightarrow>
     (case c of (rj, s) \<Rightarrow>
        won_job ev x rj \<and> ready_inv (ev_kec ev) dir (je_job_id x) s \<and>
        (rj_committed rj \<longrightarrow> has_artifacts dir (je_job_id x) (xs_files s) \<and>
           commitment_block (rj_gates rj) \<le> rj_current_block rj) \<and>
        (case state_of (rj_job rj) of
           Assigned \<Rightarrow> \<not> rj_committed rj
         | Executing \<Rightarrow> True
         | Verifying \<Rightarrow> 0 < result_verified_at (rj_gates rj) \<and> result_verified_at (rj_gates rj) \<le> rj_current_block rj
         | Completed \<Rightarrow> True
         | _ \<Rightarrow> False))"

definition steps_left :: "bool \<Rightarrow> resolved_job \<Rightarrow> nat" where
  "steps_left have_artifacts rj =
     (case state_of (rj_job rj) of
        Assigned \<Rightarrow> 105 + (if have_artifacts then 0 else 1)
      | Executing \<Rightarrow>
          if rj_committed rj
          then 102 + (if rj_current_block rj \<le> commitment_block (rj_gates rj) then 1 else 0)
          else 104 + (if have_artifacts then 0 else 1)
      | Verifying \<Rightarrow> 1 + (unat (sat_add (result_verified_at (rj_gates rj)) DISPUTE_WINDOW_BLOCKS) -
          unat (rj_current_block rj))
      | _ \<Rightarrow> 0)"

lemma window_steps: "v \<le> (b :: u128) \<Longrightarrow> unat (sat_add v DISPUTE_WINDOW_BLOCKS) - unat b \<le> 100"
  by (simp add: unat_sat_add DISPUTE_WINDOW_BLOCKS_def word_le_nat_alt)

lemma restarted_ready: "ready_inv kec dir i s \<Longrightarrow> ready_inv kec dir i (restarted r s)"
  by (auto simp: restarted_def ready_inv_def restart_def exec_inv_def job_progress_default_def
      split: option.splits)

lemma restarted_files [simp]: "xs_files (restarted r s) = xs_files s"
  by (simp add: restarted_def restart_def split: option.split prod.split)

lemma healthy_resolved [simp]: "healthy ev (w\<lparr>tw_resolved := v\<rparr>) rj = healthy ev w rj"
  by (simp add: healthy_def)

lemma chain_follows_fields:
  assumes "chain_follows m out rj rj'"
  shows "rj_current_block rj < rj_current_block rj'"
    and "rj_job rj' = (rj_job rj)\<lparr>state_of := (if m then next_state out (state_of (rj_job rj)) else state_of (rj_job rj))\<rparr>"
    and "rj_committed rj' = (rj_committed rj \<or> m \<and> out = Signed SubmitCommitment)"
    and "rj_gates rj' = (rj_gates rj)\<lparr>commitment_block := commitment_block (rj_gates rj'),
         result_verified_at := result_verified_at (rj_gates rj')\<rparr>"
proof -
  show "rj_current_block rj < rj_current_block rj'"
    using assms unfolding chain_follows_def by (rule conjunct1)
  have eq: "rj' = rj\<lparr>rj_current_block := rj_current_block rj',
       rj_job := (rj_job rj)\<lparr>state_of := (if m then next_state out (state_of (rj_job rj)) else state_of (rj_job rj))\<rparr>,
       rj_committed := (rj_committed rj \<or> m \<and> out = Signed SubmitCommitment),
       rj_gates := (rj_gates rj)\<lparr>commitment_block := commitment_block (rj_gates rj'),
         result_verified_at := result_verified_at (rj_gates rj')\<rparr>\<rparr>"
    using assms unfolding chain_follows_def by (rule conjunct2 [THEN conjunct1])
  from arg_cong [OF eq, of rj_job] arg_cong [OF eq, of rj_committed] arg_cong [OF eq, of rj_gates]
  show "rj_job rj' = (rj_job rj)\<lparr>state_of := (if m then next_state out (state_of (rj_job rj)) else state_of (rj_job rj))\<rparr>"
    "rj_committed rj' = (rj_committed rj \<or> m \<and> out = Signed SubmitCommitment)"
    "rj_gates rj' = (rj_gates rj)\<lparr>commitment_block := commitment_block (rj_gates rj'),
         result_verified_at := result_verified_at (rj_gates rj')\<rparr>"
    by simp_all
qed

lemma chain_follows_blocks:
  assumes "chain_follows m out rj rj'"
  shows "if m \<and> out = Signed SubmitCommitment then commitment_block (rj_gates rj') \<le> rj_current_block rj'
      else commitment_block (rj_gates rj') = commitment_block (rj_gates rj)"
    and "if m \<and> out = Signed SubmitResult
      then 0 < result_verified_at (rj_gates rj') \<and> result_verified_at (rj_gates rj') \<le> rj_current_block rj'
      else result_verified_at (rj_gates rj') = result_verified_at (rj_gates rj)"
  using assms unfolding chain_follows_def
  by (rule conjunct2 [THEN conjunct2, THEN conjunct1], rule conjunct2 [THEN conjunct2, THEN conjunct2])

lemma won_job_iff:
  "won_job ev x rj \<longleftrightarrow> assigned_provider (rj_job rj) = je_me x \<and>
     (effective_tier_read (rj_gates rj) = Some Commitment \<or>
      effective_tier_read (rj_gates rj) = None \<and> job_tier (rj_job rj) = Commitment \<and>
        \<not> COMMITMENT_TIER_VALUE_THRESHOLD_WEI < max_price_wei (rj_job rj))"
  by (auto simp: won_job_def effective_tier_def context_plan_def step_context_def split: option.splits)

lemma chain_follows_won:
  assumes "chain_follows m out rj rj'"
  shows "won_job ev x rj' = won_job ev x rj"
proof -
  have "effective_tier_read (rj_gates rj') = effective_tier_read (rj_gates rj)"
    by (subst chain_follows_fields(4) [OF assms]) simp
  then show ?thesis using chain_follows_fields(2) [OF assms] by (simp add: won_job_iff)
qed

lemma settle_step:
  assumes h: "healthy ev w rj" "je_nonce_store x = Some dir" "hash32 (ev_kec ev)"
    and c: "settling ev x dir (rj, s)"
    and step: "job_step ev x (w\<lparr>tw_resolved := Inr rj\<rparr>) s = (out, s')"
    and chain: "chain_follows m out rj rj'"
    and dl: "state_of (rj_job rj) = Executing \<Longrightarrow> rj_current_block rj \<le> execution_deadline_block (rj_job rj)"
  shows "settling ev x dir (rj', restarted r s') \<and>
    steps_left (has_artifacts dir (je_job_id x) (xs_files s')) rj' \<le>
      steps_left (has_artifacts dir (je_job_id x) (xs_files s)) rj - (if m then 1 else 0)"
proof -
  let ?i = "je_job_id x"
  let ?has = "has_artifacts dir ?i (xs_files s)"
  let ?has' = "has_artifacts dir ?i (xs_files s')"
  have won: "won_job ev x rj" and ready: "ready_inv (ev_kec ev) dir ?i s"
    and com: "rj_committed rj \<Longrightarrow> ?has" "rj_committed rj \<Longrightarrow> commitment_block (rj_gates rj) \<le> rj_current_block rj"
    using c by (auto simp: settling_def)
  have hs: "out = due_outcome ?has rj" "ready_inv (ev_kec ev) dir ?i s'"
    "?has' \<longleftrightarrow> ?has \<or> out = RanInference"
    using healthy_step [of ev "w\<lparr>tw_resolved := Inr rj\<rparr>" rj x dir s] h won ready com(1) step by auto
  note f = chain_follows_fields [OF chain] and b = chain_follows_blocks [OF chain]
  have won': "won_job ev x rj'" using won chain_follows_won [OF chain] by simp
  have blk: "unat (rj_current_block rj) < unat (rj_current_block rj')" using f(1) by (simp add: word_less_nat_alt)
  have later: "v \<le> rj_current_block rj \<Longrightarrow> v \<le> rj_current_block rj'" for v
    by (rule order_trans [OF _ less_imp_le [OF f(1)]])
  have res: "dispute_resolved_for_provider (rj_gates rj') = dispute_resolved_for_provider (rj_gates rj)"
    by (subst f(4)) simp
  have stage: "state_of (rj_job rj) \<in> {Assigned, Executing, Verifying, Completed}"
    using c by (auto simp: settling_def split: job_state.splits)
  note defs = settling_def steps_left_def due_outcome_def next_state_def Let_def
  consider "state_of (rj_job rj) = Assigned" | "state_of (rj_job rj) = Executing"
    | "state_of (rj_job rj) = Verifying" | "state_of (rj_job rj) = Completed" using stage by blast
  then show ?thesis
  proof cases
    case 1
    then show ?thesis
      using c hs f b won' restarted_ready [OF hs(2)] by (simp add: defs)
  next
    case 2
    show ?thesis
    proof (cases "rj_committed rj")
      case True
      show ?thesis
      proof (cases "out = Signed SubmitResult")
        case True
        then show ?thesis
          using 2 \<open>rj_committed rj\<close> c hs(3) f b com won' restarted_ready [OF hs(2)]
            window_steps [of "result_verified_at (rj_gates rj')" "rj_current_block rj'"]
          by (auto simp: settling_def steps_left_def next_state_def)
      next
        case False
        then have "out = Waiting (RevealAfterCommitBlock (commitment_block (rj_gates rj)))"
          "rj_current_block rj \<le> commitment_block (rj_gates rj)"
          using hs(1) 2 \<open>rj_committed rj\<close> com dl by (auto simp: due_outcome_def Let_def split: if_splits)
        then show ?thesis
          using 2 \<open>rj_committed rj\<close> c hs(3) f b com won' restarted_ready [OF hs(2)]
          by (auto simp: settling_def steps_left_def next_state_def)
      qed
    next
      case False
      then have "out = (if ?has then Signed SubmitCommitment else RanInference)"
        using hs(1) 2 by (simp add: due_outcome_def)
      then show ?thesis
        using 2 False c hs(3) f b won' restarted_ready [OF hs(2)]
        by (auto simp: settling_def steps_left_def next_state_def)
    qed
  next
    case 3
    show ?thesis
    proof (cases "out = Signed CompleteJob")
      case True
      then show ?thesis
        using 3 c hs(3) f b com blk won' restarted_ready [OF hs(2)]
        by (auto simp: settling_def steps_left_def next_state_def)
    next
      case False
      then have "out = Waiting (DisputeWindow (sat_add (result_verified_at (rj_gates rj)) DISPUTE_WINDOW_BLOCKS))"
        "rj_current_block rj < sat_add (result_verified_at (rj_gates rj)) DISPUTE_WINDOW_BLOCKS"
        using hs(1) 3 c by (auto simp: due_outcome_def settling_def Let_def split: if_splits)
      then show ?thesis
        using 3 c hs(3) f b com won' restarted_ready [OF hs(2)] diff_less_mono2 [OF blk]
        by (auto simp: settling_def steps_left_def next_state_def word_less_nat_alt [of "rj_current_block rj"]
            intro: later)
    qed
  next
    case 4
    then show ?thesis
      using c hs f b won' restarted_ready [OF hs(2)] by (auto simp: defs)
  qed
qed

definition delays :: "(nat \<Rightarrow> bool) \<Rightarrow> nat \<Rightarrow> nat" where
  "delays mined n = length (filter (\<lambda>k. \<not> mined k) [0..<n])"

lemma delays_Suc: "delays mined (Suc n) = delays mined n + (if mined n then 0 else 1)"
  by (simp add: delays_def)

lemma job_run_progress:
  assumes "je_nonce_store x = Some dir" "hash32 (ev_kec ev)" "settling ev x dir c"
    and "\<And>k. k < n \<Longrightarrow> healthy ev (W k) (fst (job_run ev x W R chain c k))"
    and "\<And>k. k < n \<Longrightarrow> chain_follows (mined k) (run_outcome ev x W R chain c k)
      (fst (job_run ev x W R chain c k)) (fst (job_run ev x W R chain c (Suc k)))"
    and "\<And>k. k < n \<Longrightarrow> state_of (rj_job (fst (job_run ev x W R chain c k))) = Executing \<Longrightarrow>
      rj_current_block (fst (job_run ev x W R chain c k)) \<le>
        execution_deadline_block (rj_job (fst (job_run ev x W R chain c k)))"
  shows "settling ev x dir (job_run ev x W R chain c n) \<and>
    (case job_run ev x W R chain c n of (rj, s) \<Rightarrow>
       steps_left (has_artifacts dir (je_job_id x) (xs_files s)) rj + n \<le> 106 + delays mined n \<or>
       steps_left (has_artifacts dir (je_job_id x) (xs_files s)) rj = 0)"
  using assms(4-6)
proof (induction n)
  case 0
  have "steps_left b rj \<le> 106" if "settling ev x dir (rj, s)" for b rj s
    using that window_steps [of "result_verified_at (rj_gates rj)" "rj_current_block rj"]
    by (auto simp: steps_left_def settling_def split: job_state.splits)
  then show ?case using assms(3) by (cases c) (auto simp: delays_def)
next
  case (Suc n)
  obtain rj s where c: "job_run ev x W R chain c n = (rj, s)" by fastforce
  obtain out s' where step: "job_step ev x ((W n)\<lparr>tw_resolved := Inr rj\<rparr>) s = (out, s')" by fastforce
  have nxt: "job_run ev x W R chain c (Suc n) = (chain n out rj, restarted (R n) s')"
    by (simp add: c step)
  have IH: "settling ev x dir (rj, s)"
    "steps_left (has_artifacts dir (je_job_id x) (xs_files s)) rj + n \<le> 106 + delays mined n \<or>
      steps_left (has_artifacts dir (je_job_id x) (xs_files s)) rj = 0"
    using Suc.IH Suc.prems c by auto
  have "healthy ev (W n) rj" using Suc.prems(1) [of n] c by simp
  moreover have "chain_follows (mined n) out rj (chain n out rj)"
    using Suc.prems(2) [of n] c step by (simp add: run_outcome_def)
  moreover have "state_of (rj_job rj) = Executing \<Longrightarrow> rj_current_block rj \<le> execution_deadline_block (rj_job rj)"
    using Suc.prems(3) [of n] c by simp
  ultimately have "settling ev x dir (chain n out rj, restarted (R n) s') \<and>
    steps_left (has_artifacts dir (je_job_id x) (xs_files s')) (chain n out rj) \<le>
      steps_left (has_artifacts dir (je_job_id x) (xs_files s)) rj - (if mined n then 1 else 0)"
    using settle_step [OF _ assms(1,2) IH(1) step] by blast
  then show ?case unfolding nxt using IH(2) by (auto simp: delays_Suc)
qed

lemma settling_done:
  assumes "settling ev x dir (rj, s)" "steps_left b rj = 0"
  shows "state_of (rj_job rj) = Completed"
  using assms by (auto simp: settling_def steps_left_def split: job_state.splits if_splits)

section \<open>A torn nonce\<close>

lemma job_step_torn:
  assumes "je_nonce_store x = Some dir" "xs_files s (path_for dir (je_job_id x)) = Some bs" "length bs \<noteq> 32"
  shows "xs_files (snd (job_step ev x w s)) = xs_files s \<and> xs_signed (snd (job_step ev x w s)) = xs_signed s \<and>
    (\<exists>e. fst (job_step ev x w s) \<in> {StepError e, StepIdle})"
  using assms
  by (cases "tw_resolved w"; cases "tw_nonce_read w")
    (auto simp: job_step_def resolve_nonce_def nonce_load_def Let_def)

section \<open>Properties\<close>

text \<open>C4: A won job is paid. Take a provider whose store may have seen any sequence of faulty steps
  and restarts, as long as it has no torn nonce and no unreadable artifacts, and a job that was
  just assigned to it. Let the surroundings be healthy from now on and the chain follow its
  documentation, with every write mined before the next step or later, and the process restarted
  between any steps. If the blocks stay within the execution deadline until the result is in, then
  after 106 steps, and one more for every step in which nothing was mined, the job is completed on
  the chain.\<close>

theorem won_job_completes:
  assumes "hash32 (ev_kec ev)" "je_nonce_store x = Some dir" "\<And>op. op \<in> set ops \<Longrightarrow> op_possible op"
    and "c = (rj, exec_run ev x ops (fresh_state a prof fs cache))"
    and "store_ready (ev_kec ev) dir (je_job_id x) (xs_files (snd c))"
    and "won_job ev x rj" "state_of (rj_job rj) = Assigned" "\<not> rj_committed rj"
    and "\<And>k. k < n \<Longrightarrow> healthy ev (W k) (fst (job_run ev x W R chain c k))"
    and "\<And>k. k < n \<Longrightarrow> chain_follows (mined k) (run_outcome ev x W R chain c k)
      (fst (job_run ev x W R chain c k)) (fst (job_run ev x W R chain c (Suc k)))"
    and "\<And>k. k < n \<Longrightarrow> state_of (rj_job (fst (job_run ev x W R chain c k))) = Executing \<Longrightarrow>
      rj_current_block (fst (job_run ev x W R chain c k)) \<le>
        execution_deadline_block (rj_job (fst (job_run ev x W R chain c k)))"
    and "106 + delays mined n \<le> n"
  shows "state_of (rj_job (fst (job_run ev x W R chain c n))) = Completed"
proof -
  have "exec_inv (ev_kec ev) dir (je_job_id x) (exec_run ev x ops (fresh_state a prof fs cache))"
    by (rule exec_run_inv [OF assms(3) fresh_inv assms(2)])
  then have start: "settling ev x dir c"
    using assms(4-8) by (simp add: settling_def ready_inv_def)
  obtain rj' s' where r: "job_run ev x W R chain c n = (rj', s')" by fastforce
  have p: "settling ev x dir (job_run ev x W R chain c n) \<and>
    (case job_run ev x W R chain c n of (rj, s) \<Rightarrow>
       steps_left (has_artifacts dir (je_job_id x) (xs_files s)) rj + n \<le> 106 + delays mined n \<or>
       steps_left (has_artifacts dir (je_job_id x) (xs_files s)) rj = 0)"
    by (rule job_run_progress [OF assms(2,1) start]) (fact assms(9-11))+
  from p have "settling ev x dir (rj', s')" unfolding r by (rule conjunct1)
  moreover from p have "steps_left (has_artifacts dir (je_job_id x) (xs_files s')) rj' = 0"
    unfolding r prod.case using assms(12) by linarith
  ultimately show ?thesis using settling_done r by simp
qed

text \<open>A chain that mines every write at once, one block per step.\<close>

definition sample_chain :: "nat \<Rightarrow> step_outcome \<Rightarrow> resolved_job \<Rightarrow> resolved_job" where
  "sample_chain k out rj = rj\<lparr>rj_current_block := rj_current_block rj + 1,
     rj_job := (rj_job rj)\<lparr>state_of := next_state out (state_of (rj_job rj))\<rparr>,
     rj_committed := (rj_committed rj \<or> out = Signed SubmitCommitment),
     rj_gates := (rj_gates rj)\<lparr>
       commitment_block := (if out = Signed SubmitCommitment then rj_current_block rj + 1
         else commitment_block (rj_gates rj)),
       result_verified_at := (if out = Signed SubmitResult then rj_current_block rj + 1
         else result_verified_at (rj_gates rj))\<rparr>\<rparr>"

definition sample_won :: resolved_job where
  "sample_won = sample_resolved\<lparr>rj_job := (rj_job sample_resolved)\<lparr>state_of := Assigned,
     execution_deadline_block := 1000\<rparr>\<rparr>"

definition sample_won_run :: "nat \<Rightarrow> resolved_job \<times> exec_state" where
  "sample_won_run = job_run sample_env sample_executor (\<lambda>_. sample_world) (\<lambda>_. None) sample_chain
     (sample_won, exec_run sample_env sample_executor [] (fresh_state agent_new (profiler_new 1 1) (\<lambda>_. None) (\<lambda>_. None)))"

lemma sample_won_run_Suc: "\<exists>out. fst (sample_won_run (Suc k)) = sample_chain k out (fst (sample_won_run k))"
  by (auto simp: sample_won_run_def split: prod.splits)

lemma sample_won_healthy: "healthy sample_env sample_world sample_won"
  by (simp add: healthy_def sample_won_def sample_fields sample_cid_gate good_io_def size_ok_def trusted_digest_def)
    (simp add: sample_world_def sample_write_io_def quiet_write_def quiet_load_def quiet_save_def
      sample_resolved_def sample_env_def MAX_ARTIFACTS_BYTES_def)

lemma healthy_cong:
  assumes "input_hash (rj_job rj') = input_hash (rj_job rj)" "rj_ipfs_cid rj' = rj_ipfs_cid rj"
    "rj_is_active rj' = rj_is_active rj" "rj_expected_size rj' = rj_expected_size rj"
    "rj_expected_sha256 rj' = rj_expected_sha256 rj"
  shows "healthy ev w rj' = healthy ev w rj"
  unfolding healthy_def assms by (rule refl)

lemma sample_chain_fields:
  "rj_current_block (sample_chain k out rj) = rj_current_block rj + 1"
  "execution_deadline_block (rj_job (sample_chain k out rj)) = execution_deadline_block (rj_job rj)"
  "healthy ev w (sample_chain k out rj) = healthy ev w rj"
  by (simp add: sample_chain_def, simp add: sample_chain_def, rule healthy_cong) (simp_all add: sample_chain_def)

lemma sample_run_facts:
  "healthy sample_env sample_world (fst (sample_won_run k)) \<and>
     rj_current_block (fst (sample_won_run k)) = 150 + of_nat k \<and>
     execution_deadline_block (rj_job (fst (sample_won_run k))) = 1000"
proof (induction k)
  case 0
  show ?case using sample_won_healthy
    by (simp add: sample_won_run_def) (simp add: sample_won_def sample_resolved_def)
next
  case (Suc k)
  obtain out where "fst (sample_won_run (Suc k)) = sample_chain k out (fst (sample_won_run k))"
    using sample_won_run_Suc by blast
  then show ?case using Suc by (simp add: sample_chain_fields)
qed

lemma sample_blocks: "k < 106 \<Longrightarrow> unat (150 + of_nat k :: u128) = 150 + k"
  by (subst unat_word_ariths) (simp add: unat_of_nat_small)

lemma sample_chain_follows:
  assumes "rj_current_block rj = 150 + of_nat k" "k < 106"
  shows "chain_follows True out rj (sample_chain k out rj)"
proof -
  have "unat (rj_current_block rj) = 150 + k" using assms sample_blocks by simp
  then have "unat (rj_current_block rj + 1) = 151 + k" using assms(2) by (simp add: unat_word_ariths)
  then have "rj_current_block rj < rj_current_block rj + 1" "0 < rj_current_block rj + 1"
    using \<open>unat (rj_current_block rj) = 150 + k\<close> by (simp_all add: word_less_nat_alt)
  then show ?thesis by (simp add: chain_follows_def sample_chain_def)
qed

definition sample_start :: "resolved_job \<times> exec_state" where
  "sample_start = (sample_won, exec_run sample_env sample_executor []
     (fresh_state agent_new (profiler_new 1 1) (\<lambda>_. None) (\<lambda>_. None)))"

lemma sample_run_eq:
  "job_run sample_env sample_executor (\<lambda>_. sample_world) (\<lambda>_. None) sample_chain sample_start k = sample_won_run k"
  by (simp add: sample_won_run_def sample_start_def)

lemma sample_store: "store_ready kec dir i (xs_files (snd sample_start))"
  by (simp add: store_ready_def has_artifacts_def sample_start_def exec_run_def fresh_state_def)

lemma sample_mined: "k < 106 \<Longrightarrow> chain_follows True
    (run_outcome sample_env sample_executor (\<lambda>_. sample_world) (\<lambda>_. None) sample_chain sample_start k)
    (fst (sample_won_run k)) (fst (sample_won_run (Suc k)))"
proof -
  assume k: "k < 106"
  have "fst (sample_won_run (Suc k)) = sample_chain k
      (run_outcome sample_env sample_executor (\<lambda>_. sample_world) (\<lambda>_. None) sample_chain sample_start k)
      (fst (sample_won_run k))"
    by (simp add: sample_won_run_def sample_start_def run_outcome_def split: prod.split)
  then show ?thesis using sample_chain_follows k sample_run_facts by simp
qed

lemma won_job_completes_witness: "state_of (rj_job (fst (sample_won_run 106))) = Completed"
  unfolding sample_run_eq [symmetric]
proof (rule won_job_completes [where mined = "\<lambda>_. True" and dir = "''d''" and rj = sample_won
      and ops = "[]" and a = agent_new and prof = "profiler_new 1 1" and fs = "\<lambda>_. None" and cache = "\<lambda>_. None"])
  show "hash32 (ev_kec sample_env)" by (simp add: sample_facts hash32_def)
  show "je_nonce_store sample_executor = Some ''d''" by (rule sample_facts)
  show "sample_start = (sample_won, exec_run sample_env sample_executor []
      (fresh_state agent_new (profiler_new 1 1) (\<lambda>_. None) (\<lambda>_. None)))" by (rule sample_start_def)
  show "won_job sample_env sample_executor sample_won"
    by (simp add: won_job_iff sample_won_def sample_resolved_def sample_executor_def sample_chain_job_def
        chain_gates_default_def COMMITMENT_TIER_VALUE_THRESHOLD_WEI_def word_less_nat_alt)
  show "state_of (rj_job sample_won) = Assigned" "\<not> rj_committed sample_won"
    by (simp_all add: sample_won_def sample_fields)
  show "106 + delays (\<lambda>_. True) 106 \<le> 106" by (simp add: delays_def)
qed (simp_all only: sample_run_eq sample_store sample_mined sample_run_facts op_possible.simps list.set empty_iff,
    simp add: word_le_nat_alt sample_blocks)

text \<open>C27: A nonce file that is not whole stops its job for good: whatever steps and restarts follow,
  nothing is signed for the job, the file stays as it is, and every step is idle or an error. The mint
  writes the nonce in place, so a write that fails part-way leaves such a file.\<close>

theorem torn_nonce_stops_job:
  assumes "je_nonce_store x = Some dir" "xs_files s (path_for dir (je_job_id x)) = Some bs" "length bs \<noteq> 32"
  shows "xs_signed (exec_run ev x ops s) = xs_signed s \<and>
    xs_files (exec_run ev x ops s) (path_for dir (je_job_id x)) = Some bs \<and>
    (\<exists>e. fst (job_step ev x w (exec_run ev x ops s)) \<in> {StepError e, StepIdle})"
proof -
  have "xs_signed (exec_run ev x ops s) = xs_signed s \<and> xs_files (exec_run ev x ops s) = xs_files s"
    using assms(2)
  proof (induction ops arbitrary: s)
    case (Cons op ops)
    have "xs_files (exec_op_step ev x op s) = xs_files s \<and> xs_signed (exec_op_step ev x op s) = xs_signed s"
      using job_step_torn [OF assms(1) Cons.prems assms(3)] by (cases op) (simp_all add: job_tick_def restart_def)
    then show ?case using Cons.IH [of "exec_op_step ev x op s"] Cons.prems by (simp add: exec_run_def)
  qed (simp add: exec_run_def)
  then show ?thesis using job_step_torn [OF assms(1) _ assms(3)] assms(2) by simp
qed

text \<open>The disk fills up while the nonce is written: three of its bytes arrive.\<close>

definition sample_torn :: exec_state where
  "sample_torn = exec_run sample_env sample_executor
     [Tick (sample_world\<lparr>tw_mint := (tw_mint sample_world)\<lparr>mi_file := sample_write_io\<lparr>wi_write := Some (3, ''disk full'')\<rparr>\<rparr>\<rparr>)]
     (fresh_state agent_new (profiler_new 1 1) (\<lambda>_. None) (\<lambda>_. None))"

lemma torn_nonce_stops_job_witness:
  "xs_files sample_torn (path_for ''d'' 42) = Some [1, 1, 1] \<and>
   xs_signed (exec_run sample_env sample_executor (replicate 9 (Tick sample_world)) sample_torn) = []"
proof -
  have files: "xs_files sample_torn (path_for ''d'' 42) = Some [1, 1, 1] \<and> xs_signed sample_torn = []"
    by (simp add: sample_torn_def exec_run_def job_tick_def job_step_def fresh_state_def sample_fields resolve_nonce_def
        Let_def) (simp add: sample_executor_def sample_world_def sample_resolved_def sample_chain_job_def nonce_load_def nonce_mint_def
        write_new_0600_def sample_write_io_def numeral_eq_Suc)
  show ?thesis
    using torn_nonce_stops_job [of sample_executor "''d''" sample_torn "[1, 1, 1]" sample_env "replicate 9 (Tick sample_world)"]
      files by (simp add: sample_executor_def)
qed

end
