(* ===== verification/Supervision_Queue.thy ===== *)
theory Supervision_Queue
  imports Supervision_State
begin

text \<open>
  What the shared agent state promises, over every interleaving of its operations: a paused agent
  never reports bidding, queue entries are consistent, a stable key has at most one entry, entries
  awaiting the signer are never lost, retention is bounded by what is awaiting the signer, alerts
  stay until acknowledged, and ids are not reused.
\<close>

section \<open>Invariant\<close>

definition request_ok :: "pending_request \<Rightarrow> bool" where
  "request_ok r \<longleftrightarrow>
     (pr_status r = ''pending'' \<and> pr_tx_hash r = None \<or>
      pr_status r = ''submitted'' \<and> pr_tx_hash r \<noteq> None) \<and>
     (\<exists>v :: u128. pr_value_wei r = dec v) \<and> (\<exists>e :: u128. pr_expires_block r = dec e)"

definition key_of :: "pending_request \<Rightarrow> (string \<times> string) list" where
  "key_of r = (case pr_dedup_key r of None \<Rightarrow> [] | Some k \<Rightarrow> [(pr_intent r, k)])"

definition keys :: "pending_request list \<Rightarrow> (string \<times> string) list" where
  "keys q = concat (map key_of q)"

definition agent_inv :: "agent_state \<Rightarrow> bool" where
  "agent_inv s \<longleftrightarrow> (paused s \<longrightarrow> \<not> bidding s) \<and>
     (\<forall>r \<in> set (pending_requests s). request_ok r) \<and> distinct (keys (pending_requests s))"

lemma keys_simps [simp]: "keys [] = []" "keys (r # q) = key_of r @ keys q"
  "keys (p @ q) = keys p @ keys q"
  by (simp_all add: keys_def)

lemma in_keys: "(i, k) \<in> set (keys q) \<longleftrightarrow> (\<exists>r \<in> set q. same_key i k r)"
  by (induction q) (auto simp: key_of_def same_key_def split: option.splits)

lemma set_retain: "set (retain_overflow n q) \<subseteq> set q"
  by (induction n q rule: retain_overflow.induct) auto

lemma set_keys_retain: "set (keys (retain_overflow n q)) \<subseteq> set (keys q)"
  by (induction n q rule: retain_overflow.induct) auto

lemma distinct_keys_retain: "distinct (keys q) \<Longrightarrow> distinct (keys (retain_overflow n q))"
proof (induction n q rule: retain_overflow.induct)
  case (2 k r rs)
  then show ?case using set_keys_retain [of k rs] by (auto split: if_splits)
qed simp

lemma update_first_set: "x \<in> set (update_first P f q) \<Longrightarrow> x \<in> set q \<or> (\<exists>y \<in> set q. P y \<and> x = f y)"
  by (induction q) (auto split: if_splits)

lemma length_update_first [simp]: "length (update_first P f q) = length q"
  by (induction q) auto

lemma keys_update_first: "(\<And>r. key_of (f r) = key_of r) \<Longrightarrow> keys (update_first P f q) = keys q"
  by (induction q) auto

lemma key_of_updates [simp]:
  "key_of (supersede a r) = key_of r" "key_of (rearm r) = key_of r" "key_of (observe tx r) = key_of r"
  by (simp_all add: key_of_def supersede_def rearm_def observe_def split: option.splits)

lemma request_ok_updates [simp]:
  "request_ok r \<Longrightarrow> request_ok (supersede a r)" "request_ok r \<Longrightarrow> request_ok (rearm r)"
  "request_ok r \<Longrightarrow> request_ok (observe tx r)"
  by (auto simp: request_ok_def supersede_def rearm_def observe_def)

lemma request_ok_mk [simp]: "request_ok (mk_request i key a)"
  by (auto simp: request_ok_def mk_request_def)

lemma agent_inv_update:
  assumes "agent_inv s" "\<And>r. key_of (f r) = key_of r" "\<And>r. request_ok r \<Longrightarrow> request_ok (f r)"
  shows "agent_inv (s\<lparr>pending_requests := update_first P f (pending_requests s)\<rparr>)"
  using assms by (auto simp: agent_inv_def keys_update_first dest!: update_first_set)

lemma agent_inv_evict: "agent_inv s \<Longrightarrow> agent_inv (evict_if_over_cap s)"
  using set_retain by (fastforce simp: agent_inv_def evict_if_over_cap_def distinct_keys_retain)

lemma agent_inv_append:
  assumes "agent_inv s"
    and "\<And>k. key = Some k \<Longrightarrow> find (same_key (wa_intent a) k) (pending_requests s) = None"
  shows "agent_inv (s\<lparr>next_request_id := next_request_id s + 1,
      pending_requests := pending_requests s @ [mk_request (next_request_id s) key a]\<rparr>)"
proof -
  have "key_of (mk_request i key a) = (case key of None \<Rightarrow> [] | Some k \<Rightarrow> [(wa_intent a, k)])" for i
    by (simp add: key_of_def mk_request_def split: option.splits)
  then show ?thesis
    using assms by (cases key) (auto simp: agent_inv_def in_keys find_None_iff)
qed

lemma agent_inv_push:
  assumes "agent_inv s"
    and "\<And>k. key = Some k \<Longrightarrow> find (same_key (wa_intent a) k) (pending_requests s) = None"
  shows "agent_inv (snd (push_request key a s))"
  using agent_inv_append [OF assms] by (simp add: push_request_def Let_def agent_inv_evict)

lemma agent_inv_enqueue: "agent_inv s \<Longrightarrow> agent_inv (snd (enqueue_signature_request a s))"
  by (auto simp: enqueue_signature_request_def intro!: agent_inv_push split: option.splits)

lemma agent_inv_supersede:
  "agent_inv s \<Longrightarrow> agent_inv (snd (enqueue_superseding_signature_request k a s))"
  by (auto simp: enqueue_superseding_signature_request_def agent_inv_update
      intro!: agent_inv_push split: option.splits)

lemma agent_inv_recur: "agent_inv s \<Longrightarrow> agent_inv (snd (enqueue_recurring_signature_request a s))"
  by (auto simp: enqueue_recurring_signature_request_def agent_inv_enqueue agent_inv_update
      split: option.splits)

lemma agent_inv_heartbeat: "agent_inv s \<Longrightarrow> agent_inv (record_heartbeat t s)"
  by (simp add: agent_inv_def record_heartbeat_def)

lemma agent_inv_observed: "agent_inv s \<Longrightarrow> agent_inv (snd (mark_request_observed i tx now s))"
  by (auto simp: mark_request_observed_def Let_def agent_inv_update agent_inv_heartbeat
      split: option.splits)

lemma agent_inv_step: "agent_inv s \<Longrightarrow> agent_inv (agent_step op s)"
proof (cases op)
  case (OpObserveProvider m r w)
  then show "agent_inv s \<Longrightarrow> ?thesis"
    by (auto simp: agent_inv_def record_provider_observation_def set_provider_stats_def Let_def)
qed (simp_all add: agent_inv_enqueue agent_inv_supersede agent_inv_recur agent_inv_observed
    agent_inv_heartbeat,
    simp_all add: agent_inv_def pause_def resume_def set_bidding_def set_idle_def set_active_jobs_def
    set_provider_stats_def clear_alert_def set_last_error_def)

interpretation agent: invariant_ops agent_step "\<lambda>_. True" agent_inv
  by unfold_locales (rule agent_inv_step)

lemma agent_inv_new: "agent_inv agent_new"
  by (simp add: agent_inv_def agent_new_def)

lemma agent_inv_run: "agent_inv s \<Longrightarrow> agent_inv (agent_run ops s)"
  unfolding agent_run_def by (rule agent.run_inv) simp_all

section \<open>Entries awaiting the signer\<close>

abbreviation is_pending :: "pending_request \<Rightarrow> bool" where
  "is_pending r \<equiv> pr_status r = ''pending''"

definition pending_count :: "agent_state \<Rightarrow> nat" where
  "pending_count s = length (filter is_pending (pending_requests s))"

definition same_write :: "pending_request \<Rightarrow> pending_request \<Rightarrow> bool" where
  "same_write r r' \<longleftrightarrow> pr_id r' = pr_id r \<and> pr_intent r' = pr_intent r \<and> pr_to r' = pr_to r \<and>
     pr_chain_id r' = pr_chain_id r \<and> pr_dedup_key r' = pr_dedup_key r"

lemma retain_keeps: "r \<in> set q \<Longrightarrow> pr_status r \<noteq> ''submitted'' \<Longrightarrow> r \<in> set (retain_overflow n q)"
  by (induction n q rule: retain_overflow.induct) auto

lemma retain_none [simp]: "retain_overflow 0 q = q"
  by (induction q) auto

lemma filter_retain: "filter is_pending (retain_overflow n q) = filter is_pending q"
  by (induction n q rule: retain_overflow.induct) auto

lemma length_retain: "length (retain_overflow n q) +
    min n (length (filter (\<lambda>r. pr_status r = ''submitted'') q)) = length q"
proof (induction n q rule: retain_overflow.induct)
  case (2 k r rs)
  then show ?case by (cases k) (auto simp: min_def split: if_splits)
qed simp

lemma update_first_keeps: "r \<in> set q \<Longrightarrow> r \<in> set (update_first P f q) \<or> (P r \<and> f r \<in> set (update_first P f q))"
  by (induction q) auto

lemma push_keeps: "r \<in> set (pending_requests s) \<Longrightarrow> is_pending r \<Longrightarrow>
    r \<in> set (pending_requests (snd (push_request key a s)))"
  by (auto simp: push_request_def evict_if_over_cap_def Let_def intro!: retain_keeps)

lemma pending_kept_step:
  assumes "r \<in> set (pending_requests s)" "is_pending r" "\<And>tx now. op \<noteq> OpObserved (pr_id r) tx now"
  shows "\<exists>r' \<in> set (pending_requests (agent_step op s)). is_pending r' \<and> same_write r r'"
proof -
  have upd: "\<exists>r' \<in> set (update_first P f (pending_requests s)). is_pending r' \<and> same_write r r'"
    if "P r \<Longrightarrow> is_pending (f r) \<and> same_write r (f r)" for P f
    using update_first_keeps [OF assms(1), of P f] that assms(2) by (auto simp: same_write_def)
  have keep: "\<exists>r' \<in> set q. is_pending r' \<and> same_write r r'" if "r \<in> set q" for q
    using that assms(2) by (auto simp: same_write_def)
  have enq: "\<exists>r' \<in> set (pending_requests (snd (enqueue_signature_request a s))).
      is_pending r' \<and> same_write r r'" for a
    by (auto simp: enqueue_signature_request_def assms push_keeps intro!: keep split: option.splits)
  show ?thesis
  proof (cases op)
    case (OpSupersede k a)
    have "is_pending (supersede a r) \<and> same_write r (supersede a r)"
      using assms(2) by (simp add: supersede_def same_write_def)
    then show ?thesis using OpSupersede
      by (auto simp: enqueue_superseding_signature_request_def assms push_keeps intro!: keep upd
          split: option.splits)
  next
    case (OpRecur a)
    have "is_pending (rearm r) \<and> same_write r (rearm r)"
      using assms(2) by (simp add: rearm_def same_write_def)
    then show ?thesis using OpRecur enq [of a]
      by (auto simp: enqueue_recurring_signature_request_def intro!: upd split: option.splits)
  next
    case (OpObserved i tx now)
    then have "i \<noteq> pr_id r" using assms(3) by blast
    then have "\<exists>r' \<in> set (update_first (\<lambda>r. pr_id r = i) (observe tx) (pending_requests s)).
        is_pending r' \<and> same_write r r'"
      by (intro upd) simp
    then show ?thesis using OpObserved keep [OF assms(1)]
      by (auto simp: mark_request_observed_def record_heartbeat_def Let_def split: option.splits)
  qed (use enq keep [OF assms(1)] in \<open>auto simp: pause_def resume_def set_bidding_def set_idle_def
      set_active_jobs_def set_provider_stats_def record_provider_observation_def clear_alert_def
      record_heartbeat_def set_last_error_def Let_def\<close>)
qed

lemma same_write_trans: "same_write a b \<Longrightarrow> same_write b c \<Longrightarrow> same_write a c"
  by (simp add: same_write_def)

lemma pending_kept_run:
  assumes "r \<in> set (pending_requests s)" "is_pending r" "\<And>tx now. OpObserved (pr_id r) tx now \<notin> set ops"
  shows "\<exists>r' \<in> set (pending_requests (agent_run ops s)). is_pending r' \<and> same_write r r'"
  using assms
proof (induction ops arbitrary: r s)
  case Nil
  then show ?case by (auto simp: agent_run_def same_write_def)
next
  case (Cons op ops)
  have "\<exists>r' \<in> set (pending_requests (agent_step op s)). is_pending r' \<and> same_write r r'"
    using Cons.prems by (intro pending_kept_step) auto
  then obtain r' where r': "r' \<in> set (pending_requests (agent_step op s))" "is_pending r'" "same_write r r'"
    by blast
  have "\<exists>r'' \<in> set (pending_requests (agent_run ops (agent_step op s))). is_pending r'' \<and> same_write r' r''"
    using r' Cons.prems(3) by (intro Cons.IH) (auto simp: same_write_def)
  then show ?case using r'(3) by (auto simp: agent_run_def dest: same_write_trans)
qed

section \<open>Bounded retention\<close>

lemma pending_or_submitted: "agent_inv s \<Longrightarrow>
    length (filter (\<lambda>r. pr_status r = ''submitted'') (pending_requests s)) + pending_count s =
      length (pending_requests s)"
proof -
  assume "agent_inv s"
  then have "\<forall>r \<in> set (pending_requests s). pr_status r = ''submitted'' \<longleftrightarrow> \<not> is_pending r"
    by (auto simp: agent_inv_def request_ok_def)
  then have "filter (\<lambda>r. pr_status r = ''submitted'') (pending_requests s) =
      filter (\<lambda>r. \<not> is_pending r) (pending_requests s)"
    by (intro filter_cong) auto
  then show ?thesis
    using sum_length_filter_compl [of is_pending "pending_requests s"]
    by (simp add: pending_count_def)
qed

lemma evict_bound:
  assumes "agent_inv s" "length (pending_requests s) \<le> Suc B" "256 \<le> B"
    "pending_count (evict_if_over_cap s) \<le> B"
  shows "length (pending_requests (evict_if_over_cap s)) \<le> B"
proof (cases "length (pending_requests s) \<le> 256")
  case False
  let ?q = "pending_requests s"
  let ?sub = "length (filter (\<lambda>r. pr_status r = ''submitted'') ?q)"
  have "pending_count (evict_if_over_cap s) = pending_count s"
    by (simp add: evict_if_over_cap_def pending_count_def filter_retain)
  then show ?thesis
    using False assms pending_or_submitted [OF assms(1)] length_retain [of "length ?q - 256" ?q]
    by (simp add: evict_if_over_cap_def MAX_PENDING_REQUESTS_def min_def split: if_splits)
qed (use assms in \<open>simp add: evict_if_over_cap_def MAX_PENDING_REQUESTS_def\<close>)

lemma push_bound:
  assumes "agent_inv (snd (push_request key a s))" "agent_inv s"
    "length (pending_requests s) \<le> B" "256 \<le> B" "pending_count (snd (push_request key a s)) \<le> B"
    and "\<And>k. key = Some k \<Longrightarrow> find (same_key (wa_intent a) k) (pending_requests s) = None"
  shows "length (pending_requests (snd (push_request key a s))) \<le> B"
proof -
  let ?s = "s\<lparr>next_request_id := next_request_id s + 1,
      pending_requests := pending_requests s @ [mk_request (next_request_id s) key a]\<rparr>"
  have "agent_inv ?s"
    using assms(2,6) by (intro agent_inv_append) auto
  then show ?thesis
    using evict_bound [of ?s B] assms by (simp add: push_request_def Let_def)
qed

lemma enqueue_bound:
  assumes "agent_inv s" "length (pending_requests s) \<le> B" "256 \<le> B"
    "pending_count (snd (enqueue_signature_request a s)) \<le> B"
  shows "length (pending_requests (snd (enqueue_signature_request a s))) \<le> B"
  using assms agent_inv_enqueue [OF assms(1), of a]
  by (auto simp: enqueue_signature_request_def intro!: push_bound split: option.splits)

lemma step_bound:
  assumes "agent_inv s" "length (pending_requests s) \<le> B" "256 \<le> B"
    "pending_count (agent_step op s) \<le> B"
  shows "length (pending_requests (agent_step op s)) \<le> B"
proof (cases op)
  case (OpEnqueue a)
  then show ?thesis using assms enqueue_bound by simp
next
  case (OpSupersede k a)
  then show ?thesis using assms agent_inv_supersede [OF assms(1), of k a]
    by (auto simp: enqueue_superseding_signature_request_def intro!: push_bound split: option.splits)
next
  case (OpRecur a)
  then show ?thesis using assms enqueue_bound [OF assms(1-3), of a]
    by (auto simp: enqueue_recurring_signature_request_def split: option.splits)
qed (use assms in \<open>auto simp: pause_def resume_def set_bidding_def set_idle_def
      set_active_jobs_def set_provider_stats_def record_provider_observation_def clear_alert_def
      record_heartbeat_def set_last_error_def mark_request_observed_def Let_def
      split: option.splits\<close>)

lemma run_bound:
  assumes "agent_inv s" "length (pending_requests s) \<le> B" "256 \<le> B"
    "\<And>n. n \<le> length ops \<Longrightarrow> pending_count (agent_run (take n ops) s) \<le> B"
  shows "length (pending_requests (agent_run ops s)) \<le> B"
  using assms
proof (induction ops arbitrary: s)
  case (Cons op ops)
  have "pending_count (agent_step op s) \<le> B"
    using Cons.prems(4) [of 1] by (simp add: agent_run_def)
  moreover have "pending_count (agent_run (take n ops) (agent_step op s)) \<le> B" if "n \<le> length ops" for n
    using Cons.prems(4) [of "Suc n"] that by (simp add: agent_run_def)
  ultimately show ?case
    using Cons.IH [of "agent_step op s"] Cons.prems step_bound [of s B op] agent_inv_step [of s op]
    by (simp add: agent_run_def)
qed (simp add: agent_run_def)

section \<open>Identifiers\<close>

text \<open>The id counter is a \<open>u64\<close>: ids stay unique for the first \<open>2 ^ 64\<close> operations.\<close>

definition ids_ok :: "nat \<Rightarrow> agent_state \<Rightarrow> bool" where
  "ids_ok n s \<longleftrightarrow> unat (next_request_id s) \<le> n \<and>
     (\<forall>r \<in> set (pending_requests s). unat (pr_id r) < unat (next_request_id s)) \<and>
     distinct (map pr_id (pending_requests s))"

lemma ids_ok_mono: "ids_ok n s \<Longrightarrow> ids_ok (Suc n) s"
  by (simp add: ids_ok_def)

lemma map_update_first: "(\<And>r. g (f r) = g r) \<Longrightarrow> map g (update_first P f q) = map g q"
  by (induction q) auto

lemma pr_id_updates [simp]:
  "pr_id (supersede a r) = pr_id r" "pr_id (rearm r) = pr_id r" "pr_id (observe tx r) = pr_id r"
  by (simp_all add: supersede_def rearm_def observe_def)

lemma distinct_ids_retain: "distinct (map pr_id q) \<Longrightarrow> distinct (map pr_id (retain_overflow n q))"
proof (induction n q rule: retain_overflow.induct)
  case (2 k r rs)
  then show ?case using set_retain [of k rs] by auto
qed simp

lemma ids_ok_update:
  assumes "ids_ok n s" "\<And>r. pr_id (f r) = pr_id r"
  shows "ids_ok n (s\<lparr>pending_requests := update_first P f (pending_requests s)\<rparr>)"
  using assms by (auto simp: ids_ok_def map_update_first dest!: update_first_set)

lemma ids_ok_evict: "ids_ok n s \<Longrightarrow> ids_ok n (evict_if_over_cap s)"
  using set_retain by (fastforce simp: ids_ok_def evict_if_over_cap_def distinct_ids_retain)

lemma ids_ok_push:
  assumes "ids_ok n s" "Suc n < 2 ^ 64"
  shows "ids_ok (Suc n) (snd (push_request key a s))"
proof -
  have "unat (next_request_id s + 1) = Suc (unat (next_request_id s))"
    using assms by (simp add: ids_ok_def unat_word_ariths)
  then have "ids_ok (Suc n) (s\<lparr>next_request_id := next_request_id s + 1,
      pending_requests := pending_requests s @ [mk_request (next_request_id s) key a]\<rparr>)"
    using assms(1) by (auto simp: ids_ok_def mk_request_def)
  then show ?thesis by (simp add: push_request_def Let_def ids_ok_evict)
qed

lemma ids_ok_enqueue:
  "ids_ok n s \<Longrightarrow> Suc n < 2 ^ 64 \<Longrightarrow> ids_ok (Suc n) (snd (enqueue_signature_request a s))"
  by (auto simp: enqueue_signature_request_def ids_ok_push ids_ok_mono split: option.splits)

lemma ids_ok_step:
  assumes "ids_ok n s" "Suc n < 2 ^ 64"
  shows "ids_ok (Suc n) (agent_step op s)"
proof (cases op)
  case (OpSupersede k a)
  then show ?thesis using assms
    by (auto simp: enqueue_superseding_signature_request_def ids_ok_push
        intro!: ids_ok_mono ids_ok_update split: option.splits)
next
  case (OpRecur a)
  then show ?thesis using assms ids_ok_enqueue [OF assms, of a]
    by (auto simp: enqueue_recurring_signature_request_def
        intro!: ids_ok_mono ids_ok_update split: option.splits)
next
  case (OpObserved i tx now)
  have heartbeat: "ids_ok n (record_heartbeat now s) = ids_ok n s" for s
    by (simp add: ids_ok_def record_heartbeat_def)
  have "ids_ok n (s\<lparr>pending_requests := update_first (\<lambda>r. pr_id r = i) (observe tx) (pending_requests s)\<rparr>)"
    using assms(1) by (rule ids_ok_update) simp
  then have "ids_ok n (snd (mark_request_observed i tx now s))"
    using assms(1) by (simp add: mark_request_observed_def Let_def heartbeat split: option.splits)
  then show ?thesis using OpObserved by (simp add: ids_ok_mono)
qed (use assms ids_ok_enqueue in \<open>auto simp: ids_ok_def pause_def resume_def set_bidding_def
      set_idle_def set_active_jobs_def set_provider_stats_def record_provider_observation_def
      clear_alert_def record_heartbeat_def set_last_error_def Let_def\<close>)

lemma ids_ok_run: "ids_ok n s \<Longrightarrow> n + length ops < 2 ^ 64 \<Longrightarrow> ids_ok (n + length ops) (agent_run ops s)"
proof (induction ops arbitrary: n s)
  case (Cons op ops)
  have "ids_ok (Suc n) (agent_step op s)"
    by (rule ids_ok_step) (use Cons.prems in simp_all)
  then have "ids_ok (Suc n + length ops) (agent_run ops (agent_step op s))"
    by (rule Cons.IH) (use Cons.prems in simp)
  then show ?case by (simp add: agent_run_def)
qed (simp add: agent_run_def)

lemma ids_ok_new: "ids_ok 0 agent_new"
  by (simp add: ids_ok_def agent_new_def)

section \<open>Enqueueing\<close>

lemma push_present: "\<exists>r \<in> set (pending_requests (snd (push_request key a s))).
    r = mk_request (next_request_id s) key a"
  by (auto simp: push_request_def evict_if_over_cap_def Let_def mk_request_def intro!: retain_keeps)

text \<open>Plain enqueueing is idempotent by calldata.\<close>

interpretation plain: idempotent_sink "\<lambda>a s. snd (enqueue_signature_request a s)"
  "\<lambda>s. pr_calldata ` set (pending_requests s)" wa_calldata
proof
  fix a :: write_args and s :: agent_state
  show "wa_calldata a \<in> pr_calldata ` set (pending_requests (snd (enqueue_signature_request a s)))"
  proof (cases "find (\<lambda>r. pr_calldata r = wa_calldata a) (pending_requests s)")
    case None
    obtain r where "r \<in> set (pending_requests (snd (push_request None a s)))"
      "r = mk_request (next_request_id s) None a" using push_present by blast
    then have "wa_calldata a \<in> pr_calldata ` set (pending_requests (snd (push_request None a s)))"
      by (auto simp: mk_request_def intro: rev_image_eqI)
    then show ?thesis using None by (simp add: enqueue_signature_request_def)
  next
    case (Some r)
    then have "r \<in> set (pending_requests s)" "pr_calldata r = wa_calldata a"
      by (auto simp: find_Some_iff)
    then show ?thesis using Some by (force simp: enqueue_signature_request_def)
  qed
next
  fix a :: write_args and s :: agent_state
  assume "wa_calldata a \<in> pr_calldata ` set (pending_requests s)"
  then have "find (\<lambda>r. pr_calldata r = wa_calldata a) (pending_requests s) \<noteq> None"
    by (auto simp: find_None_iff)
  then show "snd (enqueue_signature_request a s) = s"
    by (auto simp: enqueue_signature_request_def)
qed

lemma find_append_first: "find P q = None \<Longrightarrow> find P (q @ [r]) = (if P r then Some r else None)"
  by (induction q) (auto split: if_splits)

lemma find_update_first: "find P q = Some r \<Longrightarrow> P (f r) \<Longrightarrow> find P (update_first P f q) = Some (f r)"
  by (induction q) (auto split: if_splits)

lemma find_retain_new:
  "find P q = None \<Longrightarrow> P r \<Longrightarrow> is_pending r \<Longrightarrow> find P (retain_overflow n (q @ [r])) = Some r"
proof (induction n q rule: retain_overflow.induct)
  case (2 k x rs)
  then show ?case by (auto split: if_splits)
qed simp

lemma push_find: "find (\<lambda>r. pr_calldata r = wa_calldata a) (pending_requests s) = None \<Longrightarrow>
    find (\<lambda>r. pr_calldata r = wa_calldata a) (pending_requests (snd (push_request key a s))) =
      Some (mk_request (next_request_id s) key a)"
  by (auto simp: push_request_def evict_if_over_cap_def Let_def find_append_first mk_request_def
      intro!: find_retain_new)

lemma recur_pending:
  assumes "agent_inv s"
  shows "\<exists>r. find (\<lambda>r. pr_calldata r = wa_calldata a)
      (pending_requests (snd (enqueue_recurring_signature_request a s))) = Some r \<and> is_pending r"
proof (cases "find (\<lambda>r. pr_calldata r = wa_calldata a) (pending_requests s)")
  case None
  then show ?thesis
    using push_find [of a s None]
    by (simp add: enqueue_recurring_signature_request_def enqueue_signature_request_def mk_request_def)
next
  case (Some r)
  then have "request_ok r" "pr_calldata r = wa_calldata a"
    using assms by (auto simp: agent_inv_def find_Some_iff)
  then have "is_pending (rearm r)" "pr_calldata (rearm r) = wa_calldata a"
    by (auto simp: request_ok_def rearm_def)
  then show ?thesis
    using Some by (simp add: enqueue_recurring_signature_request_def find_update_first)
qed

section \<open>Alerts\<close>

lemma alert_evict [simp]: "alert (evict_if_over_cap s) = alert s"
  "prev_reputation_bps (evict_if_over_cap s) = prev_reputation_bps s"
  "prev_stake_wei (evict_if_over_cap s) = prev_stake_wei s"
  "paused (evict_if_over_cap s) = paused s"
  by (simp_all add: evict_if_over_cap_def)

lemma alert_push [simp]: "alert (snd (push_request k a s)) = alert s"
  "prev_reputation_bps (snd (push_request k a s)) = prev_reputation_bps s"
  "prev_stake_wei (snd (push_request k a s)) = prev_stake_wei s"
  "paused (snd (push_request k a s)) = paused s"
  by (simp_all add: push_request_def Let_def)

lemmas queue_defs = enqueue_signature_request_def enqueue_superseding_signature_request_def
  enqueue_recurring_signature_request_def mark_request_observed_def

lemmas flag_defs = pause_def resume_def set_bidding_def set_idle_def set_active_jobs_def
  set_provider_stats_def clear_alert_def record_heartbeat_def set_last_error_def

lemma queue_ops_keep:
  "alert (snd (enqueue_signature_request a s)) = alert s"
  "prev_reputation_bps (snd (enqueue_signature_request a s)) = prev_reputation_bps s"
  "prev_stake_wei (snd (enqueue_signature_request a s)) = prev_stake_wei s"
  "paused (snd (enqueue_signature_request a s)) = paused s"
  "alert (snd (enqueue_superseding_signature_request k a s)) = alert s"
  "prev_reputation_bps (snd (enqueue_superseding_signature_request k a s)) = prev_reputation_bps s"
  "prev_stake_wei (snd (enqueue_superseding_signature_request k a s)) = prev_stake_wei s"
  "paused (snd (enqueue_superseding_signature_request k a s)) = paused s"
  "alert (snd (enqueue_recurring_signature_request a s)) = alert s"
  "prev_reputation_bps (snd (enqueue_recurring_signature_request a s)) = prev_reputation_bps s"
  "prev_stake_wei (snd (enqueue_recurring_signature_request a s)) = prev_stake_wei s"
  "paused (snd (enqueue_recurring_signature_request a s)) = paused s"
  "alert (snd (mark_request_observed i tx now s)) = alert s"
  "prev_reputation_bps (snd (mark_request_observed i tx now s)) = prev_reputation_bps s"
  "prev_stake_wei (snd (mark_request_observed i tx now s)) = prev_stake_wei s"
  "paused (snd (mark_request_observed i tx now s)) = paused s"
  by (auto simp: queue_defs record_heartbeat_def Let_def split: option.splits)

fun is_observation :: "agent_op \<Rightarrow> bool" where
  "is_observation (OpObserveProvider _ _ _) = True"
| "is_observation _ = False"

lemma previous_kept_step: "\<not> is_observation op \<Longrightarrow>
    prev_reputation_bps (agent_step op s) = prev_reputation_bps s \<and>
    prev_stake_wei (agent_step op s) = prev_stake_wei s"
  by (cases op) (auto simp: queue_ops_keep flag_defs)

lemma previous_kept_run: "\<forall>op \<in> set ops. \<not> is_observation op \<Longrightarrow>
    prev_reputation_bps (agent_run ops s) = prev_reputation_bps s \<and>
    prev_stake_wei (agent_run ops s) = prev_stake_wei s"
  by (induction ops arbitrary: s) (auto simp: agent_run_def previous_kept_step)

lemma alert_latched_step: "alert s \<noteq> None \<Longrightarrow> op \<noteq> OpClearAlert \<Longrightarrow> alert (agent_step op s) \<noteq> None"
  by (cases op) (auto simp: queue_ops_keep flag_defs record_provider_observation_def Let_def)

lemma alert_latched_run:
  "alert s \<noteq> None \<Longrightarrow> OpClearAlert \<notin> set ops \<Longrightarrow> alert (agent_run ops s) \<noteq> None"
  using alert_latched_step by (induction ops arbitrary: s) (fastforce simp: agent_run_def)+

lemma reputation_alert_iff: "reputation_alert rep (Some p) \<noteq> [] \<longleftrightarrow> 100 * unat rep < 95 * unat p"
proof -
  have "unat rep < 2 ^ 32" "unat p < 2 ^ 32" using unat_lt_2p [of rep] unat_lt_2p [of p] by simp_all
  then have "unat ((ucast rep :: u64) * 100) = unat rep * 100"
    "unat ((ucast p :: u64) * 95) = unat p * 95"
    by (simp_all add: unat_word_ariths unat_ucast_up)
  then show ?thesis by (simp add: reputation_alert_def word_less_nat_alt mult.commute)
qed

lemma stake_alert_iff: "stake_alert w (Some p) \<noteq> [] \<longleftrightarrow> w < p"
  by (simp add: stake_alert_def)

lemma observe_raises: "prev_reputation_bps s = Some r1 \<Longrightarrow> prev_stake_wei s = Some w1 \<Longrightarrow>
    w2 < w1 \<or> 100 * unat r2 < 95 * unat r1 \<Longrightarrow>
    alert (record_provider_observation m r2 w2 s) \<noteq> None"
  using reputation_alert_iff [of r2 r1] stake_alert_iff [of w2 w1]
  by (auto simp: record_provider_observation_def set_provider_stats_def Let_def)

lemma observe_quiet: "prev_reputation_bps s = Some r1 \<Longrightarrow> prev_stake_wei s = Some w1 \<Longrightarrow>
    \<not> (w2 < w1 \<or> 100 * unat r2 < 95 * unat r1) \<Longrightarrow>
    alert (record_provider_observation m r2 w2 s) = alert s"
  using reputation_alert_iff [of r2 r1] stake_alert_iff [of w2 w1]
  by (auto simp: record_provider_observation_def set_provider_stats_def Let_def)

lemma observe_records: "prev_reputation_bps (record_provider_observation m r w s) = Some r"
  "prev_stake_wei (record_provider_observation m r w s) = Some w"
  by (simp_all add: record_provider_observation_def set_provider_stats_def Let_def)

section \<open>Properties\<close>

lemma paused_kept: "paused s \<Longrightarrow> op \<noteq> OpResume \<Longrightarrow> paused (agent_step op s)"
  by (cases op) (auto simp: queue_ops_keep flag_defs record_provider_observation_def Let_def)

lemma paused_kept_run: "paused s \<Longrightarrow> OpResume \<notin> set ops \<Longrightarrow> paused (agent_run ops s)"
  using paused_kept by (induction ops arbitrary: s) (auto simp: agent_run_def)

text \<open>C10: Whatever the daemon loop and the HTTP handlers do, in any order, the agent state is
  consistent: a paused agent never reports bidding; every queued write is either pending without a
  transaction hash or submitted with one, its amount and expiry being decimal texts of 128-bit
  values; and for every intent and stable key there is at most one entry in the queue.\<close>

theorem agent_state_consistent: "agent_inv (agent_run ops agent_new)"
  by (rule agent_inv_run) (rule agent_inv_new)

text \<open>C12: A write awaiting the signer is never lost or redirected: until its own id is reported
  observed, no sequence of operations, however many other writes are enqueued and evicted, removes
  it, marks it submitted, or changes its id, target, chain or key.\<close>

theorem pending_write_kept:
  assumes "r \<in> set (pending_requests s)" "is_pending r"
    and "\<And>tx now. OpObserved (pr_id r) tx now \<notin> set ops"
  shows "\<exists>r' \<in> set (pending_requests (agent_run ops s)). is_pending r' \<and> same_write r r'"
  using assms by (rule pending_kept_run)

definition sample_write :: "string \<Rightarrow> write_args" where
  "sample_write c = \<lparr>wa_intent = ''bidOnJob'', wa_to = ''0x01'', wa_calldata = c, wa_value_wei = 0,
     wa_chain_id = 40204, wa_context = ''job 7'', wa_expires_block = 9\<rparr>"

lemma pending_write_kept_witness:
  "\<exists>r' \<in> set (pending_requests (agent_run [OpSupersede ''7'' (sample_write ''0xbb''), OpPause]
       (agent_run [OpSupersede ''7'' (sample_write ''0xaa'')] agent_new))).
     is_pending r' \<and> same_write (mk_request 0 (Some ''7'') (sample_write ''0xaa'')) r'"
  by (rule pending_write_kept)
    (simp_all add: agent_run_def agent_new_def enqueue_superseding_signature_request_def
      push_request_def evict_if_over_cap_def MAX_PENDING_REQUESTS_def mk_request_def)

text \<open>C28: The queue does not grow without bound: if never more than \<open>B \<ge> 256\<close> writes await the
  signer at once, the queue never holds more than \<open>B\<close> entries, submitted ones included, after any
  sequence of operations.\<close>

theorem queue_bounded:
  assumes "256 \<le> B"
    and "\<And>n. n \<le> length ops \<Longrightarrow> pending_count (agent_run (take n ops) agent_new) \<le> B"
  shows "length (pending_requests (agent_run ops agent_new)) \<le> B"
  by (rule run_bound) (use assms agent_inv_new in \<open>simp_all add: agent_new_def\<close>)

lemma queue_bounded_witness:
  "length (pending_requests (agent_run [OpEnqueue (sample_write ''0xaa'')] agent_new)) \<le> 256"
proof (rule queue_bounded)
  fix n
  assume "n \<le> length [OpEnqueue (sample_write ''0xaa'')]"
  then have "n = 0 \<or> n = 1" by auto
  then show "pending_count (agent_run (take n [OpEnqueue (sample_write ''0xaa'')]) agent_new) \<le> 256"
    by (auto simp: agent_run_def agent_new_def pending_count_def enqueue_signature_request_def
        push_request_def evict_if_over_cap_def MAX_PENDING_REQUESTS_def)
qed simp

text \<open>Request ids identify requests: for the first \<open>2 ^ 64 - 1\<close> operations no two entries of
  the queue share an id, so an observation marks exactly the write that was signed.\<close>

theorem request_ids_distinct:
  assumes "length ops < 2 ^ 64"
  shows "distinct (map pr_id (pending_requests (agent_run ops agent_new)))"
  using ids_ok_run [OF ids_ok_new] assms by (simp add: ids_ok_def)

lemma request_ids_distinct_witness:
  "distinct (map pr_id (pending_requests (agent_run
     [OpEnqueue (sample_write ''0xaa''), OpEnqueue (sample_write ''0xbb'')] agent_new)))"
  by (rule request_ids_distinct) simp

text \<open>Slashing and reputation loss are always noticed, and only those: of two successive
  provider observations, with any other operations between them, the second raises the alert
  exactly when the stake fell or the reputation lost strictly more than five percent; otherwise it
  leaves the alert as it was. The 32-bit comparison in the code cannot wrap.\<close>

theorem provider_alert_exact:
  assumes "\<forall>op \<in> set ops. \<not> is_observation op"
  shows "let s = agent_run ops (agent_step (OpObserveProvider m1 r1 w1) s0);
             s' = agent_step (OpObserveProvider m2 r2 w2) s
         in if w2 < w1 \<or> 100 * unat r2 < 95 * unat r1 then alert s' \<noteq> None
            else alert s' = alert s"
proof -
  let ?s = "agent_run ops (agent_step (OpObserveProvider m1 r1 w1) s0)"
  have "prev_reputation_bps ?s = Some r1" "prev_stake_wei ?s = Some w1"
    using previous_kept_run [OF assms] by (simp_all add: observe_records)
  then show ?thesis
    using observe_raises [of ?s r1 w1 w2 r2 m2] observe_quiet [of ?s r1 w1 w2 r2 m2]
    unfolding Let_def agent_step.simps by presburger
qed

lemma provider_alert_exact_witness:
  "alert (agent_run [OpObserveProvider 4 9000 100, OpPause, OpObserveProvider 4 9000 95] agent_new) \<noteq> None"
  using provider_alert_exact [of "[OpPause]" 4 9000 100 agent_new 4 9000 95]
  by (simp add: agent_run_def)

text \<open>A raised alert stays until it is acknowledged: no other operation clears it.\<close>

theorem alert_latched:
  assumes "alert s \<noteq> None" "OpClearAlert \<notin> set ops"
  shows "alert (agent_run ops s) \<noteq> None"
  using assms by (rule alert_latched_run)

lemma alert_latched_witness:
  "alert (agent_run [OpObserveProvider 4 9500 100, OpResume] (agent_new\<lparr>alert := Some ''slashed''\<rparr>)) \<noteq> None"
  by (rule alert_latched) simp_all

text \<open>Pausing holds until it is undone: after \<open>pause\<close>, and until the next \<open>resume\<close>, the agent
  accepts no new bids and reports the paused state, whatever else happens; jobs in flight keep
  their count.\<close>

theorem pause_holds:
  assumes "OpResume \<notin> set ops"
  shows "\<not> accepts_new_bids (agent_run (OpPause # ops) s) \<and>
    lifecycle (agent_run (OpPause # ops) s) = LPaused \<and>
    active_jobs (agent_step OpPause s) = active_jobs s"
  using paused_kept_run [of "pause s" ops] assms
  by (simp add: agent_run_def accepts_new_bids_def lifecycle_def pause_def)

lemma pause_holds_witness:
  "lifecycle (agent_run [OpPause, OpSetBidding True, OpSetActiveJobs 2] agent_new) = LPaused"
  using pause_holds [of "[OpSetBidding True, OpSetActiveJobs 2]" agent_new] by simp

text \<open>The recurring heartbeat is always signed again: after it is enqueued, in any reachable
  state, the entry the signer finds for that calldata is pending, also when the previous beat had
  already been broadcast.\<close>

theorem heartbeat_recurs:
  "\<exists>r. find (\<lambda>r. pr_calldata r = wa_calldata a)
      (pending_requests (agent_run (ops @ [OpRecur a]) agent_new)) = Some r \<and> is_pending r"
  using recur_pending [OF agent_inv_run [OF agent_inv_new], of a ops] by (simp add: agent_run_def)

text \<open>A bid that was broadcast is not offered for signing again while its entry is retained:
  superseding it changes nothing and returns its id.\<close>

theorem broadcast_bid_not_rearmed:
  assumes "agent_inv s" "r \<in> set (pending_requests s)" "same_key (wa_intent a) k r"
    "pr_status r = ''submitted''"
  shows "enqueue_superseding_signature_request k a s = (pr_id r, s)"
proof -
  have keys: "distinct (keys (pending_requests s))" using assms(1) by (simp add: agent_inv_def)
  have unique: "distinct (keys q) \<Longrightarrow> r \<in> set q \<Longrightarrow>
      find (same_key (wa_intent a) k) q = Some r \<and>
      update_first (same_key (wa_intent a) k) (supersede a) q = q" for q
  proof (induction q)
    case (Cons x q)
    show ?case
    proof (cases "same_key (wa_intent a) k x")
      case True
      moreover have "(wa_intent a, k) \<in> set (keys q)" if "r \<in> set q"
        using that assms(3) by (auto simp: in_keys)
      ultimately have "r = x" using Cons.prems by (auto simp: key_of_def same_key_def)
      then show ?thesis using True assms(4) by (simp add: supersede_def)
    next
      case False
      then show ?thesis using Cons assms(3) by auto
    qed
  qed simp
  show ?thesis
    using unique [OF keys assms(2)] by (simp add: enqueue_superseding_signature_request_def)
qed

lemma broadcast_bid_not_rearmed_witness:
  "fst (enqueue_superseding_signature_request ''7'' (sample_write ''0xbb'')
     (agent_run [OpSupersede ''7'' (sample_write ''0xaa''), OpObserved 0 ''0xf00'' 5] agent_new)) = 0"
proof -
  have "agent_inv (agent_run [OpSupersede ''7'' (sample_write ''0xaa''), OpObserved 0 ''0xf00'' 5] agent_new)"
    by (rule agent_inv_run) (rule agent_inv_new)
  from broadcast_bid_not_rearmed [OF this, of "observe ''0xf00'' (mk_request 0 (Some ''7'') (sample_write ''0xaa''))"
      "sample_write ''0xbb''" "''7''"]
  show ?thesis
    by (simp add: agent_run_def agent_new_def enqueue_superseding_signature_request_def
      push_request_def evict_if_over_cap_def MAX_PENDING_REQUESTS_def mk_request_def observe_def
      mark_request_observed_def same_key_def sample_write_def)
qed

text \<open>C29: Retention ends that protection: with the queue at its cap and the oldest entry a
  broadcast bid, enqueueing one more write evicts it, and the next tick's bid for the same job is
  queued as a new pending write under a fresh id, to be signed a second time.\<close>

theorem evicted_bid_rearms:
  assumes "pending_requests s = r # qs" "length qs = 255" "pr_status r = ''submitted''"
    "\<forall>x \<in> set qs. \<not> same_key (wa_intent b) k x"
    "\<forall>x \<in> set (r # qs). pr_calldata x \<noteq> wa_calldata a"
  shows "mk_request (next_request_id s + 1) (Some k) b \<in>
    set (pending_requests (agent_run [OpEnqueue a, OpSupersede k b] s))"
proof -
  let ?m = "mk_request (next_request_id s) None a"
  have "find (\<lambda>x. pr_calldata x = wa_calldata a) (pending_requests s) = None"
    using assms(1,5) by (auto simp: find_None_iff)
  then have "agent_step (OpEnqueue a) s =
      s\<lparr>next_request_id := next_request_id s + 1, pending_requests := qs @ [?m]\<rparr>"
    using assms(1-3)
    by (simp add: enqueue_signature_request_def push_request_def evict_if_over_cap_def Let_def
        MAX_PENDING_REQUESTS_def)
  moreover have "find (same_key (wa_intent b) k) (qs @ [?m]) = None"
    using assms(4) by (auto simp: find_None_iff same_key_def mk_request_def)
  ultimately show ?thesis
    using push_present [of "Some k" b "agent_step (OpEnqueue a) s"]
    by (simp add: agent_run_def enqueue_superseding_signature_request_def)
qed

lemma evicted_bid_rearms_witness:
  "mk_request 257 (Some ''7'') (sample_write ''0xbb'') \<in>
     set (pending_requests (agent_run [OpEnqueue (sample_write ''0xcc''),
       OpSupersede ''7'' (sample_write ''0xbb'')]
       (agent_new\<lparr>next_request_id := 256,
          pending_requests := observe ''0xf00'' (mk_request 0 (Some ''7'') (sample_write ''0xaa'')) #
            replicate 255 (mk_request 1 None (sample_write ''0xdd''))\<rparr>)))"
  using evicted_bid_rearms [of "agent_new\<lparr>next_request_id := 256,
          pending_requests := observe ''0xf00'' (mk_request 0 (Some ''7'') (sample_write ''0xaa'')) #
            replicate 255 (mk_request 1 None (sample_write ''0xdd''))\<rparr>"
      "observe ''0xf00'' (mk_request 0 (Some ''7'') (sample_write ''0xaa''))"
      "replicate 255 (mk_request 1 None (sample_write ''0xdd''))" "sample_write ''0xbb''" "''7''"
      "sample_write ''0xcc''"]
  by (simp add: observe_def mk_request_def same_key_def sample_write_def)

end
