(* ===== verification/Heartbeat.thy ===== *)
theory Heartbeat
  imports Selectors
begin

text \<open>
  The crate \<open>heartbeat\<close> (\<open>crates/heartbeat/src/lib.rs\<close>): the liveness calldata and the loop that
  sends it. The sender and the error callback act on a state of any type. A loop without a bound
  never returns, which is the value \<open>None\<close>; \<open>counted_loop\<close> is the frame the heartbeat loop and the
  daemon's main loop have in common: test the bound, do the work, count, test again, sleep.
\<close>

definition HEARTBEAT_INTERVAL_SECS :: nat where
  "HEARTBEAT_INTERVAL_SECS = 30"

definition heartbeat_calldata :: "(bytes \<Rightarrow> bytes) \<Rightarrow> bytes" where
  "heartbeat_calldata kec = sel_heartbeat kec"

datatype send_outcome = Broadcast | Queued

datatype heartbeat_error = HeartbeatSend string

definition heartbeat_error_display :: "heartbeat_error \<Rightarrow> string" where
  "heartbeat_error_display e = (case e of HeartbeatSend m \<Rightarrow> ''heartbeat send failed: '' @ m)"

type_synonym 's heartbeat_sender = "bytes \<Rightarrow> 's \<Rightarrow> (heartbeat_error + send_outcome) \<times> 's"

text \<open>The work may depend on the number of the round; \<open>sleep\<close> is what happens between rounds.\<close>

partial_function (option) counted_loop ::
    "(u64 \<Rightarrow> 's \<Rightarrow> 's) \<Rightarrow> ('s \<Rightarrow> 's) \<Rightarrow> u64 option \<Rightarrow> u64 \<Rightarrow> 's \<Rightarrow> 's option" where
  "counted_loop work sleep max_rounds n s =
     (if (case max_rounds of Some m \<Rightarrow> m \<le> n | None \<Rightarrow> False) then Some s
      else
        let s' = work n s; n' = n + 1
        in if (case max_rounds of Some m \<Rightarrow> m \<le> n' | None \<Rightarrow> False) then Some s'
           else counted_loop work sleep max_rounds n' (sleep s'))"

definition run_heartbeat_loop ::
    "(bytes \<Rightarrow> bytes) \<Rightarrow> 's heartbeat_sender \<Rightarrow> ('s \<Rightarrow> 's) \<Rightarrow> u64 option \<Rightarrow> (heartbeat_error \<Rightarrow> 's \<Rightarrow> 's) \<Rightarrow>
       's \<Rightarrow> 's option" where
  "run_heartbeat_loop kec send sleep max_beats on_error s =
     counted_loop
       (\<lambda>_ s. case send (heartbeat_calldata kec) s of (Inl e, s') \<Rightarrow> on_error e s' | (Inr _, s') \<Rightarrow> s')
       sleep max_beats 0 s"

section \<open>Termination\<close>

text \<open>The state after \<open>k\<close> rounds, each but the first preceded by a sleep.\<close>

primrec rounds :: "(u64 \<Rightarrow> 's \<Rightarrow> 's) \<Rightarrow> ('s \<Rightarrow> 's) \<Rightarrow> u64 \<Rightarrow> nat \<Rightarrow> 's \<Rightarrow> 's" where
  "rounds work sleep n 0 s = work n s"
| "rounds work sleep n (Suc k) s = rounds work sleep (n + 1) k (sleep (work n s))"

lemma counted_loop_bounded:
  "unat n + Suc k < 2 ^ 64 \<Longrightarrow>
     counted_loop work sleep (Some (n + 1 + of_nat k)) n s = Some (rounds work sleep n k s)"
proof (induction k arbitrary: n s)
  case 0
  then have "\<not> n + 1 \<le> n" by (simp add: word_le_nat_alt unat_word_ariths)
  then show ?case by (subst counted_loop.simps) (simp add: Let_def)
next
  case (Suc k)
  have n1: "unat (n + 1) = unat n + 1" using Suc.prems by (simp add: unat_word_ariths)
  have m: "unat (n + 1 + of_nat (Suc k)) = unat n + 1 + Suc k"
    using Suc.prems by (simp add: unat_word_ariths unat_of_nat_small)
  have "counted_loop work sleep (Some (n + 1 + of_nat (Suc k))) n s =
      counted_loop work sleep (Some (n + 1 + of_nat (Suc k))) (n + 1) (sleep (work n s))"
    using m n1 by (subst counted_loop.simps) (simp add: Let_def word_le_nat_alt del: of_nat_Suc)
  moreover have "n + 1 + of_nat (Suc k) = (n + 1) + 1 + of_nat k" by (simp add: algebra_simps)
  moreover have "counted_loop work sleep (Some ((n + 1) + 1 + of_nat k)) (n + 1) (sleep (work n s)) =
      Some (rounds work sleep (n + 1) k (sleep (work n s)))"
    using Suc.prems n1 by (intro Suc.IH) simp
  ultimately show ?case by (simp only: rounds.simps)
qed

lemma counted_loop_zero: "counted_loop work sleep (Some 0) n s = Some s"
  by (subst counted_loop.simps) simp

lemma counted_loop_max:
  assumes "0 < m"
  shows "counted_loop work sleep (Some m) 0 s = Some (rounds work sleep 0 (unat m - 1) s)"
proof -
  have "0 < unat m" using assms by (simp add: word_less_nat_alt)
  then have "of_nat (unat m - 1) = m - (1 :: u64)" by (simp add: of_nat_diff)
  moreover have "unat m < 2 ^ 64" using unat_lt_2p [of m] by simp
  ultimately show ?thesis
    using counted_loop_bounded [of 0 "unat m - 1" work sleep s] \<open>0 < unat m\<close> by simp
qed

lemma counted_loop_returns: "counted_loop work sleep mx n s = Some t \<Longrightarrow> mx \<noteq> None"
  by (rule counted_loop.raw_induct [where P = "\<lambda>work sleep mx n s t. mx \<noteq> None"])
    (auto simp: Let_def split: if_splits option.splits)

lemma counted_loop_forever: "counted_loop work sleep None n s = None"
  using counted_loop_returns [of work sleep None n s] by (cases "counted_loop work sleep None n s") auto

end
