(* ===== verification/Relay.thy ===== *)
theory Relay
  imports Supervision_Queue Execution Heartbeat
begin

text \<open>
  The module \<open>node_agent::relay\<close> (\<open>crates/node-agent/src/relay.rs\<close>): the three senders that turn
  writes into entries of the signing queue. Each takes the write lock for one queue operation, so
  each is a function on \<open>agent_state\<close>. The section on earnings shows what plain enqueueing means for
  \<open>claimRewards()\<close>, whose calldata never changes.
\<close>

definition relay_args :: "signature_request \<Rightarrow> write_args" where
  "relay_args req = \<lparr>wa_intent = intent_label (sr_intent req), wa_to = hex_encode (sr_to req),
     wa_calldata = hex_encode (sr_calldata req), wa_value_wei = sr_value_wei req,
     wa_chain_id = sr_chain_id req, wa_context = sr_context req, wa_expires_block = sr_expires_block req\<rparr>"

definition relay_signer :: signer where
  "relay_signer req s = (Inr \<lparr>tx_hash_seen = None\<rparr>, snd (enqueue_signature_request (relay_args req) s))"

record relay_heartbeat_sender =
  rh_monitor :: address
  rh_chain_id :: u64

definition heartbeat_args :: "relay_heartbeat_sender \<Rightarrow> bytes \<Rightarrow> write_args" where
  "heartbeat_args x calldata = \<lparr>wa_intent = intent_label HeartbeatWrite, wa_to = hex_encode (rh_monitor x),
     wa_calldata = hex_encode calldata, wa_value_wei = 0, wa_chain_id = rh_chain_id x,
     wa_context = ''heartbeat (provider liveness)'', wa_expires_block = 0\<rparr>"

definition relay_send_heartbeat :: "relay_heartbeat_sender \<Rightarrow> agent_state heartbeat_sender" where
  "relay_send_heartbeat x calldata s =
     (Inr Queued, snd (enqueue_recurring_signature_request (heartbeat_args x calldata) s))"

record relay_bid_placer =
  rb_marketplace :: address
  rb_chain_id :: u64

definition bid_args ::
    "(bytes \<Rightarrow> bytes) \<Rightarrow> relay_bid_placer \<Rightarrow> u128 \<Rightarrow> u128 \<Rightarrow> u128 \<Rightarrow> u128 \<Rightarrow> write_args" where
  "bid_args kec x i price_wei latency_ms expires_block =
     \<lparr>wa_intent = intent_label BidOnJob, wa_to = hex_encode (rb_marketplace x),
      wa_calldata = hex_encode (encode_bid_on_job kec i price_wei latency_ms), wa_value_wei = 0,
      wa_chain_id = rb_chain_id x,
      wa_context = ''bidOnJob job '' @ dec i @ '' at '' @ dec price_wei @ '' wei'',
      wa_expires_block = expires_block\<rparr>"

definition relay_place ::
    "(bytes \<Rightarrow> bytes) \<Rightarrow> relay_bid_placer \<Rightarrow> u128 \<Rightarrow> u128 \<Rightarrow> u128 \<Rightarrow> u128 \<Rightarrow> agent_state \<Rightarrow>
       (string + unit) \<times> agent_state" where
  "relay_place kec x i price_wei latency_ms expires_block s =
     (Inr (), snd (enqueue_superseding_signature_request (dec i)
       (bid_args kec x i price_wei latency_ms expires_block) s))"

section \<open>The senders as queue operations\<close>

lemma relay_as_ops:
  "snd (relay_signer req s) = agent_step (OpEnqueue (relay_args req)) s"
  "snd (relay_send_heartbeat h calldata s) = agent_step (OpRecur (heartbeat_args h calldata)) s"
  "snd (relay_place kec b i p l e s) = agent_step (OpSupersede (dec i) (bid_args kec b i p l e)) s"
  by (simp_all add: relay_signer_def relay_send_heartbeat_def relay_place_def)

text \<open>Asking the relay again for a write it holds changes nothing.\<close>

interpretation relay: idempotent_sink "\<lambda>req s. snd (relay_signer req s)"
  "\<lambda>s. pr_calldata ` set (pending_requests s)" "\<lambda>req. hex_encode (sr_calldata req)"
proof
  fix req s
  show "hex_encode (sr_calldata req) \<in> pr_calldata ` set (pending_requests (snd (relay_signer req s)))"
    using plain.request_holds [of "relay_args req" s] by (simp add: relay_signer_def relay_args_def)
  show "snd (relay_signer req s) = s"
    if "hex_encode (sr_calldata req) \<in> pr_calldata ` set (pending_requests s)"
    using plain.request_again [of "relay_args req" s] that by (simp add: relay_signer_def relay_args_def)
qed

section \<open>Bids\<close>

definition bids_for :: "u128 \<Rightarrow> agent_state \<Rightarrow> pending_request list" where
  "bids_for i s = filter (same_key (intent_label BidOnJob) (dec i)) (pending_requests s)"

lemma distinct_keys_single:
  "distinct (keys q) \<Longrightarrow> length (filter (same_key intent k) q) \<le> 1"
proof (induction q)
  case (Cons r q)
  show ?case
  proof (cases "same_key intent k r")
    case True
    then have "(intent, k) \<in> set (key_of r)" by (simp add: same_key_def key_of_def)
    then have "(intent, k) \<notin> set (keys q)" using Cons.prems by auto
    then have "filter (same_key intent k) q = []" by (auto simp: in_keys filter_empty_conv)
    with True show ?thesis by simp
  qed (use Cons in simp)
qed simp

lemma one_bid: "agent_inv s \<Longrightarrow> length (bids_for i s) \<le> 1"
  using distinct_keys_single [of "pending_requests s"] by (simp add: agent_inv_def bids_for_def)

lemma update_first_filter:
  "(\<And>r. P (f r) = P r) \<Longrightarrow> filter P (update_first P f q) = update_first P f (filter P q)"
  by (induction q) auto

lemma single_of_member: "x \<in> set q \<Longrightarrow> length q \<le> 1 \<Longrightarrow> q = [x]"
  by (cases q) auto

text \<open>What the queue holds for a job after a bid has been placed.\<close>

lemma place_new:
  assumes "agent_inv s" "bids_for i s = []"
  shows "bids_for i (snd (relay_place kec x i p l e s)) =
    [mk_request (next_request_id s) (Some (dec i)) (bid_args kec x i p l e)]"
proof -
  let ?a = "bid_args kec x i p l e"
  let ?s' = "snd (relay_place kec x i p l e s)"
  let ?r = "mk_request (next_request_id s) (Some (dec i)) ?a"
  have none: "find (same_key (wa_intent ?a) (dec i)) (pending_requests s) = None"
    using assms(2) by (simp add: bids_for_def find_None_iff filter_empty_conv bid_args_def)
  then have s': "?s' = snd (push_request (Some (dec i)) ?a s)"
    by (simp add: relay_place_def enqueue_superseding_signature_request_def)
  have "?r \<in> set (pending_requests ?s')" using push_present [of "Some (dec i)" ?a s] s' by auto
  moreover have "same_key (intent_label BidOnJob) (dec i) ?r"
    by (simp add: same_key_def mk_request_def bid_args_def)
  ultimately have "?r \<in> set (bids_for i ?s')" by (simp add: bids_for_def)
  moreover have "agent_inv ?s'"
    using agent_inv_supersede [OF assms(1)] by (simp add: relay_place_def)
  ultimately show ?thesis by (intro single_of_member one_bid)
qed

lemma place_held:
  assumes "agent_inv s" "bids_for i s = [r]"
  shows "bids_for i (snd (relay_place kec x i p l e s)) = [supersede (bid_args kec x i p l e) r]"
proof -
  let ?a = "bid_args kec x i p l e"
  let ?P = "same_key (intent_label BidOnJob) (dec i)"
  have "find ?P (pending_requests s) \<noteq> None"
    using assms(2) by (auto simp: bids_for_def find_None_iff filter_eq_Cons_iff)
  then obtain r' where "find ?P (pending_requests s) = Some r'" by blast
  then have s': "pending_requests (snd (relay_place kec x i p l e s)) =
      update_first ?P (supersede ?a) (pending_requests s)"
    by (simp add: relay_place_def enqueue_superseding_signature_request_def bid_args_def)
  have "?P r" using assms(2) unfolding bids_for_def by (metis filter_eq_Cons_iff)
  moreover have "?P (supersede ?a r) = ?P r" for r by (simp add: same_key_def supersede_def)
  ultimately show ?thesis
    using assms(2) by (simp add: bids_for_def s' update_first_filter)
qed

section \<open>Claims\<close>

text \<open>The calldata of a claim is the bare selector, so the queue holds at most one claim at a time,
  pending or long since broadcast.\<close>

definition claim_held :: "(bytes \<Rightarrow> bytes) \<Rightarrow> agent_state \<Rightarrow> bool" where
  "claim_held kec s \<longleftrightarrow> hex_encode (encode_claim_rewards kec) \<in> pr_calldata ` set (pending_requests s)"

lemma claim_dropped:
  assumes "claim_held kec (es_agent s)"
  shows "pending_requests (es_agent (earnings_tick kec cfg c relay_signer s)) = pending_requests (es_agent s)"
proof -
  have "snd (relay_signer r (es_agent s)) = es_agent s" if "sr_calldata r = encode_claim_rewards kec" for r
    using relay.request_again [of r "es_agent s"] assms that by (simp add: claim_held_def)
  then have "relay_signer r (es_agent s) = (Inr \<lparr>tx_hash_seen = None\<rparr>, es_agent s)"
    if "sr_calldata r = encode_claim_rewards kec" for r
    using that by (metis relay_signer_def snd_conv)
  moreover have "sr_calldata r = encode_claim_rewards kec" if "plan_claim kec w b cfg = Claim r" for w b r
    using that by (auto simp: plan_claim_def split: if_splits)
  ultimately show ?thesis
    by (auto simp: earnings_tick_def set_last_error_def split: sum.splits earnings_action.splits)
qed

text \<open>A sequence of polls, with the balances read in each.\<close>

definition earnings_run ::
    "(bytes \<Rightarrow> bytes) \<Rightarrow> earnings_config \<Rightarrow> (string + u128) list \<Rightarrow> earnings_state \<Rightarrow> earnings_state" where
  "earnings_run kec cfg cs s = fold (\<lambda>c s. earnings_tick kec cfg c relay_signer s) cs s"

lemma claims_dropped:
  "claim_held kec (es_agent s) \<Longrightarrow>
     pending_requests (es_agent (earnings_run kec cfg cs s)) = pending_requests (es_agent s)"
proof (induction cs arbitrary: s)
  case (Cons c cs)
  note q = claim_dropped [OF Cons.prems, of cfg c]
  then have "claim_held kec (es_agent (earnings_tick kec cfg c relay_signer s))"
    using Cons.prems by (simp add: claim_held_def)
  then show ?case using Cons.IH q by (simp add: earnings_run_def)
qed (simp add: earnings_run_def)

section \<open>Properties\<close>

text \<open>C19: A moved price replaces the stale bid: placing a bid through the relay, in any state the agent
  can reach, leaves exactly one entry for the job. If there was none it is a new pending write with
  this price, latency and expiry; a pending one keeps its id and gets the new calldata and expiry; one
  already broadcast is left as it was.\<close>

theorem bid_superseded_exactly:
  assumes "s = agent_run ops agent_new"
  shows "bids_for i (snd (relay_place kec x i p l e s)) =
    (case bids_for i s of
       [] \<Rightarrow> [mk_request (next_request_id s) (Some (dec i)) (bid_args kec x i p l e)]
     | r # _ \<Rightarrow> [if pr_status r = ''pending''
          then r\<lparr>pr_calldata := hex_encode (encode_bid_on_job kec i p l), pr_value_wei := dec (0 :: u128),
                 pr_context := ''bidOnJob job '' @ dec i @ '' at '' @ dec p @ '' wei'',
                 pr_expires_block := dec e\<rparr>
          else r])"
proof -
  have inv: "agent_inv s" using assms agent_inv_run agent_inv_new by simp
  show ?thesis
  proof (cases "bids_for i s")
    case Nil
    then show ?thesis using place_new [OF inv] by simp
  next
    case (Cons r rs)
    then have "bids_for i s = [r]" using one_bid [OF inv, of i] by simp
    then show ?thesis using place_held [OF inv] by (simp add: supersede_def bid_args_def)
  qed
qed

lemma bid_superseded_exactly_witness:
  "length (bids_for 7 (snd (relay_place (\<lambda>_. []) \<lparr>rb_marketplace = [], rb_chain_id = 1\<rparr> 7 100 5 60
     (agent_run [OpPause] agent_new)))) = 1"
  using bid_superseded_exactly [OF refl, of 7 "\<lambda>_. []" "\<lparr>rb_marketplace = [], rb_chain_id = 1\<rparr>" 100 5 60
      "[OpPause]"]
  by (simp split: list.splits)

text \<open>C24: After the first claim no further claim is ever offered for signing. Once a write with the
  calldata of \<open>claimRewards()\<close> is in the queue, also when it has been broadcast and observed long ago, polling earnings
  through the relay never changes the queue, whatever balances are read: the constant calldata is
  taken for the write already held.\<close>

theorem later_claims_never_queued:
  assumes "r \<in> set (pending_requests (es_agent s))" "pr_calldata r = hex_encode (encode_claim_rewards kec)"
  shows "pending_requests (es_agent (earnings_run kec cfg cs s)) = pending_requests (es_agent s)"
  using assms by (intro claims_dropped) (auto simp: claim_held_def intro: rev_image_eqI)

definition claimed_once :: earnings_state where
  "claimed_once = \<lparr>es_agent = snd (mark_request_observed 0 ''0xab'' 5
       (snd (enqueue_signature_request (relay_args
         \<lparr>sr_intent = ClaimRewards, sr_to = [], sr_calldata = [1, 2, 3, 4], sr_value_wei = 0,
          sr_chain_id = 1, sr_context = [], sr_expires_block = 0\<rparr>) agent_new))),
     es_in_flight = False, es_signed = []\<rparr>"

lemma later_claims_never_queued_witness:
  "map pr_status (pending_requests (es_agent (earnings_run (\<lambda>_. [1, 2, 3, 4])
     \<lparr>ec_threshold_wei = 5, ec_accounting = [], ec_chain_id = 1\<rparr> [Inr 9, Inr 0, Inr 9] claimed_once))) =
   [''submitted'']"
proof -
  have q: "pending_requests (es_agent claimed_once) =
    [observe ''0xab'' (mk_request 0 None (relay_args
       \<lparr>sr_intent = ClaimRewards, sr_to = [], sr_calldata = [1, 2, 3, 4], sr_value_wei = 0,
        sr_chain_id = 1, sr_context = [], sr_expires_block = 0\<rparr>))]"
    by (simp add: claimed_once_def enqueue_signature_request_def push_request_def evict_if_over_cap_def
        MAX_PENDING_REQUESTS_def agent_new_def mark_request_observed_def mk_request_def
        record_heartbeat_def Let_def)
  have "encode_claim_rewards (\<lambda>_. [1, 2, 3, 4]) = [1, 2, 3, 4]"
    by (simp add: encode_claim_rewards_def encode_call_def sel_claim_rewards_def selector_def)
  then show ?thesis
    using later_claims_never_queued [of "observe ''0xab'' (mk_request 0 None (relay_args
       \<lparr>sr_intent = ClaimRewards, sr_to = [], sr_calldata = [1, 2, 3, 4], sr_value_wei = 0,
        sr_chain_id = 1, sr_context = [], sr_expires_block = 0\<rparr>))" claimed_once "\<lambda>_. [1, 2, 3, 4]"
       "\<lparr>ec_threshold_wei = 5, ec_accounting = [], ec_chain_id = 1\<rparr>" "[Inr 9, Inr 0, Inr 9]"]
    by (simp add: q observe_def mk_request_def relay_args_def)
qed

end
