(* ===== verification/Config.thy ===== *)
theory Config
  imports Prelude
begin

text \<open>
  The crate \<open>config\<close> (\<open>crates/config/src/lib.rs\<close>): the participation schedule with its
  window test and the time left until the window closes, and the \<open>compute.json\<close> settings
  with their range check. The JSON parser (serde_json) is the parameter \<open>parse\<close> of
  \<open>from_json\<close>, with the type of its error and that error's text.
\<close>

section \<open>Schedule windows\<close>

datatype schedule = Always | Nights | Weekends

definition schedule_default :: schedule where
  "schedule_default = Always"

datatype weekday = Mon | Tue | Wed | Thu | Fri | Sat | Sun

definition NIGHT_START_HOUR :: u8 where
  "NIGHT_START_HOUR = 22"

definition NIGHT_END_HOUR :: u8 where
  "NIGHT_END_HOUR = 5"

definition in_window :: "schedule \<Rightarrow> u8 \<Rightarrow> weekday \<Rightarrow> bool" where
  "in_window s hour day =
     (if 23 < hour then False
      else (case s of
              Always \<Rightarrow> True
            | Nights \<Rightarrow> NIGHT_START_HOUR \<le> hour \<or> hour \<le> NIGHT_END_HOUR
            | Weekends \<Rightarrow> day = Sat \<or> day = Sun))"

definition secs_until_window_close :: "schedule \<Rightarrow> u8 \<Rightarrow> u8 \<Rightarrow> weekday \<Rightarrow> u64" where
  "secs_until_window_close s hour minute day =
     (if \<not> in_window s hour day \<or> 59 < minute then 0
      else
        (let minutes_since_midnight = ucast hour * 60 + ucast minute
         in (case s of
               Always \<Rightarrow> - 1
             | Nights \<Rightarrow>
                 (let close = (ucast NIGHT_END_HOUR + 1) * 60
                  in (if NIGHT_START_HOUR \<le> hour
                      then (24 * 60 - minutes_since_midnight) + close
                      else close - minutes_since_midnight)) * 60
             | Weekends \<Rightarrow>
                 (let full_days_left = (case day of Sat \<Rightarrow> 1 | _ \<Rightarrow> 0)
                  in full_days_left * 24 * 60 + (24 * 60 - minutes_since_midnight)) * 60)))"

text \<open>The same two functions read on natural numbers.\<close>

lemma in_window_unat:
  "in_window s hour day \<longleftrightarrow>
     unat hour \<le> 23 \<and>
     (case s of Always \<Rightarrow> True | Nights \<Rightarrow> 22 \<le> unat hour \<or> unat hour \<le> 5
      | Weekends \<Rightarrow> day = Sat \<or> day = Sun)"
  by (auto simp: in_window_def NIGHT_START_HOUR_def NIGHT_END_HOUR_def word_le_nat_alt
      word_less_nat_alt split: schedule.splits)

lemma unat_hour_min:
  assumes "unat (h :: u8) < 24" "unat (m :: u8) < 60"
  shows "unat (ucast h * 60 + ucast m :: u64) = unat h * 60 + unat m"
proof -
  have "unat (ucast h :: u64) = unat h" "unat (ucast m :: u64) = unat m"
    by (simp_all add: unat_ucast_up)
  with assms show ?thesis
    by (simp add: unat_word_ariths)
qed

lemma unat_minutes_left:
  fixes x :: u64
  shows "unat x < 1440 \<Longrightarrow> unat ((1800 - x) * 60) = (1800 - unat x) * 60"
    and "unat x < 360 \<Longrightarrow> unat ((360 - x) * 60) = (360 - unat x) * 60"
    and "unat x < 1440 \<Longrightarrow> unat ((2880 - x) * 60) = (2880 - unat x) * 60"
    and "unat x < 1440 \<Longrightarrow> unat ((1440 - x) * 60) = (1440 - unat x) * 60"
proof -
  have sub: "unat x < unat k \<Longrightarrow> unat (k - x) = unat k - unat x" for k
    by (simp add: unat_sub word_le_nat_alt)
  have mul: "unat a * 60 < 2 ^ 64 \<Longrightarrow> unat (a * 60) = unat a * 60" for a :: u64
    by (simp add: unat_word_ariths)
  show "unat x < 1440 \<Longrightarrow> unat ((1800 - x) * 60) = (1800 - unat x) * 60"
    using sub [of 1800] mul [of "1800 - x"] by simp
  show "unat x < 360 \<Longrightarrow> unat ((360 - x) * 60) = (360 - unat x) * 60"
    using sub [of 360] mul [of "360 - x"] by simp
  show "unat x < 1440 \<Longrightarrow> unat ((2880 - x) * 60) = (2880 - unat x) * 60"
    using sub [of 2880] mul [of "2880 - x"] by simp
  show "unat x < 1440 \<Longrightarrow> unat ((1440 - x) * 60) = (1440 - unat x) * 60"
    using sub [of 1440] mul [of "1440 - x"] by simp
qed

lemma secs_until_window_close_unat:
  assumes "in_window s h d" "unat m < 60" "s \<noteq> Always"
  shows "unat (secs_until_window_close s h m d) =
     (case s of
        Nights \<Rightarrow> (if 22 \<le> unat h then 1800 - (unat h * 60 + unat m)
                   else 360 - (unat h * 60 + unat m)) * 60
      | _ \<Rightarrow> ((if d = Sat then 2880 else 1440) - (unat h * 60 + unat m)) * 60)"
proof -
  define x :: u64 where "x = ucast h * 60 + ucast m"
  from assms(1) have h: "unat h < 24" by (auto simp: in_window_unat)
  from unat_hour_min [OF h assms(2)] have x: "unat x = unat h * 60 + unat m"
    by (simp add: x_def)
  with h assms(2) have lt: "unat x < 1440" by simp
  from assms(2) have m: "\<not> 59 < m" by (simp add: word_less_nat_alt)
  show ?thesis
  proof (cases s)
    case Nights
    with assms(1) have nw: "22 \<le> unat h \<or> unat h \<le> 5" by (simp add: in_window_unat)
    have eq: "secs_until_window_close s h m d =
        (if 22 \<le> unat h then (1440 - x + 360) * 60 else (360 - x) * 60)"
      using Nights assms(1) m by (simp add: secs_until_window_close_def NIGHT_START_HOUR_def
          NIGHT_END_HOUR_def word_le_nat_alt x_def Let_def)
    have "\<not> 22 \<le> unat h \<Longrightarrow> unat x < 360" using nw x assms(2) by simp
    then show ?thesis
      unfolding eq using Nights lt
      by (simp add: unat_minutes_left x del: right_diff_distrib_numeral left_diff_distrib_numeral
          distrib_right_numeral)
  next
    case Weekends
    have eq: "secs_until_window_close s h m d =
        (if d = Sat then (1440 + (1440 - x)) * 60 else (1440 - x) * 60)"
      using Weekends assms(1) m
      by (cases d) (simp_all add: secs_until_window_close_def Let_def x_def)
    show ?thesis
      unfolding eq using Weekends lt
      by (simp add: unat_minutes_left x del: right_diff_distrib_numeral left_diff_distrib_numeral
          distrib_right_numeral)
  qed (use assms in simp)
qed

section \<open>Settings\<close>

record compute_settings =
  cs_enabled :: bool
  cs_allocation_percent :: u8
  cs_schedule :: schedule

definition compute_settings_default :: compute_settings where
  "compute_settings_default =
     \<lparr>cs_enabled = False, cs_allocation_percent = 0, cs_schedule = schedule_default\<rparr>"

datatype 'p config_error = Parse 'p | AllocationOutOfRange u8

definition config_error_display :: "('p \<Rightarrow> string) \<Rightarrow> 'p config_error \<Rightarrow> string" where
  "config_error_display show_parse err = (case err of
     Parse e \<Rightarrow> ''compute.json parse error: '' @ show_parse e
   | AllocationOutOfRange v \<Rightarrow>
       ''allocation_percent '' @ dec v @ '' out of range (0..=100)'')"

definition from_json ::
  "(string \<Rightarrow> 'p + compute_settings) \<Rightarrow> string \<Rightarrow> 'p config_error + compute_settings" where
  "from_json parse s =
     rbind (map_err Parse (parse s)) (\<lambda>settings.
       if 100 < cs_allocation_percent settings
       then Inl (AllocationOutOfRange (cs_allocation_percent settings))
       else Inr settings)"

lemma from_json_ok: "from_json parse s = Inr c \<Longrightarrow> unat (cs_allocation_percent c) \<le> 100"
  by (auto simp: from_json_def word_less_nat_alt split: if_splits)

end
