(* ===== verification/Bidder.thy ===== *)
theory Bidder
  imports Config
begin

text \<open>
  The crate \<open>bidder\<close> (\<open>crates/bidder/src/lib.rs\<close>): cost-plus pricing and the gate sequence
  of \<open>evaluate\<close>. Prices are \<open>u128\<close> words with Rust's saturating multiplication; the
  lemmas say where saturation cannot happen and what price comes out. The load and
  deadline comparisons widen \<open>u64\<close> to \<open>u128\<close> as the code does, so they are exact.
\<close>

definition ONE_SALT_WEI :: u128 where
  "ONE_SALT_WEI = 1000000000000000000"

definition COMMITMENT_CAP_WEI :: u128 where
  "COMMITMENT_CAP_WEI = 10 * ONE_SALT_WEI"

definition MARGIN_NUM :: u128 where "MARGIN_NUM = 115"
definition MARGIN_DEN :: u128 where "MARGIN_DEN = 100"
definition MAX_PRICE_CAP_NUM :: u128 where "MAX_PRICE_CAP_NUM = 90"
definition MAX_PRICE_CAP_DEN :: u128 where "MAX_PRICE_CAP_DEN = 100"
definition LOAD_CAP_NUM :: u64 where "LOAD_CAP_NUM = 80"
definition LOAD_CAP_DEN :: u64 where "LOAD_CAP_DEN = 100"
definition DEADLINE_SAFETY_FACTOR :: u64 where "DEADLINE_SAFETY_FACTOR = 2"

lemmas bid_constants = ONE_SALT_WEI_def COMMITMENT_CAP_WEI_def MARGIN_NUM_def MARGIN_DEN_def
  MAX_PRICE_CAP_NUM_def MAX_PRICE_CAP_DEN_def LOAD_CAP_NUM_def LOAD_CAP_DEN_def
  DEADLINE_SAFETY_FACTOR_def

datatype bid_tier = BidCommitment | BidZKProof | BidTee

record bid_job =
  bj_id :: u64
  bj_max_price_wei :: u128
  bj_tier :: bid_tier
  bj_estimated_pflop_hours_1e18 :: u128
  bj_estimated_exec_secs :: u64
  bj_secs_until_deadline :: u64

record pricing_oracle =
  salt_per_pflop_hour_wei :: u128
  oracle_stale :: bool

definition estimated_cost_wei :: "pricing_oracle \<Rightarrow> bid_job \<Rightarrow> u128" where
  "estimated_cost_wei oracle job =
     sat_mul (bj_estimated_pflop_hours_1e18 job) (salt_per_pflop_hour_wei oracle) div ONE_SALT_WEI"

record settings =
  st_enabled :: bool
  st_schedule :: schedule
  st_current_hour :: u8
  st_current_min :: u8
  st_current_day :: weekday

record caps =
  current_active_jobs :: u64
  max_concurrent_jobs :: u64

datatype skip_reason =
    Disabled | OutsideSchedule | ExceedsCommitmentCap | UnsupportedBidTier | AtCapacity
  | DeadlineInfeasible | WindowClosingSoon | OracleStale | Unprofitable

definition skip_reason_str :: "skip_reason \<Rightarrow> string" where
  "skip_reason_str r = (case r of
     Disabled \<Rightarrow> ''participation disabled in compute.json''
   | OutsideSchedule \<Rightarrow> ''outside the configured schedule window''
   | ExceedsCommitmentCap \<Rightarrow> ''exceeds Commitment-tier cap (10 SALT)''
   | UnsupportedBidTier \<Rightarrow> ''job requests a tier other than Commitment''
   | AtCapacity \<Rightarrow> ''provider at or above 80% of max concurrent jobs''
   | DeadlineInfeasible \<Rightarrow> ''execution deadline too close to finish safely''
   | WindowClosingSoon \<Rightarrow> ''schedule window closes too soon to finish safely''
   | OracleStale \<Rightarrow> ''ComputePricingOracle price is stale''
   | Unprofitable \<Rightarrow> ''no profitable bid under the price cap'')"

datatype bid_decision =
    Bid (bid_job_id: u64) (bid_price_wei: u128) (bid_cost_wei: u128)
  | Skip (skip_job_id: u64) (skip_why: skip_reason)

definition is_bid :: "bid_decision \<Rightarrow> bool" where
  "is_bid d = (case d of Bid _ _ _ \<Rightarrow> True | Skip _ _ \<Rightarrow> False)"

definition skip_reason_of :: "bid_decision \<Rightarrow> skip_reason option" where
  "skip_reason_of d = (case d of Skip _ r \<Rightarrow> Some r | Bid _ _ _ \<Rightarrow> None)"

definition evaluate :: "bid_job \<Rightarrow> pricing_oracle \<Rightarrow> settings \<Rightarrow> caps \<Rightarrow> bid_decision" where
  "evaluate job oracle settings caps =
     (let skip = Skip (bj_id job);
          required = (ucast (bj_estimated_exec_secs job) * ucast DEADLINE_SAFETY_FACTOR :: u128);
          window_secs = secs_until_window_close (st_schedule settings) (st_current_hour settings)
                          (st_current_min settings) (st_current_day settings);
          cost = estimated_cost_wei oracle job;
          cost_plus = sat_mul cost MARGIN_NUM div MARGIN_DEN;
          ceiling = sat_mul (bj_max_price_wei job) MAX_PRICE_CAP_NUM div MAX_PRICE_CAP_DEN;
          price = min cost_plus ceiling
      in if \<not> st_enabled settings then skip Disabled
         else if \<not> in_window (st_schedule settings) (st_current_hour settings)
                      (st_current_day settings) then skip OutsideSchedule
         else if COMMITMENT_CAP_WEI \<le> bj_max_price_wei job then skip ExceedsCommitmentCap
         else if bj_tier job \<noteq> BidCommitment then skip UnsupportedBidTier
         else if max_concurrent_jobs caps = 0 then skip AtCapacity
         else if (ucast (max_concurrent_jobs caps) * ucast LOAD_CAP_NUM :: u128)
                   \<le> ucast (current_active_jobs caps) * ucast LOAD_CAP_DEN then skip AtCapacity
         else if (ucast (bj_secs_until_deadline job) :: u128) < required then skip DeadlineInfeasible
         else if (ucast window_secs :: u128) < required then skip WindowClosingSoon
         else if oracle_stale oracle then skip OracleStale
         else if price < cost \<or> price = 0 then skip Unprofitable
         else Bid (bj_id job) price cost)"

section \<open>The gates read on natural numbers\<close>

lemma unat_widen_mult:
  "unat (ucast (a :: u64) * ucast (b :: u64) :: u128) = unat a * unat b"
proof -
  have "unat a * unat b < 2 ^ 64 * 2 ^ 64"
    using unat_lt_2p [of a] unat_lt_2p [of b] by (intro mult_strict_mono') simp_all
  then show ?thesis
    by (simp add: unat_word_ariths unat_ucast_up)
qed

definition gates_pass :: "bid_job \<Rightarrow> pricing_oracle \<Rightarrow> settings \<Rightarrow> caps \<Rightarrow> bool" where
  "gates_pass job oracle settings caps \<longleftrightarrow>
     st_enabled settings \<and>
     in_window (st_schedule settings) (st_current_hour settings) (st_current_day settings) \<and>
     unat (bj_max_price_wei job) < 10 * 10 ^ 18 \<and>
     bj_tier job = BidCommitment \<and>
     unat (current_active_jobs caps) * 100 < unat (max_concurrent_jobs caps) * 80 \<and>
     2 * unat (bj_estimated_exec_secs job) \<le> unat (bj_secs_until_deadline job) \<and>
     2 * unat (bj_estimated_exec_secs job) \<le>
       unat (secs_until_window_close (st_schedule settings) (st_current_hour settings)
               (st_current_min settings) (st_current_day settings)) \<and>
     \<not> oracle_stale oracle"

text \<open>The reference price: the cost with its 15 percent margin, at most 90 percent of the
  maximum price. The cost saturates at the \<open>u128\<close> maximum before the division.\<close>

definition ref_cost :: "pricing_oracle \<Rightarrow> bid_job \<Rightarrow> nat" where
  "ref_cost oracle job =
     min (unat (bj_estimated_pflop_hours_1e18 job) * unat (salt_per_pflop_hour_wei oracle))
         (2 ^ 128 - 1) div 10 ^ 18"

definition ref_price :: "pricing_oracle \<Rightarrow> bid_job \<Rightarrow> nat" where
  "ref_price oracle job =
     min (ref_cost oracle job * 115 div 100) (unat (bj_max_price_wei job) * 90 div 100)"

lemma unat_cost: "unat (estimated_cost_wei oracle job) = ref_cost oracle job"
  by (simp add: estimated_cost_wei_def ref_cost_def unat_simps ONE_SALT_WEI_def)

lemma ref_cost_bound: "ref_cost oracle job \<le> (2 ^ 128 - 1) div 10 ^ 18"
  unfolding ref_cost_def by (intro div_le_mono) simp

lemma unat_cost_plus:
  "unat (sat_mul (estimated_cost_wei oracle job) MARGIN_NUM div MARGIN_DEN) =
     ref_cost oracle job * 115 div 100"
proof -
  have "ref_cost oracle job * 115 \<le> 2 ^ 128 - 1"
    using ref_cost_bound [of "oracle" job] by simp
  then show ?thesis
    by (simp add: unat_simps unat_cost MARGIN_NUM_def MARGIN_DEN_def)
qed

lemma unat_ceiling:
  "unat m < 10 * 10 ^ 18 \<Longrightarrow>
     unat (sat_mul m MAX_PRICE_CAP_NUM div MAX_PRICE_CAP_DEN :: u128) = unat m * 90 div 100"
  by (simp add: unat_simps MAX_PRICE_CAP_NUM_def MAX_PRICE_CAP_DEN_def)

lemma unat_min: "unat (min a b) = min (unat a) (unat b)"
  by (simp add: min_def word_le_nat_alt)

lemma capacity_gate:
  fixes m a :: u64
  shows "\<not> (m = 0 \<or> (ucast m * ucast LOAD_CAP_NUM :: u128) \<le> ucast a * ucast LOAD_CAP_DEN) \<longleftrightarrow>
     unat a * 100 < unat m * 80"
  using unat_widen_mult [of m 80] unat_widen_mult [of a 100] unat_eq_zero [of m]
  by (auto simp: word_le_nat_alt LOAD_CAP_NUM_def LOAD_CAP_DEN_def)

lemma deadline_gate:
  fixes d e :: u64
  shows "\<not> (ucast d :: u128) < ucast e * ucast DEADLINE_SAFETY_FACTOR \<longleftrightarrow> 2 * unat e \<le> unat d"
  using unat_widen_mult [of e 2]
  by (simp add: word_less_nat_alt DEADLINE_SAFETY_FACTOR_def unat_ucast_up linorder_not_less
      mult.commute)

lemma price_cap_gate: "\<not> COMMITMENT_CAP_WEI \<le> m \<longleftrightarrow> unat m < 10 * 10 ^ 18"
  by (simp add: word_le_nat_alt COMMITMENT_CAP_WEI_def ONE_SALT_WEI_def linorder_not_le)

lemma gates_pass_unfold:
  "gates_pass job oracle settings caps \<longleftrightarrow>
     st_enabled settings \<and>
     in_window (st_schedule settings) (st_current_hour settings) (st_current_day settings) \<and>
     \<not> COMMITMENT_CAP_WEI \<le> bj_max_price_wei job \<and>
     bj_tier job = BidCommitment \<and>
     \<not> (max_concurrent_jobs caps = 0 \<or>
        (ucast (max_concurrent_jobs caps) * ucast LOAD_CAP_NUM :: u128)
          \<le> ucast (current_active_jobs caps) * ucast LOAD_CAP_DEN) \<and>
     \<not> (ucast (bj_secs_until_deadline job) :: u128)
          < ucast (bj_estimated_exec_secs job) * ucast DEADLINE_SAFETY_FACTOR \<and>
     \<not> (ucast (secs_until_window_close (st_schedule settings) (st_current_hour settings)
               (st_current_min settings) (st_current_day settings)) :: u128)
          < ucast (bj_estimated_exec_secs job) * ucast DEADLINE_SAFETY_FACTOR \<and>
     \<not> oracle_stale oracle"
  by (simp only: gates_pass_def capacity_gate deadline_gate price_cap_gate)

lemma evaluate_Bid_iff:
  "evaluate job oracle settings caps = Bid i p c \<longleftrightarrow>
     gates_pass job oracle settings caps \<and> i = bj_id job \<and> c = estimated_cost_wei oracle job \<and>
     p = min (sat_mul c MARGIN_NUM div MARGIN_DEN)
             (sat_mul (bj_max_price_wei job) MAX_PRICE_CAP_NUM div MAX_PRICE_CAP_DEN) \<and>
     \<not> (p < c \<or> p = 0)"
  unfolding evaluate_def Let_def gates_pass_unfold by auto

lemma evaluate_bid_nat:
  "evaluate job orc settings caps = Bid i p c \<longleftrightarrow>
     gates_pass job orc settings caps \<and> i = bj_id job \<and> unat c = ref_cost orc job \<and>
     unat p = ref_price orc job \<and> ref_cost orc job \<le> ref_price orc job \<and> 0 < ref_price orc job"
proof (cases "gates_pass job orc settings caps")
  case True
  then have cap: "unat (bj_max_price_wei job) < 10 * 10 ^ 18" by (simp add: gates_pass_def)
  let ?c = "estimated_cost_wei orc job"
  let ?p = "min (sat_mul ?c MARGIN_NUM div MARGIN_DEN)
                (sat_mul (bj_max_price_wei job) MAX_PRICE_CAP_NUM div MAX_PRICE_CAP_DEN)"
  have p: "unat ?p = ref_price orc job"
    unfolding unat_min unat_cost_plus unat_ceiling [OF cap] ref_price_def ..
  have cond: "(?p < ?c \<or> ?p = 0) \<longleftrightarrow>
      \<not> (ref_cost orc job \<le> ref_price orc job \<and> 0 < ref_price orc job)"
    unfolding word_less_nat_alt p unat_cost unat_eq_zero [symmetric] by auto
  have eqs: "c = ?c \<longleftrightarrow> unat c = ref_cost orc job" "p = ?p \<longleftrightarrow> unat p = ref_price orc job"
    unfolding word_unat_eq_iff p unat_cost by simp_all
  have "evaluate job orc settings caps = Bid i p c \<longleftrightarrow>
      i = bj_id job \<and> c = ?c \<and> p = ?p \<and> \<not> (?p < ?c \<or> ?p = 0)"
    using True unfolding evaluate_Bid_iff by metis
  then show ?thesis using True unfolding cond eqs by simp
next
  case False
  then show ?thesis by (simp add: evaluate_Bid_iff)
qed

text \<open>C1: The bidder bids exactly when every gate passes (enabled, inside the window, below
  10 SALT, Commitment tier, below 80 percent load, twice the execution time before the deadline
  and before the window closes, fresh price) and the capped cost-plus price covers the cost; the
  price is then the reference price on natural numbers, with no overflow on the way.\<close>

theorem evaluate_bid_exact:
  "evaluate job orc settings caps = Bid i p c \<longleftrightarrow>
     gates_pass job orc settings caps \<and> i = bj_id job \<and> unat c = ref_cost orc job \<and>
     unat p = ref_price orc job \<and> ref_cost orc job \<le> ref_price orc job \<and> 0 < ref_price orc job"
  by (rule evaluate_bid_nat)

text \<open>A bid never loses money and never risks the next tier: the price covers the estimated
  cost, is at most the cost plus 15 percent and at most 90 percent of the job's maximum price,
  and lies strictly below 10 SALT.\<close>

theorem bid_price_bounds:
  assumes "evaluate job orc settings caps = Bid i p c"
  shows "unat c \<le> unat p \<and> 0 < unat p \<and> unat p * 100 \<le> unat c * 115 \<and>
    unat p * 100 \<le> unat (bj_max_price_wei job) * 90 \<and> unat p < unat (bj_max_price_wei job) \<and>
    unat p < 10 * 10 ^ 18"
proof -
  from assms have b: "unat c \<le> unat p" "0 < unat p"
      "unat p = min (unat c * 115 div 100) (unat (bj_max_price_wei job) * 90 div 100)"
      "unat (bj_max_price_wei job) < 10 * 10 ^ 18"
    by (auto simp: evaluate_bid_nat ref_price_def gates_pass_def)
  then have "unat p \<le> unat c * 115 div 100" "unat p \<le> unat (bj_max_price_wei job) * 90 div 100"
    by simp_all
  then have "unat p * 100 \<le> unat c * 115" "unat p * 100 \<le> unat (bj_max_price_wei job) * 90"
    by linarith+
  with b show ?thesis by linarith
qed

definition sample_job :: bid_job where
  "sample_job = \<lparr>bj_id = 7, bj_max_price_wei = 4 * ONE_SALT_WEI, bj_tier = BidCommitment,
     bj_estimated_pflop_hours_1e18 = ONE_SALT_WEI, bj_estimated_exec_secs = 600,
     bj_secs_until_deadline = 3600\<rparr>"

definition sample_oracle :: pricing_oracle where
  "sample_oracle = \<lparr>salt_per_pflop_hour_wei = ONE_SALT_WEI, oracle_stale = False\<rparr>"

definition sample_settings :: settings where
  "sample_settings = \<lparr>st_enabled = True, st_schedule = Nights, st_current_hour = 23,
     st_current_min = 0, st_current_day = Tue\<rparr>"

definition sample_caps :: caps where
  "sample_caps = \<lparr>current_active_jobs = 0, max_concurrent_jobs = 10\<rparr>"

lemmas sample_bid_defs = sample_job_def sample_oracle_def sample_settings_def sample_caps_def

lemma sample_bid:
  "evaluate sample_job sample_oracle sample_settings sample_caps =
     Bid 7 1150000000000000000 ONE_SALT_WEI"
  by (simp add: evaluate_def sample_bid_defs bid_constants estimated_cost_wei_def sat_mul_def
      secs_until_window_close_def in_window_def NIGHT_START_HOUR_def NIGHT_END_HOUR_def Let_def)

theorem bid_price_bounds_witness:
  "evaluate sample_job sample_oracle sample_settings sample_caps =
     Bid 7 1150000000000000000 ONE_SALT_WEI \<and> (1150000000000000000 :: nat) * 100 \<le> 4 * 10 ^ 18 * 90"
  using bid_price_bounds [OF sample_bid] sample_bid by (simp add: sample_job_def ONE_SALT_WEI_def)

end
