(* ===== verification/Bridge.thy ===== *)
theory Bridge
  imports Bidder Marketplace
begin

text \<open>
  The module \<open>node_agent::bridge\<close> (\<open>crates/node-agent/src/bridge.rs\<close>): decoded chain values become
  the bidder's inputs. Rust's \<open>as u64\<close> keeps the low 64 bits, which is \<open>ucast\<close>.
\<close>

definition DEFAULT_SECS_PER_BLOCK :: u64 where
  "DEFAULT_SECS_PER_BLOCK = 2"

definition map_tier :: "tier \<Rightarrow> bid_tier" where
  "map_tier t = (case t of Commitment \<Rightarrow> BidCommitment | ZKProof \<Rightarrow> BidZKProof | Tee \<Rightarrow> BidTee)"

definition map_caps :: "provider_profile \<Rightarrow> caps" where
  "map_caps p = \<lparr>current_active_jobs = ucast (pp_current_active_jobs p),
     max_concurrent_jobs = ucast (pp_max_concurrent_jobs p)\<rparr>"

definition map_job :: "job \<Rightarrow> u128 \<Rightarrow> u64 \<Rightarrow> u128 \<Rightarrow> u64 \<Rightarrow> bid_job" where
  "map_job job current_block secs_per_block pflop_hours exec_secs =
     (let blocks_left = sat_sub (execution_deadline_block job) current_block;
          secs_until_deadline = sat_mul (ucast blocks_left) secs_per_block
      in \<lparr>bj_id = ucast (job_id job), bj_max_price_wei = max_price_wei job,
          bj_tier = map_tier (job_tier job), bj_estimated_pflop_hours_1e18 = pflop_hours,
          bj_estimated_exec_secs = exec_secs, bj_secs_until_deadline = secs_until_deadline\<rparr>)"

definition bid_expires_block :: "job \<Rightarrow> u128 \<Rightarrow> u128 option" where
  "bid_expires_block job current_block =
     (let open_state = (state_of job = Posted \<or> state_of job = Bidding);
          bindable_input = (input_hash job \<noteq> None)
      in if open_state \<and> bindable_input \<and> current_block < bid_deadline_block job
         then Some (bid_deadline_block job) else None)"

lemma map_tier_commitment: "map_tier t = BidCommitment \<longleftrightarrow> t = Commitment"
  by (cases t) (simp_all add: map_tier_def)

lemma bid_expires_block_Some:
  "bid_expires_block job b = Some e \<longleftrightarrow> (state_of job = Posted \<or> state_of job = Bidding) \<and>
     input_hash job \<noteq> None \<and> b < bid_deadline_block job \<and> e = bid_deadline_block job"
  by (auto simp: bid_expires_block_def Let_def)

lemma unat_low_le: "unat (ucast (w :: u128) :: u64) \<le> unat w"
  by (simp add: unsigned_ucast_eq take_bit_eq_mod)

lemma unat_low: "unat (ucast (w :: u128) :: u64) = unat w mod 2 ^ 64"
  by (simp add: unsigned_ucast_eq take_bit_eq_mod)

text \<open>The seconds to the deadline are never overestimated, whatever is truncated or saturates.\<close>

lemma map_job_secs_bound:
  "unat (bj_secs_until_deadline (map_job job b spb ph es)) \<le>
     (unat (execution_deadline_block job) - unat b) * unat spb"
proof -
  have "unat (bj_secs_until_deadline (map_job job b spb ph es)) \<le>
      unat (ucast (sat_sub (execution_deadline_block job) b) :: u64) * unat spb"
    by (simp add: map_job_def Let_def unat_sat_mul)
  also have "\<dots> \<le> unat (sat_sub (execution_deadline_block job) b) * unat spb"
    using unat_low_le by (rule mult_right_mono) simp
  finally show ?thesis by (simp add: unat_sat_sub)
qed

end
