(* ===== verification/Clock.thy ===== *)
theory Clock
  imports Config
begin

text \<open>
  The module \<open>clock\<close> (\<open>crates/node-agent/src/clock.rs\<close>): hour, minute and weekday in UTC
  from UNIX seconds, and the proof that the window arithmetic of \<open>Config\<close> agrees with
  this clock. The \<open>i64\<close> remainder is Rust's, which truncates towards zero; the
  \<open>unreachable!()\<close> arm of the weekday match is the \<open>None\<close> of \<open>weekday_of_dow\<close>, shown
  unreachable in \<open>weekday_of_dow_total\<close>.
\<close>

definition trunc_rem :: "int \<Rightarrow> int \<Rightarrow> int" where
  "trunc_rem a b = sgn a * (\<bar>a\<bar> mod \<bar>b\<bar>)"

definition weekday_of_dow :: "int \<Rightarrow> weekday option" where
  "weekday_of_dow dow =
     (if dow = 0 then Some Thu
      else if dow = 1 then Some Fri
      else if dow = 2 then Some Sat
      else if dow = 3 then Some Sun
      else if dow = 4 then Some Mon
      else if dow = 5 then Some Tue
      else if dow = 6 then Some Wed
      else None)"

definition utc_hour_min_weekday :: "u64 \<Rightarrow> u8 \<times> u8 \<times> weekday" where
  "utc_hour_min_weekday unix_secs =
     (let secs_of_day = unix_secs mod 86400;
          hour = ucast (secs_of_day div 3600);
          minute = ucast ((secs_of_day mod 3600) div 60);
          days = sint (unix_secs div 86400);
          dow = trunc_rem (trunc_rem days 7 + 7) 7;
          weekday = the (weekday_of_dow dow)
      in (hour, minute, weekday))"

definition utc_hour_and_weekday :: "u64 \<Rightarrow> u8 \<times> weekday" where
  "utc_hour_and_weekday unix_secs =
     (case utc_hour_min_weekday unix_secs of (hour, _, weekday) \<Rightarrow> (hour, weekday))"

definition clock_hour :: "u64 \<Rightarrow> u8" where
  "clock_hour u = fst (utc_hour_min_weekday u)"

definition clock_minute :: "u64 \<Rightarrow> u8" where
  "clock_minute u = fst (snd (utc_hour_min_weekday u))"

definition clock_day :: "u64 \<Rightarrow> weekday" where
  "clock_day u = snd (snd (utc_hour_min_weekday u))"

section \<open>The clock on natural numbers\<close>

definition nat_day :: "nat \<Rightarrow> weekday" where
  "nat_day k = [Thu, Fri, Sat, Sun, Mon, Tue, Wed] ! (k mod 7)"

lemma dow_cases:
  fixes k :: nat
  shows "k mod 7 = 0 \<or> k mod 7 = 1 \<or> k mod 7 = 2 \<or> k mod 7 = 3 \<or> k mod 7 = 4 \<or> k mod 7 = 5 \<or>
    k mod 7 = 6"
  by linarith

lemma weekday_of_dow_total: "weekday_of_dow (int (k mod 7)) = Some (nat_day k)"
  using dow_cases [of k] by (auto simp: weekday_of_dow_def nat_day_def)

lemma trunc_rem_nat: "trunc_rem (int k) (int n) = int (k mod n)"
  by (simp add: trunc_rem_def sgn_if of_nat_mod)

lemma unat_narrow: "unat (w :: u64) < 256 \<Longrightarrow> unat (ucast w :: u8) = unat w"
  by (simp add: unsigned_ucast_eq take_bit_eq_mod)

lemma sint_days: "sint (u div 86400 :: u64) = int (unat u div 86400)"
proof -
  have "unat (u div 86400) < 2 ^ 63"
    using unat_lt_2p [of u] by (simp add: unat_word_div)
  then have small: "take_bit 63 (uint (u div 86400)) = uint (u div 86400)"
    by (simp add: take_bit_int_eq_self_iff uint_nat del: of_nat_unat)
  then have "\<not> bit (uint (u div 86400)) 63"
    by (metis bit_take_bit_iff less_irrefl)
  with small have "sint (u div 86400) = uint (u div 86400)"
    by (simp add: sint_uint signed_take_bit_eq_if_positive)
  then show ?thesis by (simp add: uint_nat unat_word_div del: of_nat_unat)
qed

lemma clock_hour_unat: "unat (clock_hour u) = unat u div 3600 mod 24"
proof -
  have "unat u mod 86400 div 3600 = unat u div 3600 mod 24"
    by (simp add: mod_mult2_eq [of "unat u" 3600 24, simplified])
  moreover have "unat u mod 86400 div 3600 < 256"
    by (rule less_trans [of _ 24]) (simp_all add: less_mult_imp_div_less)
  ultimately show ?thesis
    by (simp add: clock_hour_def utc_hour_min_weekday_def Let_def unat_narrow unat_simps)
qed

lemma clock_minute_unat: "unat (clock_minute u) = unat u div 60 mod 60"
proof -
  have "unat u mod 86400 mod 3600 = unat u mod 3600"
    by (rule mod_mod_cancel) simp
  moreover have "unat u mod 3600 div 60 = unat u div 60 mod 60"
    by (simp add: mod_mult2_eq [of "unat u" 60 60, simplified])
  moreover have "unat u div 60 mod 60 < 256"
    by (rule less_trans [of _ 60]) simp_all
  ultimately show ?thesis
    by (simp add: clock_minute_def utc_hour_min_weekday_def Let_def unat_narrow unat_simps)
qed

lemma clock_day_nat: "clock_day u = nat_day (unat u div 86400)"
proof -
  let ?k = "unat u div 86400"
  have "trunc_rem (trunc_rem (int ?k) (int 7) + int 7) (int 7) = int (?k mod 7)"
    by (simp only: trunc_rem_nat of_nat_add [symmetric]) simp
  then show ?thesis
    by (simp add: clock_day_def utc_hour_min_weekday_def Let_def sint_days weekday_of_dow_total)
qed

section \<open>The window closes when the schedule says\<close>

definition in_window_at :: "schedule \<Rightarrow> nat \<Rightarrow> bool" where
  "in_window_at s n =
     (case s of Always \<Rightarrow> True
      | Nights \<Rightarrow> 79200 \<le> n mod 86400 \<or> n mod 86400 < 21600
      | Weekends \<Rightarrow> n div 86400 mod 7 = 2 \<or> n div 86400 mod 7 = 3)"

definition closes_in :: "schedule \<Rightarrow> nat \<Rightarrow> nat" where
  "closes_in s n =
     (case s of Always \<Rightarrow> 0
      | Nights \<Rightarrow> (if 79200 \<le> n mod 86400 then 108000 - n mod 86400 else 21600 - n mod 86400)
      | Weekends \<Rightarrow> (if n div 86400 mod 7 = 2 then 172800 - n mod 86400 else 86400 - n mod 86400))"

lemma hour_of_second: "n div 3600 mod 24 = n mod 86400 div (3600 :: nat)"
  by (simp add: mod_mult2_eq [of n 3600 24, simplified])

lemma minutes_of_second: "n div 3600 mod 24 * 60 + n div 60 mod 60 = n mod 86400 div (60 :: nat)"
proof -
  have "n mod 86400 div 60 = n div 60 mod 1440"
    by (simp add: mod_mult2_eq [of n 60 1440, simplified])
  moreover have "n div 60 mod 1440 = 60 * (n div 60 div 60 mod 24) + n div 60 mod 60"
    by (simp add: mod_mult2_eq [of "n div 60" 60 24, simplified])
  moreover have "n div 60 div 60 = n div 3600"
    by (simp add: div_mult2_eq [symmetric])
  ultimately show ?thesis by simp
qed

lemma in_window_clock: "in_window s (clock_hour u) (clock_day u) \<longleftrightarrow> in_window_at s (unat u)"
proof -
  have day: "clock_day u = Sat \<longleftrightarrow> unat u div 86400 mod 7 = 2"
    "clock_day u = Sun \<longleftrightarrow> unat u div 86400 mod 7 = 3"
    using dow_cases [of "unat u div 86400"] by (auto simp: clock_day_nat nat_day_def)
  have "unat (clock_hour u) \<le> 23" by (simp add: clock_hour_unat)
  moreover have "22 \<le> unat (clock_hour u) \<longleftrightarrow> 79200 \<le> unat u mod 86400"
    and "unat (clock_hour u) \<le> 5 \<longleftrightarrow> unat u mod 86400 < 21600"
    unfolding clock_hour_unat hour_of_second by linarith+
  ultimately show ?thesis
    by (cases s) (simp_all add: in_window_unat in_window_at_def day)
qed

lemma minutes_left:
  fixes r :: nat
  assumes "r < L" "L = K * 60"
  shows "(K - r div 60) * 60 = (L - r) + r mod 60"
proof -
  have "(K - r div 60) * 60 = L - r div 60 * 60"
    by (simp only: assms(2) diff_mult_distrib)
  moreover have "r div 60 * 60 + r mod 60 = r" by (rule div_mult_mod_eq)
  ultimately show ?thesis using assms(1) by linarith
qed

lemma secs_until_close_clock:
  assumes "s \<noteq> Always" "in_window_at s (unat u)"
  shows "unat (secs_until_window_close s (clock_hour u) (clock_minute u) (clock_day u)) =
    closes_in s (unat u) + unat u mod 60"
proof -
  define sod where "sod = unat u mod 86400"
  have sod: "sod < 86400" and sec: "unat u mod 60 = sod mod 60"
    by (simp_all add: sod_def mod_mod_cancel)
  have mins: "unat (clock_hour u) * 60 + unat (clock_minute u) = sod div 60"
    by (simp add: clock_hour_unat clock_minute_unat minutes_of_second sod_def)
  have eve: "22 \<le> unat (clock_hour u) \<longleftrightarrow> 79200 \<le> sod"
    unfolding clock_hour_unat hour_of_second sod_def by linarith
  have sat: "clock_day u = Sat \<longleftrightarrow> unat u div 86400 mod 7 = 2"
    using dow_cases [of "unat u div 86400"] by (auto simp: clock_day_nat nat_day_def)
  have m: "unat (clock_minute u) < 60" by (simp add: clock_minute_unat)
  note secs = secs_until_window_close_unat [OF assms(2) [folded in_window_clock] m assms(1)]
  have e: "(1800 - sod div 60) * 60 = (108000 - sod) + sod mod 60"
    "(2880 - sod div 60) * 60 = (172800 - sod) + sod mod 60"
    "(1440 - sod div 60) * 60 = (86400 - sod) + sod mod 60"
    by (rule minutes_left; use sod in simp)+
  show ?thesis
  proof (cases s)
    case Nights
    then have night: "sod < 21600" if "\<not> 79200 \<le> sod"
      using assms(2) that by (simp add: in_window_at_def sod_def)
    then have "(360 - sod div 60) * 60 = (21600 - sod) + sod mod 60" if "\<not> 79200 \<le> sod"
      using that by (intro minutes_left) simp_all
    with Nights e show ?thesis
      unfolding secs mins eve sec closes_in_def sod_def [symmetric]
      by (cases "79200 \<le> sod") (simp_all only: schedule.case if_True if_False not_False_eq_True)
  next
    case Weekends
    with e show ?thesis
      unfolding secs mins sat sec closes_in_def sod_def [symmetric]
      by (cases "unat u div 86400 mod 7 = 2") (simp_all only: schedule.case if_True if_False refl)
  qed (use assms in simp)
qed

lemma in_window_until_close:
  assumes "s \<noteq> Always" "in_window_at s n"
  shows "t < closes_in s n \<Longrightarrow> in_window_at s (n + t)"
    and "\<not> in_window_at s (n + closes_in s n)"
proof -
  define q r where "q = n div 86400" and "r = n mod 86400"
  have n: "n = 86400 * q + r" and r: "r < 86400" by (simp_all add: q_def r_def)
  have md: "(n + t) mod 86400 = (r + t) mod 86400"
    and dv: "(n + t) div 86400 = q + (r + t) div 86400" for t
    by (simp_all add: n add.assoc)
  have wrap: "(r + t) mod 86400 = (if r + t < 86400 then r + t else r + t - 86400)"
    if "r + t < 172800" for t
    using that by (simp add: mod_if [of "r + t"])
  have next_day: "(r + t) div 86400 = (if r + t < 86400 then 0 else 1)" if "r + t < 172800" for t
    using that by (simp add: div_eq_0_iff; linarith)
  have q7: "(q + 1) mod 7 = (if q mod 7 = 6 then 0 else q mod 7 + 1)"
    by (simp add: mod_Suc)
  show "in_window_at s (n + t)" if t: "t < closes_in s n"
  proof (cases s)
    case Nights
    then have win: "79200 \<le> r \<or> r < 21600" and "closes_in s n = (if 79200 \<le> r then 108000 - r else 21600 - r)"
      using assms(2) by (simp_all add: in_window_at_def closes_in_def r_def)
    with t r have "r + t < 108000" "79200 \<le> r \<or> r + t < 21600" by (auto split: if_splits)
    then show ?thesis
      using wrap [of t] r Nights by (auto simp: in_window_at_def md)
  next
    case Weekends
    then have win: "q mod 7 = 2 \<or> q mod 7 = 3"
      and "closes_in s n = (if q mod 7 = 2 then 172800 - r else 86400 - r)"
      using assms(2) by (simp_all add: in_window_at_def closes_in_def r_def q_def)
    with t r have "r + t < 172800" "q mod 7 = 2 \<or> r + t < 86400" by (auto split: if_splits)
    then show ?thesis
      using next_day [of t] win q7 Weekends by (auto simp: in_window_at_def dv)
  qed (use assms in simp)
  show "\<not> in_window_at s (n + closes_in s n)"
  proof (cases s)
    case Nights
    then have "closes_in s n = (if 79200 \<le> r then 108000 - r else 21600 - r)"
      and win: "79200 \<le> r \<or> r < 21600"
      using assms(2) by (simp_all add: in_window_at_def closes_in_def r_def)
    then have "r + closes_in s n = 108000 \<or> r + closes_in s n = 21600" using r by auto
    then show ?thesis using Nights by (auto simp: in_window_at_def md)
  next
    case Weekends
    then have "closes_in s n = (if q mod 7 = 2 then 172800 - r else 86400 - r)"
      and win: "q mod 7 = 2 \<or> q mod 7 = 3"
      using assms(2) by (simp_all add: in_window_at_def closes_in_def r_def q_def)
    then have "(q mod 7 = 2 \<and> r + closes_in s n = 172800) \<or> (q mod 7 = 3 \<and> r + closes_in s n = 86400)"
      using r by auto
    moreover have "(q + 2) mod 7 = 4" if "q mod 7 = 2" using that by presburger
    moreover have "(q + 1) mod 7 = 4" if "q mod 7 = 3" using that by presburger
    ultimately show ?thesis using Weekends by (auto simp: in_window_at_def dv)
  qed (use assms in simp)
qed

text \<open>The clock splits the UNIX seconds exactly: hour and minute are in range, and with the
  whole days since the epoch and the seconds of the minute they give the timestamp back; the
  weekday is that of the day number, day 0 being a Thursday.\<close>

theorem clock_fields_exact:
  "utc_hour_min_weekday u =
     (h, m, d) \<longleftrightarrow> unat h < 24 \<and> unat m < 60 \<and>
     (\<exists>q sec. sec < 60 \<and> unat u = q * 86400 + unat h * 3600 + unat m * 60 + sec \<and> d = nat_day q)"
proof -
  let ?u = "unat u"
  have eq: "utc_hour_min_weekday u = (clock_hour u, clock_minute u, clock_day u)"
    by (simp add: clock_hour_def clock_minute_def clock_day_def)
  have split: "?u = ?u div 86400 * 86400 + unat (clock_hour u) * 3600 + unat (clock_minute u) * 60 + ?u mod 60"
  proof -
    have "?u mod 86400 = ?u mod 86400 div 60 * 60 + ?u mod 60"
      using div_mult_mod_eq [of "?u mod 86400" 60] by (simp add: mod_mod_cancel)
    moreover have "?u mod 86400 div 60 * 60 = unat (clock_hour u) * 3600 + unat (clock_minute u) * 60"
      by (simp add: clock_hour_unat clock_minute_unat minutes_of_second [symmetric] algebra_simps)
    moreover have "?u = ?u div 86400 * 86400 + ?u mod 86400" by simp
    ultimately show ?thesis by linarith
  qed
  show ?thesis
  proof
    assume "utc_hour_min_weekday u = (h, m, d)"
    then have "h = clock_hour u" "m = clock_minute u" "d = clock_day u" by (simp_all add: eq)
    with split show "unat h < 24 \<and> unat m < 60 \<and>
        (\<exists>q sec. sec < 60 \<and> ?u = q * 86400 + unat h * 3600 + unat m * 60 + sec \<and> d = nat_day q)"
      by (intro conjI exI [of _ "?u div 86400"] exI [of _ "?u mod 60"])
        (simp_all add: clock_hour_unat clock_minute_unat clock_day_nat)
  next
    assume "unat h < 24 \<and> unat m < 60 \<and>
        (\<exists>q sec. sec < 60 \<and> ?u = q * 86400 + unat h * 3600 + unat m * 60 + sec \<and> d = nat_day q)"
    then obtain q sec where hm: "unat h < 24" "unat m < 60" "sec < 60" "d = nat_day q"
      and u: "?u = q * 86400 + unat h * 3600 + unat m * 60 + sec" by blast
    define k where "k = q * 24 + unat h"
    have u2: "?u = (k * 60 + unat m) * 60 + sec" by (simp add: u k_def)
    have d60: "?u div 60 = k * 60 + unat m" using hm(3) u2 by simp
    have "?u div 3600 = ?u div 60 div 60" by (simp add: div_mult2_eq [symmetric])
    then have d3600: "?u div 3600 = k" using hm(2) d60 by simp
    have "?u div 86400 = ?u div 3600 div 24" by (simp add: div_mult2_eq [symmetric])
    then have "?u div 86400 = q" using hm(1) d3600 by (simp add: k_def)
    moreover have "?u div 60 mod 60 = unat m" using hm(2) unfolding d60 by simp
    moreover have "?u div 3600 mod 24 = unat h" using hm(1) unfolding d3600 k_def by simp
    ultimately show "utc_hour_min_weekday u = (h, m, d)"
      using hm(4) by (simp add: eq word_unat_eq_iff clock_hour_unat clock_minute_unat clock_day_nat)
  qed
qed

text \<open>C30: The window closes exactly when \<open>secs_until_window_close\<close> says, counted from the start
  of the current minute: every second before it is still inside the schedule window and that
  second is outside. The seconds of the current minute that have already passed are not
  subtracted by the code.\<close>

theorem window_close_exact:
  assumes "s \<noteq> Always" "in_window s (clock_hour u) (clock_day u)"
    and "secs = unat (secs_until_window_close s (clock_hour u) (clock_minute u) (clock_day u))"
    and "unat u + secs < 2 ^ 64"
  shows "(\<forall>t < secs - unat u mod 60.
            in_window s (clock_hour (u + of_nat t)) (clock_day (u + of_nat t))) \<and>
         \<not> in_window s (clock_hour (u + of_nat (secs - unat u mod 60)))
                        (clock_day (u + of_nat (secs - unat u mod 60))) \<and>
         unat u mod 60 < secs"
proof -
  have at: "in_window_at s (unat u)" using assms(2) by (simp only: in_window_clock)
  have secs: "secs = closes_in s (unat u) + unat u mod 60"
    using secs_until_close_clock [OF assms(1) at] assms(3) by simp
  have step: "unat (u + of_nat t) = unat u + t" if "t \<le> secs" for t
    using that assms(4) by (simp add: unat_word_ariths unat_of_nat take_bit_eq_mod)
  have "0 < closes_in s (unat u)"
    using in_window_until_close(2) [OF assms(1) at] at by (cases "closes_in s (unat u)") auto
  with in_window_until_close [OF assms(1) at] step show ?thesis
    by (auto simp: in_window_clock secs)
qed

theorem window_close_exact_witness:
  "Nights \<noteq> Always \<and> in_window Nights (clock_hour 21599) (clock_day 21599) \<and>
   unat (secs_until_window_close Nights (clock_hour 21599) (clock_minute 21599) (clock_day 21599)) = 60 \<and>
   \<not> in_window Nights (clock_hour 21600) (clock_day 21600)"
proof -
  have a: "in_window Nights (clock_hour 21599) (clock_day 21599)"
    by (simp add: in_window_clock in_window_at_def)
  have b: "60 = unat (secs_until_window_close Nights (clock_hour 21599) (clock_minute 21599) (clock_day 21599))"
    by (simp add: secs_until_close_clock in_window_at_def closes_in_def)
  show ?thesis
    using window_close_exact [of Nights 21599 60, OF _ a b] a b [symmetric] by (simp only:) simp
qed

end
