(* ===== verification/Daemon.thy ===== *)
theory Daemon
  imports Relay Bridge Clock
begin

text \<open>
  The module \<open>node_agent::daemon\<close> (\<open>crates/node-agent/src/daemon.rs\<close>): one tick of the supervised
  loop, the beat, the settings read anew each tick, and the loop. The tick takes the lock of the
  shared state several times, and between two of them the HTTP handlers may run: \<open>gap k\<close> is the list
  of operations that happen in the \<open>k\<close>-th gap. The market view, the bid placer, the heartbeat sender
  and the file reader are the traits and calls of the source, hence parameters.
\<close>

record market_snapshot =
  ms_caps :: caps
  ms_reputation_bps :: u32
  ms_stake_wei :: u128
  ms_job :: bid_job
  ms_oracle :: pricing_oracle
  ms_bid_expires_block :: "u128 option"

datatype daemon_outcome = SkippedPaused | TickBid | NoBid | RefreshError

record bid_request =
  br_job_id :: u128
  br_price_wei :: u128
  br_latency_ms :: u128
  br_expires_block :: u128

type_synonym bid_placer = "bid_request \<Rightarrow> agent_state \<Rightarrow> (string + unit) \<times> agent_state"
type_synonym gaps = "nat \<Rightarrow> agent_op list"

record tick_result =
  tr_outcome :: daemon_outcome
  tr_placed :: "bid_request option"
  tr_state :: agent_state

definition tick ::
    "(string + market_snapshot) \<Rightarrow> settings \<Rightarrow> bid_placer \<Rightarrow> gaps \<Rightarrow> agent_state \<Rightarrow> tick_result" where
  "tick refreshed settings place gap s =
     (let s = agent_run (gap 0) s
      in case refreshed of
        Inl e \<Rightarrow> \<lparr>tr_outcome = RefreshError, tr_placed = None,
          tr_state = set_idle (set_last_error (Some (''market refresh failed: '' @ e)) s)\<rparr>
      | Inr snapshot \<Rightarrow>
          let s = set_last_error None (record_provider_observation
                (ucast (max_concurrent_jobs (ms_caps snapshot))) (ms_reputation_bps snapshot)
                (ms_stake_wei snapshot) s);
              s = agent_run (gap 1) s
          in if \<not> accepts_new_bids s then \<lparr>tr_outcome = SkippedPaused, tr_placed = None, tr_state = s\<rparr>
             else let s = agent_run (gap 2) s
             in (case ms_bid_expires_block snapshot of
                   None \<Rightarrow> \<lparr>tr_outcome = NoBid, tr_placed = None, tr_state = set_idle s\<rparr>
                 | Some expires_block \<Rightarrow>
                     (case evaluate (ms_job snapshot) (ms_oracle snapshot) settings (ms_caps snapshot) of
                        Bid i price _ \<Rightarrow>
                          let latency_ms = ucast (bj_estimated_exec_secs (ms_job snapshot)) * 1000;
                              req = \<lparr>br_job_id = ucast i, br_price_wei = price,
                                br_latency_ms = latency_ms, br_expires_block = expires_block\<rparr>;
                              (placed, s) = place req s;
                              s = agent_run (gap 3) s;
                              s = (case placed of
                                     Inl e \<Rightarrow> set_last_error (Some (''bid placement failed: '' @ e)) s
                                   | Inr _ \<Rightarrow> s)
                          in \<lparr>tr_outcome = TickBid, tr_placed = Some req, tr_state = set_bidding True s\<rparr>
                      | Skip _ _ \<Rightarrow> \<lparr>tr_outcome = NoBid, tr_placed = None, tr_state = set_idle s\<rparr>)))"

definition beat ::
    "(bytes \<Rightarrow> bytes) \<Rightarrow> agent_state heartbeat_sender \<Rightarrow> u64 \<Rightarrow> agent_op list \<Rightarrow> agent_state \<Rightarrow>
       (heartbeat_error + send_outcome) \<times> agent_state" where
  "beat kec send now between s =
     (case send (heartbeat_calldata kec) s of
        (res, s) \<Rightarrow>
          let s = agent_run between s
          in (res, case res of
                Inr Broadcast \<Rightarrow> record_heartbeat now s
              | Inr Queued \<Rightarrow> s
              | Inl e \<Rightarrow> set_last_error (Some (heartbeat_error_display e)) s))"

section \<open>Settings\<close>

text \<open>\<open>SettingsSource\<close> of a fixed value and of the operator's file.\<close>

definition fixed_settings :: "settings \<Rightarrow> string + settings" where
  "fixed_settings s = Inr s"

definition live_settings ::
    "(string \<Rightarrow> 'p + compute_settings) \<Rightarrow> ('p \<Rightarrow> string) \<Rightarrow> string \<Rightarrow> (string + string) \<Rightarrow> u64 \<Rightarrow> string + settings" where
  "live_settings parse show_parse config_path file now =
     rbind (map_err (\<lambda>e. ''reading '' @ config_path @ '': '' @ e) file) (\<lambda>raw.
     rbind (map_err (\<lambda>e. ''parsing '' @ config_path @ '': '' @ config_error_display show_parse e)
       (from_json parse raw)) (\<lambda>cfg.
       let (hour, minute, weekday) = utc_hour_min_weekday now
       in Inr \<lparr>st_enabled = cs_enabled cfg, st_schedule = cs_schedule cfg, st_current_hour = hour,
            st_current_min = minute, st_current_day = weekday\<rparr>))"

definition disabled_settings :: settings where
  "disabled_settings = \<lparr>st_enabled = False, st_schedule = Always, st_current_hour = 0,
     st_current_min = 0, st_current_day = Mon\<rparr>"

definition settings_for_tick :: "(string + settings) \<Rightarrow> settings \<times> string option" where
  "settings_for_tick source =
     (case source of Inr s \<Rightarrow> (s, None)
      | Inl e \<Rightarrow> (disabled_settings, Some (''settings reload failed (not bidding): '' @ e)))"

section \<open>The loop\<close>

text \<open>What the outside does in one round: the market, the settings, the clock, the HTTP handlers (in
  the gaps of the tick, after it, and during the beat) and what the tick executor does. The state is
  the shared one and the executor's own.\<close>

record 'x round_world =
  rw_refreshed :: "'x \<Rightarrow> string + market_snapshot"
  rw_settings :: "string + settings"
  rw_now :: u64
  rw_gap :: gaps
  rw_after_tick :: "agent_op list"
  rw_executor :: "agent_state \<times> 'x \<Rightarrow> agent_state \<times> 'x"
  rw_in_beat :: "agent_op list"

definition loop_round ::
    "(bytes \<Rightarrow> bytes) \<Rightarrow> agent_state heartbeat_sender \<Rightarrow> bid_placer \<Rightarrow> 'x round_world \<Rightarrow>
       agent_state \<times> 'x \<Rightarrow> agent_state \<times> 'x" where
  "loop_round kec send place w sx =
     (let (settings_now, settings_err) = settings_for_tick (rw_settings w);
          s = tr_state (tick (rw_refreshed w (snd sx)) settings_now place (rw_gap w) (fst sx));
          s = agent_run (rw_after_tick w) s;
          s = (case settings_err of Some e \<Rightarrow> set_last_error (Some e) s | None \<Rightarrow> s);
          (s, x) = rw_executor w (s, snd sx)
      in (snd (beat kec send (rw_now w) (rw_in_beat w) s), x))"

text \<open>While the loop sleeps, only the handlers run.\<close>

definition loop_sleep :: "agent_op list \<Rightarrow> agent_state \<times> 'x \<Rightarrow> agent_state \<times> 'x" where
  "loop_sleep ops sx = (agent_run ops (fst sx), snd sx)"

definition run_loop ::
    "(bytes \<Rightarrow> bytes) \<Rightarrow> agent_state heartbeat_sender \<Rightarrow> bid_placer \<Rightarrow> (u64 \<Rightarrow> 'x round_world) \<Rightarrow>
       (agent_state \<times> 'x \<Rightarrow> agent_state \<times> 'x) \<Rightarrow> u64 option \<Rightarrow> agent_state \<times> 'x \<Rightarrow> (agent_state \<times> 'x) option" where
  "run_loop kec send place world sleep max_ticks s =
     counted_loop (\<lambda>n. loop_round kec send place (world n)) sleep max_ticks 0 s"

section \<open>Everything the loop does is a sequence of operations\<close>

lemma agent_run_simps [simp]: "agent_run [] s = s" "agent_run (op # ops) s = agent_run ops (agent_step op s)"
  by (simp_all add: agent_run_def)

lemma agent_run_append: "agent_run (a @ b) s = agent_run b (agent_run a s)"
  by (simp add: agent_run_def)

text \<open>The writes an operation offers to the signing queue, and the operations that only offer writes
  with a property \<open>W\<close>.\<close>

fun op_writes :: "agent_op \<Rightarrow> write_args list" where
  "op_writes (OpEnqueue a) = [a]"
| "op_writes (OpSupersede k a) = [a]"
| "op_writes (OpRecur a) = [a]"
| "op_writes _ = []"

definition allowed :: "(write_args \<Rightarrow> bool) \<Rightarrow> agent_op list \<Rightarrow> bool" where
  "allowed W ops \<longleftrightarrow> list_all (\<lambda>op. list_all W (op_writes op)) ops"

lemma allowed_simps [simp]:
  "allowed W []" "allowed W (op # ops) \<longleftrightarrow> list_all W (op_writes op) \<and> allowed W ops"
  "allowed W (a @ b) \<longleftrightarrow> allowed W a \<and> allowed W b"
  by (simp_all add: allowed_def)

text \<open>States reached from a given one by operations that only offer such writes.\<close>

definition reached :: "(write_args \<Rightarrow> bool) \<Rightarrow> agent_state \<Rightarrow> agent_state \<Rightarrow> bool" where
  "reached W s t \<longleftrightarrow> (\<exists>ops. allowed W ops \<and> t = agent_run ops s)"

lemma reached_refl [simp, intro]: "reached W s s"
  unfolding reached_def by (metis agent_run_simps(1) allowed_simps(1))

lemma reached_trans: "reached W s t \<Longrightarrow> reached W t u \<Longrightarrow> reached W s u"
  unfolding reached_def by (metis agent_run_append allowed_simps(3))

lemma reached_run: "reached W s t \<Longrightarrow> allowed W ops \<Longrightarrow> reached W s (agent_run ops t)"
  using reached_trans reached_def by blast

lemma reached_step: "reached W s t \<Longrightarrow> list_all W (op_writes op) \<Longrightarrow> reached W s (agent_step op t)"
  using reached_run [of W s t "[op]"] by simp

lemmas reached_ops [intro] =
  reached_step [where op = OpSetIdle, simplified] reached_step [where op = "OpSetBidding b" for b, simplified]
  reached_step [where op = "OpSetLastError e" for e, simplified]
  reached_step [where op = "OpObserveProvider m r w" for m r w, simplified]
  reached_step [where op = "OpRecordHeartbeat t" for t, simplified]
  reached_step [where op = "OpSetActiveJobs n" for n, simplified]

text \<open>The interface between the loop and what it is given: the placer, the sender, the executor and the
  handlers only use operations that offer writes with the property.\<close>

locale loop_parts =
  fixes W :: "write_args \<Rightarrow> bool"
    and kec :: "bytes \<Rightarrow> bytes"
    and place :: bid_placer
    and send :: "agent_state heartbeat_sender"
    and world :: "u64 \<Rightarrow> 'x round_world"
  assumes place_reaches: "reached W s (snd (place r s))"
    and send_reaches: "reached W s (snd (send (heartbeat_calldata kec) s))"
    and executor_reaches: "reached W s (fst (rw_executor (world n) (s, x)))"
    and gap_allowed: "allowed W (rw_gap (world n) k)"
    and after_tick_allowed: "allowed W (rw_after_tick (world n))"
    and in_beat_allowed: "allowed W (rw_in_beat (world n))"
begin

lemma place_keeps: "reached W s t \<Longrightarrow> reached W s (snd (place r t))"
  using reached_trans place_reaches by blast

lemma send_keeps: "reached W s t \<Longrightarrow> reached W s (snd (send (heartbeat_calldata kec) t))"
  using reached_trans send_reaches by blast

lemma tick_reached: "reached W s (tr_state (tick refreshed settings place (rw_gap (world n)) s))"
  by (auto simp: tick_def Let_def case_prod_beta gap_allowed
      split: sum.splits option.splits bid_decision.splits intro!: reached_ops reached_run place_keeps)

lemma beat_reached: "reached W s (snd (beat kec send now (rw_in_beat (world n)) s))"
  by (auto simp: beat_def Let_def case_prod_beta in_beat_allowed split: sum.splits send_outcome.splits
      intro!: reached_ops reached_run send_keeps)

lemma round_ends_in_beat: "\<exists>t. reached W (fst sx) t \<and> fst (loop_round kec send place (world n) sx) =
    snd (beat kec send (rw_now (world n)) (rw_in_beat (world n)) t)"
proof -
  let ?w = "world n"
  obtain st err where e: "settings_for_tick (rw_settings ?w) = (st, err)" by fastforce
  define s1 where "s1 = agent_run (rw_after_tick ?w)
    (tr_state (tick (rw_refreshed ?w (snd sx)) st place (rw_gap ?w) (fst sx)))"
  define s2 where "s2 = (case err of Some e \<Rightarrow> set_last_error (Some e) s1 | None \<Rightarrow> s1)"
  define s3 where "s3 = fst (rw_executor ?w (s2, snd sx))"
  have "reached W (fst sx) s1"
    unfolding s1_def by (intro reached_run tick_reached after_tick_allowed)
  moreover have "reached W s1 s2" by (auto simp: s2_def split: option.splits)
  moreover have "reached W s2 s3" unfolding s3_def by (rule executor_reaches)
  moreover have "fst (loop_round kec send place ?w sx) = snd (beat kec send (rw_now ?w) (rw_in_beat ?w) s3)"
    by (cases err) (simp_all add: loop_round_def e s1_def s2_def s3_def case_prod_beta Let_def)
  ultimately show ?thesis using reached_trans by metis
qed

lemma round_reached: "reached W (fst sx) (fst (loop_round kec send place (world n) sx))"
  using round_ends_in_beat [of sx n] reached_trans beat_reached by metis

text \<open>A whole run.\<close>

lemma rounds_reached:
  "reached W (fst s) (fst (rounds (\<lambda>n. loop_round kec send place (world n)) (loop_sleep []) n k s))"
proof (induction k arbitrary: n s)
  case 0
  show ?case using round_reached by simp
next
  case (Suc k)
  have sleep: "loop_sleep [] sx = sx" for sx :: "agent_state \<times> 'x" by (simp add: loop_sleep_def)
  show ?case using reached_trans [OF round_reached Suc.IH] by (simp add: sleep)
qed

lemma rounds_end_in_beat: "\<exists>t. reached W (fst s) t \<and>
    fst (rounds (\<lambda>n. loop_round kec send place (world n)) (loop_sleep []) n k s) =
      snd (beat kec send (rw_now (world (n + of_nat k))) (rw_in_beat (world (n + of_nat k))) t)"
proof (induction k arbitrary: n s)
  case 0
  show ?case using round_ends_in_beat by simp
next
  case (Suc k)
  have sleep: "loop_sleep [] sx = sx" for sx :: "agent_state \<times> 'x" by (simp add: loop_sleep_def)
  let ?s = "loop_round kec send place (world n) s"
  have n: "n + 1 + of_nat k = n + of_nat (Suc k)" by simp
  obtain t where "reached W (fst ?s) t"
    "fst (rounds (\<lambda>n. loop_round kec send place (world n)) (loop_sleep []) (n + 1) k ?s) =
      snd (beat kec send (rw_now (world (n + of_nat (Suc k)))) (rw_in_beat (world (n + of_nat (Suc k)))) t)"
    using Suc.IH [of ?s "n + 1"] unfolding n by blast
  then show ?case
    using reached_trans [OF round_reached [of s n]] by (intro exI [of _ t]) (simp only: rounds.simps sleep [of ?s])
qed

end

section \<open>Properties\<close>

text \<open>C36: The loop does what its bound says: with a bound of \<open>m\<close> ticks it returns, after exactly that
  many rounds with the handlers running in between; without a bound it never returns, whatever the market,
  the settings, the executor and the sender answer in any round.\<close>

theorem run_loop_rounds:
  "run_loop kec send place world sleep (Some m) s =
     Some (if m = 0 then s
           else rounds (\<lambda>n. loop_round kec send place (world n)) sleep 0 (unat m - 1) s) \<and>
   run_loop kec send place world sleep None s = None"
  by (simp add: run_loop_def counted_loop_zero counted_loop_max counted_loop_forever word_gt_0)

text \<open>C25: A paused agent places no bid. When the agent is paused before a tick and no resume arrives in
  its gaps, the tick evaluates nothing: whatever the market says, it places no bid, ends as skipped or
  as a refresh error, leaves the agent paused, and every entry it adds to the signing queue comes from
  the handlers in its gaps.\<close>

theorem paused_tick_places_nothing:
  assumes "paused s" "OpResume \<notin> set (gap 0)" "OpResume \<notin> set (gap 1)"
  shows "tr_placed (tick refreshed settings place gap s) = None \<and>
    tr_outcome (tick refreshed settings place gap s) \<in> {SkippedPaused, RefreshError} \<and>
    paused (tr_state (tick refreshed settings place gap s)) \<and>
    pending_requests (tr_state (tick refreshed settings place gap s)) =
      pending_requests (case refreshed of Inl _ \<Rightarrow> agent_run (gap 0) s
        | Inr m \<Rightarrow> agent_run (gap 1) (set_last_error None (record_provider_observation
            (ucast (max_concurrent_jobs (ms_caps m))) (ms_reputation_bps m) (ms_stake_wei m)
            (agent_run (gap 0) s))))"
proof (cases refreshed)
  case (Inl e)
  then show ?thesis using paused_kept_run [OF assms(1,2)]
    by (simp add: tick_def Let_def set_idle_def set_last_error_def)
next
  case (Inr m)
  let ?t = "set_last_error None (record_provider_observation (ucast (max_concurrent_jobs (ms_caps m)))
      (ms_reputation_bps m) (ms_stake_wei m) (agent_run (gap 0) s))"
  have "paused ?t" using paused_kept_run [OF assms(1,2)]
    by (simp add: set_last_error_def record_provider_observation_def set_provider_stats_def Let_def)
  then have "paused (agent_run (gap 1) ?t)" using paused_kept_run assms(3) by blast
  then show ?thesis using Inr by (simp add: tick_def Let_def accepts_new_bids_def)
qed

text \<open>On a market where an agent that is not paused bids.\<close>

lemma paused_tick_places_nothing_witness:
  "tr_placed (tick (Inr \<lparr>ms_caps = sample_caps, ms_reputation_bps = 0, ms_stake_wei = 0, ms_job = sample_job,
       ms_oracle = sample_oracle, ms_bid_expires_block = Some 9\<rparr>) sample_settings (\<lambda>_ s. (Inr (), s))
       (\<lambda>_. [OpPause]) (pause agent_new)) = None \<and>
   tr_placed (tick (Inr \<lparr>ms_caps = sample_caps, ms_reputation_bps = 0, ms_stake_wei = 0, ms_job = sample_job,
       ms_oracle = sample_oracle, ms_bid_expires_block = Some 9\<rparr>) sample_settings (\<lambda>_ s. (Inr (), s))
       (\<lambda>_. []) agent_new) \<noteq> None"
  using paused_tick_places_nothing [of "pause agent_new" "\<lambda>_. [OpPause]"
      "Inr \<lparr>ms_caps = sample_caps, ms_reputation_bps = 0, ms_stake_wei = 0, ms_job = sample_job,
         ms_oracle = sample_oracle, ms_bid_expires_block = Some 9\<rparr>" sample_settings "\<lambda>_ s. (Inr (), s)"]
  by (simp add: pause_def)
    (simp add: tick_def sample_bid agent_new_def accepts_new_bids_def set_last_error_def
      record_provider_observation_def set_provider_stats_def Let_def)

end
