(* ===== verification/Chain_Reads.thy ===== *)
theory Chain_Reads
  imports Marketplace Rpc Lifecycle
begin

text \<open>
  The remaining chain reads: \<open>chainio::verifier\<close>, \<open>chainio::accounting\<close>,
  \<open>chainio::model_registry\<close> (the decoder of \<open>getModel\<close> with its checked offsets), and the
  \<open>live\<close> helpers of these modules and of \<open>chainio::marketplace\<close>: an \<open>eth_call\<close> with a builder's
  calldata, then the decoder. The call at the client's current state is the parameter \<open>call\<close>.
\<close>

section \<open>Verifier and accounting\<close>

definition encode_get_record :: "(bytes \<Rightarrow> bytes) \<Rightarrow> u128 \<Rightarrow> bytes" where
  "encode_get_record kec i = encode_call (sel_get_record kec) [word_from_u128 i]"

fun skip_words :: "nat \<Rightarrow> decoder \<Rightarrow> abi_error + decoder" where
  "skip_words 0 d = Inr d"
| "skip_words (Suc n) d = rbind (dec_word d) (\<lambda>(_, d). skip_words n d)"

definition decode_commitment_submitted :: "bytes \<Rightarrow> abi_error + bool" where
  "decode_commitment_submitted data =
     rbind (skip_words 5 (decoder_new data)) (\<lambda>d. rbind (dec_bool d) (\<lambda>(b, _). Inr b))"

definition decode_record_tier :: "bytes \<Rightarrow> abi_error + tier" where
  "decode_record_tier data =
     rbind (dec_word (decoder_new data)) (\<lambda>(_, d). rbind (dec_word d) (\<lambda>(_, d).
     rbind (dec_u8_enum d) (\<lambda>(t, _). tier_from_u8 t)))"

definition encode_commitment_block :: "(bytes \<Rightarrow> bytes) \<Rightarrow> u128 \<Rightarrow> bytes" where
  "encode_commitment_block kec i = encode_call (sel_commitment_block kec) [word_from_u128 i]"

definition decode_block :: "bytes \<Rightarrow> abi_error + u128" where
  "decode_block data = rbind (dec_u128 (decoder_new data)) (\<lambda>(v, _). Inr v)"

definition encode_claimable :: "(bytes \<Rightarrow> bytes) \<Rightarrow> address \<Rightarrow> bytes" where
  "encode_claimable kec account = encode_call (sel_claimable kec) [word_from_address account]"

definition decode_claimable :: "bytes \<Rightarrow> abi_error + u128" where
  "decode_claimable data = rbind (dec_u128 (decoder_new data)) (\<lambda>(v, _). Inr v)"

section \<open>Model registry\<close>

record model_info =
  mi_owner :: address
  mi_ipfs_cid :: string
  mi_is_active :: bool

definition encode_get_model :: "(bytes \<Rightarrow> bytes) \<Rightarrow> word32 \<Rightarrow> bytes" where
  "encode_get_model kec mh = encode_call (sel_get_model kec) [mh]"

definition word_at :: "bytes \<Rightarrow> nat \<Rightarrow> abi_error + word32" where
  "word_at data i =
     rbind (ok_or Overflow (checked_mul_usize i 32)) (\<lambda>start.
     rbind (ok_or Overflow (checked_add_usize start 32)) (\<lambda>stop.
       ok_or (TooShort (min (i + 1) (2 ^ 64 - 1)) (length data div 32)) (slice_get data start stop)))"

definition be_usize :: "word32 \<Rightarrow> abi_error + nat" where
  "be_usize w =
     (if list_ex (\<lambda>b. b \<noteq> 0) (take 24 w) then Inl Overflow
      else Inr (unat (u64_from_be (take 8 (drop 24 w)))))"

definition decode_get_model :: "bytes \<Rightarrow> abi_error + model_info" where
  "decode_get_model data =
     rbind (word_at data 0) (\<lambda>w0.
     if list_ex (\<lambda>b. b \<noteq> 0) (take 12 w0) then Inl BadAddress
     else rbind (rbind (word_at data 4) be_usize) (\<lambda>cid_off.
     rbind (word_at data 7) (\<lambda>w7.
     if list_ex (\<lambda>b. b \<noteq> 0) (take 31 w7) then Inl BadBool
     else rbind (if w7 ! 31 = 0 then Inr False else if w7 ! 31 = 1 then Inr True else Inl BadBool) (\<lambda>active.
     rbind (word_at data (cid_off div 32)) (\<lambda>len_word.
     if cid_off mod 32 \<noteq> 0 then Inl BadHex
     else rbind (be_usize len_word) (\<lambda>len.
     rbind (ok_or Overflow (checked_add_usize cid_off 32)) (\<lambda>start.
     rbind (ok_or Overflow (checked_add_usize start len)) (\<lambda>stop.
     rbind (ok_or (TooShort (div_ceil stop 32) (length data div 32)) (slice_get data start stop)) (\<lambda>cid.
     rbind (ok_or BadString (string_from_utf8 cid)) (\<lambda>ipfs_cid.
       Inr \<lparr>mi_owner = drop 12 w0, mi_ipfs_cid = ipfs_cid, mi_is_active = active\<rparr>))))))))))"

section \<open>Live reads\<close>

type_synonym 'h chain_call = "address \<Rightarrow> bytes \<Rightarrow> 'h rpc_error + bytes"

definition live_read :: "'h chain_call \<Rightarrow> address \<Rightarrow> bytes \<Rightarrow> (bytes \<Rightarrow> abi_error + 'a) \<Rightarrow> 'h rpc_error + 'a" where
  "live_read call to calldata decode = rbind (call to calldata) (\<lambda>data. map_err RpcAbi (decode data))"

definition live_get_provider ::
    "(bytes \<Rightarrow> bytes) \<Rightarrow> 'h chain_call \<Rightarrow> address \<Rightarrow> address \<Rightarrow> 'h rpc_error + provider_profile" where
  "live_get_provider kec call mkt p = live_read call mkt (encode_get_provider kec p) decode_provider"
definition live_get_job ::
    "(bytes \<Rightarrow> bytes) \<Rightarrow> 'h chain_call \<Rightarrow> address \<Rightarrow> u128 \<Rightarrow> 'h rpc_error + job" where
  "live_get_job kec call mkt i = live_read call mkt (encode_get_job kec i) decode_job"
definition live_salt_per_pflop_hour ::
    "(bytes \<Rightarrow> bytes) \<Rightarrow> 'h chain_call \<Rightarrow> address \<Rightarrow> 'h rpc_error + u128" where
  "live_salt_per_pflop_hour kec call orc =
     live_read call orc (encode_salt_per_pflop_hour kec) decode_salt_per_pflop_hour"
definition live_is_price_stale ::
    "(bytes \<Rightarrow> bytes) \<Rightarrow> 'h chain_call \<Rightarrow> address \<Rightarrow> 'h rpc_error + bool" where
  "live_is_price_stale kec call orc = live_read call orc (encode_is_price_stale kec) decode_is_price_stale"
definition live_result_verified_at ::
    "(bytes \<Rightarrow> bytes) \<Rightarrow> 'h chain_call \<Rightarrow> address \<Rightarrow> u128 \<Rightarrow> 'h rpc_error + u128" where
  "live_result_verified_at kec call mkt i = live_read call mkt (encode_result_verified_at kec i)
     (\<lambda>data. rbind (dec_u128 (decoder_new data)) (\<lambda>(v, _). Inr v))"
definition live_dispute_resolved_for_provider ::
    "(bytes \<Rightarrow> bytes) \<Rightarrow> 'h chain_call \<Rightarrow> address \<Rightarrow> u128 \<Rightarrow> 'h rpc_error + bool" where
  "live_dispute_resolved_for_provider kec call mkt i =
     live_read call mkt (encode_dispute_resolved_for_provider kec i)
       (\<lambda>data. rbind (dec_bool (decoder_new data)) (\<lambda>(v, _). Inr v))"
definition live_commitment_submitted ::
    "(bytes \<Rightarrow> bytes) \<Rightarrow> 'h chain_call \<Rightarrow> address \<Rightarrow> u128 \<Rightarrow> 'h rpc_error + bool" where
  "live_commitment_submitted kec call verifier i =
     live_read call verifier (encode_get_record kec i) decode_commitment_submitted"
definition live_record_tier ::
    "(bytes \<Rightarrow> bytes) \<Rightarrow> 'h chain_call \<Rightarrow> address \<Rightarrow> u128 \<Rightarrow> 'h rpc_error + tier" where
  "live_record_tier kec call verifier i = live_read call verifier (encode_get_record kec i) decode_record_tier"
definition live_commitment_block ::
    "(bytes \<Rightarrow> bytes) \<Rightarrow> 'h chain_call \<Rightarrow> address \<Rightarrow> u128 \<Rightarrow> 'h rpc_error + u128" where
  "live_commitment_block kec call verifier i = live_read call verifier (encode_commitment_block kec i) decode_block"
definition live_claimable ::
    "(bytes \<Rightarrow> bytes) \<Rightarrow> 'h chain_call \<Rightarrow> address \<Rightarrow> address \<Rightarrow> 'h rpc_error + u128" where
  "live_claimable kec call accounting account =
     live_read call accounting (encode_claimable kec account) decode_claimable"
definition live_get_model ::
    "(bytes \<Rightarrow> bytes) \<Rightarrow> 'h chain_call \<Rightarrow> address \<Rightarrow> word32 \<Rightarrow> 'h rpc_error + model_info" where
  "live_get_model kec call registry h = live_read call registry (encode_get_model kec h) decode_get_model"

section \<open>The registry decoder\<close>

text \<open>A reference encoding of the \<open>getModel\<close> return: eight head words and the four string tails;
  the identifier's tail comes after those of the three strings before it.\<close>

definition abi_encode_model :: "model_info \<Rightarrow> word32 list \<Rightarrow> bytes \<Rightarrow> u128 \<Rightarrow> u128 \<Rightarrow> bytes" where
  "abi_encode_model m offs before price uses =
     concat [word_from_address (mi_owner m), offs ! 0, offs ! 1, offs ! 2,
       word_from_u128 (of_nat (256 + length before)), word_from_u128 price, word_from_u128 uses,
       word_from_bool (mi_is_active m)] @ before @ encode_bytes_tail (bytes_of_string (mi_ipfs_cid m))"

lemma word_at_offset_reads:
  "word_at_offset data (32 * i) w \<Longrightarrow> 32 * i + 32 < 2 ^ 64 \<Longrightarrow> word_at data i = Inr w"
  by (simp add: word_at_def checked_mul_usize_def checked_add_usize_def word_at_offset_def
      slice_get_def mult.commute)

lemma be_usize_word: "unat v < 2 ^ 64 \<Longrightarrow> be_usize (word_from_u128 v) = Inr (unat v)"
proof -
  assume small: "unat v < 2 ^ 64"
  have len: "length (word_from_u128 v) = 32" by simp
  have "word_usize (word_from_u128 v) = Some (unat v)" using small by (rule word_usize_word)
  then show ?thesis using len
    by (simp add: word_usize_def be_usize_def split: if_splits)
qed

lemma decode_get_model_encode:
  assumes "length (mi_owner m) = 20" "length offs = 3" "words32 offs" "length before mod 32 = 0"
    and "length before + length (mi_ipfs_cid m) < 2 ^ 63" "utf8_valid (bytes_of_string (mi_ipfs_cid m))"
  shows "decode_get_model (abi_encode_model m offs before price uses) = Inr m"
proof -
  let ?cid = "bytes_of_string (mi_ipfs_cid m)"
  let ?data = "abi_encode_model m offs before price uses"
  define ws where "ws = [word_from_address (mi_owner m), offs ! 0, offs ! 1, offs ! 2,
       word_from_u128 (of_nat (256 + length before)), word_from_u128 price, word_from_u128 uses,
       word_from_bool (mi_is_active m)]"
  have ws: "words32 ws" using assms(1-3)
    by (simp add: ws_def codec_simps words32_def)
  have len: "length (concat ws) = 256" using ws by (simp add: length_concat_words ws_def)
  have data: "?data = concat ws @ before @ encode_bytes_tail ?cid"
    by (simp add: abi_encode_model_def ws_def)
  have n8: "length ws = 8" by (simp add: ws_def)
  have head: "word_at ?data i = Inr (ws ! i)" if "i < 8" for i
  proof (rule word_at_offset_reads)
    show "word_at_offset ?data (32 * i) (ws ! i)"
      unfolding data by (rule word_at_concat) (use ws that n8 in \<open>auto simp: words32_def\<close>)
  qed (use that in simp)
  have off: "be_usize (word_from_u128 (of_nat (256 + length before))) = Inr (256 + length before)"
    using assms(5) be_usize_word [of "of_nat (256 + length before)"]
    by (simp add: unat_of_nat take_bit_eq_mod del: of_nat_add)
  define lenw where "lenw = word_from_u128 (of_nat (length (mi_ipfs_cid m)))"
  have lenr: "be_usize lenw = Inr (length (mi_ipfs_cid m))"
    using assms(5) be_usize_word [of "of_nat (length (mi_ipfs_cid m))"]
    by (simp add: lenw_def unat_of_nat take_bit_eq_mod)
  obtain k where k: "length before = 32 * k" using assms(4) by (auto simp: mod_eq_0_iff_dvd)
  have "word_at_offset ?data (32 * (8 + k)) lenw"
    using word_at_append [of lenw "concat ws @ before" "32 * (8 + k)"
        "drop 32 (encode_bytes_tail ?cid)"]
    by (simp add: data len k lenw_def encode_bytes_tail_def Let_def)
  moreover have "(256 + length before) div 32 = 8 + k" "(256 + length before) mod 32 = 0"
    by (simp_all add: k)
  ultimately have tail: "word_at ?data ((256 + length before) div 32) = Inr lenw"
    using assms(5) k word_at_offset_reads [of ?data "8 + k" lenw] by simp
  have body: "slice_get ?data (256 + length before + 32) (256 + length before + 32 + length (mi_ipfs_cid m)) = Some ?cid"
    using len by (simp add: slice_get_def data encode_bytes_tail_def Let_def add.commute)
  have own: "take 12 (word_from_address (mi_owner m)) = replicate 12 0"
    "drop 12 (word_from_address (mi_owner m)) = mi_owner m"
    by (simp_all add: word_from_address_def)
  have act: "take 31 (word_from_bool (mi_is_active m)) = replicate 31 0"
    "word_from_bool (mi_is_active m) ! 31 = (if mi_is_active m then 1 else 0)"
    by (simp_all add: word_from_bool_def nth_append)
  have heads: "ws ! 0 = word_from_address (mi_owner m)"
    "ws ! 4 = word_from_u128 (of_nat (256 + length before))" "ws ! 7 = word_from_bool (mi_is_active m)"
    by (simp_all add: ws_def)
  define n where "n = 256 + length before"
  have n: "n < 2 ^ 63 + 256" "n mod 32 = 0" "n + length (mi_ipfs_cid m) < 2 ^ 63 + 256"
    using assms(5) \<open>(256 + length before) mod 32 = 0\<close> by (simp_all add: n_def)
  note facts = heads off tail body
  note facts' = facts [folded n_def]
  have bounds: "checked_add_usize n 32 = Some (n + 32)"
    "checked_add_usize (n + 32) (length (mi_ipfs_cid m)) = Some (n + 32 + length (mi_ipfs_cid m))"
    using n by (simp_all add: checked_add_usize_def)
  have cid: "string_from_utf8 ?cid = Some (mi_ipfs_cid m)"
    using assms(6) by (simp add: string_from_utf8_def)
  show ?thesis
    unfolding decode_get_model_def
    by (simp add: head facts' own act not_list_ex_zero lenr bounds cid n(2) del: rbind_eq_Inr)
qed

section \<open>Properties\<close>

text \<open>Decoding the \<open>getModel\<close> return of a model gives back its owner, its identifier and
  its activity, whatever the three strings before the identifier are, for every well-formed UTF-8
  identifier; the checked offset arithmetic never rejects such a return.\<close>

theorem model_decode_roundtrip:
  assumes "length (mi_owner m) = 20" "length offs = 3" "words32 offs" "length before mod 32 = 0"
    and "length before + length (mi_ipfs_cid m) < 2 ^ 63" "utf8_valid (bytes_of_string (mi_ipfs_cid m))"
  shows "decode_get_model (abi_encode_model m offs before price uses) = Inr m"
  using assms by (rule decode_get_model_encode)

lemma model_decode_roundtrip_witness:
  "decode_get_model (abi_encode_model
     \<lparr>mi_owner = replicate 20 1, mi_ipfs_cid = ''bafk'', mi_is_active = True\<rparr>
     (replicate 3 (replicate 32 0)) [] 5 6) =
   Inr \<lparr>mi_owner = replicate 20 1, mi_ipfs_cid = ''bafk'', mi_is_active = True\<rparr>"
  by (rule model_decode_roundtrip)
    (simp_all add: words32_def bytes_of_string_def word_less_nat_alt)

end
