(* ===== verification/Live.thy ===== *)
theory Live
  imports Daemon Chain_Reads
begin

text \<open>
  The module \<open>node_agent::live\<close> (\<open>crates/node-agent/src/live.rs\<close>): the market view and the job view
  over chain reads, the watched input directory, the claimable view and the nonce. \<open>lv_call k\<close> is the
  \<open>k\<close>-th \<open>eth_call\<close> of one refresh, so that equal calls may have different answers; \<open>lv_block\<close> is the
  block number read and \<open>lv_show\<close> the text of an RPC error. What opening and reading a delivery does
  is an \<open>open_result\<close>.
\<close>

record 'h live_chain =
  lv_call :: "nat \<Rightarrow> 'h chain_call"
  lv_block :: "'h rpc_error + u128"
  lv_show :: "'h rpc_error \<Rightarrow> string"

definition with_label :: "'h live_chain \<Rightarrow> string \<Rightarrow> 'h rpc_error + 'a \<Rightarrow> string + 'a" where
  "with_label C label r = map_err (\<lambda>e. label @ '': '' @ lv_show C e) r"

section \<open>The market view\<close>

record live_market_view =
  lm_marketplace :: address
  lm_oracle :: address
  lm_provider :: address
  lm_job_id :: u128
  lm_profiler :: model_profiler
  lm_secs_per_block :: u64

definition live_refresh ::
    "(bytes \<Rightarrow> bytes) \<Rightarrow> 'h live_chain \<Rightarrow> live_market_view \<Rightarrow> string + market_snapshot" where
  "live_refresh kec C v =
     rbind (with_label C ''getProvider'' (live_get_provider kec (lv_call C 0) (lm_marketplace v) (lm_provider v))) (\<lambda>profile.
     let caps = map_caps profile in
     rbind (with_label C ''saltPerPflopHour'' (live_salt_per_pflop_hour kec (lv_call C 1) (lm_oracle v))) (\<lambda>salt.
     rbind (with_label C ''isPriceStale'' (live_is_price_stale kec (lv_call C 2) (lm_oracle v))) (\<lambda>stale.
     let orc = \<lparr>salt_per_pflop_hour_wei = salt, oracle_stale = stale\<rparr> in
     rbind (with_label C ''getJob'' (live_get_job kec (lv_call C 3) (lm_marketplace v) (lm_job_id v))) (\<lambda>chain_job.
     rbind (with_label C ''blockNumber'' (lv_block C)) (\<lambda>current_block.
     let (pflop_hours, exec_secs) = profiler_estimate (model_hash chain_job) (lm_profiler v);
         bid_job = map_job chain_job current_block (lm_secs_per_block v) pflop_hours exec_secs
     in Inr \<lparr>ms_caps = caps, ms_reputation_bps = ucast (reputation_score_bps profile),
          ms_stake_wei = stake_wei profile, ms_job = bid_job, ms_oracle = orc,
          ms_bid_expires_block = bid_expires_block chain_job current_block\<rparr>)))))"

lemma with_label_Inr [simp]: "with_label C l r = Inr x \<longleftrightarrow> r = Inr x"
  by (simp add: with_label_def)

lemma live_refresh_iff:
  "live_refresh kec C v = Inr m \<longleftrightarrow>
    (\<exists>profile salt stale job blk.
      live_get_provider kec (lv_call C 0) (lm_marketplace v) (lm_provider v) = Inr profile \<and>
      live_salt_per_pflop_hour kec (lv_call C 1) (lm_oracle v) = Inr salt \<and>
      live_is_price_stale kec (lv_call C 2) (lm_oracle v) = Inr stale \<and>
      live_get_job kec (lv_call C 3) (lm_marketplace v) (lm_job_id v) = Inr job \<and> lv_block C = Inr blk \<and>
      m = \<lparr>ms_caps = map_caps profile, ms_reputation_bps = ucast (reputation_score_bps profile),
        ms_stake_wei = stake_wei profile,
        ms_job = map_job job blk (lm_secs_per_block v)
          (fst (profiler_estimate (model_hash job) (lm_profiler v)))
          (snd (profiler_estimate (model_hash job) (lm_profiler v))),
        ms_oracle = \<lparr>salt_per_pflop_hour_wei = salt, oracle_stale = stale\<rparr>,
        ms_bid_expires_block = bid_expires_block job blk\<rparr>)"
  unfolding live_refresh_def
  by (simp add: Let_def case_prod_beta) blast

section \<open>The job view\<close>

record live_job_view =
  lj_marketplace :: address
  lj_model_registry :: address
  lj_verifier :: address
  lj_weights_sha256 :: "bytes option"

definition live_gates ::
    "(bytes \<Rightarrow> bytes) \<Rightarrow> 'h live_chain \<Rightarrow> live_job_view \<Rightarrow> u128 \<Rightarrow> bool \<Rightarrow> string + chain_gates" where
  "live_gates kec C v i committed =
     (let tier_read = (case live_record_tier kec (lv_call C 3) (lj_verifier v) i of
            Inr t \<Rightarrow> Some t | Inl _ \<Rightarrow> None)
      in rbind (if committed
           then with_label C ''commitmentBlock'' (live_commitment_block kec (lv_call C 4) (lj_verifier v) i)
           else Inr 0) (\<lambda>commit_block.
         rbind (with_label C ''resultVerifiedAt'' (live_result_verified_at kec (lv_call C 5) (lj_marketplace v) i)) (\<lambda>verified_at.
         rbind (with_label C ''disputeResolvedForProvider''
           (live_dispute_resolved_for_provider kec (lv_call C 6) (lj_marketplace v) i)) (\<lambda>resolved.
           Inr \<lparr>effective_tier_read = tier_read, commitment_block = commit_block,
             result_verified_at = verified_at, dispute_resolved_for_provider = resolved\<rparr>))))"

definition live_resolve ::
    "(bytes \<Rightarrow> bytes) \<Rightarrow> 'h live_chain \<Rightarrow> live_job_view \<Rightarrow> u128 \<Rightarrow> string + resolved_job" where
  "live_resolve kec C v i =
     rbind (with_label C ''getJob'' (live_get_job kec (lv_call C 0) (lj_marketplace v) i)) (\<lambda>job.
     rbind (with_label C ''getModel'' (live_get_model kec (lv_call C 1) (lj_model_registry v) (model_hash job))) (\<lambda>model.
     rbind (with_label C ''blockNumber'' (lv_block C)) (\<lambda>current_block.
     rbind (with_label C ''getRecord'' (live_commitment_submitted kec (lv_call C 2) (lj_verifier v) i)) (\<lambda>committed.
     rbind (live_gates kec C v (job_id job) committed) (\<lambda>gates.
       Inr \<lparr>rj_job = job, rj_ipfs_cid = mi_ipfs_cid model, rj_is_active = mi_is_active model,
         rj_expected_size = None, rj_expected_sha256 = lj_weights_sha256 v,
         rj_current_block = current_block, rj_committed = committed, rj_gates = gates\<rparr>)))))"

section \<open>Deliveries\<close>

text \<open>An open descriptor: what \<open>fstat\<close> says (regular file, length) and what a read gives.\<close>

record open_file =
  of_fstat :: "string + bool \<times> nat"
  of_content :: "string + bytes"

datatype open_result = OpenNotFound | OpenSymlink | OpenFailed string | Opened open_file

definition read_capped_regular_file :: "string \<Rightarrow> nat \<Rightarrow> open_result \<Rightarrow> string + bytes option" where
  "read_capped_regular_file path mx res =
     (case res of
        OpenNotFound \<Rightarrow> Inr None
      | OpenSymlink \<Rightarrow> Inl (path @ '' is a symlink; refusing to follow it (PBA-L6b-022)'')
      | OpenFailed e \<Rightarrow> Inl (''open '' @ path @ '': '' @ e)
      | Opened f \<Rightarrow>
          rbind (map_err (\<lambda>e. ''fstat '' @ path @ '': '' @ e) (of_fstat f)) (\<lambda>(is_file, len).
          if \<not> is_file then Inl (path @ '' is not a regular file; refusing it (PBA-L6b-022)'')
          else if mx < len
          then Inl (dec_nat len @ '' bytes exceeds CITRATE_MAX_JOB_INPUT_BYTES '' @ dec_nat mx @
            ''; refusing oversized delivery (NA-B-003)'')
          else rbind (map_err (\<lambda>e. ''reading '' @ path @ '': '' @ e) (of_content f)) (\<lambda>content.
            let buf = take (min (mx + 1) (2 ^ 64 - 1)) content
            in if mx < length buf
               then Inl (''delivery grew past CITRATE_MAX_JOB_INPUT_BYTES '' @ dec_nat mx @
                 '' while being read; refusing it (NA-B-003)'')
               else Inr (Some buf))))"

definition file_input_for :: "env \<Rightarrow> string \<Rightarrow> (string \<Rightarrow> open_result) \<Rightarrow> u128 \<Rightarrow> string + bytes option" where
  "file_input_for env dir open_path i =
     (let path = path_join dir (dec i @ ''.bin''); mx = max_job_input_bytes env
      in map_err (\<lambda>e. ''job '' @ dec i @ '' input: '' @ e) (read_capped_regular_file path mx (open_path path)))"

definition live_claimable_view ::
    "(bytes \<Rightarrow> bytes) \<Rightarrow> 'h live_chain \<Rightarrow> address \<Rightarrow> address \<Rightarrow> string + u128" where
  "live_claimable_view kec C accounting me =
     with_label C ''claimable'' (live_claimable kec (lv_call C 0) accounting me)"

definition random_nonce :: "(string + bytes) \<Rightarrow> string + bytes" where
  "random_nonce os = map_err (\<lambda>e. ''csprng: '' @ e) os"

end
