(* ===== verification/Supervision_Auth.thy ===== *)
theory Supervision_Auth
  imports Abi Text
begin

text \<open>
  The module \<open>supervision::auth\<close> (\<open>crates/supervision/src/auth.rs\<close>): the bearer token of the
  supervision surface, on Unix. A file system is a map from absolute paths to inodes; a link holds
  the absolute path it points to, and \<open>Special\<close> is a FIFO, a device or a socket, which anyone may own.
  \<open>token_io\<close> has what one run of \<open>load_or_create\<close> meets: a fault for every call, the random bytes,
  what a special file yields when it is read, and what other processes do to the files in between:
  \<open>ti_race\<close> between the \<open>lstat\<close> and the \<open>open\<close>, \<open>ti_gap\<close> before every later call (0 and 1 before the two
  \<open>chmod\<close> calls of an adoption; 0 to 3 before the calls of a creation). A file is read at one moment; a
  read that never ends is not a run. Only the owner of a file or root may change its mode.
\<close>

datatype fs_node = Link string | RegularFile bytes | Directory | Special

record inode =
  in_node :: fs_node
  in_uid :: nat
  in_mode :: nat

type_synonym token_fs = "string \<Rightarrow> inode option"

datatype token_error =
    TkInvalidData string | TkPermissionDenied string | TkNotFound | TkOther string | TkPanic string

type_synonym 'a token_result = "(token_error + 'a) \<times> token_fs"

record token_io =
  ti_lstat :: "string option"
  ti_race :: "token_fs \<Rightarrow> token_fs"
  ti_open :: "string option"
  ti_stream :: "string + bytes"
  ti_gap :: "nat \<Rightarrow> token_fs \<Rightarrow> token_fs"
  ti_random :: "bytes option"
  ti_mkdir :: "string option"
  ti_dir_mode :: nat
  ti_harden_dir :: "string option"
  ti_create :: "string option"
  ti_write :: "(nat \<times> string) option"
  ti_harden :: "string option"

definition tbind :: "'a token_result \<Rightarrow> ('a \<Rightarrow> token_fs \<Rightarrow> 'b token_result) \<Rightarrow> 'b token_result" where
  "tbind r f = (case r of (Inl e, fs) \<Rightarrow> (Inl e, fs) | (Inr x, fs) \<Rightarrow> f x fs)"

definition io_fault :: "string option \<Rightarrow> 'a token_result \<Rightarrow> token_fs \<Rightarrow> 'a token_result" where
  "io_fault fault r fs = (case fault of Some e \<Rightarrow> (Inl (TkOther e), fs) | None \<Rightarrow> r)"

section \<open>The token\<close>

definition token_hex :: "bytes \<Rightarrow> string" where
  "token_hex bs = concat (map hex_byte bs)"

definition generate_token :: "bytes option \<Rightarrow> token_error + string" where
  "generate_token rnd = map_err (\<lambda>_. TkPanic ''OS CSPRNG unavailable'') (ok_or () (map_option token_hex rnd))"

definition verify_token :: "string \<Rightarrow> string \<Rightarrow> bool" where
  "verify_token token presented =
     (if length token \<noteq> length presented then False else list_all2 (=) token presented)"

definition TOKEN_PATH_ENV :: string where
  "TOKEN_PATH_ENV = ''CITRATE_NODE_AGENT_TOKEN_FILE''"

definition default_token_path :: "(string \<Rightarrow> string option) \<Rightarrow> string" where
  "default_token_path env =
     (let home = path_join (path_join (path_join
            (case env ''HOME'' of Some h \<Rightarrow> h | None \<Rightarrow> ''.'') ''.citrate'') ''node-agent'') ''supervision.token''
      in case env TOKEN_PATH_ENV of Some p \<Rightarrow> if trim p \<noteq> [] then p else home | None \<Rightarrow> home)"

section \<open>File system calls\<close>

text \<open>\<open>Path::parent\<close> of a path without a \<open>.\<close> component at its end.\<close>

definition path_parent :: "string \<Rightarrow> string option" where
  "path_parent p =
     (let q = trim_end_slashes p
      in if q = [] then None
         else let d = rev (dropWhile (\<lambda>c. c \<noteq> CHR ''/'') (rev q))
              in if d = [] then Some [] else if trim_end_slashes d = [] then Some ''/''
                 else Some (trim_end_slashes d))"

text \<open>The inode behind a path, through at most forty links as in Linux.\<close>

fun follow :: "nat \<Rightarrow> token_fs \<Rightarrow> string \<Rightarrow> (string \<times> inode) option" where
  "follow n fs p = (case fs p of None \<Rightarrow> None
     | Some i \<Rightarrow> (case in_node i of
          Link q \<Rightarrow> if n = 0 then None else follow (n - 1) fs q
        | _ \<Rightarrow> Some (p, i)))"

declare follow.simps [simp del]

definition chmod_path :: "string option \<Rightarrow> nat \<Rightarrow> nat \<Rightarrow> string \<Rightarrow> token_fs \<Rightarrow> unit token_result" where
  "chmod_path fault euid m path fs =
     io_fault fault
       (case follow 40 fs path of
          None \<Rightarrow> (Inl TkNotFound, fs)
        | Some (q, i) \<Rightarrow>
            if euid \<noteq> 0 \<and> in_uid i \<noteq> euid then (Inl (TkPermissionDenied path), fs)
            else (Inr (), fs(q \<mapsto> i\<lparr>in_mode := m\<rparr>))) fs"

text \<open>The modes are 0600 and 0700.\<close>

definition harden_perms :: "token_io \<Rightarrow> nat \<Rightarrow> string \<Rightarrow> token_fs \<Rightarrow> unit token_result" where
  "harden_perms io euid path fs = chmod_path (ti_harden io) euid (6 * 64) path fs"

definition harden_dir_perms :: "token_io \<Rightarrow> nat \<Rightarrow> string \<Rightarrow> token_fs \<Rightarrow> unit token_result" where
  "harden_dir_perms io euid dir fs =
     (if dir = [] then (Inr (), fs) else chmod_path (ti_harden_dir io) euid (7 * 64) dir fs)"

definition create_dir_all :: "token_io \<Rightarrow> nat \<Rightarrow> string \<Rightarrow> token_fs \<Rightarrow> unit token_result" where
  "create_dir_all io euid dir fs =
     io_fault (ti_mkdir io)
       (if dir = [] then (Inr (), fs)
        else case fs dir of
          None \<Rightarrow> (Inr (), fs(dir \<mapsto> \<lparr>in_node = Directory, in_uid = euid, in_mode = ti_dir_mode io\<rparr>))
        | Some _ \<Rightarrow>
            (case follow 40 fs dir of
               Some (_, i) \<Rightarrow> if in_node i = Directory then (Inr (), fs) else (Inl (TkOther dir), fs)
             | None \<Rightarrow> (Inl (TkOther dir), fs))) fs"

text \<open>Opening without following a link and reading to the end, as text.\<close>

definition utf8_text :: "bytes \<Rightarrow> token_error + string" where
  "utf8_text bs = ok_or (TkInvalidData ''stream did not contain valid UTF-8'') (string_from_utf8 bs)"

definition open_no_follow :: "token_io \<Rightarrow> string \<Rightarrow> token_fs \<Rightarrow> token_error + string" where
  "open_no_follow io path fs =
     (case ti_open io of Some e \<Rightarrow> Inl (TkOther e)
      | None \<Rightarrow>
          (case fs path of None \<Rightarrow> Inl TkNotFound
           | Some i \<Rightarrow>
               (case in_node i of
                  RegularFile bs \<Rightarrow> utf8_text bs
                | Special \<Rightarrow> rbind (map_err TkOther (ti_stream io)) utf8_text
                | Link _ \<Rightarrow> Inl (TkOther path)
                | Directory \<Rightarrow> Inl (TkOther path))))"

definition read_existing_token :: "token_io \<Rightarrow> nat \<Rightarrow> string \<Rightarrow> token_fs \<Rightarrow> string option token_result" where
  "read_existing_token io euid path fs =
     io_fault (ti_lstat io)
       (case fs path of None \<Rightarrow> (Inr None, fs)
        | Some i \<Rightarrow>
            if (case in_node i of Link _ \<Rightarrow> True | _ \<Rightarrow> False)
            then (Inl (TkInvalidData (''supervision token path '' @ path @
              '' is a symlink; refusing to follow it (NA-B-007)'')), fs)
            else if in_uid i \<noteq> euid
            then (Inl (TkPermissionDenied (''supervision token file '' @ path @ '' is owned by uid '' @
              dec_nat (in_uid i) @ '' not '' @ dec_nat euid @ ''; refusing to adopt it (NA-B-007)'')), fs)
            else let fs = ti_race io fs
                 in (case open_no_follow io path fs of Inl e \<Rightarrow> (Inl e, fs) | Inr s \<Rightarrow> (Inr (Some s), fs))) fs"

definition create_new_token_file :: "token_io \<Rightarrow> nat \<Rightarrow> string \<Rightarrow> string \<Rightarrow> token_fs \<Rightarrow> unit token_result" where
  "create_new_token_file io euid path token fs =
     (if fs path \<noteq> None then (Inl (TkOther path), fs)
      else io_fault (ti_create io)
        (let file = (\<lambda>bs. \<lparr>in_node = RegularFile bs, in_uid = euid, in_mode = 6 * 64\<rparr>)
         in case ti_write io of
              Some (n, e) \<Rightarrow> (Inl (TkOther e), fs(path \<mapsto> file (take n (bytes_of_string token))))
            | None \<Rightarrow> (Inr (), fs(path \<mapsto> file (bytes_of_string token)))) fs)"

definition load_or_create :: "token_io \<Rightarrow> nat \<Rightarrow> string \<Rightarrow> token_fs \<Rightarrow> string token_result" where
  "load_or_create io euid path fs =
     tbind (read_existing_token io euid path fs) (\<lambda>existing fs.
       case existing of
         Some s \<Rightarrow>
           if trim s \<noteq> []
           then tbind (case path_parent path of
                         Some d \<Rightarrow> harden_dir_perms io euid d (ti_gap io 0 fs)
                       | None \<Rightarrow> (Inr (), fs)) (\<lambda>_ fs.
                tbind (harden_perms io euid path (ti_gap io 1 fs)) (\<lambda>_ fs. (Inr (trim s), fs)))
           else (Inl (TkInvalidData (''supervision token file '' @ path @
             '' exists but is empty; refusing to overwrite in place'')), fs)
       | None \<Rightarrow>
           (case generate_token (ti_random io) of
              Inl e \<Rightarrow> (Inl e, fs)
            | Inr token \<Rightarrow>
                tbind (case path_parent path of
                         Some d \<Rightarrow> tbind (create_dir_all io euid d (ti_gap io 0 fs)) (\<lambda>_ fs.
                           harden_dir_perms io euid d (ti_gap io 1 fs))
                       | None \<Rightarrow> (Inr (), fs)) (\<lambda>_ fs.
                tbind (create_new_token_file io euid path token (ti_gap io 2 fs)) (\<lambda>_ fs.
                tbind (harden_perms io euid path (ti_gap io 3 fs)) (\<lambda>_ fs. (Inr token, fs))))))"

text \<open>Nobody else acts after the \<open>open\<close>; or at least nobody touches the entry of the path. What reading an
  inode gives.\<close>

definition undisturbed :: "token_io \<Rightarrow> bool" where
  "undisturbed io \<longleftrightarrow> (\<forall>k fs. ti_gap io k fs = fs)"

definition leaves_alone :: "string \<Rightarrow> token_io \<Rightarrow> bool" where
  "leaves_alone path io \<longleftrightarrow> (\<forall>k fs. ti_gap io k fs path = fs path)"

definition reads_as :: "token_io \<Rightarrow> inode \<Rightarrow> string \<Rightarrow> bool" where
  "reads_as io i s \<longleftrightarrow>
     (case in_node i of
        RegularFile bs \<Rightarrow> string_from_utf8 bs = Some s
      | Special \<Rightarrow> (case ti_stream io of Inr bs \<Rightarrow> string_from_utf8 bs = Some s | Inl _ \<Rightarrow> False)
      | _ \<Rightarrow> False)"

section \<open>Lemmas\<close>

lemma tbind_Inr: "tbind r f = (Inr y, fs') \<longleftrightarrow> (\<exists>x fs. r = (Inr x, fs) \<and> f x fs = (Inr y, fs'))"
  by (auto simp: tbind_def split: prod.splits sum.splits)

lemma io_fault_Inr: "io_fault f r fs = (Inr y, fs') \<longleftrightarrow> f = None \<and> r = (Inr y, fs')"
  by (auto simp: io_fault_def split: option.splits)

lemma verify_token_iff: "verify_token t p \<longleftrightarrow> p = t"
  by (auto simp: verify_token_def list.rel_eq)

text \<open>What a change of mode does: the same inode behind the path, with the new mode.\<close>

lemma follow_node: "follow n fs p = Some (q, i) \<Longrightarrow> fs q = Some i \<and> (\<forall>l. in_node i \<noteq> Link l)"
  by (induction n fs p rule: follow.induct)
    (subst (asm) (2) follow.simps, auto split: option.splits fs_node.splits if_splits)

lemma follow_self: "fs p = Some i \<Longrightarrow> (\<forall>l. in_node i \<noteq> Link l) \<Longrightarrow> follow n fs p = Some (p, i)"
  by (subst follow.simps) (auto split: fs_node.splits)

lemma follow_link: "fs p = Some j \<Longrightarrow> in_node j = Link l \<Longrightarrow>
    follow n fs p = (if n = 0 then None else follow (n - 1) fs l)"
  by (subst follow.simps) simp

lemma follow_none: "fs p = None \<Longrightarrow> follow n fs p = None"
  by (subst follow.simps) simp

lemma node_cases:
  obtains "fs p = None" | j l where "fs p = Some j" "in_node j = Link l"
    | j where "fs p = Some j" "\<forall>l. in_node j \<noteq> Link l"
  by (cases "fs p") auto

lemma follow_chmod:
  assumes "fs q = Some i" "\<forall>l. in_node i \<noteq> Link l"
  shows "follow n (fs(q \<mapsto> i\<lparr>in_mode := m\<rparr>)) p =
    map_option (\<lambda>(r, j). (r, if r = q then j\<lparr>in_mode := m\<rparr> else j)) (follow n fs p)"
proof (induction n arbitrary: p rule: less_induct)
  case (less n)
  let ?fs = "fs(q \<mapsto> i\<lparr>in_mode := m\<rparr>)"
  show ?case
  proof (cases rule: node_cases [of fs p])
    case 1
    then have "?fs p = None" using assms by auto
    with 1 show ?thesis by (simp only: follow_none option.map)
  next
    case (2 j l)
    then have "?fs p = Some j" using assms by (cases "p = q") auto
    then show ?thesis using 2 less [of "n - 1" l] by (simp add: follow_link [of _ p j l])
  next
    case (3 j)
    then have "?fs p = Some (if p = q then j\<lparr>in_mode := m\<rparr> else j)" using assms by auto
    from follow_self [where fs = ?fs, OF this] follow_self [where fs = fs, OF 3] 3
    have "follow n ?fs p = Some (p, if p = q then j\<lparr>in_mode := m\<rparr> else j)"
      "follow n fs p = Some (p, j)" by simp_all
    then show ?thesis by (simp only: option.map prod.case)
  qed
qed

lemma follow_new: "follow n fs p = Some (r, j) \<Longrightarrow> fs q = None \<Longrightarrow> follow n (fs(q \<mapsto> k)) p = Some (r, j)"
proof (induction n arbitrary: p rule: less_induct)
  case (less n)
  show ?case
  proof (cases rule: node_cases [of fs p])
    case 1
    then show ?thesis using less.prems by (simp add: follow_none)
  next
    case (2 i l)
    then have "(fs(q \<mapsto> k)) p = Some i" using less.prems(2) by auto
    then show ?thesis using 2 less.IH [of "n - 1" l] less.prems
      by (simp add: follow_link [of _ p i l] split: if_splits)
  next
    case (3 i)
    then have "(fs(q \<mapsto> k)) p = Some i" using less.prems(2) by auto
    then have "follow n (fs(q \<mapsto> k)) p = Some (p, i)"
      using 3(2) by (rule follow_self [where fs = "fs(q \<mapsto> k)"])
    moreover have "follow n fs p = Some (p, i)" using 3 by (rule follow_self [where fs = fs])
    ultimately show ?thesis using less.prems(1) by (simp only:)
  qed
qed

lemma chmod_Inr: "chmod_path f euid m path fs = (Inr u, fs') \<longleftrightarrow> f = None \<and>
    (\<exists>q i. follow 40 fs path = Some (q, i) \<and> (euid = 0 \<or> in_uid i = euid) \<and> fs' = fs(q \<mapsto> i\<lparr>in_mode := m\<rparr>))"
  by (auto simp: chmod_path_def io_fault_Inr split: option.splits prod.splits if_splits)

text \<open>The directory of the token is in the state that another hardening would leave it in, up to the
  token itself.\<close>

definition dir_hardened :: "nat \<Rightarrow> string \<Rightarrow> string \<Rightarrow> token_fs \<Rightarrow> bool" where
  "dir_hardened euid path d fs \<longleftrightarrow> d = [] \<or> (\<exists>q i. follow 40 fs d = Some (q, i) \<and>
     (euid = 0 \<or> in_uid i = euid) \<and> (q = path \<or> in_mode i = 7 * 64))"

definition token_file :: "nat \<Rightarrow> nat \<Rightarrow> bytes \<Rightarrow> inode" where
  "token_file euid m bs = \<lparr>in_node = RegularFile bs, in_uid = euid, in_mode = m\<rparr>"

lemma token_file_simps [simp]:
  "in_node (token_file u m bs) = RegularFile bs" "in_uid (token_file u m bs) = u"
  "in_mode (token_file u m bs) = m" "token_file u m bs\<lparr>in_mode := k\<rparr> = token_file u k bs"
  by (simp_all add: token_file_def)

lemma harden_dir_hardened:
  assumes "harden_dir_perms io euid d fs = (Inr u, fs')"
  shows "dir_hardened euid path d fs'"
proof (cases "d = []")
  case False
  then obtain q i where f: "follow 40 fs d = Some (q, i)" "euid = 0 \<or> in_uid i = euid"
      "fs' = fs(q \<mapsto> i\<lparr>in_mode := 7 * 64\<rparr>)"
    using assms by (auto simp: harden_dir_perms_def chmod_Inr)
  then have "follow 40 fs' d = Some (q, i\<lparr>in_mode := 7 * 64\<rparr>)"
    using follow_chmod [of fs q i 40 "7 * 64" d] follow_node [OF f(1)] by simp
  then show ?thesis using f(2) by (simp add: dir_hardened_def)
qed (simp add: dir_hardened_def)

lemma harden_dir_file:
  assumes "harden_dir_perms io euid d fs = (Inr u, fs')" "fs p = Some i"
  shows "\<exists>m. fs' p = Some (i\<lparr>in_mode := m\<rparr>)"
proof (cases "d = []")
  case True
  then show ?thesis using assms by (auto simp: harden_dir_perms_def intro: exI [of _ "in_mode i"])
next
  case False
  then obtain q j where f: "follow 40 fs d = Some (q, j)" "fs' = fs(q \<mapsto> j\<lparr>in_mode := 7 * 64\<rparr>)"
    using assms(1) by (auto simp: harden_dir_perms_def chmod_Inr)
  show ?thesis
  proof (cases "p = q")
    case True
    then show ?thesis using f assms(2) follow_node [OF f(1)] by auto
  next
    case False
    then show ?thesis using f(2) assms(2) by (intro exI [of _ "in_mode i"]) simp
  qed
qed

lemma harden_token:
  assumes "harden_perms io euid path fs = (Inr u, fs')" "fs path = Some i" "\<forall>l. in_node i \<noteq> Link l"
  shows "fs' = fs(path \<mapsto> i\<lparr>in_mode := 6 * 64\<rparr>) \<and> (euid = 0 \<or> in_uid i = euid)"
  using assms follow_self [of fs path i 40] by (auto simp: harden_perms_def chmod_Inr)

lemma harden_perms_resolves:
  assumes "harden_perms io euid path fs = (Inr u, fs')"
  shows "\<exists>q i. follow 40 fs' path = Some (q, i) \<and> (euid = 0 \<or> in_uid i = euid) \<and> in_mode i = 6 * 64"
proof -
  obtain q i where f: "follow 40 fs path = Some (q, i)" "euid = 0 \<or> in_uid i = euid"
      "fs' = fs(q \<mapsto> i\<lparr>in_mode := 6 * 64\<rparr>)"
    using assms by (auto simp: harden_perms_def chmod_Inr)
  then have "follow 40 fs' path = Some (q, i\<lparr>in_mode := 6 * 64\<rparr>)"
    using follow_chmod [of fs q i 40 "6 * 64" path] follow_node [OF f(1)] by simp
  then show ?thesis using f(2) by auto
qed

lemma dir_hardened_chmod:
  assumes "dir_hardened euid path d fs" "fs path = Some i" "\<forall>l. in_node i \<noteq> Link l"
  shows "dir_hardened euid path d (fs(path \<mapsto> i\<lparr>in_mode := m\<rparr>))"
proof -
  define fs2 where "fs2 = fs(path \<mapsto> i\<lparr>in_mode := m\<rparr>)"
  have eq: "follow 40 fs2 d =
      map_option (\<lambda>(r, j). (r, if r = path then j\<lparr>in_mode := m\<rparr> else j)) (follow 40 fs d)"
    unfolding fs2_def by (rule follow_chmod) (use assms in simp_all)
  show ?thesis
  proof (cases "d = []")
    case False
    then obtain q j where j: "follow 40 fs d = Some (q, j)" "euid = 0 \<or> in_uid j = euid"
        "q = path \<or> in_mode j = 7 * 64"
      using assms(1) by (auto simp: dir_hardened_def)
    then have "follow 40 fs2 d = Some (q, if q = path then j\<lparr>in_mode := m\<rparr> else j)" by (simp add: eq)
    then have "dir_hardened euid path d fs2" using j(2,3) unfolding dir_hardened_def
      by (intro disjI2 exI [of _ q] exI [of _ "if q = path then j\<lparr>in_mode := m\<rparr> else j"]) auto
    then show ?thesis unfolding fs2_def .
  qed (simp add: dir_hardened_def)
qed

lemma dir_hardened_new: "dir_hardened euid path d fs \<Longrightarrow> fs path = None \<Longrightarrow>
    dir_hardened euid path d (fs(path \<mapsto> i))"
  unfolding dir_hardened_def by (metis follow_new)

text \<open>A hexadecimal token has 64 characters, none of them white space, all of them ASCII.\<close>

lemma length_token_hex: "length (token_hex bs) = 2 * length bs"
  by (simp add: token_hex_def length_hex_text)

lemma token_hex_chars: "c \<in> set (token_hex bs) \<Longrightarrow> \<exists>d < 16. c = digit_char d"
  unfolding token_hex_def by (rule hex_text_chars)

lemma hex_digit_code: "d < 16 \<Longrightarrow> of_char (digit_char d) = (if d < 10 then 48 + d else 87 + d :: nat)"
  by (simp add: digit_char_def)

lemma hex_char_ascii: "c = digit_char d \<Longrightarrow> d < 16 \<Longrightarrow> 47 < (of_char c :: nat) \<and> (of_char c :: nat) < 103"
  by (simp add: hex_digit_code)

lemma drop_one_other:
  assumes "\<And>w. w \<in> set ws \<Longrightarrow> w \<noteq> [] \<and> hd w \<noteq> c"
  shows "drop_one ws (c # s) = None"
proof -
  have "\<not> starts_with w (c # s)" if "w \<in> set ws" for w
    using assms [OF that] by (cases w) (auto simp: starts_with_iff)
  then have "find (\<lambda>w. starts_with w (c # s)) ws = None" by (simp add: find_None_iff)
  then show ?thesis by (simp add: drop_one_def)
qed

lemma drop_one_hex:
  assumes "47 < (of_char c :: nat)" "(of_char c :: nat) < 103"
  shows "drop_one white_space (c # s) = None" "drop_one (map rev white_space) (c # s) = None"
proof -
  have "\<forall>w \<in> set white_space. w \<noteq> [] \<and> hd w \<noteq> c \<and> last w \<noteq> c"
    using assms by (auto simp: white_space_def)
  note ws = this
  show "drop_one white_space (c # s) = None" using ws by (intro drop_one_other) auto
  have "w \<noteq> [] \<and> hd w \<noteq> c" if "w \<in> set (map rev white_space)" for w
  proof -
    from that obtain v where "v \<in> set white_space" "w = rev v" by auto
    then show ?thesis using ws by (simp add: hd_rev)
  qed
  then show "drop_one (map rev white_space) (c # s) = None" by (rule drop_one_other)
qed

lemma trim_hex:
  assumes "\<forall>c \<in> set s. 47 < (of_char c :: nat) \<and> (of_char c :: nat) < 103"
  shows "trim s = s"
proof (cases s)
  case Nil
  have "drop_one ws [] = None" for ws by (auto simp: drop_one_def starts_with_iff find_Some_iff split: option.splits)
  then have "drop_while_any ws [] = []" for ws by (subst drop_while_any.simps) simp
  then show ?thesis using Nil by (simp add: trim_def)
next
  case (Cons c r)
  have "drop_while_any white_space s = s"
    using assms Cons drop_one_hex(1) by (subst drop_while_any.simps) simp
  moreover obtain d t where d: "rev s = d # t" using Cons by (cases "rev s") auto
  then have "d \<in> set s" by (metis list.set_intros(1) set_rev)
  then have "drop_while_any (map rev white_space) (rev s) = rev s"
    using assms d drop_one_hex(2) by (subst drop_while_any.simps) simp
  ultimately show ?thesis by (simp add: trim_def)
qed

lemma utf8_ascii: "\<forall>b \<in> set bs. b < 0x80 \<Longrightarrow> utf8_valid bs"
  by (induction bs) simp_all

lemma token_hex_text:
  "trim (token_hex bs) = token_hex bs"
  "string_from_utf8 (bytes_of_string (token_hex bs)) = Some (token_hex bs)"
proof -
  have c: "\<forall>c \<in> set (token_hex bs). 47 < (of_char c :: nat) \<and> (of_char c :: nat) < 103"
    using token_hex_chars hex_char_ascii by blast
  then show "trim (token_hex bs) = token_hex bs" by (rule trim_hex)
  have "\<forall>b \<in> set (bytes_of_string (token_hex bs)). b < 0x80"
    using c by (auto simp: bytes_of_string_def word_less_nat_alt unat_of_nat_small)
  then show "string_from_utf8 (bytes_of_string (token_hex bs)) = Some (token_hex bs)"
    by (simp add: string_from_utf8_def utf8_ascii)
qed

text \<open>A run that nobody disturbs.\<close>

lemma load_undisturbed:
  assumes "undisturbed io"
  shows "load_or_create io euid path fs =
    tbind (read_existing_token io euid path fs) (\<lambda>existing fs.
       case existing of
         Some s \<Rightarrow>
           if trim s \<noteq> []
           then tbind (case path_parent path of Some d \<Rightarrow> harden_dir_perms io euid d fs | None \<Rightarrow> (Inr (), fs)) (\<lambda>_ fs.
                tbind (harden_perms io euid path fs) (\<lambda>_ fs. (Inr (trim s), fs)))
           else (Inl (TkInvalidData (''supervision token file '' @ path @
             '' exists but is empty; refusing to overwrite in place'')), fs)
       | None \<Rightarrow>
           (case generate_token (ti_random io) of
              Inl e \<Rightarrow> (Inl e, fs)
            | Inr token \<Rightarrow>
                tbind (case path_parent path of
                         Some d \<Rightarrow> tbind (create_dir_all io euid d fs) (\<lambda>_ fs. harden_dir_perms io euid d fs)
                       | None \<Rightarrow> (Inr (), fs)) (\<lambda>_ fs.
                tbind (create_new_token_file io euid path token fs) (\<lambda>_ fs.
                tbind (harden_perms io euid path fs) (\<lambda>_ fs. (Inr token, fs))))))"
proof -
  have q: "ti_gap io = (\<lambda>_ fs. fs)" using assms by (intro ext) (simp add: undisturbed_def)
  show ?thesis unfolding load_or_create_def q by (rule refl)
qed

section \<open>The two ways to a token\<close>

text \<open>An existing file is adopted, or a new one is written; in both cases the parent is hardened.\<close>

lemma open_no_follow_Inr: "open_no_follow io path fs = Inr s \<longleftrightarrow>
    ti_open io = None \<and> (\<exists>i. fs path = Some i \<and> reads_as io i s)"
  by (auto simp: open_no_follow_def reads_as_def utf8_text_def split: option.splits fs_node.splits sum.splits)

lemma reads_as_node: "reads_as io i s \<Longrightarrow> \<forall>l. in_node i \<noteq> Link l"
  by (auto simp: reads_as_def)

lemma reads_as_mode [simp]: "reads_as io (i\<lparr>in_mode := m\<rparr>) s = reads_as io i s"
  by (simp add: reads_as_def)

lemma load_adopts:
  assumes "load_or_create io euid path fs = (Inr token, fs')" "fs path = Some i0"
  obtains i s fs2 where "in_uid i0 = euid" "\<forall>l. in_node i0 \<noteq> Link l" "ti_race io fs path = Some i"
    "reads_as io i s" "token = trim s" "token \<noteq> []"
    "(case path_parent path of Some d \<Rightarrow> harden_dir_perms io euid d (ti_gap io 0 (ti_race io fs))
      | None \<Rightarrow> (Inr (), ti_race io fs)) = (Inr (), fs2)"
    "harden_perms io euid path (ti_gap io 1 fs2) = (Inr (), fs')"
  using assms
  by (auto simp: load_or_create_def tbind_Inr read_existing_token_def io_fault_Inr open_no_follow_Inr Let_def
      split: option.splits if_splits sum.splits fs_node.splits)

lemma load_creates:
  assumes "load_or_create io euid path fs = (Inr token, fs')" "fs path = None"
  obtains r fs1 where "ti_random io = Some r" "token = token_hex r" "ti_gap io 2 fs1 path = None"
    "(case path_parent path of Some d \<Rightarrow> \<exists>fs0. create_dir_all io euid d (ti_gap io 0 fs) = (Inr (), fs0) \<and>
        harden_dir_perms io euid d (ti_gap io 1 fs0) = (Inr (), fs1) | None \<Rightarrow> fs1 = fs)"
    "harden_perms io euid path (ti_gap io 3 ((ti_gap io 2 fs1)(path \<mapsto>
       token_file euid (6 * 64) (bytes_of_string token)))) = (Inr (), fs')"
  using assms
  by (auto simp: load_or_create_def tbind_Inr read_existing_token_def io_fault_Inr generate_token_def
      create_new_token_file_def token_file_def Let_def split: option.splits if_splits sum.splits)

lemma token_hex_nonempty: "map_option length (ti_random io) \<in> {None, Some 32} \<Longrightarrow> ti_random io = Some r \<Longrightarrow> token_hex r \<noteq> []"
  using length_token_hex [of r] by (cases "token_hex r") auto

text \<open>Where the token comes from, and what the path leads to afterwards, whatever others do.\<close>

lemma load_source:
  assumes "load_or_create io euid path fs = (Inr token, fs')"
    and "map_option length (ti_random io) \<in> {None, Some 32}"
  shows "token \<noteq> [] \<and>
    (case fs path of
       None \<Rightarrow> \<exists>r. ti_random io = Some r \<and> token = token_hex r
     | Some i0 \<Rightarrow> in_uid i0 = euid \<and> (\<forall>l. in_node i0 \<noteq> Link l) \<and>
         (\<exists>i s. ti_race io fs path = Some i \<and> reads_as io i s \<and> token = trim s)) \<and>
    (\<exists>q i. follow 40 fs' path = Some (q, i) \<and> (euid = 0 \<or> in_uid i = euid) \<and> in_mode i = 6 * 64)"
proof (cases "fs path")
  case None
  then obtain r fs1 where "ti_random io = Some r" "token = token_hex r"
    "harden_perms io euid path (ti_gap io 3 ((ti_gap io 2 fs1)(path \<mapsto>
       token_file euid (6 * 64) (bytes_of_string token)))) = (Inr (), fs')"
    by (rule load_creates [OF assms(1)])
  then show ?thesis using None token_hex_nonempty [OF assms(2)] harden_perms_resolves by simp
next
  case (Some i0)
  then obtain i s fs2 where "in_uid i0 = euid" "\<forall>l. in_node i0 \<noteq> Link l" "ti_race io fs path = Some i"
    "reads_as io i s" "token = trim s" "token \<noteq> []" "harden_perms io euid path (ti_gap io 1 fs2) = (Inr (), fs')"
    by (rule load_adopts [OF assms(1)])
  then show ?thesis using Some harden_perms_resolves by auto
qed

text \<open>The entry of the path when nobody touches it after the \<open>open\<close>.\<close>

lemma load_left_alone:
  assumes "load_or_create io euid path fs = (Inr token, fs')" "leaves_alone path io"
  shows "\<exists>i s. fs' path = Some i \<and> (euid = 0 \<or> in_uid i = euid) \<and> in_mode i = 6 * 64 \<and> reads_as io i s \<and> token = trim s"
proof (cases "fs path")
  case (Some i0)
  then obtain i s fs2 where f: "ti_race io fs path = Some i" "reads_as io i s" "token = trim s"
    "(case path_parent path of Some d \<Rightarrow> harden_dir_perms io euid d (ti_gap io 0 (ti_race io fs))
      | None \<Rightarrow> (Inr (), ti_race io fs)) = (Inr (), fs2)"
    "harden_perms io euid path (ti_gap io 1 fs2) = (Inr (), fs')"
    by (rule load_adopts [OF assms(1)])
  have "\<exists>m. fs2 path = Some (i\<lparr>in_mode := m\<rparr>)"
  proof (cases "path_parent path")
    case None
    then show ?thesis using f(1,4) by (auto intro: exI [of _ "in_mode i"])
  next
    case (Some d)
    then have "harden_dir_perms io euid d (ti_gap io 0 (ti_race io fs)) = (Inr (), fs2)" using f(4) by simp
    moreover have "ti_gap io 0 (ti_race io fs) path = Some i" using assms(2) f(1) by (simp add: leaves_alone_def)
    ultimately show ?thesis by (rule harden_dir_file)
  qed
  then obtain m where "ti_gap io 1 fs2 path = Some (i\<lparr>in_mode := m\<rparr>)"
    using assms(2) by (auto simp: leaves_alone_def)
  from harden_token [OF f(5) this] have "fs' path = Some (i\<lparr>in_mode := 6 * 64\<rparr>)" "euid = 0 \<or> in_uid i = euid"
    using reads_as_node [OF f(2)] by auto
  then show ?thesis using f(2,3) by auto
next
  case None
  then obtain r fs1 where c: "token = token_hex r"
    "harden_perms io euid path (ti_gap io 3 ((ti_gap io 2 fs1)(path \<mapsto>
       token_file euid (6 * 64) (bytes_of_string token)))) = (Inr (), fs')"
    by (rule load_creates [OF assms(1)])
  let ?i = "token_file euid (6 * 64) (bytes_of_string token)"
  have "ti_gap io 3 ((ti_gap io 2 fs1)(path \<mapsto> ?i)) path = Some ?i" using assms(2) by (simp add: leaves_alone_def)
  from harden_token [OF c(2) this] have "fs' path = Some ?i" by simp
  moreover have "reads_as io ?i token" using token_hex_text [of r] c(1) by (simp add: reads_as_def)
  ultimately show ?thesis using token_hex_text [of r] c(1) by (intro exI [of _ ?i] exI [of _ token]) simp
qed

text \<open>The state after a successful run that nobody disturbed: the token file and its directory.\<close>

lemma load_result:
  assumes "load_or_create io euid path fs = (Inr token, fs')" "euid \<noteq> 0"
    and "map_option length (ti_random io) \<in> {None, Some 32}" "undisturbed io"
    and "\<And>i. fs' path = Some i \<Longrightarrow> in_node i \<noteq> Special"
  shows "\<exists>bs. fs' path = Some (token_file euid (6 * 64) bs) \<and>
      string_from_utf8 bs = Some (string_of_bytes bs) \<and> token = trim (string_of_bytes bs) \<and>
      token \<noteq> [] \<and> (\<forall>d \<in> set_option (path_parent path). dir_hardened euid path d fs')"
proof -
  have q: "ti_gap io k fs = fs" for k fs using assms(4) by (simp add: undisturbed_def)
  then have "leaves_alone path io" by (simp add: leaves_alone_def)
  from load_left_alone [OF assms(1) this] obtain i s where i: "fs' path = Some i" "in_uid i = euid" "in_mode i = 6 * 64"
    "reads_as io i s" "token = trim s" using assms(2) by blast
  then obtain bs where bs: "in_node i = RegularFile bs" "string_from_utf8 bs = Some s"
    using assms(5) by (cases "in_node i") (auto simp: reads_as_def)
  have "s = string_of_bytes bs" using bs(2) by (simp add: string_from_utf8_def split: if_splits)
  moreover have "i = token_file euid (6 * 64) bs" using i bs by (simp add: token_file_def)
  moreover have "dir_hardened euid path d fs'" if "path_parent path = Some d" for d
  proof (cases "fs path")
    case (Some i0)
    then obtain j t fs2 where f: "ti_race io fs path = Some j" "reads_as io j t"
      "(case path_parent path of Some d \<Rightarrow> harden_dir_perms io euid d (ti_gap io 0 (ti_race io fs))
        | None \<Rightarrow> (Inr (), ti_race io fs)) = (Inr (), fs2)"
      "harden_perms io euid path (ti_gap io 1 fs2) = (Inr (), fs')"
      by (rule load_adopts [OF assms(1)])
    have dir: "harden_dir_perms io euid d (ti_race io fs) = (Inr (), fs2)" using f(3) that q by simp
    obtain m where m: "fs2 path = Some (j\<lparr>in_mode := m\<rparr>)" using harden_dir_file [OF dir f(1)] by blast
    have n: "\<forall>l. in_node (j\<lparr>in_mode := m\<rparr>) \<noteq> Link l" using reads_as_node [OF f(2)] by simp
    have "fs' = fs2(path \<mapsto> j\<lparr>in_mode := 6 * 64\<rparr>)"
      using harden_token [where fs = fs2, OF _ m n] f(4) q by simp
    then show ?thesis using dir_hardened_chmod [OF harden_dir_hardened [OF dir] m n, of "6 * 64"] by simp
  next
    case None
    then obtain r fs1 where c: "ti_gap io 2 fs1 path = None"
      "(case path_parent path of Some d \<Rightarrow> \<exists>fs0. create_dir_all io euid d (ti_gap io 0 fs) = (Inr (), fs0) \<and>
          harden_dir_perms io euid d (ti_gap io 1 fs0) = (Inr (), fs1) | None \<Rightarrow> fs1 = fs)"
      "harden_perms io euid path (ti_gap io 3 ((ti_gap io 2 fs1)(path \<mapsto>
         token_file euid (6 * 64) (bytes_of_string token)))) = (Inr (), fs')"
      by (rule load_creates [OF assms(1)])
    let ?fs2 = "fs1(path \<mapsto> token_file euid (6 * 64) (bytes_of_string token))"
    have "fs' = ?fs2"
      using harden_token [where fs = ?fs2 and i = "token_file euid (6 * 64) (bytes_of_string token)", of io euid path "()" fs'] c(3) q
      by simp
    moreover have "dir_hardened euid path d fs1" using c(2) that harden_dir_hardened by auto
    ultimately show ?thesis using dir_hardened_new c(1) q by simp
  qed
  moreover have "token \<noteq> []" using load_source [OF assms(1,3)] by blast
  ultimately show ?thesis using i(1,5) bs(2) by (intro exI [of _ bs]) simp
qed

text \<open>Hardening again what was hardened.\<close>

lemma harden_token_again:
  assumes "fs path = Some (token_file euid m bs)" "ti_harden io = None"
  shows "harden_perms io euid path fs = (Inr (), fs(path \<mapsto> token_file euid (6 * 64) bs))"
  using follow_self [where fs = fs and n = 40, OF assms(1)] assms(2)
  by (simp add: harden_perms_def chmod_path_def io_fault_def)

lemma harden_parent_again:
  assumes tok: "fs path = Some (token_file euid (6 * 64) bs)"
    and dir: "\<forall>d \<in> set_option (path_parent path). dir_hardened euid path d fs"
    and io: "ti_harden_dir io = None"
  shows "\<exists>fs1 m. (case path_parent path of Some d \<Rightarrow> harden_dir_perms io euid d fs | None \<Rightarrow> (Inr (), fs)) =
      (Inr (), fs1) \<and> fs1(path \<mapsto> token_file euid (6 * 64) bs) = fs \<and>
      fs1 path = Some (token_file euid m bs)"
proof (cases "path_parent path = None \<or> path_parent path = Some []")
  case True
  have "fs(path \<mapsto> token_file euid (6 * 64) bs) = fs" using tok by (simp add: fun_upd_idem)
  then show ?thesis using True tok by (auto simp: harden_dir_perms_def)
next
  case False
  then obtain d where d: "path_parent path = Some d" "d \<noteq> []" by auto
  then obtain q i where q: "follow 40 fs d = Some (q, i)" "euid = 0 \<or> in_uid i = euid"
      "q = path \<or> in_mode i = 7 * 64"
    using dir by (auto simp: dir_hardened_def)
  have fq: "fs q = Some i" using follow_node [OF q(1)] by simp
  have run: "harden_dir_perms io euid d fs = (Inr (), fs(q \<mapsto> i\<lparr>in_mode := 7 * 64\<rparr>))"
    using q(1,2) d(2) io by (auto simp: harden_dir_perms_def chmod_path_def io_fault_def)
  show ?thesis
  proof (cases "q = path")
    case True
    then have "i = token_file euid (6 * 64) bs" using fq tok by simp
    then show ?thesis using True d(1) run tok by (auto simp: fun_upd_idem)
  next
    case False
    then have "i\<lparr>in_mode := 7 * 64\<rparr> = i" using q(3) by simp
    then have "fs(q \<mapsto> i\<lparr>in_mode := 7 * 64\<rparr>) = fs" using fq by (simp add: fun_upd_idem)
    then show ?thesis using d(1) run tok by (auto simp: fun_upd_idem)
  qed
qed

text \<open>A start whose write of the new token fails.\<close>

lemma token_hex_take:
  "trim (take n (token_hex bs)) = take n (token_hex bs)"
  "string_from_utf8 (bytes_of_string (take n (token_hex bs))) = Some (take n (token_hex bs))"
proof -
  have c: "\<forall>c \<in> set (take n (token_hex bs)). 47 < (of_char c :: nat) \<and> (of_char c :: nat) < 103"
    using token_hex_chars hex_char_ascii in_set_takeD [of _ n "token_hex bs"] by blast
  then show "trim (take n (token_hex bs)) = take n (token_hex bs)" by (rule trim_hex)
  have "\<forall>b \<in> set (bytes_of_string (take n (token_hex bs))). b < 0x80"
    using c by (auto simp: bytes_of_string_def word_less_nat_alt unat_of_nat_small)
  then show "string_from_utf8 (bytes_of_string (take n (token_hex bs))) = Some (take n (token_hex bs))"
    by (simp add: string_from_utf8_def utf8_ascii)
qed

lemma create_dir_new: "create_dir_all io euid d fs = (r, fs') \<Longrightarrow> fs p = None \<Longrightarrow> p \<noteq> d \<Longrightarrow> fs' p = None"
  by (auto simp: create_dir_all_def io_fault_def split: option.splits if_splits)

lemma harden_dir_new: "harden_dir_perms io euid d fs = (r, fs') \<Longrightarrow> fs p = None \<Longrightarrow> fs' p = None"
  using follow_node [of 40 fs d]
  by (auto simp: harden_dir_perms_def chmod_path_def io_fault_def split: option.splits if_splits)

lemma load_torn:
  assumes "load_or_create io euid path fs = (Inl (TkOther e), fs')" "fs path = None" "fs' path \<noteq> None"
    and "ti_random io = Some r" "ti_write io = Some (n, e)" "path_parent path \<noteq> Some path" "undisturbed io"
  shows "fs' path = Some (token_file euid (6 * 64) (bytes_of_string (take n (token_hex r)))) \<and>
      (\<forall>d \<in> set_option (path_parent path). dir_hardened euid path d fs')"
proof -
  let ?dirs = "case path_parent path of
      Some d \<Rightarrow> tbind (create_dir_all io euid d fs) (\<lambda>_ fs. harden_dir_perms io euid d fs)
    | None \<Rightarrow> (Inr (), fs)"
  obtain x fs1 where d: "?dirs = (x, fs1)" by fastforce
  have none: "fs1 path = None"
  proof (cases "path_parent path")
    case (Some p)
    obtain y fs0 where c: "create_dir_all io euid p fs = (y, fs0)" by fastforce
    then have "fs0 path = None" using create_dir_new assms(2,6) Some by blast
    then show ?thesis using d Some c harden_dir_new by (auto simp: tbind_def split: sum.splits)
  qed (use d assms(2) in simp)
  have hard: "\<forall>p \<in> set_option (path_parent path). dir_hardened euid path p fs1" if "x = Inr u" for u
    using d that by (auto simp: tbind_Inr dest: harden_dir_hardened split: option.splits)
  have run: "load_or_create io euid path fs = tbind (x, fs1) (\<lambda>_ fs.
      tbind (create_new_token_file io euid path (token_hex r) fs) (\<lambda>_ fs.
      tbind (harden_perms io euid path fs) (\<lambda>_ fs. (Inr (token_hex r), fs))))" if "ti_lstat io = None"
    using that assms(2,4) d
    by (simp add: read_existing_token_def io_fault_def tbind_def generate_token_def load_undisturbed [OF assms(7)])
  have "ti_lstat io = None"
    using assms(1-3) by (auto simp: load_or_create_def read_existing_token_def io_fault_def tbind_def split: option.splits)
  note run = run [OF this]
  obtain u where x: "x = Inr u" using run assms(1,3) none by (cases x) (auto simp: tbind_def)
  have "ti_create io = None" using run x assms(1,3) none
    by (auto simp: tbind_def create_new_token_file_def io_fault_def split: option.splits)
  then have "fs' = fs1(path \<mapsto> token_file euid (6 * 64) (take n (bytes_of_string (token_hex r))))"
    using run x assms(1,5) none
    by (simp add: tbind_def create_new_token_file_def io_fault_def token_file_def)
  moreover have "take n (bytes_of_string (token_hex r)) = bytes_of_string (take n (token_hex r))"
    by (simp add: bytes_of_string_def take_map)
  ultimately show ?thesis using hard [OF x] dir_hardened_new none by auto
qed

section \<open>Properties\<close>

text \<open>C18: Where the token of a daemon that is not root comes from, and who can read it, whatever was at the
  path, whatever faults occur and whatever other processes do in every gap between the calls. After a
  successful start the token is not empty; it is a fresh random one if there was no entry, and otherwise
  the trimmed text of the entry that was there at the \<open>open\<close>, the entry of the check before being no link
  and the daemon's own; and the path leads to a file of the daemon with mode 0600. If the entry of the
  path is left alone from the \<open>open\<close> on, as in a directory that others cannot write, then the path itself
  is that file (no link), and the token is its trimmed text, or what it yielded if it is a FIFO or a
  device, which the code does not refuse.\<close>

theorem token_file_owned:
  assumes "load_or_create io euid path fs = (Inr token, fs')" "euid \<noteq> 0"
    and "map_option length (ti_random io) \<in> {None, Some 32}"
  shows "token \<noteq> [] \<and>
    (case fs path of
       None \<Rightarrow> \<exists>r. ti_random io = Some r \<and> token = token_hex r
     | Some i0 \<Rightarrow> in_uid i0 = euid \<and> (\<forall>l. in_node i0 \<noteq> Link l) \<and>
         (\<exists>i s. ti_race io fs path = Some i \<and> reads_as io i s \<and> token = trim s)) \<and>
    (\<exists>q i. follow 40 fs' path = Some (q, i) \<and> in_uid i = euid \<and> in_mode i = 6 * 64) \<and>
    (leaves_alone path io \<longrightarrow>
       (\<exists>i s. fs' path = Some i \<and> in_uid i = euid \<and> in_mode i = 6 * 64 \<and> reads_as io i s \<and> token = trim s))"
  using load_source [OF assms(1,3)] load_left_alone [OF assms(1)] assms(2) by blast

text \<open>C34: The token is stable across restarts: after a successful start of a daemon that is not root, which
  nobody disturbed after its \<open>open\<close> (before it others may have acted) and whose token file is not a FIFO
  or a device, another start that meets no fault and no interference gives the same token and changes
  nothing on disk, permissions included; and the surface then accepts exactly that token.\<close>

theorem token_survives_restart:
  assumes "load_or_create io euid path fs = (Inr token, fs')" "euid \<noteq> 0"
    and "map_option length (ti_random io) \<in> {None, Some 32}"
    and "undisturbed io" "\<And>i. fs' path = Some i \<Longrightarrow> in_node i \<noteq> Special"
    and "ti_lstat io' = None" "ti_race io' fs' = fs'" "ti_open io' = None" "ti_harden_dir io' = None"
      "ti_harden io' = None" "undisturbed io'"
  shows "load_or_create io' euid path fs' = (Inr token, fs') \<and>
    verify_token (projr (fst (load_or_create io' euid path fs'))) presented = (presented = token)"
proof -
  obtain bs where b: "fs' path = Some (token_file euid (6 * 64) bs)"
      "string_from_utf8 bs = Some (string_of_bytes bs)" "token = trim (string_of_bytes bs)" "token \<noteq> []"
    and d: "\<forall>d \<in> set_option (path_parent path). dir_hardened euid path d fs'"
    using load_result [OF assms(1-5)] by auto
  have "load_or_create io' euid path fs' = (Inr token, fs')"
  proof -
    have "read_existing_token io' euid path fs' = (Inr (Some (string_of_bytes bs)), fs')"
      using b assms(6-8) by (simp add: read_existing_token_def io_fault_def open_no_follow_def utf8_text_def Let_def)
    moreover obtain fs1 m where f1: "(case path_parent path of Some d \<Rightarrow> harden_dir_perms io' euid d fs'
        | None \<Rightarrow> (Inr (), fs')) = (Inr (), fs1)"
      and e: "fs1(path \<mapsto> token_file euid (6 * 64) bs) = fs'" "fs1 path = Some (token_file euid m bs)"
      using harden_parent_again [where io = io' and path = path, OF b(1) d assms(9)] by blast
    moreover have "harden_perms io' euid path fs1 = (Inr (), fs')"
      using harden_token_again [where fs = fs1 and path = path, OF e(2) assms(10)] e(1) by simp
    ultimately show ?thesis using b by (simp add: load_undisturbed [OF assms(11)] tbind_def)
  qed
  then show ?thesis by (simp add: verify_token_iff)
qed

text \<open>C35: A token file whose writing failed part-way is taken for a token: a start that finds no file and
  whose write stops after \<open>n\<close> characters fails, but leaves those characters behind, and the next
  start, without any fault, comes up with them as its bearer token, however few they are. Nobody else
  touches the files in either start.\<close>

theorem torn_token_adopted:
  assumes "load_or_create io euid path fs = (Inl (TkOther e), fs')" "fs path = None" "fs' path \<noteq> None"
    and "ti_random io = Some r" "ti_write io = Some (n, e)" "0 < n" "length r = 32" "path_parent path \<noteq> Some path"
    and "ti_lstat io' = None" "ti_race io' fs' = fs'" "ti_open io' = None" "ti_harden_dir io' = None"
      "ti_harden io' = None" "undisturbed io" "undisturbed io'"
  shows "fst (load_or_create io' euid path fs') = Inr (take n (token_hex r))"
proof -
  have t: "fs' path = Some (token_file euid (6 * 64) (bytes_of_string (take n (token_hex r)))) \<and>
      (\<forall>d \<in> set_option (path_parent path). dir_hardened euid path d fs')"
    by (rule load_torn [OF assms(1-5,8,14)])
  let ?s = "take n (token_hex r)"
  have s: "string_from_utf8 (bytes_of_string ?s) = Some ?s" "trim ?s = ?s"
    using token_hex_take by auto
  have "?s \<noteq> []" using assms(6,7) length_token_hex [of r] by auto
  moreover have "read_existing_token io' euid path fs' = (Inr (Some ?s), fs')"
    using t s assms(9-11) by (simp add: read_existing_token_def io_fault_def open_no_follow_def utf8_text_def Let_def)
  moreover obtain fs1 m where f1: "(case path_parent path of Some d \<Rightarrow> harden_dir_perms io' euid d fs'
      | None \<Rightarrow> (Inr (), fs')) = (Inr (), fs1)" and e: "fs1 path = Some (token_file euid m (bytes_of_string ?s))"
    using harden_parent_again [where io = io' and path = path, OF _ _ assms(12)] t by blast
  moreover have "\<exists>fs2. harden_perms io' euid path fs1 = (Inr (), fs2)"
    using harden_token_again [where fs = fs1 and path = path, OF e assms(13)] by simp
  ultimately show ?thesis using s by (auto simp: load_undisturbed [OF assms(15)] tbind_def)
qed

text \<open>A first start with no file, and the start after it.\<close>

definition sample_token_io :: token_io where
  "sample_token_io = \<lparr>ti_lstat = None, ti_race = (\<lambda>fs. fs), ti_open = None,
     ti_stream = Inl ''broken pipe'', ti_gap = (\<lambda>_ fs. fs),
     ti_random = Some (replicate 32 171), ti_mkdir = None, ti_dir_mode = 448, ti_harden_dir = None,
     ti_create = None, ti_write = None, ti_harden = None\<rparr>"

lemma sample_token: "token_hex (replicate 32 171) = concat (replicate 32 ''ab'')"
proof -
  have "hex_byte 171 = ''ab''" by (simp add: hex_byte_def digit_char_def drop_bit_eq_div char_of_def bit_0)
  then show ?thesis by (simp add: token_hex_def map_replicate_const)
qed

lemma sample_start:
  "load_or_create sample_token_io 1000 ''t'' (\<lambda>_. None) =
     (Inr (concat (replicate 32 ''ab'')), [''t'' \<mapsto> token_file 1000 (6 * 64)
        (bytes_of_string (concat (replicate 32 ''ab'')))])"
proof -
  let ?t = "concat (replicate 32 ''ab'')"
  have "path_parent ''t'' = Some []"
    by (simp add: path_parent_def trim_end_slashes_def Let_def)
  moreover have "harden_perms sample_token_io 1000 ''t'' [''t'' \<mapsto> token_file 1000 (6 * 64) (bytes_of_string ?t)] =
      (Inr (), [''t'' \<mapsto> token_file 1000 (6 * 64) (bytes_of_string ?t)])"
    using harden_token_again [where fs = "[''t'' \<mapsto> token_file 1000 (6 * 64) (bytes_of_string ?t)]"
        and path = "''t''" and io = sample_token_io and euid = 1000 and m = "6 * 64" and bs = "bytes_of_string ?t"]
    by (simp add: sample_token_io_def)
  ultimately show ?thesis
    by (simp add: load_or_create_def read_existing_token_def io_fault_def tbind_def generate_token_def
        create_dir_all_def harden_dir_perms_def create_new_token_file_def sample_token
        sample_token_io_def token_file_def [symmetric])
qed

lemma sample_token_io_simps:
  "map_option length (ti_random sample_token_io) \<in> {None, Some 32}"
  "ti_lstat sample_token_io = None" "ti_race sample_token_io fs = fs" "ti_open sample_token_io = None"
  "ti_harden_dir sample_token_io = None" "ti_harden sample_token_io = None" "undisturbed sample_token_io"
  by (simp_all add: sample_token_io_def undisturbed_def)

lemma undisturbed_write [simp]: "undisturbed (io\<lparr>ti_write := w\<rparr>) = undisturbed io"
  by (simp add: undisturbed_def)

lemma undisturbed_alone: "undisturbed io \<Longrightarrow> leaves_alone path io"
  by (simp add: undisturbed_def leaves_alone_def)

lemma token_file_owned_witness:
  "\<exists>i s. snd (load_or_create sample_token_io 1000 ''t'' (\<lambda>_. None)) ''t'' = Some i \<and> in_uid i = 1000 \<and>
     in_mode i = 6 * 64 \<and> reads_as sample_token_io i s \<and> concat (replicate 32 ''ab'') = trim s"
proof -
  have "(1000 :: nat) \<noteq> 0" by simp
  note owned = token_file_owned [OF sample_start this sample_token_io_simps(1)]
  have "leaves_alone ''t'' sample_token_io" by (rule undisturbed_alone [OF sample_token_io_simps(7)])
  then show ?thesis unfolding sample_start snd_conv using owned by blast
qed

lemma token_survives_restart_witness:
  "fst (load_or_create sample_token_io 1000 ''t'' (snd (load_or_create sample_token_io 1000 ''t'' (\<lambda>_. None)))) =
     Inr (concat (replicate 32 ''ab''))"
proof -
  note again = token_survives_restart [OF sample_start _ sample_token_io_simps(1,7), of sample_token_io "[]"]
  show ?thesis unfolding sample_start snd_conv
    using again by (simp add: sample_token_io_simps)
qed

text \<open>The disk fills up after the first character: the next token is one character long.\<close>

lemma torn_token_adopted_witness:
  "fst (load_or_create sample_token_io 1000 ''t''
     (snd (load_or_create (sample_token_io\<lparr>ti_write := Some (1, ''disk full'')\<rparr>) 1000 ''t'' (\<lambda>_. None)))) = Inr ''a''"
proof -
  let ?io = "sample_token_io\<lparr>ti_write := Some (1, ''disk full'')\<rparr>"
  have par: "path_parent ''t'' = Some []" by (simp add: path_parent_def trim_end_slashes_def Let_def)
  obtain fs' where run: "load_or_create ?io 1000 ''t'' (\<lambda>_. None) = (Inl (TkOther ''disk full''), fs')" "fs' ''t'' \<noteq> None"
    by (auto simp: load_or_create_def read_existing_token_def io_fault_def tbind_def generate_token_def par
        create_dir_all_def harden_dir_perms_def create_new_token_file_def sample_token_io_def)
  have "fst (load_or_create sample_token_io 1000 ''t'' fs') = Inr (take 1 (token_hex (replicate 32 171)))"
    by (rule torn_token_adopted [OF run(1) _ run(2), where n = 1])
      (simp_all add: par sample_token_io_simps, simp_all add: sample_token_io_def)
  moreover have "take 1 (concat (replicate 32 ''ab'')) = ''a''" by (simp add: numeral_eq_Suc)
  ultimately show ?thesis unfolding run snd_conv sample_token by simp
qed

text \<open>What the check of the owner does not give. A file of somebody else that is at the path only for the
  \<open>open\<close> gives a daemon that is not root its token; and a FIFO of the daemon is taken for a token file.\<close>

lemma swapped_token_adopted:
  "load_or_create (sample_token_io\<lparr>ti_race := (\<lambda>fs. fs(''t'' \<mapsto> token_file 1001 420 (bytes_of_string ''evil''))),
       ti_gap := (\<lambda>k fs. if k = 0 then fs(''t'' \<mapsto> token_file 1000 384 (bytes_of_string ''mine'')) else fs)\<rparr>)
     1000 ''t'' [''t'' \<mapsto> token_file 1000 384 (bytes_of_string ''mine'')] =
   (Inr ''evil'', [''t'' \<mapsto> token_file 1000 384 (bytes_of_string ''mine'')])"
  (is "load_or_create ?io 1000 _ ?fs = _")
proof -
  have par: "path_parent ''t'' = Some []" by (simp add: path_parent_def trim_end_slashes_def Let_def)
  have hard: "harden_perms ?io 1000 ''t'' ?fs = (Inr (), ?fs)"
    using harden_token_again [where fs = ?fs and path = "''t''" and io = ?io and euid = 1000 and m = 384
        and bs = "bytes_of_string ''mine''"] by (simp add: sample_token_io_def)
  have utf: "string_from_utf8 (bytes_of_string ''evil'') = Some ''evil''" "trim ''evil'' = ''evil''"
    by code_simp+
  have "read_existing_token ?io 1000 ''t'' ?fs =
      (Inr (Some ''evil''), [''t'' \<mapsto> token_file 1001 420 (bytes_of_string ''evil'')])"
    using utf(1) by (simp add: read_existing_token_def io_fault_def open_no_follow_def utf8_text_def
        sample_token_io_def Let_def)
  then show ?thesis using hard
    by (simp add: load_or_create_def tbind_def par utf(2) harden_dir_perms_def)
qed

lemma special_file_adopted:
  "fst (load_or_create (sample_token_io\<lparr>ti_stream := Inr (bytes_of_string ''evil'')\<rparr>) 1000 ''t''
     [''t'' \<mapsto> \<lparr>in_node = Special, in_uid = 1000, in_mode = 384\<rparr>]) = Inr ''evil''"
  (is "fst (load_or_create ?io 1000 _ ?fs) = _")
proof -
  have par: "path_parent ''t'' = Some []" by (simp add: path_parent_def trim_end_slashes_def Let_def)
  have utf: "string_from_utf8 (bytes_of_string ''evil'') = Some ''evil''" "trim ''evil'' = ''evil''"
    by code_simp+
  have "read_existing_token ?io 1000 ''t'' ?fs = (Inr (Some ''evil''), ?fs)"
    using utf(1) by (simp add: read_existing_token_def io_fault_def open_no_follow_def utf8_text_def
        rbind_def sample_token_io_def Let_def)
  moreover have "follow 40 ?fs ''t'' = Some (''t'', \<lparr>in_node = Special, in_uid = 1000, in_mode = 384\<rparr>)"
    by (rule follow_self) simp_all
  ultimately show ?thesis
    by (simp add: load_or_create_def tbind_def par utf(2) harden_dir_perms_def harden_perms_def
        chmod_path_def io_fault_def sample_token_io_def)
qed

end
