(* ===== verification/Supervision_Server.thy ===== *)
theory Supervision_Server
  imports Supervision_Auth Supervision_State Net_Addr
begin

text \<open>
  The module \<open>supervision::server\<close> (\<open>crates/supervision/src/server.rs\<close>): the bind address, the token
  gate, the router and its handlers. A response body is the value handed to \<open>Json\<close>. What axum does
  is a parameter: \<open>he_parse_body\<close> is its JSON extractor, \<open>he_decode\<close> the percent decoding of a path
  segment and \<open>he_fallback\<close> its answer where no handler runs. A handler that takes the lock twice lets
  other operations in between: \<open>between\<close>.
\<close>

definition DEFAULT_ADDR :: string where "DEFAULT_ADDR = ''127.0.0.1:19600''"
definition ADDR_ENV :: string where "ADDR_ENV = ''CITRATE_NODE_AGENT_ADDR''"

definition resolve_addr :: "(string \<Rightarrow> string) \<Rightarrow> (string \<Rightarrow> string option) \<Rightarrow> string + socket_addr" where
  "resolve_addr debug env =
     (let raw = (case env ADDR_ENV of Some a \<Rightarrow> a | None \<Rightarrow> DEFAULT_ADDR)
      in rbind (ok_or (''invalid '' @ ADDR_ENV @ ''='' @ debug raw @ '': invalid socket address syntax'')
           (parse_socket_addr raw)) (\<lambda>addr.
         if \<not> socket_is_loopback addr
         then Inl (ADDR_ENV @ ''='' @ debug raw @
           '' is not a loopback address; the supervision surface is localhost-only'')
         else Inr addr))"

text \<open>\<open>serve\<close>: what binding the address gives, then the error the server ends with.\<close>

definition serve ::
    "(socket_addr \<Rightarrow> string) \<Rightarrow> (socket_addr \<Rightarrow> string + unit) \<Rightarrow> (string + unit) \<Rightarrow> socket_addr \<Rightarrow>
       (string + unit) \<times> socket_addr list" where
  "serve show_addr bind run addr =
     (if \<not> socket_is_loopback addr
      then (Inl (''refusing to bind supervision server to non-loopback '' @ show_addr addr), [])
      else case bind addr of
        Inl e \<Rightarrow> (Inl (''binding supervision server to '' @ show_addr addr @ '': '' @ e), [])
      | Inr _ \<Rightarrow> (map_err (\<lambda>e. ''supervision server error: '' @ e) run, [addr]))"

section \<open>Requests and responses\<close>

datatype http_method = GET | HEAD | POST | OtherMethod string

record http_request =
  rq_method :: http_method
  rq_path :: string
  rq_authorization :: "string option"
  rq_body :: string

datatype json_body = JHealth health | JText string | JRequests "pending_request list" | NoBody

record http_answer =
  ha_status :: nat
  ha_body :: json_body

record http_env =
  he_parse_body :: "http_request \<Rightarrow> http_answer + string"
  he_decode :: "string \<Rightarrow> string option"
  he_bad_id :: http_answer
  he_fallback :: "http_request \<Rightarrow> http_answer"

datatype http_route =
  RHealth | RHealthDetail | RStatus | RPause | RResume | RSignatureRequests | RObserved string

text \<open>The route of a path, with the segment \<open>:id\<close>.\<close>

definition observed_id :: "string \<Rightarrow> string option" where
  "observed_id path =
     (case split_on (CHR ''/'') path of
        [e, a, i, b] \<Rightarrow> if e = [] \<and> a = ''signature-requests'' \<and> i \<noteq> [] \<and> b = ''observed'' then Some i else None
      | _ \<Rightarrow> None)"

definition route_of :: "string \<Rightarrow> http_route option" where
  "route_of path =
     (if path = ''/health'' then Some RHealth
      else if path = ''/health/detail'' then Some RHealthDetail
      else if path = ''/status'' then Some RStatus
      else if path = ''/pause'' then Some RPause
      else if path = ''/resume'' then Some RResume
      else if path = ''/signature-requests'' then Some RSignatureRequests
      else map_option RObserved (observed_id path))"

section \<open>The token gate\<close>

definition visible_ascii :: "char \<Rightarrow> bool" where
  "visible_ascii c \<longleftrightarrow> (32 \<le> (of_char c :: nat) \<and> (of_char c :: nat) < 127) \<or> of_char c = (9 :: nat)"

definition presented_token :: "http_request \<Rightarrow> string option" where
  "presented_token req =
     Option.bind (rq_authorization req) (\<lambda>v.
     Option.bind (if list_all visible_ascii v then Some v else None) (strip_prefix ''Bearer ''))"

definition require_token ::
    "string \<Rightarrow> http_request \<Rightarrow> (agent_state \<Rightarrow> http_answer \<times> agent_state) \<Rightarrow> agent_state \<Rightarrow> http_answer \<times> agent_state" where
  "require_token auth req run s =
     (case presented_token req of
        Some tok \<Rightarrow> if verify_token auth tok then run s
          else (\<lparr>ha_status = 401, ha_body = JText ''missing or invalid supervision token''\<rparr>, s)
      | None \<Rightarrow> (\<lparr>ha_status = 401, ha_body = JText ''missing or invalid supervision token''\<rparr>, s))"

section \<open>Handlers\<close>

definition ok_json :: "json_body \<Rightarrow> http_answer" where
  "ok_json b = \<lparr>ha_status = 200, ha_body = b\<rparr>"

definition REDACTED_LAST_ERROR :: string where
  "REDACTED_LAST_ERROR = ''error recorded; details on authenticated GET /health/detail''"

definition health_handler :: "u64 \<Rightarrow> agent_state \<Rightarrow> http_answer \<times> agent_state" where
  "health_handler now s =
     (let snapshot = health_at now s;
          snapshot = (if h_last_error snapshot \<noteq> None
            then snapshot\<lparr>h_last_error := Some REDACTED_LAST_ERROR\<rparr> else snapshot)
      in (ok_json (JHealth snapshot), s))"

definition health_detail :: "u64 \<Rightarrow> agent_state \<Rightarrow> http_answer \<times> agent_state" where
  "health_detail now s = (ok_json (JHealth (health_at now s)), s)"

definition status_handler :: "agent_state \<Rightarrow> http_answer \<times> agent_state" where
  "status_handler s = (ok_json (JText (lifecycle_state_str (lifecycle s))), s)"

definition pause_handler :: "agent_op list \<Rightarrow> agent_state \<Rightarrow> http_answer \<times> agent_state" where
  "pause_handler between s =
     (let s = agent_run between (pause s) in (ok_json (JText (lifecycle_state_str (lifecycle s))), s))"

definition resume_handler :: "agent_op list \<Rightarrow> agent_state \<Rightarrow> http_answer \<times> agent_state" where
  "resume_handler between s =
     (let s = agent_run between (resume s) in (ok_json (JText (lifecycle_state_str (lifecycle s))), s))"

definition list_signature_requests :: "agent_state \<Rightarrow> http_answer \<times> agent_state" where
  "list_signature_requests s = (ok_json (JRequests (pending_requests s)), s)"

definition observe_signature_request :: "u64 \<Rightarrow> u64 \<Rightarrow> string \<Rightarrow> agent_state \<Rightarrow> http_answer \<times> agent_state" where
  "observe_signature_request now i tx s =
     (case mark_request_observed i tx now s of
        (True, s) \<Rightarrow> (ok_json (JText ''observed''), s)
      | (False, s) \<Rightarrow> (\<lparr>ha_status = 404, ha_body = JText ''unknown request id''\<rparr>, s))"

definition no_body :: "http_answer \<times> agent_state \<Rightarrow> http_answer \<times> agent_state" where
  "no_body r = (case r of (a, s) \<Rightarrow> (a\<lparr>ha_body := NoBody\<rparr>, s))"

text \<open>The extractors of \<open>POST /signature-requests/:id/observed\<close>: the id first, then the body.\<close>

definition observe_route ::
    "http_env \<Rightarrow> u64 \<Rightarrow> http_request \<Rightarrow> string \<Rightarrow> agent_state \<Rightarrow> http_answer \<times> agent_state" where
  "observe_route E now req seg s =
     (case Option.bind (he_decode E seg) (parse_uint 10 (2 ^ 64)) of
        None \<Rightarrow> (he_bad_id E, s)
      | Some i \<Rightarrow> (case he_parse_body E req of
          Inl rejection \<Rightarrow> (rejection, s)
        | Inr tx \<Rightarrow> observe_signature_request now (of_nat i) tx s))"

definition read_route :: "http_env \<Rightarrow> http_request \<Rightarrow> (agent_state \<Rightarrow> http_answer \<times> agent_state) \<Rightarrow>
    agent_state \<Rightarrow> http_answer \<times> agent_state" where
  "read_route E req h s =
     (if rq_method req = GET then h s else if rq_method req = HEAD then no_body (h s)
      else (he_fallback E req, s))"

definition post_route :: "http_env \<Rightarrow> http_request \<Rightarrow> (agent_state \<Rightarrow> http_answer \<times> agent_state) \<Rightarrow>
    agent_state \<Rightarrow> http_answer \<times> agent_state" where
  "post_route E req h s = (if rq_method req = POST then h s else (he_fallback E req, s))"

definition router ::
    "http_env \<Rightarrow> string \<Rightarrow> u64 \<Rightarrow> agent_op list \<Rightarrow> http_request \<Rightarrow> agent_state \<Rightarrow> http_answer \<times> agent_state" where
  "router E auth now between req s =
     (case route_of (rq_path req) of
        None \<Rightarrow> (he_fallback E req, s)
      | Some RHealth \<Rightarrow> read_route E req (health_handler now) s
      | Some RHealthDetail \<Rightarrow> require_token auth req (read_route E req (health_detail now)) s
      | Some RStatus \<Rightarrow> require_token auth req (read_route E req status_handler) s
      | Some RSignatureRequests \<Rightarrow> require_token auth req (read_route E req list_signature_requests) s
      | Some RPause \<Rightarrow> require_token auth req (post_route E req (pause_handler between)) s
      | Some RResume \<Rightarrow> require_token auth req (post_route E req (resume_handler between)) s
      | Some (RObserved seg) \<Rightarrow> require_token auth req (post_route E req (observe_route E now req seg)) s)"

section \<open>Requests as operations\<close>

definition authorized :: "string \<Rightarrow> http_request \<Rightarrow> bool" where
  "authorized auth req \<longleftrightarrow> rq_authorization req = Some (''Bearer '' @ auth) \<and> list_all visible_ascii auth"

text \<open>The operation a request amounts to, from its text alone.\<close>

definition request_op :: "http_env \<Rightarrow> string \<Rightarrow> u64 \<Rightarrow> http_request \<Rightarrow> agent_op list" where
  "request_op E auth now req =
     (if \<not> authorized auth req \<or> rq_method req \<noteq> POST then []
      else case route_of (rq_path req) of
        Some RPause \<Rightarrow> [OpPause]
      | Some RResume \<Rightarrow> [OpResume]
      | Some (RObserved seg) \<Rightarrow>
          (case (Option.bind (he_decode E seg) (parse_uint 10 (2 ^ 64)), he_parse_body E req) of
             (Some i, Inr tx) \<Rightarrow> [OpObserved (of_nat i) tx now]
           | _ \<Rightarrow> [])
      | _ \<Rightarrow> [])"

lemma bearer_visible: "list_all visible_ascii (''Bearer '' @ t) \<longleftrightarrow> list_all visible_ascii t"
  by (simp add: visible_ascii_def)

lemma presented_token_Some: "presented_token req = Some t \<longleftrightarrow>
    rq_authorization req = Some (''Bearer '' @ t) \<and> list_all visible_ascii t"
  unfolding presented_token_def bind_eq_Some_conv
  using bearer_visible [of t] by (auto split: if_splits)

lemma require_token_eq: "require_token auth req run s =
    (if authorized auth req then run s
     else (\<lparr>ha_status = 401, ha_body = JText ''missing or invalid supervision token''\<rparr>, s))"
  using presented_token_Some [of req]
  by (auto simp: require_token_def authorized_def verify_token_iff split: option.splits)

text \<open>What \<open>/health\<close> shows to anyone: all but the text of the last error.\<close>

definition public_view :: "u64 \<Rightarrow> agent_state \<Rightarrow> health \<times> bool" where
  "public_view now s = ((health_at now s)\<lparr>h_last_error := None\<rparr>, last_error s \<noteq> None)"

lemma health_handler_view:
  "fst (health_handler now s) = ok_json (JHealth ((fst (public_view now s))
     \<lparr>h_last_error := if snd (public_view now s) then Some REDACTED_LAST_ERROR else None\<rparr>))"
  by (cases "last_error s") (simp_all add: health_handler_def public_view_def health_at_def)

lemma health_handler_public:
  "public_view now s = public_view now t \<Longrightarrow> fst (health_handler now s) = fst (health_handler now t)"
  by (simp add: health_handler_view)

lemma no_body_simps [simp]: "snd (no_body r) = snd r" "fst (no_body r) = (fst r)\<lparr>ha_body := NoBody\<rparr>"
  by (simp_all add: no_body_def split: prod.splits)

lemma observe_handler_op:
  "snd (observe_signature_request now i tx s) = agent_step (OpObserved i tx now) s"
  by (simp add: observe_signature_request_def split: prod.splits bool.splits)

text \<open>The bound socket.\<close>

lemma serve_loopback: "a \<in> set (snd (serve show_addr bind run addr)) \<Longrightarrow> a = addr \<and> socket_is_loopback a"
  by (auto simp: serve_def split: sum.splits if_splits)

lemma resolve_addr_loopback: "resolve_addr debug env = Inr a \<Longrightarrow> socket_is_loopback a"
  by (auto simp: resolve_addr_def Let_def split: if_splits)

section \<open>Properties\<close>

text \<open>C13: A request without the token has no effect and learns nothing: whatever its path, method and
  body, and whatever axum answers on unknown routes, the state is unchanged, and two states that
  differ only in what is protected (the signing queue with its calldata, the text of the last error,
  the values of earlier observations) give the same answer.\<close>

theorem unauthorized_request_inert:
  assumes "\<not> authorized auth req" "public_view now s = public_view now t"
  shows "snd (router E auth now between req s) = s \<and>
    fst (router E auth now between req s) = fst (router E auth now between req t)"
  using assms(1) health_handler_public [OF assms(2)]
  by (auto simp: router_def require_token_eq read_route_def health_handler_def Let_def
      split: option.splits http_route.splits)

definition sample_http :: http_env where
  "sample_http = \<lparr>he_parse_body = (\<lambda>_. Inr ''0xab''), he_decode = Some,
     he_bad_id = \<lparr>ha_status = 400, ha_body = NoBody\<rparr>,
     he_fallback = (\<lambda>_. \<lparr>ha_status = 404, ha_body = NoBody\<rparr>)\<rparr>"

lemma unauthorized_request_inert_witness:
  "snd (router sample_http ''t'' 5 []
     \<lparr>rq_method = POST, rq_path = ''/pause'', rq_authorization = Some ''Bearer x'', rq_body = []\<rparr> agent_new) =
   agent_new"
  using unauthorized_request_inert [of "''t''"
      "\<lparr>rq_method = POST, rq_path = ''/pause'', rq_authorization = Some ''Bearer x'', rq_body = []\<rparr>"
      5 agent_new agent_new sample_http "[]"]
  by (simp add: authorized_def)

text \<open>C23: The handlers refine the queue's operations: a request changes the state by exactly the one
  operation its text stands for (pause, resume, observed with this id and hash) or not at all, with
  what other holders of the lock do in between a write and the answer's read; no request can enqueue
  a write.\<close>

theorem request_refines_operation:
  "snd (router E auth now between req s) =
     agent_run (request_op E auth now req @
       (if request_op E auth now req \<in> {[OpPause], [OpResume]} then between else [])) s"
  by (auto simp: router_def require_token_eq request_op_def read_route_def post_route_def
      health_handler_def health_detail_def status_handler_def list_signature_requests_def
      pause_handler_def resume_handler_def observe_route_def observe_handler_op agent_run_def Let_def
      split: option.splits http_route.splits sum.splits)

end
