(* ===== verification/System.thy ===== *)
theory System
  imports Live Supervision_Server
begin

text \<open>
  The daemon put together, as \<open>run_daemon\<close> and \<open>build_job_executor\<close> of
  \<open>crates/node-agent/src/main.rs\<close> wire it: the loop over the live market view and the operator's
  settings file, the relay senders, the job executor and the earnings poller on one shared state, and
  the supervision server, whose requests run in the gaps of the loop. A \<open>outside\<close> record is what one
  round meets; requests that arrive while the loop sleeps are those of the next round's first gap.
\<close>

record wiring =
  dw_marketplace :: address
  dw_monitor :: address
  dw_accounting :: address
  dw_chain_id :: u64
  dw_claim_threshold_wei :: u128

definition claim_threshold_wei :: "(string \<Rightarrow> string option) \<Rightarrow> u128" where
  "claim_threshold_wei env =
     (case Option.bind (env ''CITRATE_CLAIM_THRESHOLD_WEI'') (parse_uint 10 (2 ^ 128)) of
        Some n \<Rightarrow> of_nat n | None \<Rightarrow> 1000000000000000000)"

definition wired_sender :: "wiring \<Rightarrow> agent_state heartbeat_sender" where
  "wired_sender D = relay_send_heartbeat \<lparr>rh_monitor = dw_monitor D, rh_chain_id = dw_chain_id D\<rparr>"

definition wired_placer :: "(bytes \<Rightarrow> bytes) \<Rightarrow> wiring \<Rightarrow> bid_placer" where
  "wired_placer kec D req =
     relay_place kec \<lparr>rb_marketplace = dw_marketplace D, rb_chain_id = dw_chain_id D\<rparr> (br_job_id req)
       (br_price_wei req) (br_latency_ms req) (br_expires_block req)"

definition wired_earnings :: "wiring \<Rightarrow> earnings_config" where
  "wired_earnings D = \<lparr>ec_threshold_wei = dw_claim_threshold_wei D, ec_accounting = dw_accounting D,
     ec_chain_id = dw_chain_id D\<rparr>"

definition wired_executor :: "wiring \<Rightarrow> job_executor \<Rightarrow> job_executor" where
  "wired_executor D x = x\<lparr>je_marketplace := dw_marketplace D, je_chain_id := dw_chain_id D\<rparr>"

section \<open>The executors on the shared state\<close>

text \<open>The handlers run before the relay takes the lock: \<open>ops\<close>.\<close>

definition gap_signer :: "agent_op list \<Rightarrow> signer" where
  "gap_signer ops req s = relay_signer req (agent_run ops s)"

type_synonym workers = "exec_state \<times> earnings_state"

definition job_worker ::
    "exec_env \<Rightarrow> wiring \<Rightarrow> job_executor \<Rightarrow> tick_world \<Rightarrow> agent_op list \<Rightarrow>
       agent_state \<times> workers \<Rightarrow> agent_state \<times> workers" where
  "job_worker ev D x w ops r =
     (case r of (a, xs, es) \<Rightarrow>
        let xs = job_tick ev (wired_executor D x) (w\<lparr>tw_signer := gap_signer ops\<rparr>) (xs\<lparr>xs_agent := a\<rparr>)
        in (xs_agent xs, xs, es))"

definition earnings_worker ::
    "exec_env \<Rightarrow> wiring \<Rightarrow> (string + u128) \<Rightarrow> agent_op list \<Rightarrow>
       agent_state \<times> workers \<Rightarrow> agent_state \<times> workers" where
  "earnings_worker ev D claimable ops r =
     (case r of (a, xs, es) \<Rightarrow>
        let es = earnings_tick (ev_kec ev) (wired_earnings D) claimable (gap_signer ops) (es\<lparr>es_agent := a\<rparr>)
        in (es_agent es, xs, es))"

section \<open>The daemon\<close>

text \<open>The market view and the job executor share one profiler: the view reads the one that the executor
  records its runs in.\<close>

type_synonym requests = "(u64 \<times> http_request) list"

record 'h outside =
  ow_chain :: "'h live_chain"
  ow_settings_file :: "string + string"
  ow_now :: u64
  ow_gap :: "nat \<Rightarrow> requests"
  ow_after_tick :: requests
  ow_job :: tick_world
  ow_in_job :: requests
  ow_claimable :: "string + u128"
  ow_in_earnings :: requests
  ow_in_beat :: requests

record 'p daemon =
  dm_env :: exec_env
  dm_wiring :: wiring
  dm_view :: live_market_view
  dm_executor :: "job_executor option"
  dm_parse :: "string \<Rightarrow> 'p + compute_settings"
  dm_show_parse :: "'p \<Rightarrow> string"
  dm_config_path :: string
  dm_http :: http_env
  dm_auth :: string

definition request_ops :: "'p daemon \<Rightarrow> requests \<Rightarrow> agent_op list" where
  "request_ops M reqs = concat (map (\<lambda>(now, req). request_op (dm_http M) (dm_auth M) now req) reqs)"

definition daemon_workers ::
    "'p daemon \<Rightarrow> 'h outside \<Rightarrow> agent_state \<times> workers \<Rightarrow> agent_state \<times> workers" where
  "daemon_workers M w =
     (let poll = earnings_worker (dm_env M) (dm_wiring M) (ow_claimable w) (request_ops M (ow_in_earnings w))
      in case dm_executor M of
        Some x \<Rightarrow> both_executors
          (job_worker (dm_env M) (dm_wiring M) x (ow_job w) (request_ops M (ow_in_job w))) poll
      | None \<Rightarrow> poll)"

definition daemon_world :: "'p daemon \<Rightarrow> 'h outside \<Rightarrow> workers round_world" where
  "daemon_world M w =
     \<lparr>rw_refreshed = (\<lambda>(xs, _). live_refresh (ev_kec (dm_env M)) (ow_chain w)
        ((dm_view M)\<lparr>lm_profiler := xs_profiler xs\<rparr>)),
      rw_settings = live_settings (dm_parse M) (dm_show_parse M) (dm_config_path M) (ow_settings_file w) (ow_now w),
      rw_now = ow_now w, rw_gap = (\<lambda>k. request_ops M (ow_gap w k)),
      rw_after_tick = request_ops M (ow_after_tick w), rw_executor = daemon_workers M w,
      rw_in_beat = request_ops M (ow_in_beat w)\<rparr>"

definition run_daemon ::
    "'p daemon \<Rightarrow> (u64 \<Rightarrow> 'h outside) \<Rightarrow> u64 option \<Rightarrow> agent_state \<times> workers \<Rightarrow>
       (agent_state \<times> workers) option" where
  "run_daemon M out max_ticks s =
     run_loop (ev_kec (dm_env M)) (wired_sender (dm_wiring M)) (wired_placer (ev_kec (dm_env M)) (dm_wiring M))
       (\<lambda>n. daemon_world M (out n)) (loop_sleep []) max_ticks s"

text \<open>The state after \<open>k + 1\<close> rounds of the endless run.\<close>

definition daemon_after ::
    "'p daemon \<Rightarrow> (u64 \<Rightarrow> 'h outside) \<Rightarrow> nat \<Rightarrow> agent_state \<times> workers \<Rightarrow> agent_state \<times> workers" where
  "daemon_after M out k s =
     rounds (\<lambda>n. loop_round (ev_kec (dm_env M)) (wired_sender (dm_wiring M))
        (wired_placer (ev_kec (dm_env M)) (dm_wiring M)) (daemon_world M (out n))) (loop_sleep []) 0 k s"

lemma run_daemon_rounds:
  "run_daemon M out (Some m) s = Some (if m = 0 then s else daemon_after M out (unat m - 1) s)"
  "run_daemon M out None s = None"
  by (simp_all add: run_daemon_def run_loop_def daemon_after_def counted_loop_zero counted_loop_max
      counted_loop_forever word_gt_0)

section \<open>What the daemon may ask to be signed\<close>

definition write_target :: "wiring \<Rightarrow> string \<Rightarrow> address" where
  "write_target D intent =
     (if intent = intent_label HeartbeatWrite then dw_monitor D
      else if intent = intent_label ClaimRewards then dw_accounting D else dw_marketplace D)"

definition write_selector :: "(bytes \<Rightarrow> bytes) \<Rightarrow> string \<Rightarrow> bytes" where
  "write_selector kec intent =
     (if intent = intent_label HeartbeatWrite then sel_heartbeat kec
      else if intent = intent_label ClaimRewards then sel_claim_rewards kec
      else if intent = intent_label BidOnJob then sel_bid_on_job kec
      else if intent = intent_label StartExecution then sel_start_execution kec
      else if intent = intent_label SubmitCommitment then sel_submit_commitment kec
      else if intent = intent_label SubmitResult then sel_submit_result kec
      else sel_complete_job kec)"

definition calls_its_function :: "(bytes \<Rightarrow> bytes) \<Rightarrow> string \<Rightarrow> string \<Rightarrow> bool" where
  "calls_its_function kec intent calldata \<longleftrightarrow>
     (\<exists>args. calldata = hex_encode (write_selector kec intent @ args)) \<and> intent \<in> range intent_label"

definition write_ok :: "(bytes \<Rightarrow> bytes) \<Rightarrow> wiring \<Rightarrow> write_args \<Rightarrow> bool" where
  "write_ok kec D a \<longleftrightarrow> wa_value_wei a = 0 \<and> wa_chain_id a = dw_chain_id D \<and>
     wa_to a = hex_encode (write_target D (wa_intent a)) \<and>
     calls_its_function kec (wa_intent a) (wa_calldata a)"

definition entry_ok :: "(bytes \<Rightarrow> bytes) \<Rightarrow> wiring \<Rightarrow> pending_request \<Rightarrow> bool" where
  "entry_ok kec D r \<longleftrightarrow> pr_value_wei r = dec (0 :: u128) \<and> pr_chain_id r = dw_chain_id D \<and>
     pr_to r = hex_encode (write_target D (pr_intent r)) \<and>
     calls_its_function kec (pr_intent r) (pr_calldata r)"

lemma request_op_writes: "allowed W (request_op E auth now req)"
  by (auto simp: request_op_def split: option.splits http_route.splits sum.splits)

lemma request_ops_allowed: "allowed W (request_ops M reqs)"
proof (induction reqs)
  case (Cons q reqs)
  then show ?case using request_op_writes by (cases q) (simp add: request_ops_def)
qed (simp add: request_ops_def)

lemma intent_labels: "intent_label w = intent_label v \<longleftrightarrow> w = v"
  by (cases w; cases v) (simp_all add: intent_label_def)

lemma calls_its_functionI: "calldata = write_selector kec (intent_label w) @ args \<Longrightarrow>
    calls_its_function kec (intent_label w) (hex_encode calldata)"
  by (auto simp: calls_its_function_def)

lemma intent_calldata:
  "calls_its_function kec (intent_label HeartbeatWrite) (hex_encode (heartbeat_calldata kec))"
  "calls_its_function kec (intent_label ClaimRewards) (hex_encode (encode_claim_rewards kec))"
  "calls_its_function kec (intent_label BidOnJob) (hex_encode (encode_bid_on_job kec i p l))"
  "write_due inp w \<Longrightarrow> calls_its_function kec (intent_label w) (hex_encode (write_calldata kec j arts w))"
proof -
  show "calls_its_function kec (intent_label HeartbeatWrite) (hex_encode (heartbeat_calldata kec))"
    by (rule calls_its_functionI [where args = "[]"]) (simp add: write_selector_def heartbeat_calldata_def)
  show "calls_its_function kec (intent_label ClaimRewards) (hex_encode (encode_claim_rewards kec))"
    by (rule calls_its_functionI [where args = "[]"]) (simp add: write_selector_def intent_labels encode_claim_rewards_def)
  show "calls_its_function kec (intent_label BidOnJob) (hex_encode (encode_bid_on_job kec i p l))"
    by (rule calls_its_functionI) (simp add: write_selector_def intent_labels encode_bid_on_job_def encode_call_def)
  assume due: "write_due inp w"
  have "\<exists>args. write_calldata kec j arts w = write_selector kec (intent_label w) @ args"
    using due by (cases w) (auto simp: write_selector_def intent_labels write_calldata_def write_due_def encode_call_def
        Let_def encode_start_execution_def encode_submit_commitment_def encode_submit_result_def encode_complete_job_def)
  then show "calls_its_function kec (intent_label w) (hex_encode (write_calldata kec j arts w))"
    using calls_its_functionI by blast
qed

lemma wired_placer_reaches: "reached (write_ok kec D) s (snd (wired_placer kec D req s))"
  unfolding wired_placer_def relay_as_ops
  by (intro reached_step reached_refl)
    (simp add: write_ok_def bid_args_def write_target_def intent_labels intent_calldata)

lemma wired_sender_reaches: "reached (write_ok kec D) s (snd (wired_sender D (heartbeat_calldata kec) s))"
  unfolding wired_sender_def relay_as_ops
  by (intro reached_step reached_refl)
    (simp add: write_ok_def heartbeat_args_def write_target_def intent_calldata)

lemma gap_signer_ok:
  assumes "allowed (write_ok kec D) ops" "sr_value_wei req = 0" "sr_chain_id req = dw_chain_id D"
    "sr_to req = write_target D (intent_label (sr_intent req))"
    "calls_its_function kec (intent_label (sr_intent req)) (hex_encode (sr_calldata req))"
  shows "reached (write_ok kec D) s (snd (gap_signer ops req s))"
  unfolding gap_signer_def relay_as_ops
  using assms by (intro reached_step reached_run reached_refl) (simp_all add: write_ok_def relay_args_def)

section \<open>The executors only use operations\<close>

lemma agent_updates [simp]:
  "xs_agent (with_active n s) = set_active_jobs n (xs_agent s)"
  "xs_agent (with_error e s) = set_last_error (Some e) (xs_agent s)"
  "xs_agent (snd (record_error e s)) = set_last_error (Some e) (xs_agent s)"
  by (simp_all add: with_active_def with_error_def record_error_def)

lemma run_inference_reached:
  "reached W (xs_agent s) (xs_agent (snd (run_inference ev w ctx seed s)))"
  by (auto simp: run_inference_def Let_def split: sum.splits prod.splits intro!: reached_ops)

lemma plan_request:
  assumes "plan kec inp = Sign req"
  shows "sr_value_wei req = 0" "sr_chain_id req = pi_chain_id inp" "sr_to req = pi_marketplace inp"
    "sr_intent req \<notin> {ClaimRewards, HeartbeatWrite}"
    "calls_its_function kec (intent_label (sr_intent req)) (hex_encode (sr_calldata req))"
  using assms intent_calldata(4) by (auto simp: plan_Sign_iff write_due_def)

lemma drive_job_reached:
  assumes "jc_marketplace ctx = dw_marketplace D" "jc_chain_id ctx = dw_chain_id D"
    "tw_signer w = gap_signer ops" "allowed (write_ok (ev_kec ev) D) ops"
  shows "reached (write_ok (ev_kec ev) D) (xs_agent s) (xs_agent (snd (drive_job ev w ctx seed s)))"
proof (cases "plan (ev_kec ev) (context_plan ev ctx (xs_progress s))")
  case (Sign req)
  note r = plan_request [OF Sign]
  have "sr_to req = write_target D (intent_label (sr_intent req))"
    using r assms(1) by (auto simp: context_plan_def write_target_def intent_labels)
  then have "reached (write_ok (ev_kec ev) D) a (snd (gap_signer ops req a))" for a
    using r(1,2,5) assms(2,4) by (intro gap_signer_ok) (simp_all add: context_plan_def)
  then have "reached (write_ok (ev_kec ev) D) (xs_agent s) (snd (gap_signer ops req (set_active_jobs 1 (xs_agent s))))"
    using reached_trans reached_ops by blast
  then show ?thesis using Sign assms(3)
    by (auto simp: drive_job_def sign_request_def Let_def split: sum.splits prod.splits intro!: reached_ops)
next
  case RunInference
  then show ?thesis using run_inference_reached by (simp add: drive_job_def)
qed (auto simp: drive_job_def intro!: reached_ops)

lemma persist_reached:
  "reached W a (xs_agent (snd r)) \<Longrightarrow> reached W a (xs_agent (snd (persist w x r)))"
  by (cases r) (auto simp: persist_def split: option.splits sum.splits prod.splits intro!: reached_ops)

lemma job_step_reached:
  assumes "je_marketplace x = dw_marketplace D" "je_chain_id x = dw_chain_id D"
    "tw_signer w = gap_signer ops" "allowed (write_ok (ev_kec ev) D) ops"
  shows "reached (write_ok (ev_kec ev) D) (xs_agent s) (xs_agent (snd (job_step ev x w s)))"
proof -
  have drive: "reached (write_ok (ev_kec ev) D) (xs_agent s')
      (xs_agent (snd (persist w x (drive_job ev w (step_context x rj input) seed s'))))" for rj input seed s'
    using assms by (intro persist_reached drive_job_reached) (simp_all add: step_context_def)
  have keep: "reached (write_ok (ev_kec ev) D) (xs_agent s)
      (xs_agent (snd (persist w x (drive_job ev w (step_context x rj input) seed s'))))"
    if "xs_agent s' = xs_agent s" for rj input seed s'
    using drive [of s'] that by simp
  show ?thesis
    by (auto simp: job_step_def Let_def split: sum.splits prod.splits input_result.splits
        intro!: reached_ops keep)
qed

lemma earnings_tick_reached:
  assumes "allowed (write_ok kec D) ops"
  shows "reached (write_ok kec D) (es_agent s)
    (es_agent (earnings_tick kec (wired_earnings D) c (gap_signer ops) s))"
proof -
  have "reached (write_ok kec D) a (snd (gap_signer ops req a))"
    if "plan_claim kec cl fl (wired_earnings D) = Claim req" for cl fl req a
    using that assms by (intro gap_signer_ok)
      (auto simp: plan_claim_def wired_earnings_def write_target_def intent_labels intent_calldata split: if_splits)
  then show ?thesis
    by (auto simp: earnings_tick_def split: sum.splits earnings_action.splits prod.splits intro!: reached_ops)
      (metis snd_conv)+
qed

lemma workers_reach: "reached (write_ok (ev_kec (dm_env M)) (dm_wiring M)) s (fst (daemon_workers M w (s, x)))"
proof -
  let ?W = "write_ok (ev_kec (dm_env M)) (dm_wiring M)"
  have e: "reached ?W a (fst (earnings_worker (dm_env M) (dm_wiring M) c (request_ops M q) (a, x)))" for c q a x
    using earnings_tick_reached [OF request_ops_allowed, of "ev_kec (dm_env M)" "dm_wiring M" "(snd x)\<lparr>es_agent := a\<rparr>" c M q]
    by (cases x) (simp add: earnings_worker_def Let_def)
  have j: "reached ?W a (fst (job_worker (dm_env M) (dm_wiring M) x t (request_ops M q) (a, y)))" for x t q a y
    using job_step_reached [of "wired_executor (dm_wiring M) x" "dm_wiring M"
        "t\<lparr>tw_signer := gap_signer (request_ops M q)\<rparr>" "request_ops M q" "dm_env M"
        "(fst y)\<lparr>xs_agent := a\<rparr>"]
    by (cases y) (simp add: job_worker_def job_tick_def wired_executor_def Let_def request_ops_allowed)
  have "reached ?W a (fst (earnings_worker (dm_env M) (dm_wiring M) c (request_ops M q) r))"
    if "reached ?W a (fst r)" for c q a r
    using reached_trans [OF that e [of "fst r" c q "snd r"]] by simp
  then show ?thesis
    using e j by (auto simp: daemon_workers_def both_executors_def Let_def split: option.splits)
qed

interpretation daemon: loop_parts "write_ok (ev_kec (dm_env M)) (dm_wiring M)" "ev_kec (dm_env M)"
  "wired_placer (ev_kec (dm_env M)) (dm_wiring M)" "wired_sender (dm_wiring M)"
  "\<lambda>n. daemon_world M (out n)" for M :: "'p daemon" and out :: "u64 \<Rightarrow> 'h outside"
  by unfold_locales
    (simp_all add: wired_placer_reaches wired_sender_reaches daemon_world_def workers_reach request_ops_allowed)

lemma daemon_reached: "reached (write_ok (ev_kec (dm_env M)) (dm_wiring M)) (fst s) (fst (daemon_after M out k s))"
  unfolding daemon_after_def by (rule daemon.rounds_reached)

section \<open>The queue only holds such writes\<close>

definition queue_ok :: "(bytes \<Rightarrow> bytes) \<Rightarrow> wiring \<Rightarrow> agent_state \<Rightarrow> bool" where
  "queue_ok kec D s \<longleftrightarrow> list_all (entry_ok kec D) (pending_requests s)"

lemma entry_ok_updates [simp]:
  "entry_ok kec D (rearm r) = entry_ok kec D r" "entry_ok kec D (observe tx r) = entry_ok kec D r"
  "write_ok kec D a \<Longrightarrow> same_key (wa_intent a) k r \<Longrightarrow> entry_ok kec D r \<Longrightarrow> entry_ok kec D (supersede a r)"
  "write_ok kec D a \<Longrightarrow> entry_ok kec D (mk_request i key a)"
  by (simp_all add: entry_ok_def write_ok_def rearm_def observe_def supersede_def mk_request_def same_key_def)

lemma queue_ok_update:
  "queue_ok kec D s \<Longrightarrow> (\<And>r. P r \<Longrightarrow> entry_ok kec D r \<Longrightarrow> entry_ok kec D (f r)) \<Longrightarrow>
     queue_ok kec D (s\<lparr>pending_requests := update_first P f (pending_requests s)\<rparr>)"
  by (auto simp: queue_ok_def list_all_iff dest!: update_first_set)

lemma queue_ok_push: "queue_ok kec D s \<Longrightarrow> write_ok kec D a \<Longrightarrow> queue_ok kec D (snd (push_request key a s))"
proof -
  assume q: "queue_ok kec D s" "write_ok kec D a"
  let ?q = "pending_requests s @ [mk_request (next_request_id s) key a]"
  have all: "\<forall>r \<in> set ?q. entry_ok kec D r" using q by (auto simp: queue_ok_def list_all_iff)
  have "set (pending_requests (snd (push_request key a s))) \<subseteq> set ?q"
    using set_retain [of "length ?q - MAX_PENDING_REQUESTS" ?q]
    by (auto simp: push_request_def evict_if_over_cap_def Let_def)
  then show ?thesis using all by (auto simp: queue_ok_def list_all_iff)
qed

lemma queue_ok_step:
  assumes "queue_ok kec D s" "list_all (write_ok kec D) (op_writes op)"
  shows "queue_ok kec D (agent_step op s)"
proof -
  have same: "queue_ok kec D t" if "pending_requests t = pending_requests s" for t
    using assms(1) that by (simp add: queue_ok_def)
  show ?thesis
  proof (cases op)
    case (OpObserved i tx now)
    have "queue_ok kec D (record_heartbeat now t) = queue_ok kec D t" for t
      by (simp add: queue_ok_def record_heartbeat_def)
    then show ?thesis using OpObserved queue_ok_update [OF assms(1)] assms(1)
      by (auto simp: mark_request_observed_def Let_def split: option.splits)
  next
    case (OpEnqueue a)
    then show ?thesis using assms queue_ok_push
      by (auto simp: enqueue_signature_request_def split: option.splits)
  next
    case (OpRecur a)
    then show ?thesis using assms queue_ok_push queue_ok_update [OF assms(1)]
      by (auto simp: enqueue_recurring_signature_request_def enqueue_signature_request_def split: option.splits)
  next
    case (OpSupersede k a)
    then show ?thesis using assms queue_ok_push queue_ok_update [OF assms(1)]
      by (auto simp: enqueue_superseding_signature_request_def split: option.splits)
  next
    case (OpObserveProvider m r w)
    then show ?thesis
      by (intro same) (simp add: record_provider_observation_def set_provider_stats_def Let_def)
  qed (auto intro!: same simp: pause_def resume_def set_bidding_def set_idle_def set_active_jobs_def
      set_provider_stats_def clear_alert_def record_heartbeat_def set_last_error_def)
qed

lemma queue_ok_run: "queue_ok kec D s \<Longrightarrow> allowed (write_ok kec D) ops \<Longrightarrow> queue_ok kec D (agent_run ops s)"
  by (induction ops arbitrary: s) (simp_all add: queue_ok_step)

lemma daemon_queue_ok: "queue_ok (ev_kec (dm_env M)) (dm_wiring M) (fst (daemon_after M out k (agent_new, x)))"
proof -
  have "queue_ok (ev_kec (dm_env M)) (dm_wiring M) agent_new" by (simp add: queue_ok_def agent_new_def)
  then show ?thesis using daemon_reached [of M "(agent_new, x)" out k] queue_ok_run by (auto simp: reached_def)
qed

lemma entry_ok_iff: "entry_ok kec D r \<longleftrightarrow> pr_value_wei r = dec (0 :: u128) \<and> pr_chain_id r = dw_chain_id D \<and>
    pr_to r = hex_encode (if pr_intent r = ''heartbeat'' then dw_monitor D
      else if pr_intent r = ''claimRewards'' then dw_accounting D else dw_marketplace D) \<and>
    (\<exists>w args. pr_intent r = intent_label w \<and>
       pr_calldata r = hex_encode (write_selector kec (intent_label w) @ args))"
proof -
  have "intent_label HeartbeatWrite = ''heartbeat''" "intent_label ClaimRewards = ''claimRewards''"
    by (simp_all add: intent_label_def)
  moreover have "calls_its_function kec (pr_intent r) (pr_calldata r) \<longleftrightarrow>
      (\<exists>w args. pr_intent r = intent_label w \<and>
         pr_calldata r = hex_encode (write_selector kec (intent_label w) @ args))"
    unfolding calls_its_function_def image_iff by auto
  ultimately show ?thesis unfolding entry_ok_def write_target_def by simp
qed

section \<open>Properties\<close>

text \<open>C5: The running daemon refines the queue's operations: after any number of rounds, whatever the
  chain, the settings file, the signer's reports, the files, the inference server and the requests to
  the supervision surface do in each of them, the shared state is the one that some sequence of the
  operations of \<open>AgentState\<close> gives from the initial state, and the writes that the sequence enqueues
  are bids, executions, claims and heartbeats of this daemon; so the invariant of that state holds at
  all times.\<close>

theorem daemon_refines_queue:
  "\<exists>ops. allowed (write_ok (ev_kec (dm_env M)) (dm_wiring M)) ops \<and>
     fst (daemon_after M out k (agent_new, x)) = agent_run ops agent_new \<and>
     agent_inv (fst (daemon_after M out k (agent_new, x)))"
proof -
  obtain ops where "allowed (write_ok (ev_kec (dm_env M)) (dm_wiring M)) ops"
      "fst (daemon_after M out k (agent_new, x)) = agent_run ops agent_new"
    using daemon_reached [of M "(agent_new, x)" out k] by (auto simp: reached_def)
  then show ?thesis using agent_inv_run [OF agent_inv_new] by auto
qed

text \<open>The daemon never offers a dangerous write for signing: after any number of rounds every entry
  of the signing queue moves no value, is for the chain the daemon checked at its start, goes to
  the contract of its kind (a heartbeat to the monitor, a claim to the accounting contract, everything
  else to the marketplace), and its calldata calls the function that its label names.\<close>

theorem queue_writes_safe:
  "list_all (\<lambda>r. pr_value_wei r = dec (0 :: u128) \<and> pr_chain_id r = dw_chain_id (dm_wiring M) \<and>
       pr_to r = hex_encode (if pr_intent r = ''heartbeat'' then dw_monitor (dm_wiring M)
         else if pr_intent r = ''claimRewards'' then dw_accounting (dm_wiring M)
         else dw_marketplace (dm_wiring M)) \<and>
       (\<exists>w args. pr_intent r = intent_label w \<and>
          pr_calldata r = hex_encode (write_selector (ev_kec (dm_env M)) (intent_label w) @ args)))
     (pending_requests (fst (daemon_after M out k (agent_new, x))))"
proof -
  from daemon_queue_ok have "list_all (entry_ok (ev_kec (dm_env M)) (dm_wiring M)) (pending_requests (fst (daemon_after M out k (agent_new, x))))"
    by (simp add: queue_ok_def)
  then show ?thesis
    by (rule list.pred_mono_strong) (simp add: entry_ok_iff)
qed

end
