(* ===== verification/Live_Safety.thy ===== *)
theory Live_Safety
  imports Live
begin

text \<open>
  What a tick over the live chain view and a delivery read from disk guarantee: the bid the daemon
  places against the job as the chain returned it, and the bytes it takes from the watched directory.
\<close>

section \<open>A placed bid\<close>

lemma tick_placed:
  assumes "tr_placed (tick refreshed settings place gap s) = Some req"
  obtains m e i price c where "refreshed = Inr m" "ms_bid_expires_block m = Some e"
    "evaluate (ms_job m) (ms_oracle m) settings (ms_caps m) = Bid i price c"
    "req = \<lparr>br_job_id = ucast i, br_price_wei = price,
       br_latency_ms = ucast (bj_estimated_exec_secs (ms_job m)) * 1000, br_expires_block = e\<rparr>"
  using assms
  by (auto simp: tick_def Let_def case_prod_beta split: sum.splits option.splits bid_decision.splits if_splits)

lemma refresh_snapshot:
  assumes "live_refresh kec C v = Inr m"
  obtains profile job blk where
    "live_get_provider kec (lv_call C 0) (lm_marketplace v) (lm_provider v) = Inr profile"
    "live_get_job kec (lv_call C 3) (lm_marketplace v) (lm_job_id v) = Inr job"
    "lv_block C = Inr blk" "ms_caps m = map_caps profile"
    "ms_job m = map_job job blk (lm_secs_per_block v)
       (fst (profiler_estimate (model_hash job) (lm_profiler v)))
       (snd (profiler_estimate (model_hash job) (lm_profiler v)))"
    "ms_bid_expires_block m = bid_expires_block job blk"
  using assms by (auto simp: live_refresh_iff)

lemma unat_latency: "unat (ucast (e :: u64) * 1000 :: u128) = 1000 * unat e"
  using unat_widen_mult [of e 1000] by (simp add: mult.commute)

text \<open>C11: A bid the live daemon places is one the chain accepts and the provider can honour. If a tick
  over a live refresh asks for a bid, then the job read from the chain is open for bids, carries a
  checkable input, asks for the Commitment tier and its bid deadline is still ahead and is the expiry
  of the request; the price is at most 90 percent of the job's maximum; twice the estimated execution
  time fits both before the execution deadline, counted in blocks, and before the settings' window
  closes; the latency is that estimate in milliseconds, without overflow; and the job id is the
  chain's, its low 64 bits.\<close>

theorem live_bid_sound:
  assumes "tr_placed (tick (live_refresh kec C v) settings place gap s) = Some req"
  shows "\<exists>job blk.
    live_get_job kec (lv_call C 3) (lm_marketplace v) (lm_job_id v) = Inr job \<and> lv_block C = Inr blk \<and>
    (state_of job = Posted \<or> state_of job = Bidding) \<and> input_hash job \<noteq> None \<and>
    job_tier job = Commitment \<and> blk < br_expires_block req \<and>
    br_expires_block req = bid_deadline_block job \<and>
    0 < unat (br_price_wei req) \<and> unat (br_price_wei req) * 100 \<le> unat (max_price_wei job) * 90 \<and>
    2 * unat (snd (profiler_estimate (model_hash job) (lm_profiler v))) \<le>
      (unat (execution_deadline_block job) - unat blk) * unat (lm_secs_per_block v) \<and>
    2 * unat (snd (profiler_estimate (model_hash job) (lm_profiler v))) \<le>
      unat (secs_until_window_close (st_schedule settings) (st_current_hour settings)
              (st_current_min settings) (st_current_day settings)) \<and>
    unat (br_latency_ms req) = 1000 * unat (snd (profiler_estimate (model_hash job) (lm_profiler v))) \<and>
    unat (br_job_id req) = unat (job_id job) mod 2 ^ 64"
proof -
  from assms obtain m e i price c where
    m: "live_refresh kec C v = Inr m" and e: "ms_bid_expires_block m = Some e" and
    b: "evaluate (ms_job m) (ms_oracle m) settings (ms_caps m) = Bid i price c" and
    req: "req = \<lparr>br_job_id = ucast i, br_price_wei = price,
       br_latency_ms = ucast (bj_estimated_exec_secs (ms_job m)) * 1000, br_expires_block = e\<rparr>"
    by (rule tick_placed)
  from m obtain profile job blk where
    j: "live_get_job kec (lv_call C 3) (lm_marketplace v) (lm_job_id v) = Inr job"
    "lv_block C = Inr blk" and
    mj: "ms_job m = map_job job blk (lm_secs_per_block v)
       (fst (profiler_estimate (model_hash job) (lm_profiler v)))
       (snd (profiler_estimate (model_hash job) (lm_profiler v)))" and
    me: "ms_bid_expires_block m = bid_expires_block job blk"
    by (rule refresh_snapshot)
  let ?est = "snd (profiler_estimate (model_hash job) (lm_profiler v))"
  have fields: "bj_estimated_exec_secs (ms_job m) = ?est" "bj_tier (ms_job m) = map_tier (job_tier job)"
    "bj_max_price_wei (ms_job m) = max_price_wei job" "bj_id (ms_job m) = ucast (job_id job)"
    by (simp_all add: mj map_job_def Let_def)
  have g: "gates_pass (ms_job m) (ms_oracle m) settings (ms_caps m)" and i: "i = bj_id (ms_job m)"
    and p: "unat price = ref_price (ms_oracle m) (ms_job m)" "0 < ref_price (ms_oracle m) (ms_job m)"
    using b by (auto simp: evaluate_bid_nat)
  have "unat price \<le> unat (max_price_wei job) * 90 div 100" using p(1) by (simp add: ref_price_def fields)
  then have price: "unat price * 100 \<le> unat (max_price_wei job) * 90" by linarith
  have "2 * unat ?est \<le> unat (bj_secs_until_deadline (ms_job m))"
    using g by (simp add: gates_pass_def fields)
  then have dl: "2 * unat ?est \<le>
      (unat (execution_deadline_block job) - unat blk) * unat (lm_secs_per_block v)"
    using map_job_secs_bound [of job blk "lm_secs_per_block v"] unfolding mj by (rule order_trans)
  have "unat (ucast i :: u128) = unat (job_id job) mod 2 ^ 64"
    by (simp add: i fields unat_low unat_ucast_up)
  then show ?thesis
    using j e dl price p g
    by (intro exI [of _ job] exI [of _ blk])
      (auto simp: req me bid_expires_block_Some gates_pass_def fields map_tier_commitment unat_latency)
qed

text \<open>A market with one open job: four SALT at most, the default estimate of 600 seconds.\<close>

definition sample_live_job :: job where
  "sample_live_job = \<lparr>job_id = 2 ^ 64 + 7, requester = replicate 20 1, model_hash = replicate 32 2,
     max_price_wei = 4000000000000000000, job_tier = Commitment, state_of = Bidding,
     assigned_provider = replicate 20 3, escrow_wei = 7, bid_deadline_block = 100,
     execution_deadline_block = 2000, created_at_block = 90, bid_count = 1,
     input_hash = Some (replicate 32 9)\<rparr>"

definition sample_profile :: provider_profile where
  "sample_profile = \<lparr>is_registered = True, stake_wei = 5, total_jobs_completed = 0, total_jobs_failed = 0,
     reputation_score_bps = 10000, pp_current_active_jobs = 0, pp_max_concurrent_jobs = 10\<rparr>"

definition sample_live_chain :: "unit live_chain" where
  "sample_live_chain = \<lparr>lv_call = (\<lambda>k _ _. Inr
       (if k = 0 then abi_encode_provider sample_profile
        else if k = 1 then word_from_u128 1000000000000000000
        else if k = 2 then word_from_bool False
        else abi_encode_job sample_live_job (replicate 32 9))),
     lv_block = Inr 95, lv_show = (\<lambda>_. [])\<rparr>"

definition sample_live_view :: live_market_view where
  "sample_live_view = \<lparr>lm_marketplace = [], lm_oracle = [], lm_provider = replicate 20 3, lm_job_id = 7,
     lm_profiler = profiler_new 6000000000000000000 600, lm_secs_per_block = 2\<rparr>"

lemma sample_live_reads:
  "live_get_provider kec (lv_call sample_live_chain 0) a b = Inr sample_profile"
  "live_salt_per_pflop_hour kec (lv_call sample_live_chain (Suc 0)) a = Inr 1000000000000000000"
  "live_is_price_stale kec (lv_call sample_live_chain 2) a = Inr False"
  "live_get_job kec (lv_call sample_live_chain 3) a i = Inr sample_live_job"
proof -
  show "live_get_provider kec (lv_call sample_live_chain 0) a b = Inr sample_profile"
    using decode_provider_encode [of sample_profile "[]"]
    by (simp add: live_get_provider_def live_read_def sample_live_chain_def)
  show "live_salt_per_pflop_hour kec (lv_call sample_live_chain (Suc 0)) a = Inr 1000000000000000000"
    using cu128.rd_roundtrip [of 1000000000000000000 "[]"]
    by (simp add: live_salt_per_pflop_hour_def decode_salt_per_pflop_hour_def live_read_def
        sample_live_chain_def)
  show "live_is_price_stale kec (lv_call sample_live_chain 2) a = Inr False"
    using cbool.rd_roundtrip [of False "[]"]
    by (simp add: live_is_price_stale_def decode_is_price_stale_def live_read_def sample_live_chain_def)
  have "decode_job (abi_encode_job sample_live_job (replicate 32 9)) = Inr sample_live_job"
    using decode_job_encode [of sample_live_job "replicate 32 9"]
    by (simp add: sample_live_job_def wf_job_def)
  then show "live_get_job kec (lv_call sample_live_chain 3) a i = Inr sample_live_job"
    by (simp add: live_get_job_def live_read_def sample_live_chain_def)
qed

lemma sample_estimate:
  "profiler_estimate h (lm_profiler sample_live_view) = (1000000000000000000, 600)"
  by (simp add: profiler_estimate_def sample_live_view_def profiler_new_def Let_def sat_mul_def max_def word_le_nat_alt)

lemma sample_refresh:
  "live_refresh (\<lambda>_. []) sample_live_chain sample_live_view = Inr
     \<lparr>ms_caps = sample_caps, ms_reputation_bps = 10000, ms_stake_wei = 5, ms_job = sample_job
        \<lparr>bj_secs_until_deadline := 3810\<rparr>, ms_oracle = sample_oracle, ms_bid_expires_block = Some 100\<rparr>"
  by (simp add: live_refresh_def sample_live_reads sample_estimate with_label_def)
    (simp add: sample_live_chain_def sample_live_job_def sample_live_view_def sample_profile_def
      map_caps_def map_job_def map_tier_def Let_def bid_expires_block_def sat_sub_def sat_mul_def
      sample_caps_def sample_job_def sample_oracle_def ONE_SALT_WEI_def)

lemma live_bid_sound_witness:
  "tr_placed (tick (live_refresh (\<lambda>_. []) sample_live_chain sample_live_view)
      sample_settings (\<lambda>_ s. (Inr (), s)) (\<lambda>_. []) agent_new) =
     Some \<lparr>br_job_id = 7, br_price_wei = 1150000000000000000, br_latency_ms = 600000, br_expires_block = 100\<rparr> \<and>
   unat (7 :: u128) = unat (job_id sample_live_job) mod 2 ^ 64"
proof -
  let ?req = "\<lparr>br_job_id = 7, br_price_wei = 1150000000000000000, br_latency_ms = 600000, br_expires_block = 100\<rparr>"
  have "evaluate (sample_job\<lparr>bj_secs_until_deadline := 3810\<rparr>) sample_oracle sample_settings sample_caps =
      Bid 7 1150000000000000000 ONE_SALT_WEI"
    by (simp add: evaluate_def sample_bid_defs bid_constants estimated_cost_wei_def sat_mul_def
      secs_until_window_close_def in_window_def NIGHT_START_HOUR_def NIGHT_END_HOUR_def Let_def)
  then have placed: "tr_placed (tick (live_refresh (\<lambda>_. []) sample_live_chain sample_live_view)
      sample_settings (\<lambda>_ s. (Inr (), s)) (\<lambda>_. []) agent_new) = Some ?req"
    unfolding sample_refresh
    by (simp add: tick_def Let_def accepts_new_bids_def set_last_error_def record_provider_observation_def
        set_provider_stats_def agent_new_def sample_job_def)
  from live_bid_sound [OF placed] placed show ?thesis by (auto simp: sample_live_reads)
qed

section \<open>A delivery taken\<close>

text \<open>A delivery the daemon takes from the watched directory is the whole content of the regular
  file named after the job, opened without following a link, and is never longer than the cap, also
  when the file grows between the check of its length and the read.\<close>

theorem delivery_bounded:
  assumes "file_input_for env dir open_path i = Inr (Some bs)"
  shows "\<exists>f len content. open_path (path_join dir (dec i @ ''.bin'')) = Opened f \<and>
    of_fstat f = Inr (True, len) \<and> len \<le> max_job_input_bytes env \<and> of_content f = Inr content \<and>
    bs = take (2 ^ 64 - 1) content \<and> length bs \<le> max_job_input_bytes env"
  using assms
  by (cases "open_path (path_join dir (dec i @ ''.bin''))")
    (auto simp: file_input_for_def read_capped_regular_file_def Let_def min_def split: if_splits)

lemma delivery_bounded_witness:
  "file_input_for (\<lambda>_. None) ''in'' (\<lambda>_. Opened \<lparr>of_fstat = Inr (True, 2), of_content = Inr [1, 2]\<rparr>) 7 =
     Inr (Some [1, 2])"
proof -
  have "max_job_input_bytes (\<lambda>_. None) = DEFAULT_MAX_JOB_INPUT_BYTES"
    by (simp add: max_job_input_bytes_def positive_from_env_def)
  moreover have "file_input_for (\<lambda>_. None) ''in'' (\<lambda>_. Opened \<lparr>of_fstat = Inr (True, 2), of_content = Inr [1, 2]\<rparr>) 7 =
     Inr (Some [1, 2])"
    by (simp add: file_input_for_def read_capped_regular_file_def Let_def calculation
        DEFAULT_MAX_JOB_INPUT_BYTES_def)
  ultimately show ?thesis using delivery_bounded [of "\<lambda>_. None" "''in''"
      "\<lambda>_. Opened \<lparr>of_fstat = Inr (True, 2), of_content = Inr [1, 2]\<rparr>" 7 "[1, 2]"] by simp
qed

end
