(* ===== verification/Printing.thy ===== *)
theory Printing
  imports Live_Safety
begin

text \<open>
  Runs that print, for \<open>crates/node-agent/src/main.rs\<close>. A run has the lines it printed on standard
  output and its result: a value, or a failure with its text, or a panic. The second part has the lines that
  the program prints about the clock, the oracle, the provider and the job.
\<close>

section \<open>Runs that print\<close>

datatype failure = Fails string | Panics

type_synonym 'a printing = "string list \<times> (failure + 'a)"

definition ret :: "'a \<Rightarrow> 'a printing" where
  "ret x = ([], Inr x)"

definition say :: "string \<Rightarrow> unit printing" where
  "say line = ([line], Inr ())"

definition attempt :: "('e \<Rightarrow> string) \<Rightarrow> 'e + 'a \<Rightarrow> 'a printing" where
  "attempt show_error r = ([], map_err (\<lambda>e. Fails (show_error e)) r)"

definition and_then :: "'a printing \<Rightarrow> ('a \<Rightarrow> 'b printing) \<Rightarrow> 'b printing" where
  "and_then m f =
     (case m of (out, Inl e) \<Rightarrow> (out, Inl e)
      | (out, Inr x) \<Rightarrow> (case f x of (out', r) \<Rightarrow> (out @ out', r)))"

lemma and_then_out: "and_then m f = (out, Inr y) \<longleftrightarrow>
    (\<exists>o1 x o2. m = (o1, Inr x) \<and> f x = (o2, Inr y) \<and> out = o1 @ o2)"
  by (cases m; cases "snd m") (auto simp: and_then_def split: prod.splits)

lemma and_then_Inr [simp]: "snd (and_then m f) = Inr y \<longleftrightarrow> (\<exists>x. snd m = Inr x \<and> snd (f x) = Inr y)"
  by (cases m; cases "snd m") (auto simp: and_then_def split: prod.splits)

lemma and_then_ok: "snd m = Inr x \<Longrightarrow> snd (and_then m f) = snd (f x)"
  by (cases m) (auto simp: and_then_def split: prod.splits)

lemma and_then_plain [simp]:
  "snd (and_then (say l) f) = snd (f ())" "snd (and_then (ret x) f) = snd (f x)"
  by (simp_all add: and_then_ok say_def ret_def)

lemma printing_simps [simp]:
  "snd (ret x) = Inr x" "snd (say l) = Inr ()" "snd (attempt g r) = Inr y \<longleftrightarrow> r = Inr y"
  by (simp_all add: ret_def say_def attempt_def)

section \<open>Texts\<close>

definition em_dash :: string where
  "em_dash = [CHR 0xE2, CHR 0x80, CHR 0x94]"

definition bool_text :: "bool \<Rightarrow> string" where
  "bool_text b = (if b then ''true'' else ''false'')"

definition schedule_debug :: "schedule \<Rightarrow> string" where
  "schedule_debug s = (case s of Always \<Rightarrow> ''Always'' | Nights \<Rightarrow> ''Nights'' | Weekends \<Rightarrow> ''Weekends'')"

definition weekday_debug :: "weekday \<Rightarrow> string" where
  "weekday_debug d = (case d of Mon \<Rightarrow> ''Mon'' | Tue \<Rightarrow> ''Tue'' | Wed \<Rightarrow> ''Wed'' | Thu \<Rightarrow> ''Thu''
     | Fri \<Rightarrow> ''Fri'' | Sat \<Rightarrow> ''Sat'' | Sun \<Rightarrow> ''Sun'')"

definition tier_debug :: "tier \<Rightarrow> string" where
  "tier_debug t = (case t of Commitment \<Rightarrow> ''Commitment'' | ZKProof \<Rightarrow> ''ZKProof'' | Tee \<Rightarrow> ''Tee'')"

definition job_state_debug :: "job_state \<Rightarrow> string" where
  "job_state_debug s = (case s of Posted \<Rightarrow> ''Posted'' | Bidding \<Rightarrow> ''Bidding'' | Assigned \<Rightarrow> ''Assigned''
     | Executing \<Rightarrow> ''Executing'' | Verifying \<Rightarrow> ''Verifying'' | Completed \<Rightarrow> ''Completed''
     | Expired \<Rightarrow> ''Expired'' | Timeout \<Rightarrow> ''Timeout'' | Failed \<Rightarrow> ''Failed'' | Disputed \<Rightarrow> ''Disputed'')"

text \<open>\<open>main\<close>: the lines on standard output and standard error, and the exit code; the text of a panic is
  left out.\<close>

definition main_exit :: "'a printing \<Rightarrow> string list \<times> string list \<times> nat" where
  "main_exit r = (case r of
     (out, Inr _) \<Rightarrow> (out, [], 0)
   | (out, Inl (Fails e)) \<Rightarrow> (out, [''node-agent: error: '' @ e], 1)
   | (out, Inl Panics) \<Rightarrow> (out, [], 101))"

section \<open>Lines about what was read\<close>

definition oracle_line :: "u128 \<Rightarrow> bool \<Rightarrow> string" where
  "oracle_line salt stale = ''oracle: saltPerPflopHour='' @ dec salt @ '' wei stale='' @ bool_text stale"

definition provider_line :: "provider_profile \<Rightarrow> string" where
  "provider_line p = ''provider: registered='' @ bool_text (is_registered p) @ '' active='' @
     dec (pp_current_active_jobs p) @ ''/'' @ dec (pp_max_concurrent_jobs p) @
     '' reputation='' @ dec (reputation_score_bps p) @ ''bps''"

definition job_line :: "job \<Rightarrow> u128 \<Rightarrow> string" where
  "job_line j blk = ''job #'' @ dec (job_id j) @ '': maxPrice='' @ dec (max_price_wei j) @ '' wei tier='' @
     tier_debug (job_tier j) @ '' state='' @ job_state_debug (state_of j) @ '' execDeadline='' @
     dec (execution_deadline_block j) @ '' (block '' @ dec blk @ '')''"

section \<open>Which run prints a decision\<close>

text \<open>\<open>quiet m\<close>: no line of the run is a decision. \<open>closes_with g m\<close>: a failing run prints no decision, and a
  run with the value \<open>x\<close> prints the lines \<open>g x\<close> last, after lines that are none.\<close>

definition plain_line :: "string \<Rightarrow> bool" where
  "plain_line l \<longleftrightarrow> take 8 l \<noteq> ''DECISION''"

definition quiet :: "'a printing \<Rightarrow> bool" where
  "quiet m \<longleftrightarrow> list_all plain_line (fst m)"

definition closes_with :: "('a \<Rightarrow> string list) \<Rightarrow> 'a printing \<Rightarrow> bool" where
  "closes_with g m \<longleftrightarrow> (case m of (out, Inl _) \<Rightarrow> list_all plain_line out
     | (out, Inr x) \<Rightarrow> \<exists>pre. list_all plain_line pre \<and> out = pre @ g x)"

lemma quiet_simps [simp]: "quiet (ret x)" "quiet (attempt h r)" "quiet (say l) = plain_line l"
  by (simp_all add: quiet_def ret_def attempt_def say_def)

lemma and_then_eqs:
  "and_then (out, Inl e) f = (out, Inl e)" "and_then (out, Inr x) f = (out @ fst (f x), snd (f x))"
  by (simp_all add: and_then_def case_prod_beta)

lemma run_cases:
  obtains out e where "m = (out, Inl e)" | out x where "m = (out, Inr x)"
  by (cases m; cases "snd m") auto

lemma quiet_and_then: "quiet m \<Longrightarrow> (\<And>x. quiet (f x)) \<Longrightarrow> quiet (and_then m f)"
  by (cases m rule: run_cases) (simp_all add: quiet_def and_then_eqs)

lemma closes_and_then:
  assumes "quiet m" "\<And>x. closes_with g (f x)"
  shows "closes_with g (and_then m f)"
proof (cases m rule: run_cases)
  case (2 out x)
  then have q: "list_all plain_line out" using assms(1) by (simp add: quiet_def)
  show ?thesis
  proof (cases "f x" rule: run_cases)
    case (2 o2 y)
    then obtain pre where "list_all plain_line pre" "o2 = pre @ g y"
      using assms(2) [of x] by (auto simp: closes_with_def)
    then show ?thesis using q 2 \<open>m = (out, Inr x)\<close>
      by (auto simp: closes_with_def and_then_eqs intro!: exI [of _ "out @ pre"])
  qed (use q assms(2) [of x] \<open>m = (out, Inr x)\<close> in \<open>simp add: closes_with_def and_then_eqs\<close>)
qed (use assms(1) in \<open>simp add: closes_with_def and_then_eqs quiet_def\<close>)

lemma closes_last: "closes_with g (g x, Inr x)"
  by (auto simp: closes_with_def intro: exI [of _ "[]"])

lemma closes_map: "closes_with g m \<Longrightarrow> (\<And>x. g' (h x) = g x) \<Longrightarrow> closes_with g' (and_then m (\<lambda>x. ret (h x)))"
  by (cases m rule: run_cases) (simp_all add: closes_with_def and_then_eqs ret_def)

end
