(* ===== verification/Startup.thy ===== *)
theory Startup
  imports Printing
begin

text \<open>
  The rest of \<open>crates/node-agent/src/main.rs\<close> and the address book \<open>chainio::addrbook\<close>: what the
  program reads from its environment, and the part of \<open>run\<close> without \<open>--daemon\<close> that reads the chain,
  decides once on the configured job and prints the bid it would place. The parsed address table and the
  chain are parameters.
\<close>

section \<open>Address book\<close>

definition CHAIN_ID :: u64 where "CHAIN_ID = 40204"

record address_table =
  at_contracts :: "string \<Rightarrow> string option"
  at_aa_stack :: "string \<Rightarrow> string option"

definition address_book :: "address_table \<Rightarrow> string \<Rightarrow> string option" where
  "address_book t = at_contracts t ++ at_aa_stack t"

definition address_for :: "address_table \<Rightarrow> string \<Rightarrow> string option" where
  "address_for t name = address_book t name"

text \<open>A helper of the macro \<open>typed_helper!\<close>; \<open>None\<close> is its panic.\<close>

definition typed_helper :: "string \<Rightarrow> address_table \<Rightarrow> string option" where
  "typed_helper canonical t = address_for t canonical"

definition compute_marketplace :: "address_table \<Rightarrow> string option" where
  "compute_marketplace = typed_helper ''ComputeMarketplace''"
definition compute_pool :: "address_table \<Rightarrow> string option" where
  "compute_pool = typed_helper ''ComputePool''"
definition compute_verifier :: "address_table \<Rightarrow> string option" where
  "compute_verifier = typed_helper ''ComputeVerifier''"
definition heartbeat_monitor :: "address_table \<Rightarrow> string option" where
  "heartbeat_monitor = typed_helper ''HeartbeatMonitor''"
definition compute_pricing_oracle :: "address_table \<Rightarrow> string option" where
  "compute_pricing_oracle = typed_helper ''ComputePricingOracle''"
definition contribution_accounting :: "address_table \<Rightarrow> string option" where
  "contribution_accounting = typed_helper ''ContributionAccounting''"
definition bulk_compute_gateway :: "address_table \<Rightarrow> string option" where
  "bulk_compute_gateway = typed_helper ''BulkComputeGateway''"
definition model_registry :: "address_table \<Rightarrow> string option" where
  "model_registry = typed_helper ''ModelRegistry''"
definition wrapped_salt :: "address_table \<Rightarrow> string option" where
  "wrapped_salt = typed_helper ''WrappedSALT''"
definition inference_router :: "address_table \<Rightarrow> string option" where
  "inference_router = typed_helper ''InferenceRouter''"

section \<open>Environment\<close>

definition DEFAULT_EXEC_SECS :: u64 where "DEFAULT_EXEC_SECS = 300"
definition DEFAULT_NODE_PFLOPS_1E18 :: u128 where "DEFAULT_NODE_PFLOPS_1E18 = 6000000000000000000"
definition SECS_PER_BLOCK_SAMPLE :: u128 where "SECS_PER_BLOCK_SAMPLE = 20"

definition build_profiler :: "env \<Rightarrow> model_profiler" where
  "build_profiler env =
     profiler_new (case Option.bind (env ''CITRATE_NODE_PFLOPS_1E18'') (parse_uint 10 (2 ^ 128)) of
         Some n \<Rightarrow> of_nat n | None \<Rightarrow> DEFAULT_NODE_PFLOPS_1E18) DEFAULT_EXEC_SECS"

definition derive_secs_per_block :: "'h rpc_error + u64 option \<Rightarrow> u64" where
  "derive_secs_per_block sampled =
     (case sampled of Inr (Some s) \<Rightarrow> s | _ \<Rightarrow> DEFAULT_SECS_PER_BLOCK)"

definition parse_sha256_hex :: "string \<Rightarrow> bytes option" where
  "parse_sha256_hex s =
     (let s = (case strip_prefix ''0x'' s of Some r \<Rightarrow> r | None \<Rightarrow> s)
      in if length s \<noteq> 64 \<or> list_ex (\<lambda>c. 128 \<le> (of_char c :: nat)) s then None
         else those (map (\<lambda>i. map_option of_nat (parse_uint 16 256 (take 2 (drop (2 * i) s)))) [0..<32]))"

definition daemon_mode :: "string list \<Rightarrow> env \<Rightarrow> bool" where
  "daemon_mode args env \<longleftrightarrow> list_ex (\<lambda>a. a = ''--daemon'') args \<or>
     env ''CITRATE_NODE_AGENT_DAEMON'' = Some ''1'' \<or> env ''CITRATE_NODE_AGENT_DAEMON'' = Some ''true''"

text \<open>The backends that a job executor needs, each from its variable; a bad digest is an error.\<close>

record executor_settings =
  xc_gateway :: string
  xc_llama :: string
  xc_input_dir :: string
  xc_cache_dir :: string
  xc_weights_sha256 :: "bytes option"
  xc_resident_model :: "bytes option"

definition optional_digest :: "env \<Rightarrow> string \<Rightarrow> string + bytes option" where
  "optional_digest env var =
     (case env var of None \<Rightarrow> Inr None
      | Some h \<Rightarrow> rbind (ok_or (var @ '' must be 64 hex chars (optional 0x prefix)'') (parse_sha256_hex h))
          (\<lambda>d. Inr (Some d)))"

definition executor_settings_of :: "env \<Rightarrow> string + executor_settings option" where
  "executor_settings_of env =
     (case (env ''CITRATE_IPFS_GATEWAY'', env ''CITRATE_LLAMA_URL'', env ''CITRATE_JOB_INPUT_DIR'') of
        (Some gateway, Some llama, Some input_dir) \<Rightarrow>
          rbind (optional_digest env ''CITRATE_MODEL_SHA256'') (\<lambda>weights.
          rbind (optional_digest env ''CITRATE_RESIDENT_MODEL_HASH'') (\<lambda>resident.
            Inr (Some \<lparr>xc_gateway = gateway, xc_llama = llama, xc_input_dir = input_dir,
              xc_cache_dir = (case env ''CITRATE_MODEL_CACHE_DIR'' of Some d \<Rightarrow> d
                | None \<Rightarrow> ''/var/lib/citrate-node-agent/models''),
              xc_weights_sha256 = weights, xc_resident_model = resident\<rparr>)))
      | _ \<Rightarrow> Inr None)"

section \<open>Deciding once\<close>

datatype one_shot = NotOpen u128 | WouldBid u64 u128 u128 bytes | WouldSkip u64 skip_reason

text \<open>\<open>C\<close> has the answers of the chain, \<open>spb\<close> is the block time, \<open>provider\<close> the parsed address of the
  environment, if it is set. The value is the decision, which is also printed.\<close>

definition decision_lines :: "one_shot \<Rightarrow> string list" where
  "decision_lines d = (case d of
     NotOpen i \<Rightarrow> [''DECISION: SKIP job #'' @ dec i @ '' '' @ em_dash @
       '' not open for bids (state/deadline) or its inputHash cannot be bound to the input'']
   | WouldBid i price cost calldata \<Rightarrow>
       [''DECISION: BID on job #'' @ dec i @ '' at '' @ dec price @ '' wei (cost '' @ dec cost @ '' wei)'',
        ''  would broadcast bidOnJob calldata: '' @ hex_encode calldata]
   | WouldSkip i reason \<Rightarrow> [''DECISION: SKIP job #'' @ dec i @ '' '' @ em_dash @ '' '' @ skip_reason_str reason])"

definition checked_chain_id :: "'h live_chain \<Rightarrow> 'h rpc_error + u64 \<Rightarrow> u64 printing" where
  "checked_chain_id C chain_id =
     and_then (attempt (lv_show C) chain_id) (\<lambda>cid.
       if cid \<noteq> CHAIN_ID
       then ([], Inl (Fails (''connected chain id '' @ dec cid @ '' != expected '' @ dec CHAIN_ID)))
       else ret cid)"

definition provider_caps ::
    "(bytes \<Rightarrow> bytes) \<Rightarrow> 'h live_chain \<Rightarrow> address \<Rightarrow> (abi_error + address) option \<Rightarrow> caps printing" where
  "provider_caps kec C marketplace provider =
     (case provider of
        Some parsed \<Rightarrow>
          and_then (attempt abi_error_display parsed) (\<lambda>provider.
          and_then (attempt (lv_show C) (live_get_provider kec (lv_call C 2) marketplace provider)) (\<lambda>profile.
          and_then (say (provider_line profile)) (\<lambda>_. ret (map_caps profile))))
      | None \<Rightarrow> ret \<lparr>current_active_jobs = 0, max_concurrent_jobs = 10\<rparr>)"

definition decide ::
    "(bytes \<Rightarrow> bytes) \<Rightarrow> env \<Rightarrow> u64 \<Rightarrow> job \<Rightarrow> u128 \<Rightarrow> pricing_oracle \<Rightarrow> settings \<Rightarrow> caps \<Rightarrow> one_shot" where
  "decide kec env spb job current_block oracle bid_settings caps =
     (let (pflop_hours, exec_secs) = profiler_estimate (model_hash job) (build_profiler env);
          bid_job = map_job job current_block spb pflop_hours exec_secs
      in if bid_expires_block job current_block = None then NotOpen (Marketplace.job_id job)
         else (case evaluate bid_job oracle bid_settings caps of
              Bid i price_wei cost \<Rightarrow> WouldBid i price_wei cost
                (encode_bid_on_job kec (ucast i) price_wei (ucast DEFAULT_EXEC_SECS * 1000))
            | Skip i reason \<Rightarrow> WouldSkip i reason))"

definition decide_once ::
    "(bytes \<Rightarrow> bytes) \<Rightarrow> env \<Rightarrow> 'h live_chain \<Rightarrow> u64 \<Rightarrow> address \<Rightarrow> address \<Rightarrow>
       (abi_error + address) option \<Rightarrow> u128 \<Rightarrow> settings \<Rightarrow> one_shot printing" where
  "decide_once kec env C spb marketplace oracle_addr provider target_job bid_settings =
     and_then (attempt (lv_show C) (live_salt_per_pflop_hour kec (lv_call C 0) oracle_addr)) (\<lambda>salt.
     and_then (attempt (lv_show C) (live_is_price_stale kec (lv_call C 1) oracle_addr)) (\<lambda>stale.
     and_then (say (oracle_line salt stale)) (\<lambda>_.
     and_then (provider_caps kec C marketplace provider) (\<lambda>caps.
     and_then (attempt (lv_show C) (live_get_job kec (lv_call C 3) marketplace target_job)) (\<lambda>job.
     and_then (attempt (lv_show C) (lv_block C)) (\<lambda>current_block.
     and_then (say (job_line job current_block)) (\<lambda>_.
     let d = decide kec env spb job current_block \<lparr>salt_per_pflop_hour_wei = salt, oracle_stale = stale\<rparr> bid_settings caps
     in (decision_lines d, Inr d))))))))"

text \<open>The decision alone, after the check of the chain id, for a provider that was read.\<close>

definition run_once ::
    "(bytes \<Rightarrow> bytes) \<Rightarrow> env \<Rightarrow> 'h live_chain \<Rightarrow> ('h rpc_error + u64) \<Rightarrow> u64 \<Rightarrow> address \<Rightarrow> address \<Rightarrow>
       address option \<Rightarrow> u128 \<Rightarrow> settings \<Rightarrow> failure + one_shot" where
  "run_once kec env C chain_id spb marketplace oracle_addr provider target_job bid_settings =
     snd (and_then (checked_chain_id C chain_id) (\<lambda>_.
       decide_once kec env C spb marketplace oracle_addr (map_option Inr provider) target_job bid_settings))"

lemma checked_chain_id_Inr [simp]: "snd (checked_chain_id C r) = Inr c \<longleftrightarrow> r = Inr CHAIN_ID \<and> c = CHAIN_ID"
  by (auto simp: checked_chain_id_def ret_def split: if_splits)

section \<open>The digest parser\<close>

lemma digit_char_not_plus: "d < 16 \<Longrightarrow> digit_char d \<noteq> CHR ''+''"
proof
  assume "d < 16" "digit_char d = CHR ''+''"
  then have "digit_value 16 (CHR ''+'') = Some d" using digit_value_digit_char [of d 16] by simp
  then show False by (simp add: digit_value_def)
qed

lemma parse_hex_byte: "parse_uint 16 256 (hex_byte b) = Some (unat b)"
proof -
  have n: "unat (drop_bit 4 b) < 16" "unat (b AND 15) < 16"
    using unat_high_nibble unat_low_nibble [of b] by auto
  have d: "digit_value 16 (digit_char (unat (drop_bit 4 b))) = Some (unat (drop_bit 4 b))"
    "digit_value 16 (digit_char (unat (b AND 15))) = Some (unat (b AND 15))"
    using n digit_value_digit_char by simp_all
  have v: "digits_value 16 (hex_byte b) = unat b"
    using d by (simp add: digits_value_def hex_byte_def drop_bit_eq_div low_nibble_take take_bit_eq_mod
        unat_simps)
  have "digit_char (unat (drop_bit 4 b)) \<noteq> CHR ''+''" using digit_char_not_plus n(1) by blast
  then show ?thesis using v d unat_byte_lt [of b]
    by (simp add: parse_uint_def hex_byte_def is_digit_def Let_def)
qed

text \<open>The text of any 32 bytes, with or without the prefix, reads back.\<close>

lemma take_pairs: "i < length bs \<Longrightarrow> take 2 (drop (2 * i) (concat (map hex_byte bs))) = hex_byte (bs ! i)"
proof (induction bs arbitrary: i)
  case (Cons b bs)
  then show ?case by (cases i) (simp_all add: hex_byte_def)
qed simp

lemma those_map_Some: "(\<And>i. i \<in> set js \<Longrightarrow> f i = Some (g i)) \<Longrightarrow> those (map f js) = Some (map g js)"
  by (induction js) simp_all

lemma digit_char_small: "d < 16 \<Longrightarrow> of_char (digit_char d) < (128 :: nat)"
  by (auto simp: digit_char_def)

lemma hex_text_ascii: "\<not> list_ex (\<lambda>c. 128 \<le> (of_char c :: nat)) (concat (map hex_byte bs))"
proof
  assume "list_ex (\<lambda>c. 128 \<le> (of_char c :: nat)) (concat (map hex_byte bs))"
  then obtain c where "c \<in> set (concat (map hex_byte bs))" "128 \<le> (of_char c :: nat)"
    by (auto simp: list_ex_iff)
  then show False using hex_text_chars digit_char_small by (metis not_less)
qed

lemma hex_text_no_prefix: "strip_prefix ''0x'' (concat (map hex_byte bs)) = None"
proof (rule ccontr)
  assume "strip_prefix ''0x'' (concat (map hex_byte bs)) \<noteq> None"
  then obtain r where "concat (map hex_byte bs) = ''0x'' @ r" by auto
  then have "CHR ''x'' \<in> set (concat (map hex_byte bs))" by simp
  then obtain d where "d < 16" "digit_char d = CHR ''x''" using hex_text_chars by metis
  then have "digit_value 16 (CHR ''x'') = Some d" using digit_value_digit_char [of d 16] by simp
  then show False by (simp add: digit_value_def)
qed

lemma parse_sha256_hex_text:
  assumes "length bs = 32"
  shows "parse_sha256_hex (concat (map hex_byte bs)) = Some bs"
    and "parse_sha256_hex (''0x'' @ concat (map hex_byte bs)) = Some bs"
proof -
  let ?t = "concat (map hex_byte bs)"
  have len: "length ?t = 64" using assms length_hex_text [of bs] by simp
  have ascii: "\<not> list_ex (\<lambda>c. 128 \<le> (of_char c :: nat)) ?t"
    by (rule hex_text_ascii)
  have "strip_prefix ''0x'' ?t = None"
    by (rule hex_text_no_prefix)
  moreover have "those (map (\<lambda>i. map_option of_nat (parse_uint 16 256 (take 2 (drop (2 * i) ?t)))) [0..<32]) =
      Some (map (\<lambda>i. bs ! i) [0..<32])"
    using assms by (intro those_map_Some) (simp add: take_pairs parse_hex_byte)
  moreover have "map (\<lambda>i. bs ! i) [0..<32] = bs" using assms map_nth [of bs] by simp
  ultimately show "parse_sha256_hex ?t = Some bs" "parse_sha256_hex (''0x'' @ ?t) = Some bs"
    using len ascii by (simp_all add: parse_sha256_hex_def Let_def)
qed

text \<open>But \<open>from_str_radix\<close> takes a sign: a digest of 64 characters may hold a plus sign before
  every digit, which is not hexadecimal text.\<close>

lemma parse_sha256_hex_takes_signs:
  "parse_sha256_hex (concat (replicate 32 ''+7'')) = Some (replicate 32 7)"
proof -
  let ?t = "concat (replicate 32 ''+7'')"
  have piece: "take 2 (drop (2 * i) (concat (replicate n ''+7''))) = ''+7''" if "i < n" for i n
    using that
  proof (induction n arbitrary: i)
    case (Suc n)
    then show ?case by (cases i) simp_all
  qed simp
  have one: "parse_uint 16 256 ''+7'' = Some 7"
    by (simp add: parse_uint_def is_digit_def digit_value_def digits_value_def Let_def)
  have "those (map (\<lambda>i. map_option of_nat (parse_uint 16 256 (take 2 (drop (2 * i) ?t)))) [0..<32]) =
      Some (map (\<lambda>i. 7 :: u8) [0..<32])"
    by (intro those_map_Some) (simp add: piece one)
  moreover have "map (\<lambda>i. 7 :: u8) [0..<32] = replicate 32 7" by (simp add: map_replicate_const)
  moreover have "length ?t = 64" "\<not> list_ex (\<lambda>c. 128 \<le> (of_char c :: nat)) ?t"
    "strip_prefix ''0x'' ?t = None" by (simp_all add: numeral_eq_Suc)
  ultimately show ?thesis by (simp add: parse_sha256_hex_def Let_def)
qed

section \<open>The one-shot decision and the daemon's\<close>

lemma fresh_estimate: "snd (profiler_estimate h (build_profiler env)) = 300"
  by (simp add: profiler_estimate_def build_profiler_def profiler_new_def DEFAULT_EXEC_SECS_def Let_def
      max_def word_le_nat_alt)

lemma tick_placed_iff:
  assumes "\<not> paused s"
  shows "tr_placed (tick refreshed st place (\<lambda>_. []) s) = Some req \<longleftrightarrow>
    (\<exists>m e i price c. refreshed = Inr m \<and> ms_bid_expires_block m = Some e \<and>
      evaluate (ms_job m) (ms_oracle m) st (ms_caps m) = Bid i price c \<and>
      req = \<lparr>br_job_id = ucast i, br_price_wei = price,
        br_latency_ms = ucast (bj_estimated_exec_secs (ms_job m)) * 1000, br_expires_block = e\<rparr>)"
proof (cases refreshed)
  case (Inr m)
  have "accepts_new_bids (set_last_error None (record_provider_observation mx rep w s))" for mx rep w
    using assms by (simp add: accepts_new_bids_def set_last_error_def record_provider_observation_def
        set_provider_stats_def Let_def)
  then show ?thesis
    unfolding tick_def Inr
    by (cases "ms_bid_expires_block m";
        cases "evaluate (ms_job m) (ms_oracle m) st (ms_caps m)")
      (auto simp: Let_def case_prod_beta)
qed (simp add: tick_def Let_def)

lemma ucast_64_inj: "(ucast (a :: u64) :: u128) = ucast b \<longleftrightarrow> a = b"
proof
  assume "(ucast a :: u128) = ucast b"
  then have "unat (ucast a :: u128) = unat (ucast b :: u128)" by simp
  then show "a = b" by (simp add: unat_ucast_up word_unat_eq_iff)
qed simp

lemma provider_caps_Inr: "snd (provider_caps kec C mkt provider) = Inr caps \<longleftrightarrow>
    (case provider of None \<Rightarrow> caps = \<lparr>current_active_jobs = 0, max_concurrent_jobs = 10\<rparr>
     | Some r \<Rightarrow> \<exists>me profile. r = Inr me \<and> live_get_provider kec (lv_call C 2) mkt me = Inr profile \<and>
         caps = map_caps profile)"
  by (cases provider) (auto simp: provider_caps_def)

lemma decide_once_Inr: "snd (decide_once kec env C spb mkt orc provider i st) = Inr d \<longleftrightarrow>
    (\<exists>salt stale caps job blk.
      live_salt_per_pflop_hour kec (lv_call C 0) orc = Inr salt \<and>
      live_is_price_stale kec (lv_call C 1) orc = Inr stale \<and>
      snd (provider_caps kec C mkt provider) = Inr caps \<and>
      live_get_job kec (lv_call C 3) mkt i = Inr job \<and> lv_block C = Inr blk \<and>
      d = decide kec env spb job blk \<lparr>salt_per_pflop_hour_wei = salt, oracle_stale = stale\<rparr> st caps)"
  unfolding decide_once_def Let_def by (auto simp: and_then_plain)

lemma decide_cases: "decide kec env spb job blk o1 st caps =
    (if bid_expires_block job blk = None then NotOpen (Marketplace.job_id job)
     else case evaluate (map_job job blk spb (fst (profiler_estimate (model_hash job) (build_profiler env))) 300)
            o1 st caps of
          Bid n price cost \<Rightarrow> WouldBid n price cost (encode_bid_on_job kec (ucast n) price 300000)
        | Skip n r \<Rightarrow> WouldSkip n r)"
proof -
  have "ucast DEFAULT_EXEC_SECS * 1000 = (300000 :: u128)" by (simp add: DEFAULT_EXEC_SECS_def)
  note latency = this
  show ?thesis unfolding decide_def Let_def case_prod_beta fresh_estimate latency by (rule refl)
qed

lemma decide_printed: "decision_lines (decide kec env spb job blk o1 st caps) =
    (if bid_expires_block job blk = None
     then [''DECISION: SKIP job #'' @ dec (Marketplace.job_id job) @ '' '' @ em_dash @
       '' not open for bids (state/deadline) or its inputHash cannot be bound to the input'']
     else case evaluate (map_job job blk spb (fst (profiler_estimate (model_hash job) (build_profiler env))) 300)
            o1 st caps of
          Bid n price cost \<Rightarrow>
            [''DECISION: BID on job #'' @ dec n @ '' at '' @ dec price @ '' wei (cost '' @ dec cost @ '' wei)'',
             ''  would broadcast bidOnJob calldata: '' @ hex_encode (encode_bid_on_job kec (ucast n) price 300000)]
        | Skip n r \<Rightarrow> [''DECISION: SKIP job #'' @ dec n @ '' '' @ em_dash @ '' '' @ skip_reason_str r])"
  by (cases "bid_expires_block job blk = None"; cases "evaluate (map_job job blk spb
      (fst (profiler_estimate (model_hash job) (build_profiler env))) 300) o1 st caps")
    (simp_all add: decide_cases decision_lines_def del: not_None_eq)

lemma decide_bids: "decide kec env spb job blk o1 st caps = WouldBid n price cost data \<longleftrightarrow>
    bid_expires_block job blk \<noteq> None \<and>
    evaluate (map_job job blk spb (fst (profiler_estimate (model_hash job) (build_profiler env))) 300)
      o1 st caps = Bid n price cost \<and> data = encode_bid_on_job kec (ucast n) price 300000"
  by (auto simp: decide_cases simp del: not_None_eq split: bid_decision.splits)

lemma run_once_bids:
  "run_once kec env C (Inr CHAIN_ID) spb mkt orc (Some me) i st = Inr (WouldBid n price cost data) \<longleftrightarrow>
    (\<exists>salt stale profile job blk.
      live_salt_per_pflop_hour kec (lv_call C 0) orc = Inr salt \<and>
      live_is_price_stale kec (lv_call C 1) orc = Inr stale \<and>
      live_get_provider kec (lv_call C 2) mkt me = Inr profile \<and>
      live_get_job kec (lv_call C 3) mkt i = Inr job \<and> lv_block C = Inr blk \<and>
      bid_expires_block job blk \<noteq> None \<and>
      evaluate (map_job job blk spb (fst (profiler_estimate (model_hash job) (build_profiler env))) 300)
        \<lparr>salt_per_pflop_hour_wei = salt, oracle_stale = stale\<rparr> st (map_caps profile) = Bid n price cost \<and>
      data = encode_bid_on_job kec (ucast n) price 300000)"
  unfolding run_once_def and_then_Inr decide_once_Inr checked_chain_id_Inr
  by (simp add: provider_caps_Inr eq_commute [of "WouldBid n price cost data"] decide_bids del: not_None_eq) blast

lemma bid_fields:
  "bj_estimated_exec_secs (map_job job blk spb ph es) = es"
  by (simp add: map_job_def Let_def)

text \<open>The run that decides closes with the lines of its decision.\<close>

lemma checked_chain_id_quiet: "quiet (checked_chain_id C r)"
  unfolding checked_chain_id_def by (rule quiet_and_then) (simp, simp add: quiet_def ret_def)

lemma provider_caps_quiet: "quiet (provider_caps kec C mkt provider)"
  unfolding provider_caps_def
  by (cases provider) (auto simp: plain_line_def provider_line_def intro!: quiet_and_then)

lemma decide_once_closes: "closes_with decision_lines (decide_once kec env C spb mkt orc provider i st)"
  unfolding decide_once_def Let_def
  by (intro closes_and_then closes_last provider_caps_quiet quiet_simps)
    (simp_all add: plain_line_def oracle_line_def job_line_def)

text \<open>C20: Deciding once and the daemon agree: over the same chain, settings, provider, block time and a
  profiler without samples, the program run once prints a bid exactly when a tick of a daemon that is
  not paused places one, with the same job id, price and latency, so that the printed calldata is the
  calldata the daemon queues.\<close>

theorem run_once_agrees_with_tick:
  assumes "lv_call C = (\<lambda>_. call)" "\<not> paused s"
  shows "(\<exists>cost. run_once kec env C (Inr CHAIN_ID) spb mkt orc (Some me) i st =
        Inr (WouldBid n price cost data)) \<longleftrightarrow>
    (\<exists>req. tr_placed (tick (live_refresh kec C \<lparr>lm_marketplace = mkt, lm_oracle = orc, lm_provider = me,
          lm_job_id = i, lm_profiler = build_profiler env, lm_secs_per_block = spb\<rparr>) st place (\<lambda>_. []) s) =
        Some req \<and>
      br_job_id req = ucast n \<and> br_price_wei req = price \<and>
      data = encode_bid_on_job kec (br_job_id req) (br_price_wei req) (br_latency_ms req))"
  unfolding tick_placed_iff [OF assms(2)] run_once_bids live_refresh_iff assms(1)
  by (auto simp: fresh_estimate bid_fields ucast_64_inj)

text \<open>The market of \<open>sample_live_chain\<close> behind calls that tell the requests apart by their selectors,
  here the first four characters of the signatures.\<close>

definition sample_call :: "unit chain_call" where
  "sample_call to data = Inr
     (if take 4 data = bytes_of_string ''getP'' then abi_encode_provider sample_profile
      else if take 4 data = bytes_of_string ''salt'' then word_from_u128 1000000000000000000
      else if take 4 data = bytes_of_string ''isPr'' then word_from_bool False
      else abi_encode_job sample_live_job (replicate 32 9))"

definition sample_market :: "unit live_chain" where
  "sample_market = sample_live_chain\<lparr>lv_call := (\<lambda>_. sample_call)\<rparr>"

lemma sample_market_reads:
  "live_get_provider (\<lambda>x. x) sample_call a b = Inr sample_profile"
  "live_salt_per_pflop_hour (\<lambda>x. x) sample_call a = Inr 1000000000000000000"
  "live_is_price_stale (\<lambda>x. x) sample_call a = Inr False"
  "live_get_job (\<lambda>x. x) sample_call a i = Inr sample_live_job"
  using sample_live_reads [of "\<lambda>x. x"]
  by (simp_all add: live_get_provider_def live_salt_per_pflop_hour_def live_is_price_stale_def live_get_job_def
      live_read_def sample_call_def sample_live_chain_def encode_get_provider_def encode_salt_per_pflop_hour_def
      encode_is_price_stale_def encode_get_job_def encode_call_def selector_def sel_get_provider_def
      sel_salt_per_pflop_hour_def sel_is_price_stale_def sel_get_job_def bytes_of_string_def)

lemma run_once_agrees_with_tick_witness:
  "\<exists>req. tr_placed (tick (live_refresh (\<lambda>x. x) sample_market
       \<lparr>lm_marketplace = [], lm_oracle = [], lm_provider = [], lm_job_id = 7,
        lm_profiler = build_profiler (\<lambda>_. None), lm_secs_per_block = 2\<rparr>)
       sample_settings (\<lambda>_ s. (Inr (), s)) (\<lambda>_. []) agent_new) = Some req \<and> br_job_id req = 7"
proof -
  have "run_once (\<lambda>x. x) (\<lambda>_. None) sample_market (Inr CHAIN_ID) 2 [] [] (Some []) 7 sample_settings =
      Inr (WouldBid 7 575000000000000000 500000000000000000 (encode_bid_on_job (\<lambda>x. x) 7 575000000000000000 300000))"
    unfolding run_once_bids
    by (simp add: sample_market_def sample_market_reads)
      (simp add: sample_live_chain_def sample_live_job_def map_caps_def sample_profile_def map_job_def
        map_tier_def bid_expires_block_def sat_sub_def sat_mul_def profiler_estimate_def build_profiler_def
        profiler_new_def DEFAULT_NODE_PFLOPS_1E18_def DEFAULT_EXEC_SECS_def max_def word_le_nat_alt
        evaluate_def sample_settings_def bid_constants estimated_cost_wei_def secs_until_window_close_def
        in_window_def NIGHT_START_HOUR_def NIGHT_END_HOUR_def Let_def, blast)
  then show ?thesis
    using run_once_agrees_with_tick [of sample_market sample_call agent_new "\<lambda>x. x" "\<lambda>_. None" 2 "[]" "[]" "[]" 7
      sample_settings 7 575000000000000000 _ "\<lambda>_ s. (Inr (), s)"]
    by (fastforce simp: sample_market_def agent_new_def)
qed

end
