(* ===== verification/Main_Program.thy ===== *)
theory Main_Program
  imports Execution_Safety System Startup
begin

text \<open>
  The program \<open>node-agent\<close> itself, \<open>crates/node-agent/src/main.rs\<close>: its arguments, the run that
  decides once (its chain part is \<open>decide_once\<close> of \<open>Startup\<close>), and the start of the daemon up to its loop,
  with every early return. A missing name in the address table is a panic. What the process meets is the
  record \<open>process\<close>.
\<close>

section \<open>What the process meets\<close>

text \<open>The chain answers of one start: its id, the reads in their order, the block-time sample. The
  clock fails when it is before 1970. \<open>px_debug\<close> is Rust's \<open>{:?}\<close> of a text.\<close>

record ('h, 'p) process =
  px_env :: env
  px_read_file :: "string \<Rightarrow> string + string"
  px_parse :: "string \<Rightarrow> 'p + compute_settings"
  px_show_parse :: "'p \<Rightarrow> string"
  px_clock :: "string + u64"
  px_table :: address_table
  px_chain_id_read :: "'h rpc_error + u64"
  px_live :: "'h live_chain"
  px_block_time :: "'h rpc_error + u64 option"
  px_debug :: "string \<Rightarrow> string"
  px_show_addr :: "socket_addr \<Rightarrow> string"
  px_token_io :: token_io
  px_euid :: nat
  px_token_fs :: token_fs
  px_show_token :: "token_error \<Rightarrow> string"
  px_os_random :: "string + bytes"

definition outbound_text :: "('h, 'p) process \<Rightarrow> outbound_url_error \<Rightarrow> string" where
  "outbound_text P = outbound_url_error_display (px_debug P)"

text \<open>A contract of the address book; a name the table lacks is a panic.\<close>

definition book_text :: "('h, 'p) process \<Rightarrow> (address_table \<Rightarrow> string option) \<Rightarrow> string printing" where
  "book_text P name = ([], ok_or Panics (name (px_table P)))"

definition book_address :: "('h, 'p) process \<Rightarrow> (address_table \<Rightarrow> string option) \<Rightarrow> address printing" where
  "book_address P name = and_then (book_text P name) (\<lambda>t. attempt abi_error_display (address_from_hex t))"

definition connect :: "('h, 'p) process \<Rightarrow> string \<Rightarrow> rpc_client printing" where
  "connect P url = attempt (outbound_text P) (rpc_client_new (px_env P) url)"

lemma book_address_Inr [simp]: "snd (book_address P name) = Inr a \<longleftrightarrow>
    (\<exists>t. name (px_table P) = Some t \<and> address_from_hex t = Inr a)"
  by (simp add: book_address_def book_text_def)

section \<open>Deciding once\<close>

definition run_live ::
    "(bytes \<Rightarrow> bytes) \<Rightarrow> ('h, 'p) process \<Rightarrow> string \<Rightarrow> u128 \<Rightarrow> settings \<Rightarrow> one_shot printing" where
  "run_live kec P rpc_url target_job bid_settings =
     and_then (connect P rpc_url) (\<lambda>_.
     and_then (checked_chain_id (px_live P) (px_chain_id_read P)) (\<lambda>chain_id.
     and_then (say (''connected to chain id '' @ dec chain_id)) (\<lambda>_.
     and_then (book_address P compute_marketplace) (\<lambda>marketplace.
     and_then (book_address P compute_pricing_oracle) (\<lambda>oracle_addr.
       decide_once kec (px_env P) (px_live P) (derive_secs_per_block (px_block_time P)) marketplace oracle_addr
         (map_option address_from_hex (px_env P ''CITRATE_PROVIDER_ADDRESS'')) target_job bid_settings)))))"

text \<open>\<open>run\<close> without \<open>--daemon\<close>; \<open>None\<close> is the configuration self-check without a chain.\<close>

definition self_check_line :: "string \<Rightarrow> string \<Rightarrow> string" where
  "self_check_line marketplace oracle = ''CITRATE_RPC_URL not set '' @ em_dash @
     '' config self-check only (no live reads). Marketplace='' @ marketplace @ '' Oracle='' @ oracle"

definition run_config ::
    "(bytes \<Rightarrow> bytes) \<Rightarrow> ('h, 'p) process \<Rightarrow> string \<Rightarrow> u128 \<Rightarrow> one_shot option printing" where
  "run_config kec P config_path target_job =
     and_then (attempt (\<lambda>e. ''reading '' @ config_path @ '': '' @ e) (px_read_file P config_path)) (\<lambda>raw.
     and_then (attempt (config_error_display (px_show_parse P)) (from_json (px_parse P) raw)) (\<lambda>cfg.
     and_then (say (''compute.json: enabled='' @ bool_text (cs_enabled cfg) @ '' allocation='' @
       dec (cs_allocation_percent cfg) @ ''% schedule='' @ schedule_debug (cs_schedule cfg))) (\<lambda>_.
     and_then (attempt (\<lambda>e. e) (px_clock P)) (\<lambda>now.
     let (hour, minute, weekday) = utc_hour_min_weekday now;
         bid_settings = \<lparr>st_enabled = cs_enabled cfg, st_schedule = cs_schedule cfg, st_current_hour = hour,
           st_current_min = minute, st_current_day = weekday\<rparr>
     in and_then (say (''clock (UTC): hour='' @ dec hour @ '' weekday='' @ weekday_debug weekday)) (\<lambda>_.
        and_then (say (''heartbeat calldata: '' @ hex_encode (heartbeat_calldata kec))) (\<lambda>_.
        case px_env P ''CITRATE_RPC_URL'' of
          None \<Rightarrow> and_then (book_text P compute_marketplace) (\<lambda>marketplace.
            and_then (book_text P compute_pricing_oracle) (\<lambda>oracle.
            and_then (say (self_check_line marketplace oracle)) (\<lambda>_. ret None)))
        | Some rpc_url \<Rightarrow> and_then (run_live kec P rpc_url target_job bid_settings) (\<lambda>d. ret (Some d))))))))"

section \<open>Arguments\<close>

definition usage :: string where
  "usage = ''usage: node-agent [--daemon] <path-to-compute.json> [job-id]   (env: CITRATE_RPC_URL)''"

definition parse_args :: "string list \<Rightarrow> (string \<times> u128) printing" where
  "parse_args raw =
     (case filter (\<lambda>a. a \<noteq> ''--daemon'') raw of
        [] \<Rightarrow> ([], Inl (Fails usage))
      | [config_path] \<Rightarrow> ret (config_path, 0)
      | config_path # s # _ \<Rightarrow>
          attempt (\<lambda>e. e) (map_err (\<lambda>_. ''job-id must be a non-negative integer'')
            (ok_or () (map_option (\<lambda>n. (config_path, of_nat n)) (parse_uint 10 (2 ^ 128) s)))))"

section \<open>Starting the daemon\<close>

text \<open>The live job executor with the clients and backends it was given.\<close>

record started_executor =
  sx_job :: job_executor
  sx_view :: live_job_view
  sx_client :: rpc_client
  sx_input_dir :: string
  sx_weights :: ipfs_gateway_source
  sx_inference :: llama_server

definition build_job_executor ::
    "('h, 'p) process \<Rightarrow> string \<Rightarrow> address \<Rightarrow> address \<Rightarrow> address \<Rightarrow> u128 \<Rightarrow> u64 \<Rightarrow> started_executor option printing" where
  "build_job_executor P rpc_url marketplace registry me target_job chain_id =
     and_then (attempt (\<lambda>e. e) (executor_settings_of (px_env P))) (\<lambda>settings.
     case settings of
       None \<Rightarrow> ret None
     | Some xc \<Rightarrow>
         and_then (attempt (outbound_text P) (case xc_resident_model xc of
             Some resident \<Rightarrow> llama_with_resident_model (px_env P) (xc_llama xc) resident
           | None \<Rightarrow> llama_new (px_env P) (xc_llama xc))) (\<lambda>inference.
         and_then (attempt (\<lambda>e. e) (random_nonce (px_os_random P))) (\<lambda>nonce.
         and_then (connect P rpc_url) (\<lambda>client.
         and_then (book_address P compute_verifier) (\<lambda>verifier.
         and_then (attempt (outbound_text P) (gateway_source_new (px_env P) (xc_gateway xc))) (\<lambda>weights.
           ret (Some \<lparr>sx_job = \<lparr>je_job_id = target_job, je_me = me, je_marketplace = marketplace,
                je_chain_id = chain_id, je_cache_dir = xc_cache_dir xc, je_nonce = nonce,
                je_nonce_store = Some (default_state_dir (px_env P))\<rparr>,
             sx_view = \<lparr>lj_marketplace = marketplace, lj_model_registry = registry, lj_verifier = verifier,
                lj_weights_sha256 = xc_weights_sha256 xc\<rparr>,
             sx_client = client, sx_input_dir = xc_input_dir xc, sx_weights = weights,
             sx_inference = inference\<rparr>)))))))"

record live_start =
  ld_wiring :: wiring
  ld_view :: live_market_view
  ld_client :: rpc_client
  ld_claim_client :: rpc_client
  ld_executor :: "started_executor option"

text \<open>Without an RPC URL and a provider address only the supervision surface runs, over this state.\<close>

datatype daemon_start = SelfCheck agent_state | LiveLoop live_start

definition execution_line :: "u64 \<Rightarrow> u128 \<Rightarrow> bool \<Rightarrow> string" where
  "execution_line chain_id target_job executes =
     ''node-agent daemon: live loop on chain '' @ dec chain_id @ '', job #'' @ dec target_job @ '' '' @ em_dash @ '' '' @
     (if executes
      then ''EXECUTION + earnings enabled; unsigned writes are queued to GET /signature-requests for gui-native to sign + broadcast + observe (POST /signature-requests/{id}/observed)''
      else ''bid + earnings (execution off; set CITRATE_IPFS_GATEWAY + CITRATE_LLAMA_URL + CITRATE_JOB_INPUT_DIR to execute won jobs)'')"

definition start_live ::
    "('h, 'p) process \<Rightarrow> string \<Rightarrow> string \<Rightarrow> u128 \<Rightarrow> live_start printing" where
  "start_live P rpc_url provider_hex target_job =
     and_then (connect P rpc_url) (\<lambda>client.
     and_then (checked_chain_id (px_live P) (px_chain_id_read P)) (\<lambda>chain_id.
     and_then (book_address P compute_marketplace) (\<lambda>marketplace.
     and_then (book_address P model_registry) (\<lambda>registry.
     and_then (attempt abi_error_display (address_from_hex provider_hex)) (\<lambda>provider.
     let secs_per_block = derive_secs_per_block (px_block_time P)
     in and_then (say (''node-agent daemon: block time '' @ dec secs_per_block @ ''s/block (chain-derived)'')) (\<lambda>_.
        and_then (book_address P compute_pricing_oracle) (\<lambda>oracle.
        and_then (book_address P heartbeat_monitor) (\<lambda>monitor.
        and_then (book_address P contribution_accounting) (\<lambda>accounting.
        and_then (connect P rpc_url) (\<lambda>claim_client.
        and_then (build_job_executor P rpc_url marketplace registry provider target_job chain_id) (\<lambda>executor.
        and_then (say (execution_line chain_id target_job (executor \<noteq> None))) (\<lambda>_.
          ret \<lparr>ld_wiring = \<lparr>dw_marketplace = marketplace, dw_monitor = monitor, dw_accounting = accounting,
                 dw_chain_id = chain_id, dw_claim_threshold_wei = claim_threshold_wei (px_env P)\<rparr>,
               ld_view = \<lparr>lm_marketplace = marketplace, lm_oracle = oracle, lm_provider = provider,
                 lm_job_id = target_job, lm_profiler = build_profiler (px_env P),
                 lm_secs_per_block = secs_per_block\<rparr>,
               ld_client = client, ld_claim_client = claim_client, ld_executor = executor\<rparr>))))))))))))"

definition surface_line :: "('h, 'p) process \<Rightarrow> socket_addr \<Rightarrow> string \<Rightarrow> string" where
  "surface_line P addr token_path = ''node-agent daemon: supervision on http://'' @ px_show_addr P addr @
     '' (/health open; bearer token at '' @ token_path @ '')''"

definition disabled_line :: string where
  "disabled_line = ''node-agent daemon: CITRATE_RPC_URL/CITRATE_PROVIDER_ADDRESS not both set '' @ em_dash @
     '' supervision-only self-check (no live market reads). Set both to run the live loop.''"

definition start_daemon ::
    "('h, 'p) process \<Rightarrow> string \<Rightarrow> u128 \<Rightarrow> (socket_addr \<times> string \<times> daemon_start) printing" where
  "start_daemon P config_path target_job =
     and_then (attempt (\<lambda>e. e) (live_settings (px_parse P) (px_show_parse P) config_path
       (px_read_file P config_path) (case px_clock P of Inr now \<Rightarrow> now | Inl _ \<Rightarrow> 0))) (\<lambda>_.
     and_then (attempt (\<lambda>e. e) (resolve_addr (px_debug P) (px_env P))) (\<lambda>addr.
     let token_path = default_token_path (px_env P)
     in and_then (attempt (\<lambda>e. ''supervision token at '' @ token_path @ '': '' @ px_show_token P e)
          (fst (load_or_create (px_token_io P) (px_euid P) token_path (px_token_fs P)))) (\<lambda>token.
        and_then (say (surface_line P addr token_path)) (\<lambda>_.
        case (px_env P ''CITRATE_RPC_URL'', px_env P ''CITRATE_PROVIDER_ADDRESS'') of
          (Some rpc_url, Some provider_hex) \<Rightarrow>
            and_then (start_live P rpc_url provider_hex target_job) (\<lambda>L. ret (addr, token, LiveLoop L))
        | _ \<Rightarrow> and_then (say disabled_line) (\<lambda>_. ret (addr, token, SelfCheck (set_last_error
              (Some ''live loop disabled: set CITRATE_RPC_URL + CITRATE_PROVIDER_ADDRESS'') agent_new)))))))"

section \<open>The program\<close>

definition node_agent ::
    "(bytes \<Rightarrow> bytes) \<Rightarrow> ('h, 'p) process \<Rightarrow> string list \<Rightarrow>
       (one_shot option + socket_addr \<times> string \<times> daemon_start) printing" where
  "node_agent kec P raw =
     and_then (parse_args raw) (\<lambda>(config_path, target_job).
       if daemon_mode raw (px_env P)
       then and_then (start_daemon P config_path target_job) (\<lambda>d. ret (Inr d))
       else and_then (run_config kec P config_path target_job) (\<lambda>d. ret (Inl d)))"

text \<open>The daemon of \<open>System\<close> that a start hands to the loop; \<open>ev\<close> are the digests and texts of the
  executor and \<open>E\<close> axum's part of the surface.\<close>

definition daemon_of ::
    "exec_env \<Rightarrow> http_env \<Rightarrow> ('h, 'p) process \<Rightarrow> string \<Rightarrow> string \<Rightarrow> live_start \<Rightarrow> 'p daemon" where
  "daemon_of ev E P config_path token L =
     \<lparr>dm_env = ev, dm_wiring = ld_wiring L, dm_view = ld_view L,
      dm_executor = map_option sx_job (ld_executor L), dm_parse = px_parse P, dm_show_parse = px_show_parse P,
      dm_config_path = config_path, dm_http = E, dm_auth = token\<rparr>"

section \<open>What a start establishes\<close>

text \<open>An endpoint that is encrypted or local.\<close>

definition safe_endpoint :: "string \<Rightarrow> bool" where
  "safe_endpoint url \<longleftrightarrow> (\<exists>s rest host. url = s @ ''://'' @ rest \<and> authority_host (authority_of rest) host \<and>
     (to_ascii_lowercase s = ''https'' \<or> to_ascii_lowercase s = ''http'' \<and> loopback_name host))"

lemma validated_endpoint:
  assumes "validate_outbound_url env url = Inr ()" "env ALLOW_INSECURE_ENV = None"
  shows "safe_endpoint url"
proof -
  have "validate_outbound_url_with url False = Inr ()" using assms by (simp add: validate_outbound_url_def)
  from validated_cases [OF this] show ?thesis
    unfolding safe_endpoint_def using host_of_authority loopback_host_name by blast
qed

lemma connect_Inr [simp]: "snd (connect P url) = Inr c \<longleftrightarrow>
    validate_outbound_url (px_env P) url = Inr () \<and>
    c = \<lparr>rc_url = url, rc_http = timed_http_client (px_env P), rc_next_id = 1\<rparr>"
  by (auto simp: connect_def rpc_client_new_def)

lemma executor_endpoints:
  assumes "snd (build_job_executor P rpc_url mkt reg me i cid) = Inr (Some X)"
  shows "rc_url (sx_client X) = rpc_url \<and> validate_outbound_url (px_env P) rpc_url = Inr () \<and>
    validate_outbound_url (px_env P) (gs_gateway (sx_weights X)) = Inr () \<and>
    validate_outbound_url (px_env P) (ls_base_url (sx_inference X)) = Inr () \<and>
    je_me (sx_job X) = me \<and> je_nonce_store (sx_job X) = Some (default_state_dir (px_env P))"
proof -
  obtain xc where xc: "executor_settings_of (px_env P) = Inr (Some xc)"
  proof (cases "executor_settings_of (px_env P)")
    case (Inr settings)
    then show ?thesis using assms that by (cases settings) (auto simp: build_job_executor_def)
  qed (use assms in \<open>simp add: build_job_executor_def\<close>)
  show ?thesis
    using assms xc
    by (cases "xc_resident_model xc") (auto simp: build_job_executor_def gateway_source_new_def llama_new_def
        llama_with_resident_model_def llama_build_def)
qed

lemma start_live_Inr:
  assumes "snd (start_live P rpc_url provider_hex i) = Inr L"
  shows "validate_outbound_url (px_env P) rpc_url = Inr () \<and> px_chain_id_read P = Inr CHAIN_ID \<and>
    rc_url (ld_client L) = rpc_url \<and> rc_url (ld_claim_client L) = rpc_url \<and>
    dw_chain_id (ld_wiring L) = CHAIN_ID \<and>
    snd (book_address P compute_marketplace) = Inr (dw_marketplace (ld_wiring L)) \<and>
    snd (book_address P heartbeat_monitor) = Inr (dw_monitor (ld_wiring L)) \<and>
    snd (book_address P contribution_accounting) = Inr (dw_accounting (ld_wiring L)) \<and>
    (\<forall>X \<in> set_option (ld_executor L). \<exists>mkt reg me.
       snd (build_job_executor P rpc_url mkt reg me i CHAIN_ID) = Inr (Some X))"
  using assms by (auto simp: start_live_def Let_def) blast

lemma start_daemon_live:
  assumes "snd (start_daemon P config_path i) = Inr (addr, token, LiveLoop L)"
  shows "socket_is_loopback addr \<and>
    fst (load_or_create (px_token_io P) (px_euid P) (default_token_path (px_env P)) (px_token_fs P)) = Inr token \<and>
    (\<exists>rpc_url provider_hex. px_env P ''CITRATE_RPC_URL'' = Some rpc_url \<and>
       snd (start_live P rpc_url provider_hex i) = Inr L) \<and>
    (\<exists>raw cfg. px_read_file P config_path = Inr raw \<and> from_json (px_parse P) raw = Inr cfg)"
  using assms
  by (cases "px_env P ''CITRATE_RPC_URL''"; cases "px_env P ''CITRATE_PROVIDER_ADDRESS''")
    (auto simp: start_daemon_def Let_def live_settings_def dest: resolve_addr_loopback)

section \<open>The printed decision\<close>

lemma contracts_quiet: "quiet (connect P url)" "quiet (book_text P name)" "quiet (book_address P name)"
proof -
  show "quiet (connect P url)" by (simp add: connect_def)
  show t: "quiet (book_text P name)" by (simp add: book_text_def quiet_def)
  show "quiet (book_address P name)" unfolding book_address_def by (rule quiet_and_then [OF t]) simp
qed

lemma run_live_closes: "closes_with decision_lines (run_live kec P url i st)"
  unfolding run_live_def
  by (intro closes_and_then contracts_quiet checked_chain_id_quiet decide_once_closes)
    (simp add: plain_line_def)

definition final_lines :: "one_shot option + 'b \<Rightarrow> string list" where
  "final_lines v = (case v of Inl (Some d) \<Rightarrow> decision_lines d | _ \<Rightarrow> [])"

lemma run_config_closes:
  assumes "px_env P ''CITRATE_RPC_URL'' = Some url"
  shows "closes_with (\<lambda>d. final_lines (Inl d)) (run_config kec P path i)"
proof -
  have "closes_with (\<lambda>d. final_lines (Inl d)) (and_then (run_live kec P url i st) (\<lambda>d. ret (Some d)))" for st
    by (rule closes_map [OF run_live_closes]) (simp add: final_lines_def)
  note decided = this
  show ?thesis
    unfolding run_config_def assms Let_def case_prod_beta option.case
    by (rule decided | rule closes_and_then, simp add: plain_line_def)+
qed

lemma node_agent_closes:
  assumes "px_env P ''CITRATE_RPC_URL'' = Some url" "\<not> daemon_mode args (px_env P)"
  shows "closes_with final_lines (node_agent kec P args)"
proof -
  have "quiet (parse_args args)" by (simp add: parse_args_def quiet_def ret_def attempt_def split: list.split)
  moreover have "closes_with final_lines (and_then (run_config kec P path i) (\<lambda>d. ret (Inl d)))" for path i
    by (rule closes_map [OF run_config_closes [OF assms(1)]]) simp
  ultimately show ?thesis
    unfolding node_agent_def using assms(2) by (intro closes_and_then) (simp_all add: case_prod_beta)
qed

text \<open>The reads behind a decision.\<close>

lemma run_config_decides:
  assumes "snd (run_config kec P path i) = Inr (Some d)"
  shows "\<exists>now st mkt orc. px_clock P = Inr now \<and>
    live_settings (px_parse P) (px_show_parse P) path (px_read_file P path) now = Inr st \<and>
    snd (book_address P compute_marketplace) = Inr mkt \<and> snd (book_address P compute_pricing_oracle) = Inr orc \<and>
    snd (decide_once kec (px_env P) (px_live P) (derive_secs_per_block (px_block_time P)) mkt orc
      (map_option address_from_hex (px_env P ''CITRATE_PROVIDER_ADDRESS'')) i st) = Inr d"
proof (cases "px_env P ''CITRATE_RPC_URL''")
  case None
  then show ?thesis using assms by (simp add: run_config_def Let_def case_prod_beta)
next
  case (Some url)
  then show ?thesis using assms
    by (auto simp: run_config_def Let_def case_prod_beta run_live_def live_settings_def)
qed

section \<open>Properties\<close>

text \<open>C9: A daemon that reaches its loop is confined: its supervision socket is a loopback address and
  guarded by the token that the token file gave, the settings file was read and valid, the chain it
  is connected to is 40204, and every endpoint it was built with (the RPC, the weight gateway and
  the inference server) is encrypted or local, unless the development override is set.\<close>

theorem started_daemon_confined:
  assumes "snd (start_daemon P config_path i) = Inr (addr, token, LiveLoop L)"
    and "px_env P ALLOW_INSECURE_ENV = None"
  shows "socket_is_loopback addr \<and>
    fst (load_or_create (px_token_io P) (px_euid P) (default_token_path (px_env P)) (px_token_fs P)) = Inr token \<and>
    (\<exists>raw cfg. px_read_file P config_path = Inr raw \<and> from_json (px_parse P) raw = Inr cfg) \<and>
    px_chain_id_read P = Inr 40204 \<and>
    safe_endpoint (rc_url (ld_client L)) \<and> safe_endpoint (rc_url (ld_claim_client L)) \<and>
    list_all (\<lambda>X. safe_endpoint (rc_url (sx_client X)) \<and> safe_endpoint (gs_gateway (sx_weights X)) \<and>
       safe_endpoint (ls_base_url (sx_inference X))) (case ld_executor L of None \<Rightarrow> [] | Some X \<Rightarrow> [X])"
proof -
  note d = start_daemon_live [OF assms(1)]
  obtain rpc_url provider_hex where r: "snd (start_live P rpc_url provider_hex i) = Inr L" using d by blast
  note l = start_live_Inr [OF r]
  note safe = validated_endpoint [where env = "px_env P", OF _ assms(2)]
  have "safe_endpoint (rc_url (sx_client X)) \<and> safe_endpoint (gs_gateway (sx_weights X)) \<and>
      safe_endpoint (ls_base_url (sx_inference X))" if x: "ld_executor L = Some X" for X
  proof -
    obtain mkt reg me where "snd (build_job_executor P rpc_url mkt reg me i CHAIN_ID) = Inr (Some X)"
      using l x by auto
    from executor_endpoints [OF this] show ?thesis using safe by simp
  qed
  then show ?thesis using d l safe by (auto simp: CHAIN_ID_def split: option.split)
qed

text \<open>The contract of the address book that a write of each kind is for.\<close>

definition contract_of :: "string \<Rightarrow> address_table \<Rightarrow> string option" where
  "contract_of intent =
     (if intent = ''heartbeat'' then heartbeat_monitor
      else if intent = ''claimRewards'' then contribution_accounting else compute_marketplace)"

text \<open>C7: What a started daemon offers for signing is bound to the address book and the chain: from the
  start of the program on, after any number of rounds of its loop and whatever happens in them, every
  entry of the signing queue moves no value, is for chain 40204, goes to the canonical contract of its
  kind as the vendored table has it, and calls the function that its label names.\<close>

theorem started_daemon_writes:
  assumes "snd (start_daemon P config_path i) = Inr (addr, token, LiveLoop L)"
  shows "list_all (\<lambda>r. pr_value_wei r = dec (0 :: u128) \<and> pr_chain_id r = 40204 \<and>
      (\<exists>t a. contract_of (pr_intent r) (px_table P) = Some t \<and> address_from_hex t = Inr a \<and>
         pr_to r = hex_encode a) \<and>
      (\<exists>args. pr_calldata r = hex_encode (write_selector (ev_kec ev) (pr_intent r) @ args)))
    (pending_requests (fst (daemon_after (daemon_of ev E P config_path token L) out k (agent_new, x))))"
proof -
  obtain rpc_url provider_hex where r: "snd (start_live P rpc_url provider_hex i) = Inr L"
    using start_daemon_live [OF assms] by blast
  note l = start_live_Inr [OF r]
  have "queue_ok (ev_kec ev) (ld_wiring L) (fst (daemon_after (daemon_of ev E P config_path token L) out k (agent_new, x)))"
    using daemon_queue_ok [of "daemon_of ev E P config_path token L"] by (simp add: daemon_of_def)
  then show ?thesis
    unfolding queue_ok_def
    by (rule list.pred_mono_strong)
      (use l in \<open>auto simp: entry_ok_def write_target_def calls_its_function_def intent_label_def contract_of_def CHAIN_ID_def\<close>)
qed

text \<open>C21: What the program run once prints, in its exact words. With an RPC endpoint set, a run that fails
  prints no decision. A run that succeeds writes nothing to standard error and prints exactly one decision,
  as its last output, over the operator's file, the clock, the contracts of the address book, the chain's
  answers and the capacity of the provider (an idle one with ten slots if no provider address is set): a skip
  if the job is not open for bids; else the bid with its price, its cost and the calldata for signing, or the
  skip with its reason, as \<open>evaluate\<close> has it for a job of 300 seconds, which is what a profiler without
  samples estimates.\<close>

theorem printed_decision_exact:
  assumes "main_exit (node_agent kec P args) = (out, err, code)"
    and "\<not> daemon_mode args (px_env P)" "px_env P ''CITRATE_RPC_URL'' = Some url"
  shows "(code \<noteq> 0 \<and> list_all (\<lambda>l. take 8 l \<noteq> ''DECISION'') out) \<or>
    (code = 0 \<and> err = [] \<and>
     (\<exists>path i now st mkt orc salt stale caps job blk pre.
       snd (parse_args args) = Inr (path, i) \<and> px_clock P = Inr now \<and>
       live_settings (px_parse P) (px_show_parse P) path (px_read_file P path) now = Inr st \<and>
       snd (book_address P compute_marketplace) = Inr mkt \<and> snd (book_address P compute_pricing_oracle) = Inr orc \<and>
       live_salt_per_pflop_hour kec (lv_call (px_live P) 0) orc = Inr salt \<and>
       live_is_price_stale kec (lv_call (px_live P) 1) orc = Inr stale \<and>
       (case px_env P ''CITRATE_PROVIDER_ADDRESS'' of
          None \<Rightarrow> caps = \<lparr>current_active_jobs = 0, max_concurrent_jobs = 10\<rparr>
        | Some hex \<Rightarrow> \<exists>me profile. address_from_hex hex = Inr me \<and>
            live_get_provider kec (lv_call (px_live P) 2) mkt me = Inr profile \<and> caps = map_caps profile) \<and>
       live_get_job kec (lv_call (px_live P) 3) mkt i = Inr job \<and> lv_block (px_live P) = Inr blk \<and>
       list_all (\<lambda>l. take 8 l \<noteq> ''DECISION'') pre \<and>
       out = pre @
        (if bid_expires_block job blk = None
         then [''DECISION: SKIP job #'' @ dec (job_id job) @ '' '' @ em_dash @
           '' not open for bids (state/deadline) or its inputHash cannot be bound to the input'']
         else case evaluate (map_job job blk (derive_secs_per_block (px_block_time P))
                  (fst (profiler_estimate (model_hash job) (build_profiler (px_env P)))) 300)
                \<lparr>salt_per_pflop_hour_wei = salt, oracle_stale = stale\<rparr> st caps of
            Bid n price cost \<Rightarrow>
              [''DECISION: BID on job #'' @ dec n @ '' at '' @ dec price @ '' wei (cost '' @ dec cost @ '' wei)'',
               ''  would broadcast bidOnJob calldata: '' @ hex_encode (encode_bid_on_job kec (ucast n) price 300000)]
          | Skip n r \<Rightarrow> [''DECISION: SKIP job #'' @ dec n @ '' '' @ em_dash @ '' '' @ skip_reason_str r])))"
proof (cases "node_agent kec P args" rule: run_cases)
  case (1 o1 e)
  then have "list_all plain_line o1" using node_agent_closes [OF assms(3,2), of kec] by (simp add: closes_with_def)
  then have "list_all (\<lambda>l. take 8 l \<noteq> ''DECISION'') o1" by (simp add: plain_line_def [abs_def])
  then show ?thesis using assms(1) 1 by (cases e) (auto simp: main_exit_def)
next
  case (2 o1 v)
  then have "snd (node_agent kec P args) = Inr v" by simp
  then obtain path i dv where a: "snd (parse_args args) = Inr (path, i)"
    "snd (run_config kec P path i) = Inr dv" "v = Inl dv"
    using assms(2) by (auto simp: node_agent_def)
  obtain d where d: "dv = Some d"
    using a(2) assms(3) by (auto simp: run_config_def Let_def case_prod_beta)
  obtain now st mkt orc where r: "px_clock P = Inr now"
    "live_settings (px_parse P) (px_show_parse P) path (px_read_file P path) now = Inr st"
    "snd (book_address P compute_marketplace) = Inr mkt" "snd (book_address P compute_pricing_oracle) = Inr orc"
    "snd (decide_once kec (px_env P) (px_live P) (derive_secs_per_block (px_block_time P)) mkt orc
      (map_option address_from_hex (px_env P ''CITRATE_PROVIDER_ADDRESS'')) i st) = Inr d"
    using run_config_decides a(2) d by metis
  obtain salt stale caps job blk where q: "live_salt_per_pflop_hour kec (lv_call (px_live P) 0) orc = Inr salt"
    "live_is_price_stale kec (lv_call (px_live P) 1) orc = Inr stale"
    "snd (provider_caps kec (px_live P) mkt (map_option address_from_hex (px_env P ''CITRATE_PROVIDER_ADDRESS''))) = Inr caps"
    "live_get_job kec (lv_call (px_live P) 3) mkt i = Inr job" "lv_block (px_live P) = Inr blk"
    "d = decide kec (px_env P) (derive_secs_per_block (px_block_time P)) job blk
      \<lparr>salt_per_pflop_hour_wei = salt, oracle_stale = stale\<rparr> st caps"
    using r(5) unfolding decide_once_Inr by blast
  have c: "case px_env P ''CITRATE_PROVIDER_ADDRESS'' of
          None \<Rightarrow> caps = \<lparr>current_active_jobs = 0, max_concurrent_jobs = 10\<rparr>
        | Some hex \<Rightarrow> \<exists>me profile. address_from_hex hex = Inr me \<and>
            live_get_provider kec (lv_call (px_live P) 2) mkt me = Inr profile \<and> caps = map_caps profile"
    using q(3) unfolding provider_caps_Inr by (cases "px_env P ''CITRATE_PROVIDER_ADDRESS''") simp_all
  obtain pre where pre: "list_all plain_line pre" "o1 = pre @ decision_lines d"
    using node_agent_closes [OF assms(3,2), of kec] 2 a(3) d by (auto simp: closes_with_def final_lines_def)
  then have "list_all (\<lambda>l. take 8 l \<noteq> ''DECISION'') pre" by (simp add: plain_line_def [abs_def])
  moreover have "out = o1" "err = []" "code = 0" using assms(1) 2 by (auto simp: main_exit_def)
  ultimately show ?thesis
    using a(1) r(1-4) q(1,2,4,5) c pre(2)
    by (intro disjI2 conjI exI [of _ path] exI [of _ i] exI [of _ now] exI [of _ st] exI [of _ mkt] exI [of _ orc]
        exI [of _ salt] exI [of _ stale] exI [of _ caps] exI [of _ job] exI [of _ blk] exI [of _ pre])
      (simp_all add: q(6) decide_printed)
qed

text \<open>A process with every variable of the daemon set, on the market of \<open>sample_market\<close>.\<close>

definition sample_vars :: env where
  "sample_vars = [''CITRATE_RPC_URL'' \<mapsto> ''https://h'', ''CITRATE_IPFS_GATEWAY'' \<mapsto> ''https://g'',
     ''CITRATE_LLAMA_URL'' \<mapsto> ''http://localhost/'', ''CITRATE_JOB_INPUT_DIR'' \<mapsto> ''d'',
     ''CITRATE_NODE_AGENT_TOKEN_FILE'' \<mapsto> ''t'']"

definition sample_process :: "(unit, unit) process" where
  "sample_process = \<lparr>px_env = sample_vars, px_read_file = (\<lambda>_. Inr []),
     px_parse = (\<lambda>_. Inr \<lparr>cs_enabled = True, cs_allocation_percent = 50, cs_schedule = Always\<rparr>),
     px_show_parse = (\<lambda>_. []), px_clock = Inr 0,
     px_table = \<lparr>at_contracts = (\<lambda>_. Some (hex_encode (replicate 20 8))), at_aa_stack = (\<lambda>_. None)\<rparr>,
     px_chain_id_read = Inr 40204, px_live = sample_market, px_block_time = Inr (Some 2), px_debug = (\<lambda>t. t),
     px_show_addr = (\<lambda>_. []), px_token_io = sample_token_io, px_euid = 1000, px_token_fs = (\<lambda>_. None),
     px_show_token = (\<lambda>_. []), px_os_random = Inr (replicate 32 1)\<rparr>"

definition sample_daemon_process :: "(unit, unit) process" where
  "sample_daemon_process = sample_process\<lparr>px_env :=
     sample_vars(''CITRATE_PROVIDER_ADDRESS'' \<mapsto> hex_encode (replicate 20 3))\<rparr>"

lemma sample_vars_simps:
  "sample_vars ''CITRATE_RPC_URL'' = Some ''https://h''" "sample_vars ''CITRATE_IPFS_GATEWAY'' = Some ''https://g''"
  "sample_vars ''CITRATE_LLAMA_URL'' = Some ''http://localhost/''" "sample_vars ''CITRATE_JOB_INPUT_DIR'' = Some ''d''"
  "sample_vars ''CITRATE_NODE_AGENT_TOKEN_FILE'' = Some ''t''" "sample_vars ''CITRATE_PROVIDER_ADDRESS'' = None"
  "sample_vars ''CITRATE_MODEL_SHA256'' = None" "sample_vars ''CITRATE_RESIDENT_MODEL_HASH'' = None"
  "sample_vars ADDR_ENV = None" "sample_vars ALLOW_INSECURE_ENV = None" "sample_vars TOKEN_PATH_ENV = Some ''t''"
  "sample_vars ''CITRATE_NODE_AGENT_DAEMON'' = None"
  by (simp_all add: sample_vars_def ADDR_ENV_def ALLOW_INSECURE_ENV_def TOKEN_PATH_ENV_def)

lemma sample_addresses: "length a = 20 \<Longrightarrow> address_from_hex (hex_encode a) = Inr a"
  by (simp add: address_from_hex_def hex_decode_encode)

lemma sample_book: "snd (book_address P name) = Inr (replicate 20 8)"
  if "px_table P = px_table sample_process" "name \<in> {compute_marketplace, compute_pricing_oracle, heartbeat_monitor,
    contribution_accounting, model_registry, compute_verifier}"
  using that by (auto simp: sample_process_def sample_addresses typed_helper_def address_for_def address_book_def
      compute_marketplace_def compute_pricing_oracle_def heartbeat_monitor_def contribution_accounting_def
      model_registry_def compute_verifier_def)

lemma sample_urls:
  "validate_outbound_url env ''https://h'' = Inr ()" "validate_outbound_url env ''https://g'' = Inr ()"
  "validate_outbound_url env ''http://localhost/'' = Inr ()"
  by (simp_all add: validate_outbound_url_def validate_outbound_url_with_def starts_with_def
      to_ascii_lowercase_def ascii_lower_def host_of_def authority_of_def host_port_def is_loopback_host_def
      eq_ignore_ascii_case_def)

lemma sample_addr: "resolve_addr debug env = Inr (V4 (127, 0, 0, 1) 19600)" if "env ADDR_ENV = None"
proof -
  have "parse_socket_addr DEFAULT_ADDR = Some (V4 (127, 0, 0, 1) 19600)" 
    by (simp add: DEFAULT_ADDR_def parse_socket_addr_def read_ipv4_def read_separator_def read_octet_def read_number_def
        read_port_def read_char_def is_digit_def digit_value_def digits_value_def Let_def char_of_def bit_0)
  then show ?thesis using that by (simp add: resolve_addr_def socket_is_loopback_def ipv4_is_loopback_def)
qed

lemma sample_executor_built:
  "\<exists>X. snd (build_job_executor sample_daemon_process ''https://h'' mkt reg me i cid) = Inr (Some X)"
proof -
  have "executor_settings_of (px_env sample_daemon_process) = Inr (Some \<lparr>xc_gateway = ''https://g'',
      xc_llama = ''http://localhost/'', xc_input_dir = ''d'',
      xc_cache_dir = (case px_env sample_daemon_process ''CITRATE_MODEL_CACHE_DIR'' of Some d \<Rightarrow> d
        | None \<Rightarrow> ''/var/lib/citrate-node-agent/models''), xc_weights_sha256 = None, xc_resident_model = None\<rparr>)"
    by (simp add: executor_settings_of_def optional_digest_def sample_daemon_process_def sample_process_def sample_vars_simps)
  then show ?thesis
    using sample_book [of sample_daemon_process compute_verifier]
    by (simp add: build_job_executor_def gateway_source_new_def llama_new_def llama_build_def sample_urls random_nonce_def)
      (simp add: sample_daemon_process_def sample_process_def, blast)
qed

lemma sample_live_started:
  "\<exists>L. snd (start_live sample_daemon_process ''https://h'' (hex_encode (replicate 20 3)) 7) = Inr L \<and>
     ld_executor L \<noteq> None"
proof -
  have url: "snd (connect sample_daemon_process ''https://h'') =
      Inr \<lparr>rc_url = ''https://h'', rc_http = timed_http_client (px_env sample_daemon_process), rc_next_id = 1\<rparr>"
    by (simp add: sample_urls)
  have table: "px_table sample_daemon_process = px_table sample_process" by (simp add: sample_daemon_process_def)
  have chain: "snd (checked_chain_id (px_live sample_daemon_process) (px_chain_id_read sample_daemon_process)) = Inr CHAIN_ID"
    by (simp add: sample_daemon_process_def sample_process_def CHAIN_ID_def)
  have me: "snd (attempt abi_error_display (address_from_hex (hex_encode (replicate 20 3)))) = Inr (replicate 20 3)"
    by (simp add: sample_addresses)
  obtain X where X: "snd (build_job_executor sample_daemon_process ''https://h'' (replicate 20 8) (replicate 20 8)
      (replicate 20 3) 7 CHAIN_ID) = Inr (Some X)" using sample_executor_built by blast
  note book = sample_book [OF table]
  show ?thesis
    by (simp add: start_live_def Let_def and_then_ok [OF url] and_then_ok [OF chain] and_then_ok [OF me]
        and_then_ok [OF X] and_then_ok [OF book] del: and_then_Inr)
qed

lemma sample_daemon_started:
  "\<exists>addr token L. snd (start_daemon sample_daemon_process ''c'' 7) = Inr (addr, token, LiveLoop L)"
proof -
  have trim_t: "trim ''t'' \<noteq> []" by code_simp
  have vars: "px_env sample_daemon_process ''CITRATE_RPC_URL'' = Some ''https://h''"
    "px_env sample_daemon_process ''CITRATE_PROVIDER_ADDRESS'' = Some (hex_encode (replicate 20 3))"
    "px_env sample_daemon_process ADDR_ENV = None" "default_token_path (px_env sample_daemon_process) = ''t''"
    using sample_vars_simps trim_t
    by (simp_all add: sample_daemon_process_def default_token_path_def ADDR_ENV_def TOKEN_PATH_ENV_def)
  obtain st where st: "snd (attempt (\<lambda>e. e) (live_settings (px_parse sample_daemon_process) (px_show_parse sample_daemon_process) ''c''
      (px_read_file sample_daemon_process ''c'') (case px_clock sample_daemon_process of Inr now \<Rightarrow> now | Inl _ \<Rightarrow> 0))) = Inr st"
    by (auto simp: live_settings_def sample_daemon_process_def sample_process_def from_json_def case_prod_beta Let_def)
  obtain token where tok: "snd (attempt g (fst (load_or_create (px_token_io sample_daemon_process)
      (px_euid sample_daemon_process) ''t'' (px_token_fs sample_daemon_process)))) = Inr token" for g
    using sample_start by (auto simp: sample_daemon_process_def sample_process_def)
  have addr: "snd (attempt (\<lambda>e. e) (resolve_addr (px_debug sample_daemon_process) (px_env sample_daemon_process))) =
      Inr (V4 (127, 0, 0, 1) 19600)" by (simp add: sample_addr [where env = "px_env sample_daemon_process", OF vars(3)])
  obtain L where L: "snd (start_live sample_daemon_process ''https://h'' (hex_encode (replicate 20 3)) 7) = Inr L"
    using sample_live_started by blast
  show ?thesis
    by (simp add: start_daemon_def Let_def vars and_then_ok [OF st] and_then_ok [OF addr] and_then_ok [OF tok]
        and_then_ok [OF L] del: and_then_Inr)
qed

text \<open>Run once on the same market, it bids.\<close>

lemma sample_decided: "\<exists>d. snd (node_agent (\<lambda>x. x) sample_daemon_process [''c'', ''7'']) = Inr (Inl (Some d))"
proof -
  let ?P = sample_daemon_process
  have url: "snd (connect ?P ''https://h'') =
      Inr \<lparr>rc_url = ''https://h'', rc_http = timed_http_client (px_env ?P), rc_next_id = 1\<rparr>"
    by (simp add: sample_urls)
  have chain: "snd (checked_chain_id (px_live ?P) (px_chain_id_read ?P)) = Inr CHAIN_ID"
    by (simp add: sample_daemon_process_def sample_process_def CHAIN_ID_def)
  have table: "px_table ?P = px_table sample_process" by (simp add: sample_daemon_process_def)
  have live: "\<exists>d. snd (run_live (\<lambda>x. x) ?P ''https://h'' i st) = Inr d" for i st
  proof -
    have "\<exists>d. snd (decide_once (\<lambda>x. x) (px_env ?P) (px_live ?P) spb mkt orc
        (map_option address_from_hex (px_env ?P ''CITRATE_PROVIDER_ADDRESS'')) i st) = Inr d" for spb mkt orc
      unfolding decide_once_Inr provider_caps_Inr
      by (simp add: sample_daemon_process_def sample_process_def sample_market_def sample_market_reads sample_addresses)
        (auto simp: sample_live_chain_def)
    then show ?thesis
      by (simp add: run_live_def and_then_ok [OF url] and_then_ok [OF chain]
          and_then_ok [OF sample_book [OF table]] del: and_then_Inr)
  qed
  have config: "\<exists>d. snd (run_config (\<lambda>x. x) ?P path i) = Inr (Some d)" for path i
  proof -
    obtain cfg where f: "snd (attempt g (px_read_file ?P path)) = Inr []"
      "snd (attempt h (from_json (px_parse ?P) [])) = Inr cfg"
      "snd (attempt m (px_clock ?P)) = Inr 0" for g h m
      by (auto simp: sample_daemon_process_def sample_process_def from_json_def)
    have "px_env ?P ''CITRATE_RPC_URL'' = Some ''https://h''"
      by (simp add: sample_daemon_process_def sample_vars_simps)
    then show ?thesis using live
      by (simp add: run_config_def Let_def case_prod_beta and_then_ok [OF f(1)] and_then_ok [OF f(2)] and_then_ok [OF f(3)])
  qed
  have "parse_uint 10 (2 ^ 128) ''7'' = Some 7"
    by (simp add: parse_uint_def is_digit_def digit_value_def digits_value_def Let_def char_of_def bit_0)
  then have "snd (parse_args [''c'', ''7'']) = Inr (''c'', 7)" by (simp add: parse_args_def)
  moreover have "\<not> daemon_mode [''c'', ''7''] (px_env ?P)"
    by (simp add: daemon_mode_def sample_daemon_process_def sample_vars_simps)
  ultimately show ?thesis using config [of "''c''" 7] by (auto simp: node_agent_def)
qed

lemma started_daemon_confined_witness:
  "\<exists>addr token L. snd (start_daemon sample_daemon_process ''c'' 7) = Inr (addr, token, LiveLoop L) \<and>
     socket_is_loopback addr \<and> safe_endpoint (rc_url (ld_client L))"
proof -
  obtain addr token L where run: "snd (start_daemon sample_daemon_process ''c'' 7) = Inr (addr, token, LiveLoop L)"
    using sample_daemon_started by blast
  have "px_env sample_daemon_process ALLOW_INSECURE_ENV = None"
    using sample_vars_simps(10) by (simp add: sample_daemon_process_def ALLOW_INSECURE_ENV_def)
  from started_daemon_confined [OF run this] run show ?thesis by blast
qed

lemma started_daemon_writes_witness:
  "\<exists>addr token L. snd (start_daemon sample_daemon_process ''c'' 7) = Inr (addr, token, LiveLoop L) \<and>
     list_all (\<lambda>r. pr_chain_id r = 40204) (pending_requests (fst (daemon_after
       (daemon_of sample_env \<lparr>he_parse_body = (\<lambda>_. Inr []), he_decode = Some, he_bad_id = \<lparr>ha_status = 400, ha_body = NoBody\<rparr>,
          he_fallback = (\<lambda>_. \<lparr>ha_status = 404, ha_body = NoBody\<rparr>)\<rparr> sample_daemon_process ''c'' token L)
       (\<lambda>_. \<lparr>ow_chain = sample_market, ow_settings_file = Inr [], ow_now = 0, ow_gap = (\<lambda>_. []), ow_after_tick = [],
          ow_job = sample_world, ow_in_job = [], ow_claimable = Inr 0, ow_in_earnings = [], ow_in_beat = []\<rparr>) 3
       (agent_new, (fresh_state agent_new (profiler_new 1 1) (\<lambda>_. None) (\<lambda>_. None),
          \<lparr>es_agent = agent_new, es_in_flight = False, es_signed = []\<rparr>)))))"
  (is "\<exists>addr token L. _ \<and> list_all _ (?queue token L)")
proof -
  obtain addr token L where run: "snd (start_daemon sample_daemon_process ''c'' 7) = Inr (addr, token, LiveLoop L)"
    using sample_daemon_started by blast
  have "list_all (\<lambda>r. pr_chain_id r = 40204) (?queue token L)"
    by (rule list.pred_mono_strong [OF started_daemon_writes [OF run]]) simp
  with run show ?thesis by blast
qed

lemma max_window: "\<not> (ucast (- 1 :: u64) :: u128) < 600"
  by (simp add: word_less_nat_alt unat_ucast_up unsigned_minus_1_eq_mask mask_eq_exp_minus_1)

lemma sample_market_bid:
  "evaluate (map_job sample_live_job 95 2 (fst (profiler_estimate h (build_profiler (px_env sample_daemon_process)))) 300)
     \<lparr>salt_per_pflop_hour_wei = 1000000000000000000, oracle_stale = False\<rparr>
     \<lparr>st_enabled = True, st_schedule = Always, st_current_hour = 0, st_current_min = 0, st_current_day = dy\<rparr>
     (map_caps sample_profile) = Bid 7 575000000000000000 500000000000000000"
  by (simp add: sample_daemon_process_def sample_vars_def sample_live_job_def map_caps_def sample_profile_def map_job_def
      map_tier_def sat_sub_def sat_mul_def profiler_estimate_def build_profiler_def profiler_new_def
      DEFAULT_NODE_PFLOPS_1E18_def DEFAULT_EXEC_SECS_def max_def word_le_nat_alt evaluate_def bid_constants
      estimated_cost_wei_def secs_until_window_close_def in_window_def Let_def max_window)

lemma printed_decision_exact_witness:
  "\<exists>pre. main_exit (node_agent (\<lambda>x. x) sample_daemon_process [''c'', ''7'']) =
     (pre @ [''DECISION: BID on job #'' @ dec (7 :: u64) @ '' at '' @ dec (575000000000000000 :: u128) @ '' wei (cost '' @
          dec (500000000000000000 :: u128) @ '' wei)'',
        ''  would broadcast bidOnJob calldata: '' @
          hex_encode (encode_bid_on_job (\<lambda>x. x) 7 575000000000000000 300000)], [], 0)"
proof -
  let ?P = sample_daemon_process
  obtain d where run: "snd (node_agent (\<lambda>x. x) ?P [''c'', ''7'']) = Inr (Inl (Some d))"
    using sample_decided by blast
  obtain out where out: "main_exit (node_agent (\<lambda>x. x) ?P [''c'', ''7'']) = (out, [], 0)"
    using run by (cases "node_agent (\<lambda>x. x) ?P [''c'', ''7'']" rule: run_cases) (simp_all add: main_exit_def)
  have "\<not> daemon_mode [''c'', ''7''] (px_env ?P)" "px_env ?P ''CITRATE_RPC_URL'' = Some ''https://h''"
    by (simp_all add: daemon_mode_def sample_daemon_process_def sample_vars_simps)
  from printed_decision_exact [OF out this] obtain path i now st mkt orc salt stale caps job blk pre where
    now: "px_clock ?P = Inr now" and r:
    "live_settings (px_parse ?P) (px_show_parse ?P) path (px_read_file ?P path) now = Inr st"
    "live_salt_per_pflop_hour (\<lambda>x. x) (lv_call (px_live ?P) 0) orc = Inr salt"
    "live_is_price_stale (\<lambda>x. x) (lv_call (px_live ?P) 1) orc = Inr stale"
    "case px_env ?P ''CITRATE_PROVIDER_ADDRESS'' of
          None \<Rightarrow> caps = \<lparr>current_active_jobs = 0, max_concurrent_jobs = 10\<rparr>
        | Some hex \<Rightarrow> \<exists>me profile. address_from_hex hex = Inr me \<and>
            live_get_provider (\<lambda>x. x) (lv_call (px_live ?P) 2) mkt me = Inr profile \<and> caps = map_caps profile"
    "live_get_job (\<lambda>x. x) (lv_call (px_live ?P) 3) mkt i = Inr job" "lv_block (px_live ?P) = Inr blk"
    "out = pre @
        (if bid_expires_block job blk = None
         then [''DECISION: SKIP job #'' @ dec (job_id job) @ '' '' @ em_dash @
           '' not open for bids (state/deadline) or its inputHash cannot be bound to the input'']
         else case evaluate (map_job job blk (derive_secs_per_block (px_block_time ?P))
                  (fst (profiler_estimate (model_hash job) (build_profiler (px_env ?P)))) 300)
                \<lparr>salt_per_pflop_hour_wei = salt, oracle_stale = stale\<rparr> st caps of
            Bid n price cost \<Rightarrow>
              [''DECISION: BID on job #'' @ dec n @ '' at '' @ dec price @ '' wei (cost '' @ dec cost @ '' wei)'',
               ''  would broadcast bidOnJob calldata: '' @ hex_encode (encode_bid_on_job (\<lambda>x. x) (ucast n) price 300000)]
          | Skip n r \<Rightarrow> [''DECISION: SKIP job #'' @ dec n @ '' '' @ em_dash @ '' '' @ skip_reason_str r])"
    by blast
  have live: "px_live ?P = sample_market" "px_block_time ?P = Inr (Some 2)"
    by (simp_all add: sample_daemon_process_def sample_process_def)
  have "px_env ?P ''CITRATE_PROVIDER_ADDRESS'' = Some (hex_encode (replicate 20 3))"
    by (simp add: sample_daemon_process_def)
  then have s: "salt = 1000000000000000000" "stale = False" "caps = map_caps sample_profile" "job = sample_live_job" "blk = 95"
    using r(2-6) unfolding live
    by (simp_all add: sample_market_def sample_market_reads sample_addresses) (simp add: sample_live_chain_def)
  have "now = 0" using now by (simp add: sample_daemon_process_def sample_process_def)
  moreover obtain dy where "utc_hour_min_weekday 0 = (0, 0, dy)"
    by (auto simp: utc_hour_min_weekday_def Let_def)
  ultimately have t: "st = \<lparr>st_enabled = True, st_schedule = Always, st_current_hour = 0, st_current_min = 0, st_current_day = dy\<rparr>"
    using r(1) by (auto simp: live_settings_def sample_daemon_process_def sample_process_def from_json_def case_prod_beta Let_def)
  have open_job: "bid_expires_block sample_live_job 95 \<noteq> None"
    by (simp add: bid_expires_block_def sample_live_job_def)
  have b: "derive_secs_per_block (px_block_time ?P) = 2" by (simp add: live derive_secs_per_block_def)
  show ?thesis unfolding out using r(7) unfolding s t b sample_market_bid if_not_P [OF open_job] bid_decision.case
    by (intro exI [of _ pre]) simp
qed

end
