(* ===== verification/Handoff.thy ===== *)
theory Handoff
  imports Settlement Main_Program
begin

text \<open>
  The way of one write through the whole agent: the planner of \<open>crates/lifecycle\<close> asks for it, the
  executor of \<open>node-agent/execution.rs\<close> hands it to the relay of \<open>node-agent/relay.rs\<close>, it waits in the
  queue of \<open>supervision/state.rs\<close>, the signing surface fetches it and reports its broadcast over the
  routes of \<open>supervision/server.rs\<close>. The theory composes the models of these modules; it adds none.
\<close>

section \<open>The queue part of a state\<close>

text \<open>What the queue does depends on the queue only.\<close>

definition same_queue :: "agent_state \<Rightarrow> agent_state \<Rightarrow> bool" where
  "same_queue a b \<longleftrightarrow> pending_requests a = pending_requests b \<and> next_request_id a = next_request_id b"

lemma same_queue_push: "same_queue a b \<Longrightarrow> same_queue (snd (push_request k w a)) (snd (push_request k w b))"
  by (simp add: same_queue_def push_request_def evict_if_over_cap_def Let_def)

lemma same_queue_step: "same_queue a b \<Longrightarrow> same_queue (agent_step op a) (agent_step op b)"
proof (cases op)
  case (OpObserved i tx now)
  assume "same_queue a b"
  then show ?thesis using OpObserved
    by (auto simp: same_queue_def mark_request_observed_def record_heartbeat_def Let_def split: option.splits)
qed (auto simp: queue_defs flag_defs same_queue_push record_provider_observation_def Let_def
    same_queue_def [of "set_provider_stats _ _ _"]
    split: option.splits, auto simp: same_queue_def)

lemma same_queue_run: "same_queue a b \<Longrightarrow> same_queue (agent_run ops a) (agent_run ops b)"
  by (induction ops arbitrary: a b) (simp_all add: same_queue_step)

section \<open>An entry without a key is not touched\<close>

lemma update_first_fixed: "r \<in> set q \<Longrightarrow> (P r \<Longrightarrow> f r = r) \<Longrightarrow> r \<in> set (update_first P f q)"
  using update_first_keeps by metis

lemma plain_kept_step:
  assumes "r \<in> set (pending_requests s)" "is_pending r" "pr_dedup_key r = None"
    and "\<And>tx now. op \<noteq> OpObserved (pr_id r) tx now"
  shows "r \<in> set (pending_requests (agent_step op s))"
proof -
  have fixed: "rearm r = r" "\<not> same_key i k r" for i k
    using assms(2,3) by (simp_all add: rearm_def same_key_def)
  have enq: "r \<in> set (pending_requests (snd (enqueue_signature_request w s)))" for w
    using assms(1,2) by (auto simp: enqueue_signature_request_def push_keeps split: option.splits)
  show ?thesis
  proof (cases op)
    case (OpSupersede k w)
    then show ?thesis using assms(1,2) fixed(2)
      by (auto simp: enqueue_superseding_signature_request_def push_keeps intro!: update_first_fixed split: option.splits)
  next
    case (OpRecur w)
    then show ?thesis using assms(1) fixed(1) enq
      by (auto simp: enqueue_recurring_signature_request_def intro!: update_first_fixed split: option.splits)
  next
    case (OpObserved i tx now)
    then have "pr_id r \<noteq> i" using assms(4) by blast
    then show ?thesis using OpObserved assms(1)
      by (auto simp: mark_request_observed_def record_heartbeat_def Let_def intro!: update_first_fixed split: option.splits)
  qed (use assms(1) enq in \<open>auto simp: flag_defs record_provider_observation_def Let_def\<close>)
qed

lemma plain_kept_run:
  assumes "r \<in> set (pending_requests s)" "is_pending r" "pr_dedup_key r = None"
    and "\<And>tx now. OpObserved (pr_id r) tx now \<notin> set ops"
  shows "r \<in> set (pending_requests (agent_run ops s))"
  using assms(1,4)
proof (induction ops arbitrary: s)
  case (Cons op ops)
  have "r \<in> set (pending_requests (agent_step op s))"
    by (rule plain_kept_step [OF Cons.prems(1) assms(2,3)]) (use Cons.prems(2) in auto)
  then show ?case using Cons by simp
qed simp

section \<open>A step that signs\<close>

lemma drive_job_signed:
  assumes "drive_job ev w ctx seed s = (Signed i, s')"
  shows "\<exists>req. plan (ev_kec ev) (context_plan ev ctx (xs_progress s)) = Sign req \<and> sr_intent req = i \<and>
    xs_signed s' = xs_signed s @ [req] \<and> xs_agent s' = snd (tw_signer w req (set_active_jobs 1 (xs_agent s)))"
  using assms
  by (auto simp: drive_job_def sign_request_def run_inference_def record_error_def Let_def with_active_def
      split: lifecycle_action.splits sum.splits prod.splits if_splits)

lemma job_step_signed:
  assumes "job_step ev x w s = (Signed i, s')"
  shows "\<exists>rj input p req. plan (ev_kec ev) (context_plan ev (step_context x rj input) p) = Sign req \<and>
    sr_intent req = i \<and> xs_signed s' = xs_signed s @ [req] \<and>
    xs_agent s' = snd (tw_signer w req (set_active_jobs 1 (xs_agent s)))"
proof -
  have drive: "\<exists>rj input p req. plan (ev_kec ev) (context_plan ev (step_context x rj input) p) = Sign req \<and>
      sr_intent req = i \<and> xs_signed s' = xs_signed s @ [req] \<and>
      xs_agent s' = snd (tw_signer w req (set_active_jobs 1 (xs_agent s)))"
    if p: "persist w x (drive_job ev w (step_context x rj input) seed t) = (Signed i, s')"
      and t: "xs_signed t = xs_signed s" "xs_agent t = xs_agent s" for rj input seed t
  proof -
    have "drive_job ev w (step_context x rj input) seed t = (Signed i, s')"
      using p persist_ran [of w x] persist_other [of "drive_job ev w (step_context x rj input) seed t" w x]
      by (cases "fst (drive_job ev w (step_context x rj input) seed t) = RanInference")
        (auto simp: persist_def record_error_def split: prod.splits option.splits if_splits sum.splits)
    from drive_job_signed [OF this] t show ?thesis by auto
  qed
  show ?thesis
    using assms
    by (auto simp: job_step_def record_error_def Let_def split: sum.splits prod.splits input_result.splits if_splits
        dest!: drive)
qed

section \<open>Observation\<close>

lemma observed_marks:
  assumes "r \<in> set (pending_requests s)" "distinct (map pr_id (pending_requests s))"
  shows "fst (mark_request_observed (pr_id r) tx now s) \<and>
    observe tx r \<in> set (pending_requests (snd (mark_request_observed (pr_id r) tx now s)))"
proof -
  have only: "r' = r" if "r' \<in> set (pending_requests s)" "pr_id r' = pr_id r" for r'
    using assms that by (meson distinct_map inj_onD)
  obtain r' where f: "find (\<lambda>q. pr_id q = pr_id r) (pending_requests s) = Some r'"
    using assms(1) by (cases "find (\<lambda>q. pr_id q = pr_id r) (pending_requests s)") (auto simp: find_None_iff)
  have "find (\<lambda>q. pr_id q = pr_id r) (update_first (\<lambda>q. pr_id q = pr_id r) (observe tx) (pending_requests s)) =
      Some (observe tx r')"
    using find_update_first [OF f] f by (auto simp: find_Some_iff)
  moreover have "r' = r" using only f by (auto simp: find_Some_iff)
  ultimately have "observe tx r \<in> set (update_first (\<lambda>q. pr_id q = pr_id r) (observe tx) (pending_requests s))"
    by (auto simp: find_Some_iff)
  then show ?thesis using f
    by (simp add: mark_request_observed_def record_heartbeat_def Let_def)
qed

lemma route_signature_requests: "route_of ''/signature-requests'' = Some RSignatureRequests"
  by (simp add: route_of_def)

section \<open>The heartbeat\<close>

lemma daemon_ends_in_beat: "\<exists>ops. allowed (write_ok (ev_kec (dm_env M)) (dm_wiring M)) ops \<and>
    fst (daemon_after M out k (agent_new, x)) =
      snd (beat (ev_kec (dm_env M)) (wired_sender (dm_wiring M)) (ow_now (out (of_nat k)))
        (request_ops M (ow_in_beat (out (of_nat k)))) (agent_run ops agent_new))"
  unfolding daemon_after_def
  using daemon.rounds_end_in_beat [of M "(agent_new, x)" out 0 k] by (auto simp: reached_def daemon_world_def)

lemma heartbeat_selector:
  assumes "hash32 kec" "pr_calldata r = hex_encode (heartbeat_calldata kec)" "entry_ok kec D r"
    and "sel_heartbeat kec \<notin> {sel_claim_rewards kec, sel_bid_on_job kec, sel_start_execution kec,
      sel_submit_commitment kec, sel_submit_result kec, sel_complete_job kec}"
  shows "pr_intent r = ''heartbeat''"
proof -
  obtain w args where w: "pr_intent r = intent_label w"
    "hex_encode (heartbeat_calldata kec) = hex_encode (write_selector kec (intent_label w) @ args)"
    using assms(2,3) by (auto simp: entry_ok_iff)
  then have eq: "sel_heartbeat kec = write_selector kec (intent_label w) @ args"
    by (simp add: hex_encode_inj heartbeat_calldata_def)
  have "length (write_selector kec (intent_label w)) = 4"
    using assms(1) by (simp add: write_selector_def length_sel)
  then have "sel_heartbeat kec = write_selector kec (intent_label w)"
    using eq assms(1) by (metis add_cancel_right_right append.right_neutral length_0_conv length_append length_sel(20))
  then have "w = HeartbeatWrite"
    using assms(4) by (cases w) (simp_all add: write_selector_def intent_labels)
  then show ?thesis using w(1) by (simp add: intent_label_def)
qed

text \<open>What a signing step leaves in the queue.\<close>

lemma signed_entry:
  assumes "job_step ev x (w\<lparr>tw_signer := gap_signer gap\<rparr>) s = (Signed i, s')"
    and "xs_signed s' = xs_signed s @ [req]"
    and "hex_encode (sr_calldata req) \<notin> pr_calldata ` set (pending_requests (agent_run gap (xs_agent s)))"
    and "entry = mk_request (next_request_id (agent_run gap (xs_agent s))) None (relay_args req)"
  shows "sr_intent req = i \<and> sr_to req = je_marketplace x \<and> sr_chain_id req = je_chain_id x \<and>
    entry \<in> set (pending_requests (xs_agent s')) \<and>
    xs_agent s' = agent_run (OpSetActiveJobs 1 # gap @ [OpEnqueue (relay_args req)]) (xs_agent s)"
proof -
  define base where "base = agent_run gap (set_active_jobs 1 (xs_agent s))"
  have "same_queue (set_active_jobs 1 (xs_agent s)) (xs_agent s)"
    by (simp add: same_queue_def set_active_jobs_def)
  from same_queue_run [OF this, of gap] have same: "pending_requests base = pending_requests (agent_run gap (xs_agent s))"
    "next_request_id base = next_request_id (agent_run gap (xs_agent s))"
    by (simp_all add: base_def same_queue_def)
  obtain rj input p req' where r: "plan (ev_kec ev) (context_plan ev (step_context x rj input) p) = Sign req'"
    "sr_intent req' = i" "xs_signed s' = xs_signed s @ [req']" "xs_agent s' = snd (relay_signer req' base)"
    using job_step_signed [OF assms(1)] by (auto simp: gap_signer_def base_def)
  then have req: "req' = req" using assms(2) by simp
  have "find (\<lambda>q. pr_calldata q = wa_calldata (relay_args req)) (pending_requests base) = None"
    using assms(3) by (auto simp: find_None_iff same relay_args_def image_iff)
  then have "xs_agent s' = snd (push_request None (relay_args req) base)"
    using r(4) req by (simp add: relay_signer_def enqueue_signature_request_def)
  then have "entry \<in> set (pending_requests (xs_agent s'))"
    using push_present [of None "relay_args req" base] by (simp add: assms(4) same)
  moreover have "xs_agent s' = agent_run (OpSetActiveJobs 1 # gap @ [OpEnqueue (relay_args req)]) (xs_agent s)"
    using r(4) req by (simp add: agent_run_append base_def relay_signer_def)
  ultimately show ?thesis
    using r(2) plan_request [OF r(1)] req by (simp add: context_plan_def step_context_def)
qed

section \<open>Properties\<close>

text \<open>C6: A write the planner asks for reaches the signing surface and is done with exactly once. When a
  step of the wired executor signs a request whose calldata is not in the queue yet, then after any later
  operations of the loop and the handlers, short of the report of that very entry, the queue has it as
  it was asked for, for the executor's marketplace and chain; the authorized \<open>GET\<close> of the list shows it;
  asking for it again changes nothing; and the authorized report of its broadcast is accepted, marks
  this entry submitted with the transaction hash, and leaves asking again without effect. Ids are
  64 bits, so the run so far is shorter than that.\<close>

theorem signed_write_handed_over:
  assumes "xs_agent s = agent_run before agent_new"
    and "job_step ev x (w\<lparr>tw_signer := gap_signer gap\<rparr>) s = (Signed i, s')"
    and "xs_signed s' = xs_signed s @ [req]"
    and "hex_encode (sr_calldata req) \<notin> pr_calldata ` set (pending_requests (agent_run gap (xs_agent s)))"
    and "entry = mk_request (next_request_id (agent_run gap (xs_agent s))) None (relay_args req)"
    and "\<And>tx now. OpObserved (pr_id entry) tx now \<notin> set later" "a = agent_run later (xs_agent s')"
    and "length before + length gap + length later + 2 < 2 ^ 64"
    and "authorized auth get" "rq_method get = GET" "rq_path get = ''/signature-requests''"
    and "authorized auth post" "rq_method post = POST" "route_of (rq_path post) = Some (RObserved seg)"
    and "Option.bind (he_decode E seg) (parse_uint 10 (2 ^ 64)) = Some (unat (pr_id entry))"
    and "he_parse_body E post = Inr tx" "router E auth now between post a = (answer, b)"
  shows "sr_intent req = i \<and> sr_to req = je_marketplace x \<and> sr_chain_id req = je_chain_id x \<and>
    entry \<in> set (pending_requests a) \<and>
    fst (router E auth now between get a) = ok_json (JRequests (pending_requests a)) \<and>
    snd (relay_signer req a) = a \<and>
    answer = ok_json (JText ''observed'') \<and> observe tx entry \<in> set (pending_requests b) \<and>
    snd (relay_signer req b) = b"
proof -
  note signed = signed_entry [OF assms(2-5)]
  have entry: "is_pending entry" "pr_dedup_key entry = None" "pr_calldata entry = hex_encode (sr_calldata req)"
    by (simp_all add: assms(5) mk_request_def relay_args_def)
  have here: "entry \<in> set (pending_requests a)"
    using plain_kept_run [OF _ entry(1,2)] signed assms(6,7) by blast
  have "a = agent_run (before @ OpSetActiveJobs 1 # gap @ OpEnqueue (relay_args req) # later) agent_new"
    using assms(1,7) signed by (simp add: agent_run_append)
  then have ids: "distinct (map pr_id (pending_requests a))"
    using request_ids_distinct [of "before @ OpSetActiveJobs 1 # gap @ OpEnqueue (relay_args req) # later"] assms(8)
    by simp
  note mark = observed_marks [OF here ids, of tx now]
  have post: "router E auth now between post a = observe_signature_request now (pr_id entry) tx a"
    using assms(12-16) by (simp add: router_def require_token_eq post_route_def observe_route_def)
  then have b: "answer = ok_json (JText ''observed'')" "b = snd (mark_request_observed (pr_id entry) tx now a)"
    using assms(17) mark by (auto simp: observe_signature_request_def split: prod.splits bool.splits)
  have again: "snd (relay_signer req t) = t" if "e \<in> set (pending_requests t)" "pr_calldata e = pr_calldata entry" for t e
    using relay.request_again [of req t] that entry(3) by force
  have "pr_calldata (observe tx entry) = pr_calldata entry" by (simp add: observe_def)
  then have "snd (relay_signer req b) = b" "snd (relay_signer req a) = a"
    using again here mark b(2) by blast+
  moreover have "fst (router E auth now between get a) = ok_json (JRequests (pending_requests a))"
    using assms(9-11) by (simp add: router_def require_token_eq read_route_def route_signature_requests
        list_signature_requests_def)
  ultimately show ?thesis using signed here mark b by simp
qed

text \<open>A job that was just assigned: the first write is \<open>startExecution\<close>, entry 0 of the queue.\<close>

definition sample_fresh :: exec_state where
  "sample_fresh = fresh_state agent_new (profiler_new 1 1) (\<lambda>_. None) (\<lambda>_. None)"

definition sample_surface :: http_env where
  "sample_surface = \<lparr>he_parse_body = (\<lambda>_. Inr ''0xab''), he_decode = Some,
     he_bad_id = \<lparr>ha_status = 400, ha_body = NoBody\<rparr>, he_fallback = (\<lambda>_. \<lparr>ha_status = 404, ha_body = NoBody\<rparr>)\<rparr>"

definition sample_request :: "http_method \<Rightarrow> string \<Rightarrow> http_request" where
  "sample_request m path = \<lparr>rq_method = m, rq_path = path, rq_authorization = Some ''Bearer t'', rq_body = []\<rparr>"

lemma sample_request_simps:
  "rq_method (sample_request m path) = m" "rq_path (sample_request m path) = path"
  "authorized ''t'' (sample_request m path)"
  by (simp_all add: sample_request_def authorized_def visible_ascii_def)

lemma sample_observed:
  "route_of ''/signature-requests/0/observed'' = Some (RObserved ''0'')"
  "he_decode sample_surface ''0'' = Some ''0''" "he_parse_body sample_surface r = Inr ''0xab''"
  "parse_uint 10 18446744073709551616 ''0'' = Some 0"
  by (simp_all add: route_of_def observed_id_def sample_surface_def parse_uint_def is_digit_def digit_value_def
      digits_value_def Let_def char_of_def bit_0)

lemma sample_signs:
  "fst (job_step sample_env sample_executor
     (sample_world\<lparr>tw_resolved := Inr sample_won, tw_signer := gap_signer []\<rparr>) sample_fresh) = Signed StartExecution"
proof -
  let ?w = "sample_world\<lparr>tw_resolved := Inr sample_won, tw_signer := gap_signer []\<rparr>"
  have "healthy sample_env ?w sample_won"
    using sample_won_healthy by (simp add: healthy_def gap_signer_def relay_signer_def)
  moreover have "ready_inv (ev_kec sample_env) ''d'' (je_job_id sample_executor) sample_fresh"
    unfolding sample_fresh_def ready_inv_def
    by (rule conjI, rule fresh_inv) (simp add: store_ready_def has_artifacts_def fresh_state_def)
  moreover have "won_job sample_env sample_executor sample_won"
    by (simp add: won_job_iff sample_won_def sample_resolved_def sample_executor_def sample_chain_job_def
        chain_gates_default_def COMMITMENT_TIER_VALUE_THRESHOLD_WEI_def word_less_nat_alt)
  moreover have "state_of (rj_job sample_won) = Assigned" "\<not> rj_committed sample_won"
    by (simp_all add: sample_won_def sample_fields)
  ultimately show ?thesis
    using healthy_step [of sample_env ?w sample_won sample_executor "''d''" sample_fresh] sample_facts(1,2)
    by (simp add: due_outcome_def hash32_def)
qed

lemma signed_write_handed_over_witness:
  "\<exists>s' req a answer b. job_step sample_env sample_executor
      (sample_world\<lparr>tw_resolved := Inr sample_won, tw_signer := gap_signer []\<rparr>) sample_fresh =
        (Signed StartExecution, s') \<and> a = agent_run [OpPause] (xs_agent s') \<and>
     mk_request 0 None (relay_args req) \<in> set (pending_requests a) \<and>
     router sample_surface ''t'' 5 [] (sample_request POST ''/signature-requests/0/observed'') a = (answer, b) \<and>
     answer = ok_json (JText ''observed'') \<and>
     observe ''0xab'' (mk_request 0 None (relay_args req)) \<in> set (pending_requests b)"
proof -
  let ?w = "sample_world\<lparr>tw_resolved := Inr sample_won, tw_signer := gap_signer []\<rparr>"
  obtain s' where step: "job_step sample_env sample_executor ?w sample_fresh = (Signed StartExecution, s')"
    using sample_signs by (metis prod.collapse)
  obtain req where req: "xs_signed s' = xs_signed sample_fresh @ [req]"
    using job_step_signed [OF step] by blast
  define a where "a = agent_run [OpPause] (xs_agent s')"
  obtain answer b where post: "router sample_surface ''t'' 5 [] (sample_request POST ''/signature-requests/0/observed'') a =
      (answer, b)" by fastforce
  have start: "xs_agent sample_fresh = agent_run [] agent_new" by (simp add: sample_fresh_def fresh_state_def)
  have id: "pr_id (mk_request (next_request_id (agent_run [] (xs_agent sample_fresh))) None (relay_args req)) = 0"
    by (simp add: start mk_request_def agent_new_def)
  have step': "job_step sample_env sample_executor
      (sample_world\<lparr>tw_resolved := Inr sample_won\<rparr>\<lparr>tw_signer := gap_signer []\<rparr>) sample_fresh = (Signed StartExecution, s')"
    using step by simp
  have "next_request_id (agent_run [] (xs_agent sample_fresh)) = 0" by (simp add: start agent_new_def)
  with signed_write_handed_over [OF start step' req _ refl _ a_def, of "''t''" "sample_request GET ''/signature-requests''"
      "sample_request POST ''/signature-requests/0/observed''" "''0''" sample_surface "''0xab''" 5 "[]" answer b]
    id post step
  show ?thesis
    by (auto simp: start agent_new_def sample_request_simps sample_observed a_def)
qed

text \<open>C8: A provider that runs is never without a heartbeat to sign: after every round of the daemon,
  whatever the chain, the files, the settings and the requests did in this and all earlier rounds, paused
  or not, also when all reads failed or the previous beat is long broadcast, the signing queue holds a
  pending \<open>heartbeat()\<close> call for the monitor on the daemon's chain, unless a request came in during
  the beat itself. The selector of \<open>heartbeat()\<close> must differ from those of the other writes, as it does for
  Keccak-256.\<close>

theorem heartbeat_always_offered:
  assumes "hash32 (ev_kec (dm_env M))" "ow_in_beat (out (of_nat k)) = []"
    and "sel_heartbeat (ev_kec (dm_env M)) \<notin> {sel_claim_rewards (ev_kec (dm_env M)), sel_bid_on_job (ev_kec (dm_env M)),
      sel_start_execution (ev_kec (dm_env M)), sel_submit_commitment (ev_kec (dm_env M)),
      sel_submit_result (ev_kec (dm_env M)), sel_complete_job (ev_kec (dm_env M))}"
  shows "\<exists>r \<in> set (pending_requests (fst (daemon_after M out k (agent_new, x)))).
    is_pending r \<and> pr_intent r = ''heartbeat'' \<and> pr_to r = hex_encode (dw_monitor (dm_wiring M)) \<and>
    pr_chain_id r = dw_chain_id (dm_wiring M) \<and> pr_calldata r = hex_encode (heartbeat_calldata (ev_kec (dm_env M)))"
proof -
  let ?kec = "ev_kec (dm_env M)"
  let ?s = "fst (daemon_after M out k (agent_new, x))"
  let ?a = "heartbeat_args \<lparr>rh_monitor = dw_monitor (dm_wiring M), rh_chain_id = dw_chain_id (dm_wiring M)\<rparr> (heartbeat_calldata ?kec)"
  obtain ops where "?s = snd (beat ?kec (wired_sender (dm_wiring M)) (ow_now (out (of_nat k))) [] (agent_run ops agent_new))"
    using daemon_ends_in_beat [of M out k x] assms(2) by (auto simp: request_ops_def)
  then have "?s = snd (enqueue_recurring_signature_request ?a (agent_run ops agent_new))"
    by (simp add: beat_def wired_sender_def relay_send_heartbeat_def)
  then obtain r where f: "find (\<lambda>r. pr_calldata r = wa_calldata ?a) (pending_requests ?s) = Some r" "is_pending r"
    using recur_pending [OF agent_inv_run [OF agent_inv_new], of ?a ops] by auto
  have r: "r \<in> set (pending_requests ?s)" "is_pending r" "pr_calldata r = hex_encode (heartbeat_calldata ?kec)"
    using f by (auto simp: find_Some_iff heartbeat_args_def)
  have ok: "entry_ok ?kec (dm_wiring M) r"
    using daemon_queue_ok [of M out k x] r(1) by (simp add: queue_ok_def list_all_iff)
  have "pr_intent r = ''heartbeat''" by (rule heartbeat_selector [OF assms(1) r(3) ok assms(3)])
  then show ?thesis using r ok by (auto simp: entry_ok_iff)
qed

definition sample_digest :: "bytes \<Rightarrow> bytes" where
  "sample_digest bs = take 32 (bs @ replicate 32 0)"

definition sample_daemon :: "unit daemon" where
  "sample_daemon = \<lparr>dm_env = sample_env\<lparr>ev_kec := sample_digest\<rparr>,
     dm_wiring = \<lparr>dw_marketplace = replicate 20 8, dw_monitor = replicate 20 9, dw_accounting = replicate 20 7,
       dw_chain_id = 40204, dw_claim_threshold_wei = 1\<rparr>,
     dm_view = \<lparr>lm_marketplace = replicate 20 8, lm_oracle = replicate 20 6, lm_provider = replicate 20 3,
       lm_job_id = 7, lm_profiler = profiler_new 1 1, lm_secs_per_block = 2\<rparr>,
     dm_executor = None, dm_parse = (\<lambda>_. Inl ()), dm_show_parse = (\<lambda>_. []), dm_config_path = ''c'',
     dm_http = sample_surface, dm_auth = ''t''\<rparr>"

definition sample_outside :: "unit outside" where
  "sample_outside = \<lparr>ow_chain = sample_market, ow_settings_file = Inl ''gone'', ow_now = 0, ow_gap = (\<lambda>_. []),
     ow_after_tick = [(3, sample_request POST ''/pause'')], ow_job = sample_world, ow_in_job = [],
     ow_claimable = Inl ''down'', ow_in_earnings = [], ow_in_beat = []\<rparr>"

lemma heartbeat_always_offered_witness:
  "\<exists>r \<in> set (pending_requests (fst (daemon_after sample_daemon (\<lambda>_. sample_outside) 2 (agent_new,
      (sample_fresh, \<lparr>es_agent = agent_new, es_in_flight = False, es_signed = []\<rparr>))))).
     is_pending r \<and> pr_intent r = ''heartbeat''"
proof -
  have kec: "ev_kec (dm_env sample_daemon) = sample_digest" by (simp add: sample_daemon_def)
  have "hash32 (ev_kec (dm_env sample_daemon))" by (auto simp: kec hash32_def sample_digest_def min_def)
  moreover have "ow_in_beat ((\<lambda>_. sample_outside) (of_nat 2 :: u64)) = []" by (simp add: sample_outside_def)
  moreover have "sel_heartbeat sample_digest \<notin> {sel_claim_rewards sample_digest, sel_bid_on_job sample_digest,
      sel_start_execution sample_digest, sel_submit_commitment sample_digest, sel_submit_result sample_digest,
      sel_complete_job sample_digest}"
    by (simp add: sel_defs selector_def sample_digest_def bytes_of_string_def)
  ultimately show ?thesis
    using heartbeat_always_offered [of sample_daemon "\<lambda>_. sample_outside" 2
        "(sample_fresh, \<lparr>es_agent = agent_new, es_in_flight = False, es_signed = []\<rparr>)"]
    unfolding kec by blast
qed

end
