(* ===== verification/Chain_Pinning.thy ===== *)
theory Chain_Pinning
  imports Marketplace
begin

text \<open>
  The module \<open>chainio::pinning\<close> (\<open>crates/chainio/src/pinning.rs\<close>): calldata builders, return
  decoders and the \<open>Challenged\<close> event of the \<open>IPFSIncentives\<close> contract. Keccak-256 is the
  parameter \<open>kec\<close>. The round trips are stated against reference encoders that lay the values out
  as the contract's ABI does.
\<close>

datatype pin_status = NoPin | Active | FullyVested | Slashed

definition pin_status_from_u8 :: "u8 \<Rightarrow> abi_error + pin_status" where
  "pin_status_from_u8 v =
     (if v = 0 then Inr NoPin
      else if v = 1 then Inr Active
      else if v = 2 then Inr FullyVested
      else if v = 3 then Inr Slashed
      else Inl Overflow)"

record pin_state =
  ps_status :: pin_status
  ps_round :: u128
  ps_missed :: u128
  ps_claimed :: u128
  ps_bond_held :: u128
  ps_challenge_open :: bool
  ps_challenge_deadline :: u128
  ps_challenge_nonce :: word32

record slot_state =
  sl_funded :: bool
  sl_budget :: u128
  sl_live_count :: u128

section \<open>Calldata of the reads\<close>

definition encode_registered :: "(bytes \<Rightarrow> bytes) \<Rightarrow> address \<Rightarrow> bytes" where
  "encode_registered kec who = encode_call (sel_pin_registered kec) [word_from_address who]"

definition encode_unallocated_slot_funding :: "(bytes \<Rightarrow> bytes) \<Rightarrow> bytes" where
  "encode_unallocated_slot_funding kec = encode_call (sel_pin_unallocated_slot_funding kec) []"

definition decode_unallocated_slot_funding :: "bytes \<Rightarrow> abi_error + u128" where
  "decode_unallocated_slot_funding data = rbind (dec_u128 (decoder_new data)) (\<lambda>(v, _). Inr v)"

definition encode_get_pin :: "(bytes \<Rightarrow> bytes) \<Rightarrow> address \<Rightarrow> bytes \<Rightarrow> u128 \<Rightarrow> bytes" where
  "encode_get_pin kec pinner cid sector =
     encode_call (sel_pin_get_pin kec) [word_from_address pinner, cid, word_from_u128 sector]"

definition encode_get_slot :: "(bytes \<Rightarrow> bytes) \<Rightarrow> bytes \<Rightarrow> u128 \<Rightarrow> bytes" where
  "encode_get_slot kec cid sector = encode_call (sel_pin_get_slot kec) [cid, word_from_u128 sector]"

definition encode_owed_of :: "(bytes \<Rightarrow> bytes) \<Rightarrow> address \<Rightarrow> bytes \<Rightarrow> u128 \<Rightarrow> bytes" where
  "encode_owed_of kec pinner cid sector =
     encode_call (sel_pin_owed_of kec) [word_from_address pinner, cid, word_from_u128 sector]"

section \<open>Calldata of the writes\<close>

definition encode_register_pinner :: "(bytes \<Rightarrow> bytes) \<Rightarrow> bytes" where
  "encode_register_pinner kec = encode_call (sel_pin_register_pinner kec) []"

definition encode_seal_commit ::
    "(bytes \<Rightarrow> bytes) \<Rightarrow> bytes \<Rightarrow> u128 \<Rightarrow> bytes \<Rightarrow> u128 \<Rightarrow> bytes \<Rightarrow> bytes \<Rightarrow> bytes \<Rightarrow> bytes \<Rightarrow> bytes" where
  "encode_seal_commit kec cid sector replica_id epoch comm_d comm_r comm_c porep_proof =
     (let head_len = 8 * 32;
          proof_tail = encode_bytes_tail porep_proof
      in sel_pin_seal_commit kec @ cid @ word_from_u128 sector @ replica_id @ word_from_u128 epoch @
         comm_d @ comm_r @ comm_c @ word_from_u128 (of_nat head_len) @ proof_tail)"

definition encode_challenge :: "(bytes \<Rightarrow> bytes) \<Rightarrow> bytes \<Rightarrow> u128 \<Rightarrow> bytes" where
  "encode_challenge kec cid sector = encode_call (sel_pin_challenge kec) [cid, word_from_u128 sector]"

definition encode_submit_post ::
    "(bytes \<Rightarrow> bytes) \<Rightarrow> bytes \<Rightarrow> u128 \<Rightarrow> bytes \<Rightarrow> bytes \<Rightarrow> word32 \<Rightarrow> bytes \<Rightarrow> bytes" where
  "encode_submit_post kec cid sector comm_r comm_c challenge_nonce post_proof =
     (let head_len = 6 * 32;
          proof_tail = encode_bytes_tail post_proof
      in sel_pin_submit_post kec @ cid @ word_from_u128 sector @ comm_r @ comm_c @ challenge_nonce @
         word_from_u128 (of_nat head_len) @ proof_tail)"

definition encode_claim :: "(bytes \<Rightarrow> bytes) \<Rightarrow> bytes \<Rightarrow> u128 \<Rightarrow> bytes" where
  "encode_claim kec cid sector = encode_call (sel_pin_claim kec) [cid, word_from_u128 sector]"

definition encode_return_bond :: "(bytes \<Rightarrow> bytes) \<Rightarrow> bytes \<Rightarrow> u128 \<Rightarrow> bytes" where
  "encode_return_bond kec cid sector = encode_call (sel_pin_return_bond kec) [cid, word_from_u128 sector]"

section \<open>Return decoders\<close>

definition decode_pin :: "bytes \<Rightarrow> abi_error + pin_state" where
  "decode_pin data =
     rbind (dec_u8_enum (decoder_new data)) (\<lambda>(s, d).
     rbind (pin_status_from_u8 s) (\<lambda>status.
     rbind (dec_u128 d) (\<lambda>(round, d).
     rbind (dec_u128 d) (\<lambda>(missed, d).
     rbind (dec_u128 d) (\<lambda>(claimed, d).
     rbind (dec_u128 d) (\<lambda>(bond_held, d).
     rbind (dec_bool d) (\<lambda>(open_now, d).
     rbind (dec_u128 d) (\<lambda>(deadline, d).
     rbind (dec_word d) (\<lambda>(nonce, d).
       Inr \<lparr>ps_status = status, ps_round = round, ps_missed = missed, ps_claimed = claimed,
            ps_bond_held = bond_held, ps_challenge_open = open_now,
            ps_challenge_deadline = deadline, ps_challenge_nonce = nonce\<rparr>)))))))))"

definition decode_slot :: "bytes \<Rightarrow> abi_error + slot_state" where
  "decode_slot data =
     rbind (dec_bool (decoder_new data)) (\<lambda>(funded, d).
     rbind (dec_u128 d) (\<lambda>(budget, d).
     rbind (dec_u128 d) (\<lambda>(live, d).
       Inr \<lparr>sl_funded = funded, sl_budget = budget, sl_live_count = live\<rparr>)))"

definition decode_owed :: "bytes \<Rightarrow> abi_error + u128" where
  "decode_owed data = rbind (dec_u128 (decoder_new data)) (\<lambda>(v, _). Inr v)"

definition decode_registered :: "bytes \<Rightarrow> abi_error + bool" where
  "decode_registered data = rbind (dec_bool (decoder_new data)) (\<lambda>(v, _). Inr v)"

section \<open>The challenge event\<close>

definition challenged_topic0 :: "(bytes \<Rightarrow> bytes) \<Rightarrow> bytes" where
  "challenged_topic0 kec = kec (bytes_of_string ''Challenged(bytes32,uint256,uint256,uint256)'')"

record challenged_event =
  ce_pin_id :: bytes
  ce_challenge_nonce :: word32
  ce_deadline :: u128
  ce_counter :: u128

definition decode_challenged :: "bytes \<Rightarrow> bytes \<Rightarrow> abi_error + challenged_event" where
  "decode_challenged pin_id_topic data =
     rbind (dec_word (decoder_new data)) (\<lambda>(nonce, d).
     rbind (dec_u128 d) (\<lambda>(deadline, d).
     rbind (dec_u128 d) (\<lambda>(counter, d).
       Inr \<lparr>ce_pin_id = pin_id_topic, ce_challenge_nonce = nonce, ce_deadline = deadline,
            ce_counter = counter\<rparr>)))"

definition pin_id :: "(bytes \<Rightarrow> bytes) \<Rightarrow> address \<Rightarrow> bytes \<Rightarrow> u128 \<Rightarrow> bytes" where
  "pin_id kec pinner cid sector = kec (word_from_address pinner @ cid @ word_from_u128 sector)"

section \<open>Reference encodings\<close>

definition pin_status_to_u8 :: "pin_status \<Rightarrow> u8" where
  "pin_status_to_u8 s = (case s of NoPin \<Rightarrow> 0 | Active \<Rightarrow> 1 | FullyVested \<Rightarrow> 2 | Slashed \<Rightarrow> 3)"

lemma pin_status_iff: "pin_status_from_u8 v = Inr s \<longleftrightarrow> v = pin_status_to_u8 s"
  by (cases s) (auto simp: pin_status_from_u8_def pin_status_to_u8_def)

definition pin_words :: "pin_state \<Rightarrow> word32 list" where
  "pin_words p = [word_from_u8 (pin_status_to_u8 (ps_status p)), word_from_u128 (ps_round p),
     word_from_u128 (ps_missed p), word_from_u128 (ps_claimed p), word_from_u128 (ps_bond_held p),
     word_from_bool (ps_challenge_open p), word_from_u128 (ps_challenge_deadline p),
     ps_challenge_nonce p]"

text \<open>A contract's reading of static word \<open>i\<close> and of the dynamic argument whose offset is word
  \<open>i\<close>, in the block after the selector.\<close>

definition abi_word :: "bytes \<Rightarrow> nat \<Rightarrow> bytes" where
  "abi_word block i = take 32 (drop (32 * i) block)"

definition abi_dynamic :: "bytes \<Rightarrow> nat \<Rightarrow> bytes option" where
  "abi_dynamic block i = abi_bytes_at block (nat_of_be (abi_word block i))"

lemma decode_pin_words:
  "decode_pin data = Inr p \<Longrightarrow> words_at data 0 (pin_words p)"
  by (auto simp: decode_pin_def pin_words_def cbool.rd_iff cu128.rd_iff cenum.rd_iff dec_word_iff
      pin_status_iff decoder_new_def)

lemma decode_pin_encode:
  "length (ps_challenge_nonce p) = 32 \<Longrightarrow> decode_pin (concat (pin_words p) @ post) = Inr p"
  unfolding decode_pin_def decoder_new_cursor pin_words_def
  by (simp add: codec_simps pin_status_iff) (rule exI [of _ "ps_status p"], simp)

lemma decode_pin_iff:
  "decode_pin data = Inr p \<longleftrightarrow>
     length (ps_challenge_nonce p) = 32 \<and> take 256 data = concat (pin_words p)"
proof
  assume "decode_pin data = Inr p"
  then have ws: "words_at data 0 (pin_words p)" by (rule decode_pin_words)
  from words_at_length [OF this] have "length (ps_challenge_nonce p) = 32" by (simp add: pin_words_def)
  moreover have "length (pin_words p) = 8" by (simp add: pin_words_def)
  ultimately show "length (ps_challenge_nonce p) = 32 \<and> take 256 data = concat (pin_words p)"
    using words_at_concat [OF ws] by simp
next
  assume "length (ps_challenge_nonce p) = 32 \<and> take 256 data = concat (pin_words p)"
  then show "decode_pin data = Inr p" using decode_pin_encode by (metis append_take_drop_id)
qed

text \<open>Calldata as a head of whole words and one dynamic tail.\<close>

lemma abi_word_head:
  assumes "words32 ws" "i < length ws"
  shows "abi_word (concat ws @ post) i = ws ! i"
  using word_at_concat [of ws i post] assms by (simp add: words32_def word_at_offset_def abi_word_def)

lemma abi_dynamic_tail:
  assumes "words32 ws" "i < length ws" "ws ! i = word_from_u128 (of_nat (32 * length ws))"
    "32 * length ws < 2 ^ 128" "length bs < 2 ^ 128"
  shows "abi_dynamic (concat ws @ encode_bytes_tail bs) i = Some bs"
proof -
  have "nat_of_be (ws ! i) = 32 * length ws"
    unfolding assms(3) nat_of_be_word using assms(4) by (intro unat_of_nat_small) simp
  then show ?thesis
    using abi_bytes_at_tail [of bs "concat ws" "32 * length ws" "[]"] assms(1,2,5)
    by (simp add: abi_dynamic_def abi_word_head length_concat_words)
qed

definition seal_commit_head :: "bytes \<Rightarrow> u128 \<Rightarrow> bytes \<Rightarrow> u128 \<Rightarrow> bytes \<Rightarrow> bytes \<Rightarrow> bytes \<Rightarrow> word32 list" where
  "seal_commit_head cid sector rid epoch d r c =
     [cid, word_from_u128 sector, rid, word_from_u128 epoch, d, r, c, word_from_u128 256]"

definition submit_post_head :: "bytes \<Rightarrow> u128 \<Rightarrow> bytes \<Rightarrow> bytes \<Rightarrow> word32 \<Rightarrow> word32 list" where
  "submit_post_head cid sector r c nonce =
     [cid, word_from_u128 sector, r, c, nonce, word_from_u128 192]"

lemma encode_seal_commit_head: "hash32 kec \<Longrightarrow>
    drop 4 (encode_seal_commit kec cid sector rid epoch d r c proof) =
      concat (seal_commit_head cid sector rid epoch d r c) @ encode_bytes_tail proof"
  by (simp add: encode_seal_commit_def Let_def sel_pin_seal_commit_def length_selector seal_commit_head_def)

lemma encode_submit_post_head: "hash32 kec \<Longrightarrow>
    drop 4 (encode_submit_post kec cid sector r c nonce proof) =
      concat (submit_post_head cid sector r c nonce) @ encode_bytes_tail proof"
  by (simp add: encode_submit_post_def Let_def sel_pin_submit_post_def length_selector submit_post_head_def)

lemma seal_commit_words:
  assumes "words32 [cid, rid, d, r, c]"
  shows "words32 (seal_commit_head cid sector rid epoch d r c)"
  using assms by (simp add: seal_commit_head_def)

lemma submit_post_words:
  assumes "words32 [cid, r, c, nonce]"
  shows "words32 (submit_post_head cid sector r c nonce)"
  using assms by (simp add: submit_post_head_def)

lemma map_upt_nth: "length ws = n \<Longrightarrow> (\<And>i. i < n \<Longrightarrow> f i = ws ! i) \<Longrightarrow> map f [0..<n] = ws"
  by (rule nth_equalityI) simp_all

lemma read_seal_commit:
  assumes "hash32 kec" "words32 [cid, rid, d, r, c]" "length proof < 2 ^ 128"
  shows "let block = drop 4 (encode_seal_commit kec cid sector rid epoch d r c proof)
    in map (abi_word block) [0..<8] = seal_commit_head cid sector rid epoch d r c \<and>
       abi_dynamic block 7 = Some proof"
proof -
  let ?ws = "seal_commit_head cid sector rid epoch d r c"
  have ws: "words32 ?ws" "length ?ws = 8" using seal_commit_words [OF assms(2)]
    by (simp_all add: seal_commit_head_def)
  have "abi_dynamic (concat ?ws @ encode_bytes_tail proof) 7 = Some proof"
    by (rule abi_dynamic_tail) (use ws assms(3) in \<open>simp_all add: seal_commit_head_def\<close>)
  moreover have "map (abi_word (concat ?ws @ encode_bytes_tail proof)) [0..<8] = ?ws"
    by (rule map_upt_nth) (use ws in \<open>simp_all add: abi_word_head\<close>)
  ultimately show ?thesis by (simp add: encode_seal_commit_head [OF assms(1)] Let_def)
qed

lemma read_submit_post:
  assumes "hash32 kec" "words32 [cid, r, c, nonce]" "length proof < 2 ^ 128"
  shows "let block = drop 4 (encode_submit_post kec cid sector r c nonce proof)
    in map (abi_word block) [0..<6] = submit_post_head cid sector r c nonce \<and>
       abi_dynamic block 5 = Some proof"
proof -
  let ?ws = "submit_post_head cid sector r c nonce"
  have ws: "words32 ?ws" "length ?ws = 6" using submit_post_words [OF assms(2)]
    by (simp_all add: submit_post_head_def)
  have "abi_dynamic (concat ?ws @ encode_bytes_tail proof) 5 = Some proof"
    by (rule abi_dynamic_tail) (use ws assms(3) in \<open>simp_all add: submit_post_head_def\<close>)
  moreover have "map (abi_word (concat ?ws @ encode_bytes_tail proof)) [0..<6] = ?ws"
    by (rule map_upt_nth) (use ws in \<open>simp_all add: abi_word_head\<close>)
  ultimately show ?thesis by (simp add: encode_submit_post_head [OF assms(1)] Let_def)
qed

text \<open>\<open>pinId\<close> is the digest of an injective encoding of the three keys.\<close>

lemma pin_id_preimage_inj:
  assumes "length p = 20" "length p' = 20" "length cid = 32" "length cid' = 32"
    "word_from_address p @ cid @ word_from_u128 s = word_from_address p' @ cid' @ word_from_u128 s'"
  shows "p = p' \<and> cid = cid' \<and> s = s'"
  using assms cu128.enc_inj caddr.enc_inj by auto

section \<open>Properties\<close>

text \<open>C39: The pin decoder accepts exactly the canonical encodings: it returns a state exactly when
  the first eight words are that state's ABI encoding, so a word out of range, a dirty boolean or an
  unknown status is an error.\<close>

theorem pin_decode_exact:
  "decode_pin data = Inr p \<longleftrightarrow>
     length (ps_challenge_nonce p) = 32 \<and> take 256 data = concat (pin_words p)"
  by (rule decode_pin_iff)

text \<open>The calldata of the two proof-carrying pin writes reads back: a contract's ABI decoder
  finds in \<open>sealCommit\<close> and \<open>submitPoSt\<close> every static argument in its word and the proof bytes at the
  dynamic offset.\<close>

theorem pin_calldata_readable:
  assumes "hash32 kec" "words32 [cid, rid, d, r, c, nonce]" "length proof < 2 ^ 128"
  shows "map (abi_word (drop 4 (encode_seal_commit kec cid sector rid epoch d r c proof))) [0..<8] =
      [cid, word_from_u128 sector, rid, word_from_u128 epoch, d, r, c, word_from_u128 256] \<and>
    abi_dynamic (drop 4 (encode_seal_commit kec cid sector rid epoch d r c proof)) 7 = Some proof \<and>
    map (abi_word (drop 4 (encode_submit_post kec cid sector r c nonce proof))) [0..<6] =
      [cid, word_from_u128 sector, r, c, nonce, word_from_u128 192] \<and>
    abi_dynamic (drop 4 (encode_submit_post kec cid sector r c nonce proof)) 5 = Some proof"
  using read_seal_commit [of kec cid rid d r c "proof" sector epoch]
    read_submit_post [of kec cid r c nonce "proof" sector] assms
  by (simp add: Let_def seal_commit_head_def submit_post_head_def)

lemma pin_calldata_readable_witness:
  "abi_dynamic (drop 4 (encode_seal_commit (\<lambda>_. replicate 32 0) (replicate 32 1) 7 (replicate 32 2) 9
     (replicate 32 3) (replicate 32 4) (replicate 32 5) [1, 2, 3])) 7 = Some [1, 2, 3]"
  using pin_calldata_readable [of "\<lambda>_. replicate 32 0" "replicate 32 1" "replicate 32 2" "replicate 32 3"
      "replicate 32 4" "replicate 32 5" "replicate 32 6" "[1, 2, 3]" 7 9]
  by (simp add: hash32_def)

end
