(* ===== verification/Pinning_Plan.thy ===== *)
theory Pinning_Plan
  imports Chain_Pinning
begin

text \<open>
  The root of the crate \<open>pinning\<close> (\<open>crates/pinning/src/lib.rs\<close>): what a pinner should do next
  for one (cid, sector), from the on-chain pin and slot alone, and the unsigned writes. The contract
  is not part of the repository: \<open>pin_effects\<close> states, as a hypothesis of the lifecycle theorem, the
  documented effect of each write on the pin's state.
\<close>

datatype pin_intent = RegisterPinner | SealCommit | Challenge | SubmitPoSt | ClaimReward | ReturnBond

definition pin_intent_label :: "pin_intent \<Rightarrow> string" where
  "pin_intent_label i = (case i of RegisterPinner \<Rightarrow> ''registerPinner'' | SealCommit \<Rightarrow> ''sealCommit''
     | Challenge \<Rightarrow> ''challenge'' | SubmitPoSt \<Rightarrow> ''submitPoSt'' | ClaimReward \<Rightarrow> ''claim''
     | ReturnBond \<Rightarrow> ''returnBond'')"

record pin_signature_request =
  psr_intent :: pin_intent
  psr_to :: address
  psr_calldata :: bytes
  psr_value_wei :: u128
  psr_chain_id :: u64
  psr_context :: string
  psr_expires_block :: u128

datatype hold_reason = SlotAtQuorum | SlotUnfunded | PinSlashed | ChallengeWindowClosed

definition INSUFFICIENT_SLOT_FUNDING_REVERT :: string where
  "INSUFFICIENT_SLOT_FUNDING_REVERT = ''Insufficient slot funding''"

text \<open>The dash of the display text is the three UTF-8 bytes of U+2014.\<close>

definition hold_reason_display :: "hold_reason \<Rightarrow> string" where
  "hold_reason_display r = (case r of
     SlotAtQuorum \<Rightarrow> ''slot is at its replication quorum''
   | SlotUnfunded \<Rightarrow> ''slot has no reward budget and the incentives contract holds too little '' @
       ''governance backing (fund()) to seed one; sealing would revert '' @
       [CHR 0x22] @ INSUFFICIENT_SLOT_FUNDING_REVERT @ [CHR 0x22] @ '' '' @
       [CHR 0xE2, CHR 0x80, CHR 0x94] @ '' backing off until governance funds it''
   | PinSlashed \<Rightarrow> ''pin is slashed; re-entry needs an operator decision''
   | ChallengeWindowClosed \<Rightarrow> ''challenge response window closed; nothing to submit'')"

datatype pin_action =
    PinIdle
  | PinSign pin_signature_request
  | PinSeal bytes u128
  | PinProve bytes u128 bytes u128
  | PinHold hold_reason

record pin_plan_input =
  pp_me :: address
  pp_cid :: bytes
  pp_sector :: u128
  pp_registered :: bool
  pp_pin :: pin_state
  pp_slot :: slot_state
  pp_quorum :: u128
  pp_rounds :: u128
  pp_per_round :: u128
  pp_current_block :: u128
  pp_incentives :: address
  pp_bond_wei :: u128
  pp_chain_id :: u64
  pp_slot_seed_wei :: u128
  pp_unallocated_slot_funding :: u128

definition pin_sign ::
    "pin_intent \<Rightarrow> address \<Rightarrow> bytes \<Rightarrow> u128 \<Rightarrow> u64 \<Rightarrow> string \<Rightarrow> u128 \<Rightarrow> pin_action" where
  "pin_sign intent to calldata value_wei chain_id context expires_block =
     PinSign \<lparr>psr_intent = intent, psr_to = to, psr_calldata = calldata, psr_value_wei = value_wei,
       psr_chain_id = chain_id, psr_context = context, psr_expires_block = expires_block\<rparr>"

text \<open>Steps 4 to 7 of the planner, for a pin that is sealed and has no challenge to answer.\<close>

definition plan_vesting :: "(bytes \<Rightarrow> bytes) \<Rightarrow> pin_plan_input \<Rightarrow> pin_action" where
  "plan_vesting kec i =
     (let p = pp_pin i; vested = sat_mul (ps_round p) (pp_per_round i)
      in if (ps_status p = Active \<or> ps_status p = FullyVested) \<and> ps_claimed p < vested
         then pin_sign ClaimReward (pp_incentives i) (encode_claim kec (pp_cid i) (pp_sector i)) 0
           (pp_chain_id i) (''claim '' @ dec (vested - ps_claimed p) @ '' vested'') 0
         else if ps_status p = FullyVested \<and> ps_claimed p = vested \<and> 0 < ps_bond_held p
         then pin_sign ReturnBond (pp_incentives i) (encode_return_bond kec (pp_cid i) (pp_sector i)) 0
           (pp_chain_id i) ''returnBond'' 0
         else if ps_status p = Active \<and> \<not> ps_challenge_open p \<and> ps_round p < pp_rounds i
         then pin_sign Challenge (pp_incentives i) (encode_challenge kec (pp_cid i) (pp_sector i)) 0
           (pp_chain_id i) (''challenge round '' @ dec (ps_round p + 1)) 0
         else PinIdle)"

definition plan_pin :: "(bytes \<Rightarrow> bytes) \<Rightarrow> pin_plan_input \<Rightarrow> pin_action" where
  "plan_pin kec i =
     (let p = pp_pin i
      in if ps_status p = Active \<and> ps_challenge_open p
         then if ps_challenge_deadline p < pp_current_block i then PinHold ChallengeWindowClosed
              else PinProve (pp_cid i) (pp_sector i) (ps_challenge_nonce p) (ps_challenge_deadline p)
         else if ps_status p = Slashed then PinHold PinSlashed
         else if ps_status p = NoPin
         then if \<not> pp_registered i
              then pin_sign RegisterPinner (pp_incentives i) (encode_register_pinner kec) 0
                (pp_chain_id i) ''registerPinner'' 0
              else if \<not> sl_funded (pp_slot i) \<and> pp_unallocated_slot_funding i < pp_slot_seed_wei i
              then PinHold SlotUnfunded
              else if pp_quorum i \<le> sl_live_count (pp_slot i) then PinHold SlotAtQuorum
              else PinSeal (pp_cid i) (pp_sector i)
         else plan_vesting kec i)"

section \<open>Requests that carry a proof\<close>

record seal_artifacts =
  sa_replica_id :: bytes
  sa_comm_d :: bytes
  sa_comm_r :: bytes
  sa_comm_c :: bytes
  sa_porep_proof :: bytes

record seal_inputs_rec =
  si_pinner_identity :: bytes
  si_cid :: bytes
  si_sector :: u128
  si_epoch :: u128
  si_data :: "bytes list"

definition seal_commit_request ::
    "(bytes \<Rightarrow> bytes) \<Rightarrow> pin_plan_input \<Rightarrow> seal_artifacts \<Rightarrow> u128 \<Rightarrow> pin_signature_request" where
  "seal_commit_request kec i sealed epoch =
     \<lparr>psr_intent = SealCommit, psr_to = pp_incentives i,
      psr_calldata = encode_seal_commit kec (pp_cid i) (pp_sector i) (sa_replica_id sealed) epoch
        (sa_comm_d sealed) (sa_comm_r sealed) (sa_comm_c sealed) (sa_porep_proof sealed),
      psr_value_wei = pp_bond_wei i, psr_chain_id = pp_chain_id i,
      psr_context = ''sealCommit (post bond + PoRep)'', psr_expires_block = 0\<rparr>"

definition submit_post_request ::
    "(bytes \<Rightarrow> bytes) \<Rightarrow> pin_plan_input \<Rightarrow> seal_artifacts \<Rightarrow> bytes \<Rightarrow> u128 \<Rightarrow> bytes \<Rightarrow> pin_signature_request" where
  "submit_post_request kec i sealed nonce deadline post_proof =
     \<lparr>psr_intent = SubmitPoSt, psr_to = pp_incentives i,
      psr_calldata = encode_submit_post kec (pp_cid i) (pp_sector i) (sa_comm_r sealed)
        (sa_comm_c sealed) nonce post_proof,
      psr_value_wei = 0, psr_chain_id = pp_chain_id i,
      psr_context = ''submitPoSt (answer challenge)'', psr_expires_block = deadline\<rparr>"

section \<open>The seams\<close>

record pin_tx_observed =
  ptx_hash :: "string option"

datatype pin_signer_error = NoPinSigner | PinDeclined string | PinReverted string

definition pin_signer_error_display :: "pin_signer_error \<Rightarrow> string" where
  "pin_signer_error_display e = (case e of
     NoPinSigner \<Rightarrow> ''no signing surface attached''
   | PinDeclined m \<Rightarrow> ''signing declined: '' @ m
   | PinReverted m \<Rightarrow> ''transaction reverted: '' @ m)"

datatype sealer_error = ReplicaError string | ProveError string

definition sealer_error_display :: "sealer_error \<Rightarrow> string" where
  "sealer_error_display e = (case e of
     ReplicaError m \<Rightarrow> ''replica unavailable: '' @ m
   | ProveError m \<Rightarrow> ''proving failed: '' @ m)"

section \<open>The lifecycle of a pin\<close>

text \<open>The write an action leads to (the run loop turns \<open>Seal\<close> and \<open>Prove\<close> into writes).\<close>

definition action_intent :: "pin_action \<Rightarrow> pin_intent option" where
  "action_intent a = (case a of PinIdle \<Rightarrow> None | PinSign r \<Rightarrow> Some (psr_intent r)
     | PinSeal _ _ \<Rightarrow> Some SealCommit | PinProve _ _ _ _ \<Rightarrow> Some SubmitPoSt | PinHold _ \<Rightarrow> None)"

text \<open>The documented effects on a sealed pin, in the states where the contract accepts the write:
  \<open>challenge\<close> opens a challenge, an accepted answer vests one round and the last one completes the
  pin, \<open>claim\<close> pays what is vested and \<open>returnBond\<close> gives back the bond.\<close>

definition pin_effects :: "u128 \<Rightarrow> u128 \<Rightarrow> (pin_intent \<Rightarrow> pin_state \<Rightarrow> pin_state) \<Rightarrow> bool" where
  "pin_effects rounds per_round eff \<longleftrightarrow> (\<forall>p.
     (ps_status p = Active \<and> \<not> ps_challenge_open p \<longrightarrow> (\<exists>nonce deadline. eff Challenge p =
        p\<lparr>ps_challenge_open := True, ps_challenge_nonce := nonce, ps_challenge_deadline := deadline\<rparr>)) \<and>
     (ps_status p = Active \<and> ps_challenge_open p \<longrightarrow> eff SubmitPoSt p =
        p\<lparr>ps_challenge_open := False, ps_round := ps_round p + 1,
          ps_status := if ps_round p + 1 = rounds then FullyVested else Active\<rparr>) \<and>
     (ps_status p \<in> {Active, FullyVested} \<and> \<not> ps_challenge_open p \<longrightarrow>
        eff ClaimReward p = p\<lparr>ps_claimed := ps_round p * per_round\<rparr>) \<and>
     (ps_status p = FullyVested \<longrightarrow> eff ReturnBond p = p\<lparr>ps_bond_held := 0\<rparr>))"

text \<open>One tick whose write, if any, is mined before the next tick.\<close>

definition pin_tick ::
    "(bytes \<Rightarrow> bytes) \<Rightarrow> (pin_intent \<Rightarrow> pin_state \<Rightarrow> pin_state) \<Rightarrow> pin_plan_input \<Rightarrow> pin_state \<Rightarrow> pin_state" where
  "pin_tick kec eff i p =
     (case action_intent (plan_pin kec (i\<lparr>pp_pin := p\<rparr>)) of None \<Rightarrow> p | Some w \<Rightarrow> eff w p)"

text \<open>A sealed pin as the contract keeps it.\<close>

definition pin_wf :: "u128 \<Rightarrow> u128 \<Rightarrow> pin_state \<Rightarrow> bool" where
  "pin_wf rounds per_round p \<longleftrightarrow>
     ((ps_status p = Active \<and> ps_round p < rounds) \<or>
      (ps_status p = FullyVested \<and> ps_round p = rounds \<and> \<not> ps_challenge_open p)) \<and>
     unat (ps_claimed p) \<le> unat (ps_round p) * unat per_round"

text \<open>How many ticks are left: three for each round, less one when its challenge is open, one for an
  unclaimed reward, one for the bond.\<close>

definition pin_ticks_left :: "u128 \<Rightarrow> u128 \<Rightarrow> pin_state \<Rightarrow> nat" where
  "pin_ticks_left rounds per_round p =
     3 * (unat rounds - unat (ps_round p)) - (if ps_challenge_open p then 1 else 0) +
     (if unat (ps_claimed p) < unat (ps_round p) * unat per_round then 1 else 0) +
     (if ps_bond_held p = 0 then 0 else 1)"

definition pin_settled :: "u128 \<Rightarrow> u128 \<Rightarrow> pin_state \<Rightarrow> bool" where
  "pin_settled rounds per_round p \<longleftrightarrow> ps_status p = FullyVested \<and> ps_round p = rounds \<and>
     unat (ps_claimed p) = unat rounds * unat per_round \<and> ps_bond_held p = 0"

text \<open>A sequence of ticks; the inputs (head of the chain, slot, \<dots>) may differ from tick to tick.\<close>

primrec pin_run ::
    "(bytes \<Rightarrow> bytes) \<Rightarrow> (pin_intent \<Rightarrow> pin_state \<Rightarrow> pin_state) \<Rightarrow> (nat \<Rightarrow> pin_plan_input) \<Rightarrow> nat \<Rightarrow>
       pin_state \<Rightarrow> pin_state" where
  "pin_run kec eff inp 0 p = p"
| "pin_run kec eff inp (Suc n) p = pin_tick kec eff (inp n) (pin_run kec eff inp n p)"

definition pin_configured :: "u128 \<Rightarrow> u128 \<Rightarrow> pin_plan_input \<Rightarrow> bool" where
  "pin_configured rounds per_round i \<longleftrightarrow> pp_rounds i = rounds \<and> pp_per_round i = per_round"

definition answer_in_time :: "pin_plan_input \<Rightarrow> pin_state \<Rightarrow> bool" where
  "answer_in_time i p \<longleftrightarrow>
     (ps_status p = Active \<and> ps_challenge_open p \<longrightarrow> pp_current_block i \<le> ps_challenge_deadline p)"

lemma vested_exact:
  fixes r per rounds :: u128
  assumes "r \<le> rounds" "unat rounds * unat per < 2 ^ 128"
  shows "unat (sat_mul r per) = unat r * unat per" "unat (r * per) = unat r * unat per"
proof -
  have "unat r * unat per \<le> unat rounds * unat per"
    using assms(1) by (intro mult_right_mono) (simp_all add: word_le_nat_alt)
  then have lt: "unat r * unat per < 2 ^ 128" using assms(2) by (rule order.strict_trans1)
  then show "unat (sat_mul r per) = unat r * unat per" by (simp add: unat_sat_mul)
  show "unat (r * per) = unat r * unat per" using lt by (simp add: unat_word_ariths)
qed

lemma round_succ:
  fixes r rounds :: u128
  assumes "r < rounds"
  shows "unat (r + 1) = Suc (unat r)" "r + 1 \<le> rounds"
proof -
  have "unat r < unat rounds" using assms by (simp add: word_less_nat_alt)
  moreover have "unat rounds < 2 ^ 128" using unat_lt_2p [of rounds] by simp
  ultimately have "Suc (unat r) < 2 ^ 128" by linarith
  then show s: "unat (r + 1) = Suc (unat r)" by (simp add: unat_word_ariths)
  show "r + 1 \<le> rounds" using \<open>unat r < unat rounds\<close> s by (simp add: word_le_nat_alt)
qed

definition pin_setting ::
    "u128 \<Rightarrow> u128 \<Rightarrow> (pin_intent \<Rightarrow> pin_state \<Rightarrow> pin_state) \<Rightarrow> pin_plan_input \<Rightarrow> pin_state \<Rightarrow> bool" where
  "pin_setting rounds per_round eff i p \<longleftrightarrow> pin_effects rounds per_round eff \<and>
     pin_configured rounds per_round i \<and> unat rounds * unat per_round < 2 ^ 128 \<and>
     pin_wf rounds per_round p \<and> answer_in_time i p"

lemma pin_setting_vested:
  assumes "pin_setting rounds per_round eff i p"
  shows "unat (sat_mul (ps_round p) per_round) = unat (ps_round p) * unat per_round"
    "unat (ps_round p * per_round) = unat (ps_round p) * unat per_round"
    "unat (ps_claimed p) \<le> unat (ps_round p) * unat per_round"
proof -
  have "ps_round p \<le> rounds" "unat rounds * unat per_round < 2 ^ 128"
    using assms by (auto simp: pin_setting_def pin_wf_def)
  from vested_exact [OF this] show "unat (sat_mul (ps_round p) per_round) = unat (ps_round p) * unat per_round"
    "unat (ps_round p * per_round) = unat (ps_round p) * unat per_round" .
  show "unat (ps_claimed p) \<le> unat (ps_round p) * unat per_round"
    using assms by (auto simp: pin_setting_def pin_wf_def)
qed

lemmas tick_defs = pin_tick_def plan_pin_def plan_vesting_def pin_sign_def action_intent_def Let_def
lemmas setting_defs = pin_setting_def pin_effects_def pin_configured_def pin_wf_def answer_in_time_def

text \<open>The four kinds of tick of a sealed pin.\<close>

lemma tick_prove:
  assumes "pin_setting rounds per_round eff i p" "ps_challenge_open p"
  shows "pin_tick kec eff i p = p\<lparr>ps_challenge_open := False, ps_round := ps_round p + 1,
    ps_status := if ps_round p + 1 = rounds then FullyVested else Active\<rparr>"
proof -
  have "ps_status p = Active" "pp_current_block i \<le> ps_challenge_deadline p"
    "pin_effects rounds per_round eff" using assms by (auto simp: setting_defs)
  then show ?thesis using assms(2) by (simp add: tick_defs pin_effects_def not_less)
qed

lemma tick_claim:
  assumes "pin_setting rounds per_round eff i p" "\<not> ps_challenge_open p"
    and "unat (ps_claimed p) < unat (ps_round p) * unat per_round"
  shows "pin_tick kec eff i p = p\<lparr>ps_claimed := ps_round p * per_round\<rparr>"
proof -
  have "ps_claimed p < sat_mul (ps_round p) per_round"
    using assms(3) pin_setting_vested(1) [OF assms(1)] by (simp add: word_less_nat_alt)
  moreover have st: "ps_status p \<in> {Active, FullyVested}" "pp_per_round i = per_round"
    "pin_effects rounds per_round eff" using assms(1) by (auto simp: setting_defs)
  moreover have "eff ClaimReward p = p\<lparr>ps_claimed := ps_round p * per_round\<rparr>"
    using st assms(2) by (simp add: pin_effects_def)
  ultimately show ?thesis using assms(2) by (auto simp: tick_defs)
qed

lemma pin_claimed_all:
  assumes "pin_setting rounds per_round eff i p"
    and "\<not> unat (ps_claimed p) < unat (ps_round p) * unat per_round"
  shows "ps_claimed p = sat_mul (ps_round p) (pp_per_round i)"
proof -
  have "pp_per_round i = per_round" using assms(1) by (simp add: setting_defs)
  then have "unat (ps_claimed p) = unat (sat_mul (ps_round p) (pp_per_round i))"
    using assms(2) pin_setting_vested(1,3) [OF assms(1)] by simp
  then show ?thesis by (simp only: word_unat_eq_iff)
qed

lemma tick_challenge:
  assumes "pin_setting rounds per_round eff i p" "\<not> ps_challenge_open p" "ps_status p = Active"
    and "\<not> unat (ps_claimed p) < unat (ps_round p) * unat per_round"
  shows "\<exists>nonce deadline. pin_tick kec eff i p =
    p\<lparr>ps_challenge_open := True, ps_challenge_nonce := nonce, ps_challenge_deadline := deadline\<rparr>"
proof -
  have "ps_round p < pp_rounds i" "pin_effects rounds per_round eff"
    using assms(1,3) by (auto simp: setting_defs)
  then show ?thesis
    using assms(2,3) pin_claimed_all [OF assms(1,4)] by (simp add: tick_defs pin_effects_def)
qed

lemma tick_vested:
  assumes "pin_setting rounds per_round eff i p" "ps_status p = FullyVested"
    and "\<not> unat (ps_claimed p) < unat (ps_round p) * unat per_round"
  shows "pin_tick kec eff i p = p\<lparr>ps_bond_held := 0\<rparr>"
proof -
  have "\<not> ps_challenge_open p" "pin_effects rounds per_round eff"
    using assms(1,2) by (auto simp: setting_defs)
  then show ?thesis
    using assms(2) pin_claimed_all [OF assms(1,3)]
    by (cases "ps_bond_held p = 0") (auto simp: tick_defs pin_effects_def word_neq_0_conv)
qed

text \<open>Every tick keeps the pin well formed and, until the pin is settled, brings it closer.\<close>

lemma pin_tick_progress:
  assumes set: "pin_setting rounds per_round eff i p"
  shows "pin_wf rounds per_round (pin_tick kec eff i p) \<and>
    pin_ticks_left rounds per_round (pin_tick kec eff i p) \<le> pin_ticks_left rounds per_round p - 1"
proof (cases "ps_challenge_open p")
  case True
  have act: "ps_status p = Active" "ps_round p < rounds" using True set by (auto simp: setting_defs)
  note r = round_succ [OF act(2)]
  have "unat (ps_round p) < unat rounds" using act(2) by (simp add: word_less_nat_alt)
  moreover have "unat (ps_claimed p) \<le> (1 + unat (ps_round p)) * unat per_round"
    using pin_setting_vested(3) [OF set] by simp
  ultimately show ?thesis
    using True act r tick_prove [OF set True]
    by (auto simp: pin_wf_def pin_ticks_left_def)
next
  case closed: False
  have wf: "pin_wf rounds per_round p" using set by (simp add: pin_setting_def)
  show ?thesis
  proof (cases "unat (ps_claimed p) < unat (ps_round p) * unat per_round")
    case True
    then show ?thesis
      using closed wf pin_setting_vested(2) [OF set]
      by (simp add: tick_claim [OF set closed True] pin_wf_def pin_ticks_left_def)
  next
    case False
    consider "ps_status p = Active" | "ps_status p = FullyVested" using wf by (auto simp: pin_wf_def)
    then show ?thesis
    proof cases
      case 1
      then have "unat (ps_round p) < unat rounds" using wf by (simp add: pin_wf_def word_less_nat_alt)
      moreover obtain nonce deadline where "pin_tick kec eff i p = p\<lparr>ps_challenge_open := True,
          ps_challenge_nonce := nonce, ps_challenge_deadline := deadline\<rparr>"
        using tick_challenge [OF set closed 1 False] by blast
      ultimately show ?thesis using 1 closed wf by (simp add: pin_wf_def pin_ticks_left_def)
    next
      case 2
      then show ?thesis
        using closed wf False
        by (auto simp: tick_vested [OF set 2 False] pin_wf_def pin_ticks_left_def)
    qed
  qed
qed

lemma pin_settled_iff:
  "pin_wf rounds per_round p \<Longrightarrow> pin_ticks_left rounds per_round p = 0 \<longleftrightarrow> pin_settled rounds per_round p"
  by (auto simp: pin_wf_def pin_ticks_left_def pin_settled_def word_less_nat_alt split: if_splits)

lemma pin_run_progress:
  assumes "pin_effects rounds per_round eff" "unat rounds * unat per_round < 2 ^ 128"
    and "pin_wf rounds per_round p"
    and "\<And>k. pin_configured rounds per_round (inp k)"
    and "\<And>k. answer_in_time (inp k) (pin_run kec eff inp k p)"
  shows "pin_wf rounds per_round (pin_run kec eff inp n p) \<and>
    pin_ticks_left rounds per_round (pin_run kec eff inp n p) \<le> pin_ticks_left rounds per_round p - n"
proof (induction n)
  case (Suc n)
  then have "pin_setting rounds per_round eff (inp n) (pin_run kec eff inp n p)"
    using assms by (simp add: pin_setting_def)
  from pin_tick_progress [OF this, of kec] Suc show ?case
    unfolding pin_run.simps by (intro conjI) (simp, linarith)
qed (use assms in simp)

section \<open>Properties\<close>

text \<open>C15: A sealed pin is driven to settlement. Let every write the planner asks for be mined before
  the next tick, with the contract's documented effect, and let an open challenge be seen before its
  deadline; the head, the slot and everything else may change from tick to tick. Then after at most
  three ticks per remaining round and two more, the pin is fully vested, every reward is claimed and
  the bond is returned, and it stays so.\<close>

theorem pin_lifecycle_completes:
  assumes "pin_effects rounds per_round eff" "unat rounds * unat per_round < 2 ^ 128"
    and "pin_wf rounds per_round p"
    and "\<And>k. pin_configured rounds per_round (inp k)"
    and "\<And>k. answer_in_time (inp k) (pin_run kec eff inp k p)"
    and "3 * (unat rounds - unat (ps_round p)) + 2 \<le> n"
  shows "pin_settled rounds per_round (pin_run kec eff inp n p)"
proof -
  have "pin_ticks_left rounds per_round p \<le> n"
    using assms(6) by (auto simp: pin_ticks_left_def)
  then have "pin_ticks_left rounds per_round (pin_run kec eff inp n p) = 0"
    using pin_run_progress [OF assms(1-5), of n] by simp
  then show ?thesis using pin_settled_iff pin_run_progress [OF assms(1-5), of n] by blast
qed

definition sample_effects :: "pin_intent \<Rightarrow> pin_state \<Rightarrow> pin_state" where
  "sample_effects w p = (case w of
     Challenge \<Rightarrow> p\<lparr>ps_challenge_open := True, ps_challenge_nonce := [], ps_challenge_deadline := 100\<rparr>
   | SubmitPoSt \<Rightarrow> p\<lparr>ps_challenge_open := False, ps_round := ps_round p + 1,
       ps_status := if ps_round p + 1 = 2 then FullyVested else Active\<rparr>
   | ClaimReward \<Rightarrow> p\<lparr>ps_claimed := ps_round p * 5\<rparr>
   | ReturnBond \<Rightarrow> p\<lparr>ps_bond_held := 0\<rparr>
   | _ \<Rightarrow> p)"

definition sample_pin :: pin_state where
  "sample_pin = \<lparr>ps_status = Active, ps_round = 0, ps_missed = 0, ps_claimed = 0, ps_bond_held = 9,
     ps_challenge_open = True, ps_challenge_deadline = 100, ps_challenge_nonce = []\<rparr>"

definition sample_pin_input :: pin_plan_input where
  "sample_pin_input = \<lparr>pp_me = [], pp_cid = [], pp_sector = 0, pp_registered = True,
     pp_pin = sample_pin, pp_slot = \<lparr>sl_funded = True, sl_budget = 0, sl_live_count = 0\<rparr>,
     pp_quorum = 1, pp_rounds = 2, pp_per_round = 5, pp_current_block = 50, pp_incentives = [],
     pp_bond_wei = 9, pp_chain_id = 1, pp_slot_seed_wei = 0, pp_unallocated_slot_funding = 0\<rparr>"

lemma sample_deadline:
  "ps_challenge_deadline (pin_run kec sample_effects (\<lambda>_. sample_pin_input) k sample_pin) = 100"
  by (induction k) (auto simp: sample_pin_def pin_tick_def sample_effects_def
      split: option.splits pin_intent.splits)

lemma pin_lifecycle_completes_witness:
  "pin_settled 2 5 (pin_run (\<lambda>_. []) sample_effects (\<lambda>_. sample_pin_input) 8 sample_pin)"
proof (rule pin_lifecycle_completes)
  show "pin_effects 2 5 sample_effects" by (simp add: pin_effects_def sample_effects_def) blast
  show "pin_configured 2 5 sample_pin_input"
    by (simp add: pin_configured_def sample_pin_input_def)
  show "answer_in_time sample_pin_input (pin_run (\<lambda>_. []) sample_effects (\<lambda>_. sample_pin_input) k sample_pin)"
    for k unfolding answer_in_time_def sample_deadline by (simp add: sample_pin_input_def)
qed (simp_all add: pin_wf_def sample_pin_def)

end
