(* ===== verification/Pinning_Runloop.thy ===== *)
theory Pinning_Runloop
  imports Pinning_Plan Text
begin

text \<open>
  The module \<open>pinning::runloop\<close> (\<open>crates/pinning/src/runloop.rs\<close>): one tick of the pinning daemon
  for one (cid, sector). The chain view, the prover, the signing surface and the replica store are
  the traits of the source, hence parameters, as are Keccak-256 (\<open>kec\<close>) and the hexadecimal text of the \<open>hex\<close> crate (\<open>hx\<close>); a tick returns the requests it handed to the signing
  surface, in order, with its outcome. Durations are natural numbers of nanoseconds.
\<close>

section \<open>The seams\<close>

record pin_chain_view =
  pv_registered :: "address \<Rightarrow> string + bool"
  pv_pin :: "address \<Rightarrow> bytes \<Rightarrow> u128 \<Rightarrow> string + pin_state"
  pv_slot :: "bytes \<Rightarrow> u128 \<Rightarrow> string + slot_state"
  pv_current_block :: "string + u128"
  pv_unallocated :: "string + u128"

definition view_error_display :: "string \<Rightarrow> string" where
  "view_error_display e = ''chain view error: '' @ e"

record pin_config =
  pc_me :: address
  pc_incentives :: address
  pc_chain_id :: u64
  pc_quorum :: u128
  pc_rounds :: u128
  pc_per_round :: u128
  pc_bond_wei :: u128
  pc_reward_wei :: u128
  pc_challenge_n :: u64

datatype pin_outcome =
    TickIdle
  | TickHold hold_reason
  | TickRequested pin_intent pin_tx_observed
  | TickSealed pin_tx_observed
  | TickProved pin_tx_observed

datatype pin_tick_error = TickView string | TickSeal sealer_error | TickSign pin_signer_error

definition pin_tick_error_display :: "pin_tick_error \<Rightarrow> string" where
  "pin_tick_error_display e = (case e of
     TickView e \<Rightarrow> view_error_display e
   | TickSeal e \<Rightarrow> sealer_error_display e
   | TickSign e \<Rightarrow> pin_signer_error_display e)"

record sealer =
  sealer_seal :: "seal_inputs_rec \<Rightarrow> sealer_error + seal_artifacts"
  sealer_prove_post :: "seal_inputs_rec \<Rightarrow> u64 \<Rightarrow> sealer_error + bytes"

type_synonym pin_signer = "pin_signature_request \<Rightarrow> pin_signer_error + pin_tx_observed"
type_synonym replica_source = "bytes \<Rightarrow> u128 \<Rightarrow> string + bytes"

section \<open>Inputs of the seal\<close>

definition data_preimage :: "bytes \<Rightarrow> u128 \<Rightarrow> bytes \<Rightarrow> u8 \<Rightarrow> bytes" where
  "data_preimage cid sector replica i =
     bytes_of_string ''PIN-reduced-data'' @ cid @ u128_to_be sector @ [i] @ replica"

definition seal_data_element :: "(bytes \<Rightarrow> bytes) \<Rightarrow> bytes \<Rightarrow> u128 \<Rightarrow> bytes \<Rightarrow> u8 \<Rightarrow> bytes" where
  "seal_data_element kec cid sector replica i = (kec (data_preimage cid sector replica i))[0 := 0]"

definition seal_epoch :: "(bytes \<Rightarrow> bytes) \<Rightarrow> bytes \<Rightarrow> u128 \<Rightarrow> u128" where
  "seal_epoch kec cid sector =
     (let e = kec (bytes_of_string ''PIN-epoch'' @ cid @ u128_to_be sector @ [0])
      in ucast (u64_from_be (take 8 (drop 24 e))))"

definition seal_inputs ::
    "(bytes \<Rightarrow> bytes) \<Rightarrow> (bytes \<Rightarrow> string) \<Rightarrow> pin_config \<Rightarrow> bytes \<Rightarrow> u128 \<Rightarrow> bytes \<Rightarrow> sealer_error + seal_inputs_rec" where
  "seal_inputs kec hx cfg cid sector replica =
     (if replica = []
      then Inl (ReplicaError (''no local replica bytes for cid '' @ hx cid @
        '' sector '' @ dec sector @
        ''; refusing to seal a proof not bound to stored content (NA-B-002)''))
      else Inr \<lparr>si_pinner_identity = replicate 12 0 @ pc_me cfg, si_cid = cid, si_sector = sector,
        si_epoch = seal_epoch kec cid sector,
        si_data = map (seal_data_element kec cid sector replica) [0, 1, 2, 3]\<rparr>)"

definition nonce_to_index :: "bytes \<Rightarrow> u64 \<Rightarrow> u64" where
  "nonce_to_index nonce challenge_n =
     (let v = u64_from_be (take 8 (drop 24 nonce))
      in if challenge_n = 0 then 0 else v mod challenge_n)"

section \<open>One tick\<close>

definition pin_input ::
    "pin_config \<Rightarrow> bytes \<Rightarrow> u128 \<Rightarrow> bool \<Rightarrow> pin_state \<Rightarrow> slot_state \<Rightarrow> u128 \<Rightarrow> u128 \<Rightarrow> pin_plan_input" where
  "pin_input cfg cid sector registered pin slot current_block unallocated =
     \<lparr>pp_me = pc_me cfg, pp_cid = cid, pp_sector = sector, pp_registered = registered, pp_pin = pin,
      pp_slot = slot, pp_quorum = pc_quorum cfg, pp_rounds = pc_rounds cfg,
      pp_per_round = pc_per_round cfg, pp_current_block = current_block,
      pp_incentives = pc_incentives cfg, pp_bond_wei = pc_bond_wei cfg, pp_chain_id = pc_chain_id cfg,
      pp_slot_seed_wei = sat_mul (pc_quorum cfg) (pc_reward_wei cfg),
      pp_unallocated_slot_funding = unallocated\<rparr>"

definition read_view :: "pin_chain_view \<Rightarrow> pin_config \<Rightarrow> bytes \<Rightarrow> u128 \<Rightarrow> pin_tick_error + pin_plan_input" where
  "read_view view cfg cid sector =
     rbind (map_err TickView (pv_registered view (pc_me cfg))) (\<lambda>registered.
     rbind (map_err TickView (pv_pin view (pc_me cfg) cid sector)) (\<lambda>pin.
     rbind (map_err TickView (pv_slot view cid sector)) (\<lambda>slot.
     rbind (map_err TickView (pv_current_block view)) (\<lambda>current_block.
     rbind (map_err TickView (pv_unallocated view)) (\<lambda>unallocated.
       Inr (pin_input cfg cid sector registered pin slot current_block unallocated))))))"

text \<open>The stored replica, the inputs derived from it and the seal over them.\<close>

definition seal_replica ::
    "(bytes \<Rightarrow> bytes) \<Rightarrow> (bytes \<Rightarrow> string) \<Rightarrow> sealer \<Rightarrow> replica_source \<Rightarrow> pin_config \<Rightarrow> bytes \<Rightarrow> u128 \<Rightarrow>
       pin_tick_error + seal_inputs_rec \<times> seal_artifacts" where
  "seal_replica kec hx prover replicas cfg cid sector =
     rbind (map_err (\<lambda>e. TickSeal (ReplicaError e)) (replicas cid sector)) (\<lambda>bs.
     rbind (map_err TickSeal (seal_inputs kec hx cfg cid sector bs)) (\<lambda>inputs.
     rbind (map_err TickSeal (sealer_seal prover inputs)) (\<lambda>sealed. Inr (inputs, sealed))))"

definition tick_pin ::
    "(bytes \<Rightarrow> bytes) \<Rightarrow> (bytes \<Rightarrow> string) \<Rightarrow> pin_chain_view \<Rightarrow> sealer \<Rightarrow> pin_signer \<Rightarrow> replica_source \<Rightarrow> pin_config \<Rightarrow>
       bytes \<Rightarrow> u128 \<Rightarrow> pin_signature_request list \<times> (pin_tick_error + pin_outcome)" where
  "tick_pin kec hx view prover signer replicas cfg cid sector =
     (case read_view view cfg cid sector of
        Inl e \<Rightarrow> ([], Inl e)
      | Inr input \<Rightarrow>
          (case plan_pin kec input of
             PinIdle \<Rightarrow> ([], Inr TickIdle)
           | PinHold r \<Rightarrow> ([], Inr (TickHold r))
           | PinSign req \<Rightarrow>
               ([req], rbind (map_err TickSign (signer req)) (\<lambda>obs. Inr (TickRequested (psr_intent req) obs)))
           | PinSeal cid sector \<Rightarrow>
               (case seal_replica kec hx prover replicas cfg cid sector of
                  Inl e \<Rightarrow> ([], Inl e)
                | Inr (inputs, sealed) \<Rightarrow>
                    let req = seal_commit_request kec input sealed (si_epoch inputs)
                    in ([req], case signer req of
                          Inr obs \<Rightarrow> Inr (TickSealed obs)
                        | Inl (PinReverted reason) \<Rightarrow>
                            if contains INSUFFICIENT_SLOT_FUNDING_REVERT reason
                            then Inr (TickHold SlotUnfunded)
                            else Inl (TickSign (PinReverted reason))
                        | Inl e \<Rightarrow> Inl (TickSign e)))
           | PinProve cid sector nonce deadline \<Rightarrow>
               (case seal_replica kec hx prover replicas cfg cid sector of
                  Inl e \<Rightarrow> ([], Inl e)
                | Inr (inputs, sealed) \<Rightarrow>
                    (case sealer_prove_post prover inputs (nonce_to_index nonce (pc_challenge_n cfg)) of
                       Inl e \<Rightarrow> ([], Inl (TickSeal e))
                     | Inr post_proof \<Rightarrow>
                         let req = submit_post_request kec input sealed nonce deadline post_proof
                         in ([req], rbind (map_err TickSign (signer req)) (\<lambda>obs. Inr (TickProved obs)))))))"

section \<open>Back-off\<close>

record slot_funding_backoff =
  bo_base :: nat
  bo_max :: nat
  bo_current :: nat

definition duration_max :: nat where
  "duration_max = (2 ^ 64 - 1) * 1000000000 + 999999999"

definition backoff_new :: "nat \<Rightarrow> nat \<Rightarrow> slot_funding_backoff" where
  "backoff_new base mx = \<lparr>bo_base = base, bo_max = mx, bo_current = base\<rparr>"

definition backoff_after ::
    "pin_tick_error + pin_outcome \<Rightarrow> slot_funding_backoff \<Rightarrow> nat \<times> slot_funding_backoff" where
  "backoff_after outcome b =
     (if outcome = Inr (TickHold SlotUnfunded)
      then (bo_current b, b\<lparr>bo_current := min (min (2 * bo_current b) duration_max) (bo_max b)\<rparr>)
      else (bo_base b, b\<lparr>bo_current := bo_base b\<rparr>))"

text \<open>The back-off after a sequence of outcomes, and the holds that ended it.\<close>

definition backoff_run :: "(pin_tick_error + pin_outcome) list \<Rightarrow> slot_funding_backoff \<Rightarrow> slot_funding_backoff" where
  "backoff_run os b = fold (\<lambda>out b. snd (backoff_after out b)) os b"

abbreviation unfunded :: "pin_tick_error + pin_outcome" where
  "unfunded \<equiv> Inr (TickHold SlotUnfunded)"

definition trailing_holds :: "(pin_tick_error + pin_outcome) list \<Rightarrow> nat" where
  "trailing_holds os = length (takeWhile (\<lambda>out. out = unfunded) (rev os))"

section \<open>What a tick hands to the signing surface\<close>

lemma read_view_Inr:
  "read_view view cfg cid sector = Inr i \<longleftrightarrow> (\<exists>reg pin slot blk un.
     pv_registered view (pc_me cfg) = Inr reg \<and> pv_pin view (pc_me cfg) cid sector = Inr pin \<and>
     pv_slot view cid sector = Inr slot \<and> pv_current_block view = Inr blk \<and>
     pv_unallocated view = Inr un \<and> i = pin_input cfg cid sector reg pin slot blk un)"
  by (auto simp: read_view_def)

lemma seal_replica_Inr:
  "seal_replica kec hx prover replicas cfg cid sector = Inr (inputs, sealed) \<longleftrightarrow>
     (\<exists>bs. replicas cid sector = Inr bs \<and> seal_inputs kec hx cfg cid sector bs = Inr inputs \<and>
        sealer_seal prover inputs = Inr sealed)"
  by (auto simp: seal_replica_def)

lemma seal_inputs_Inr: "seal_inputs kec hx cfg cid sector bs = Inr inputs \<Longrightarrow> bs \<noteq> []"
  by (auto simp: seal_inputs_def)

lemma plan_pin_Sign_intent:
  "plan_pin kec i = PinSign r \<Longrightarrow> psr_intent r \<notin> {SealCommit, SubmitPoSt} \<and> psr_value_wei r = 0"
  by (auto simp: plan_pin_def plan_vesting_def pin_sign_def Let_def split: if_splits)

lemma plan_pin_Seal:
  "plan_pin kec i = PinSeal c s \<Longrightarrow> c = pp_cid i \<and> s = pp_sector i \<and> ps_status (pp_pin i) = NoPin \<and>
     pp_registered i \<and> sl_live_count (pp_slot i) < pp_quorum i \<and>
     (sl_funded (pp_slot i) \<or> pp_slot_seed_wei i \<le> pp_unallocated_slot_funding i)"
  by (auto simp: plan_pin_def plan_vesting_def pin_sign_def Let_def split: if_splits)

lemma plan_pin_Prove:
  "plan_pin kec i = PinProve c s nonce dl \<Longrightarrow> c = pp_cid i \<and> s = pp_sector i \<and>
     ps_status (pp_pin i) = Active \<and> ps_challenge_open (pp_pin i) \<and>
     nonce = ps_challenge_nonce (pp_pin i) \<and> dl = ps_challenge_deadline (pp_pin i) \<and>
     pp_current_block i \<le> dl"
  by (auto simp: plan_pin_def plan_vesting_def pin_sign_def Let_def split: if_splits)

lemma pin_input_simps [simp]:
  "pp_cid (pin_input cfg cid sector reg pin slot blk un) = cid"
  "pp_sector (pin_input cfg cid sector reg pin slot blk un) = sector"
  "pp_pin (pin_input cfg cid sector reg pin slot blk un) = pin"
  "pp_slot (pin_input cfg cid sector reg pin slot blk un) = slot"
  "pp_registered (pin_input cfg cid sector reg pin slot blk un) = reg"
  "pp_current_block (pin_input cfg cid sector reg pin slot blk un) = blk"
  "pp_quorum (pin_input cfg cid sector reg pin slot blk un) = pc_quorum cfg"
  "pp_bond_wei (pin_input cfg cid sector reg pin slot blk un) = pc_bond_wei cfg"
  "pp_incentives (pin_input cfg cid sector reg pin slot blk un) = pc_incentives cfg"
  "pp_unallocated_slot_funding (pin_input cfg cid sector reg pin slot blk un) = un"
  "pp_slot_seed_wei (pin_input cfg cid sector reg pin slot blk un) = sat_mul (pc_quorum cfg) (pc_reward_wei cfg)"
  by (simp_all add: pin_input_def)

lemma read_view_config:
  "read_view view cfg cid sector = Inr i \<Longrightarrow> pp_bond_wei i = pc_bond_wei cfg \<and>
     pp_quorum i = pc_quorum cfg \<and> pp_slot_seed_wei i = sat_mul (pc_quorum cfg) (pc_reward_wei cfg)"
  by (auto simp: read_view_Inr)

text \<open>When the seal of this tick is over stored bytes.\<close>

definition sealed_content ::
    "(bytes \<Rightarrow> bytes) \<Rightarrow> (bytes \<Rightarrow> string) \<Rightarrow> sealer \<Rightarrow> replica_source \<Rightarrow> pin_config \<Rightarrow> bytes \<Rightarrow> u128 \<Rightarrow>
       seal_inputs_rec \<Rightarrow> seal_artifacts \<Rightarrow> bool" where
  "sealed_content kec hx prover replicas cfg cid sector inputs sealed \<longleftrightarrow>
     (\<exists>bs. replicas cid sector = Inr bs \<and> bs \<noteq> [] \<and> seal_inputs kec hx cfg cid sector bs = Inr inputs \<and>
        sealer_seal prover inputs = Inr sealed)"

lemma sealed_contentI:
  "seal_replica kec hx prover replicas cfg cid sector = Inr (inputs, sealed) \<Longrightarrow>
     sealed_content kec hx prover replicas cfg cid sector inputs sealed"
  unfolding seal_replica_Inr sealed_content_def using seal_inputs_Inr by blast

lemma tick_requests:
  assumes "r \<in> set (fst (tick_pin kec hx view prover signer replicas cfg cid sector))"
  obtains input where "read_view view cfg cid sector = Inr input"
    "fst (tick_pin kec hx view prover signer replicas cfg cid sector) = [r]" "plan_pin kec input = PinSign r"
  | input inputs sealed where "read_view view cfg cid sector = Inr input"
    "fst (tick_pin kec hx view prover signer replicas cfg cid sector) = [r]"
    "plan_pin kec input = PinSeal cid sector"
    "sealed_content kec hx prover replicas cfg cid sector inputs sealed"
    "r = seal_commit_request kec input sealed (si_epoch inputs)"
  | input inputs sealed post_proof where "read_view view cfg cid sector = Inr input"
    "fst (tick_pin kec hx view prover signer replicas cfg cid sector) = [r]"
    "plan_pin kec input = PinProve cid sector (ps_challenge_nonce (pp_pin input)) (ps_challenge_deadline (pp_pin input))"
    "sealed_content kec hx prover replicas cfg cid sector inputs sealed"
    "r = submit_post_request kec input sealed (ps_challenge_nonce (pp_pin input))
       (ps_challenge_deadline (pp_pin input)) post_proof"
proof -
  obtain input where v: "read_view view cfg cid sector = Inr input"
    using assms by (cases "read_view view cfg cid sector") (simp_all add: tick_pin_def)
  then have id: "pp_cid input = cid" "pp_sector input = sector" by (auto simp: read_view_Inr)
  show thesis
  proof (cases "plan_pin kec input")
    case (PinSign req)
    with assms v show thesis by (intro that(1)) (auto simp: tick_pin_def)
  next
    case (PinSeal c s)
    then have cs: "c = cid" "s = sector" using plan_pin_Seal [OF PinSeal] id by auto
    show thesis
    proof (cases "seal_replica kec hx prover replicas cfg cid sector")
      case (Inr pair)
      then obtain inputs sealed where "seal_replica kec hx prover replicas cfg cid sector = Inr (inputs, sealed)"
        by (cases pair) auto
      with assms v PinSeal cs show thesis
        by (intro that(2) [of input inputs sealed]) (auto simp: tick_pin_def Let_def sealed_contentI)
    qed (use assms v PinSeal cs in \<open>simp add: tick_pin_def\<close>)
  next
    case (PinProve c s nonce dl)
    then have cs: "c = cid" "s = sector" "nonce = ps_challenge_nonce (pp_pin input)"
      "dl = ps_challenge_deadline (pp_pin input)" using plan_pin_Prove [OF PinProve] id by auto
    show thesis
    proof (cases "seal_replica kec hx prover replicas cfg cid sector")
      case (Inr pair)
      then obtain inputs sealed where s: "seal_replica kec hx prover replicas cfg cid sector = Inr (inputs, sealed)"
        by (cases pair) auto
      show thesis
      proof (cases "sealer_prove_post prover inputs (nonce_to_index nonce (pc_challenge_n cfg))")
        case (Inr pf)
        with assms v PinProve cs s show thesis
          by (intro that(3) [of input inputs sealed pf]) (auto simp: tick_pin_def Let_def sealed_contentI)
      qed (use assms v PinProve cs s in \<open>simp add: tick_pin_def\<close>)
    qed (use assms v PinProve cs in \<open>simp add: tick_pin_def\<close>)
  qed (use assms v in \<open>simp_all add: tick_pin_def\<close>)
qed

section \<open>The seal is bound to the content\<close>

lemma update_zero_tl: "xs[0 := 0] = ys[0 := 0] \<Longrightarrow> tl xs = tl (ys :: bytes)"
  by (cases xs; cases ys) auto

lemma data_preimage_inj:
  assumes "length cid = 32" "length cid' = 32"
  shows "data_preimage cid sector replica i = data_preimage cid' sector' replica' i' \<longleftrightarrow>
    cid = cid' \<and> sector = sector' \<and> i = i' \<and> replica = replica'"
  using assms u128_from_to_be by (auto simp: data_preimage_def) (metis u128_from_to_be)

section \<open>Back-off over time\<close>

lemma backoff_run_snoc:
  "backoff_run (os @ [out]) b = snd (backoff_after out (backoff_run os b))"
  by (simp add: backoff_run_def)

lemma backoff_run_frame:
  "bo_base (backoff_run os b) = bo_base b" "bo_max (backoff_run os b) = bo_max b"
  by (induction os rule: rev_induct) (simp_all add: backoff_run_snoc backoff_after_def backoff_run_def)

lemma trailing_holds_snoc:
  "trailing_holds (os @ [out]) = (if out = unfunded then Suc (trailing_holds os) else 0)"
  by (simp add: trailing_holds_def)

lemma backoff_current:
  assumes "base \<le> mx" "mx \<le> duration_max"
  shows "bo_current (backoff_run os (backoff_new base mx)) = min (2 ^ trailing_holds os * base) mx"
proof (induction os rule: rev_induct)
  case Nil
  then show ?case using assms by (simp add: backoff_run_def backoff_new_def trailing_holds_def)
next
  case (snoc out os)
  let ?c = "bo_current (backoff_run os (backoff_new base mx))"
  have "min (min (2 * ?c) duration_max) mx = min (2 ^ Suc (trailing_holds os) * base) mx"
    using snoc assms(2) by (auto simp: min_def)
  then show ?case
    using assms(1) by (simp add: backoff_run_snoc backoff_after_def trailing_holds_snoc backoff_run_frame)
      (simp add: backoff_new_def)
qed

section \<open>Properties\<close>

text \<open>C16: No bond and no answer without the stored content. A \<open>sealCommit\<close> or \<open>submitPoSt\<close> handed to
  the signing surface in a tick is that tick's only write and carries a seal computed from a
  non-empty local replica. The bond is exactly the configured one and is posted only by a registered
  pinner for a slot with room and funding, where it holds no pin; an answer goes to an open
  challenge, with its nonce, before its deadline.\<close>

theorem proof_writes_bound:
  assumes "r \<in> set (fst (tick_pin kec hx view prover signer replicas cfg cid sector))"
    and "psr_intent r = SealCommit \<or> psr_intent r = SubmitPoSt"
  shows "\<exists>input inputs sealed. read_view view cfg cid sector = Inr input \<and>
    fst (tick_pin kec hx view prover signer replicas cfg cid sector) = [r] \<and>
    sealed_content kec hx prover replicas cfg cid sector inputs sealed \<and>
    (r = seal_commit_request kec input sealed (si_epoch inputs) \<and> psr_value_wei r = pc_bond_wei cfg \<and>
     pp_registered input \<and> ps_status (pp_pin input) = NoPin \<and>
     sl_live_count (pp_slot input) < pc_quorum cfg \<and>
     (sl_funded (pp_slot input) \<or>
      min (unat (pc_quorum cfg) * unat (pc_reward_wei cfg)) (2 ^ 128 - 1) \<le> unat (pp_unallocated_slot_funding input))
     \<or> (\<exists>post_proof. r = submit_post_request kec input sealed (ps_challenge_nonce (pp_pin input))
          (ps_challenge_deadline (pp_pin input)) post_proof) \<and>
     ps_status (pp_pin input) = Active \<and> ps_challenge_open (pp_pin input) \<and>
     pp_current_block input \<le> ps_challenge_deadline (pp_pin input))"
  using assms(1)
proof (cases rule: tick_requests)
  case (1 input)
  then show ?thesis using assms(2) plan_pin_Sign_intent by blast
next
  case (2 input inputs sealed)
  have "psr_value_wei r = pc_bond_wei cfg"
    using read_view_config [OF 2(1)] 2(5) by (simp add: seal_commit_request_def)
  moreover have "unat (pp_slot_seed_wei input) =
      min (unat (pc_quorum cfg) * unat (pc_reward_wei cfg)) (2 ^ 128 - 1)"
    using read_view_config [OF 2(1)] by (simp add: unat_sat_mul)
  ultimately show ?thesis using 2 plan_pin_Seal [OF 2(3)] read_view_config [OF 2(1)]
    unfolding word_le_nat_alt by metis
next
  case (3 input inputs sealed pf)
  then show ?thesis using plan_pin_Prove [OF 3(3)] by blast
qed

definition sample_view :: "pin_state \<Rightarrow> pin_chain_view" where
  "sample_view p = \<lparr>pv_registered = (\<lambda>_. Inr True), pv_pin = (\<lambda>_ _ _. Inr p),
     pv_slot = (\<lambda>_ _. Inr \<lparr>sl_funded = False, sl_budget = 0, sl_live_count = 1\<rparr>),
     pv_current_block = Inr 50, pv_unallocated = Inr 100\<rparr>"

definition sample_config :: pin_config where
  "sample_config = \<lparr>pc_me = replicate 20 1, pc_incentives = replicate 20 2, pc_chain_id = 40204,
     pc_quorum = 3, pc_rounds = 2, pc_per_round = 5, pc_bond_wei = 9, pc_reward_wei = 10,
     pc_challenge_n = 4\<rparr>"

definition sample_sealed :: seal_artifacts where
  "sample_sealed = \<lparr>sa_replica_id = [], sa_comm_d = [], sa_comm_r = [], sa_comm_c = [], sa_porep_proof = [1]\<rparr>"

definition sample_sealer :: sealer where
  "sample_sealer = \<lparr>sealer_seal = (\<lambda>_. Inr sample_sealed), sealer_prove_post = (\<lambda>_ _. Inr [2])\<rparr>"

lemma sample_tick:
  "\<exists>r. fst (tick_pin (\<lambda>_. replicate 32 7) (\<lambda>_. []) (sample_view sample_pin) sample_sealer
       (\<lambda>_. Inr \<lparr>ptx_hash = None\<rparr>) (\<lambda>_ _. Inr [5]) sample_config [3] 1) = [r] \<and>
     psr_intent r = SubmitPoSt"
  by (simp add: tick_pin_def read_view_def sample_view_def sample_config_def sample_pin_def pin_input_def
      plan_pin_def seal_replica_def seal_inputs_def sample_sealer_def submit_post_request_def Let_def)

lemma proof_writes_bound_witness:
  "\<exists>inputs sealed. sealed_content (\<lambda>_. replicate 32 7) (\<lambda>_. []) sample_sealer (\<lambda>_ _. Inr [5]) sample_config [3] 1
     inputs sealed"
proof -
  obtain r where r: "fst (tick_pin (\<lambda>_. replicate 32 7) (\<lambda>_. []) (sample_view sample_pin) sample_sealer
      (\<lambda>_. Inr \<lparr>ptx_hash = None\<rparr>) (\<lambda>_ _. Inr [5]) sample_config [3] 1) = [r]"
    "psr_intent r = SubmitPoSt" using sample_tick by blast
  then have "r \<in> set (fst (tick_pin (\<lambda>_. replicate 32 7) (\<lambda>_. []) (sample_view sample_pin) sample_sealer
      (\<lambda>_. Inr \<lparr>ptx_hash = None\<rparr>) (\<lambda>_ _. Inr [5]) sample_config [3] 1))" by simp
  from proof_writes_bound [OF this] r(2) show ?thesis by blast
qed

text \<open>C37: The seal attests to the stored bytes: whenever two replicas, possibly of different slots,
  give the prover the same data, the slots and the bytes are the same, or the run exhibits two
  inputs of Keccak-256 whose digests agree after the first byte (which is cleared to keep the
  element in the field).\<close>

theorem seal_bound_to_content:
  assumes "seal_inputs kec hx cfg cid sector replica = Inr a" "seal_inputs kec hx cfg cid' sector' replica' = Inr b"
    and "length cid = 32" "length cid' = 32" "si_data a = si_data b"
  shows "(cid = cid' \<and> sector = sector' \<and> replica = replica') \<or>
    (data_preimage cid sector replica 0 \<noteq> data_preimage cid' sector' replica' 0 \<and>
     tl (kec (data_preimage cid sector replica 0)) = tl (kec (data_preimage cid' sector' replica' 0)))"
proof -
  have "seal_data_element kec cid sector replica 0 = seal_data_element kec cid' sector' replica' 0"
    using assms(1,2,5) by (auto simp: seal_inputs_def split: if_splits)
  then have "tl (kec (data_preimage cid sector replica 0)) = tl (kec (data_preimage cid' sector' replica' 0))"
    unfolding seal_data_element_def by (rule update_zero_tl)
  then show ?thesis using data_preimage_inj [OF assms(3,4)] by metis
qed

lemma seal_bound_to_content_witness:
  "data_preimage (replicate 32 1) 1 [5] 0 \<noteq> data_preimage (replicate 32 1) 1 [6] 0"
  using seal_bound_to_content [of "\<lambda>_. replicate 32 7" "\<lambda>_. []" sample_config "replicate 32 1" 1 "[5]" _
      "replicate 32 1" 1 "[6]"]
  by (simp add: seal_inputs_def seal_data_element_def)

text \<open>The back-off is exponential, capped and forgetful: whatever outcomes came before, the delay
  after an unfunded hold is the base doubled once for each unfunded hold directly before it, never
  above the maximum, and the delay after any other outcome is the base.\<close>

theorem backoff_delay_exact:
  assumes "base \<le> mx" "mx \<le> duration_max"
  shows "fst (backoff_after out (backoff_run os (backoff_new base mx))) =
    (if out = unfunded then min (2 ^ trailing_holds os * base) mx else base)"
  using backoff_current [OF assms, of os]
  by (simp add: backoff_after_def backoff_run_frame) (simp add: backoff_new_def)

lemma backoff_delay_exact_witness:
  "fst (backoff_after unfunded (backoff_run [Inr TickIdle, unfunded, unfunded] (backoff_new 5 60))) = 20"
  using backoff_delay_exact [of 5 60 unfunded "[Inr TickIdle, unfunded, unfunded]"]
  by (simp add: duration_max_def trailing_holds_def)

end
