(* ===== verification/Sidecar.thy ===== *)
theory Sidecar
  imports Pinning_Runloop Rpc
begin

text \<open>
  The module \<open>pinning::sidecar\<close> (\<open>crates/pinning/src/sidecar.rs\<close>): the prover as a child process
  that reads one request and writes one answer line. The process, the JSON reader (with
  \<open>as_bool\<close>) and the \<open>hex\<close> crate are parameters; what the child did is a \<open>sidecar_run\<close>.
\<close>

record sidecar_sealer =
  sc_bin :: string
  sc_timeout_secs :: nat

definition DEFAULT_SEALER_TIMEOUT_SECS :: nat where
  "DEFAULT_SEALER_TIMEOUT_SECS = 900"

definition sealer_timeout_from_env :: "env \<Rightarrow> nat" where
  "sealer_timeout_from_env env =
     (case Option.bind (env ''CITRATE_SEALER_TIMEOUT_SECS'') (\<lambda>v. parse_uint 10 (2 ^ 64) (trim v)) of
        Some v \<Rightarrow> if 0 < v then v else DEFAULT_SEALER_TIMEOUT_SECS
      | None \<Rightarrow> DEFAULT_SEALER_TIMEOUT_SECS)"

definition sidecar_new :: "env \<Rightarrow> (string \<Rightarrow> bool) \<Rightarrow> string \<Rightarrow> sealer_error + sidecar_sealer" where
  "sidecar_new env path_exists bin =
     (if \<not> path_exists bin then Inl (ProveError (''citrate-sealer binary not found at '' @ bin))
      else Inr \<lparr>sc_bin = bin, sc_timeout_secs = sealer_timeout_from_env env\<rparr>)"

definition sidecar_with_timeout :: "nat \<Rightarrow> sidecar_sealer \<Rightarrow> sidecar_sealer" where
  "sidecar_with_timeout t s = s\<lparr>sc_timeout_secs := t\<rparr>"

definition sidecar_from_env :: "env \<Rightarrow> (string \<Rightarrow> bool) \<Rightarrow> sealer_error + sidecar_sealer" where
  "sidecar_from_env env path_exists =
     rbind (ok_or (ProveError ''CITRATE_SEALER_BIN not set'') (env ''CITRATE_SEALER_BIN''))
       (sidecar_new env path_exists)"

section \<open>The request\<close>

record sidecar_request =
  sq_op :: string
  sq_pinner :: string
  sq_cid :: string
  sq_sector :: string
  sq_epoch :: string
  sq_data :: "string list"
  sq_challenge_index :: u64

definition be_hex32 :: "(bytes \<Rightarrow> string) \<Rightarrow> bytes \<Rightarrow> string" where
  "be_hex32 hx b = ''0x'' @ hx b"

definition u128_be_hex32 :: "(bytes \<Rightarrow> string) \<Rightarrow> u128 \<Rightarrow> string" where
  "u128_be_hex32 hx v = be_hex32 hx (replicate 16 0 @ u128_to_be v)"

definition sidecar_request_json ::
    "(bytes \<Rightarrow> string) \<Rightarrow> string \<Rightarrow> seal_inputs_rec \<Rightarrow> u64 \<Rightarrow> sidecar_request" where
  "sidecar_request_json hx op inputs challenge_index =
     \<lparr>sq_op = op, sq_pinner = be_hex32 hx (si_pinner_identity inputs), sq_cid = be_hex32 hx (si_cid inputs),
      sq_sector = u128_be_hex32 hx (si_sector inputs), sq_epoch = u128_be_hex32 hx (si_epoch inputs),
      sq_data = map (be_hex32 hx) (si_data inputs), sq_challenge_index = challenge_index\<rparr>"

section \<open>The call\<close>

datatype sidecar_run =
    SpawnFailed string | NoStdin | WriteFailed string | CallTimedOut | WaitFailed string
  | Exited bool string bytes bytes

record 'v sidecar_json =
  sj_ops :: "'v json_ops"
  sj_bool :: "'v \<Rightarrow> bool option"

text \<open>\<open>str::lines().next()\<close>: the text up to the first line feed, without a final carriage return.\<close>

definition first_line :: "string \<Rightarrow> string option" where
  "first_line s =
     (if s = [] then None
      else let l = takeWhile (\<lambda>c. c \<noteq> CHR 0x0A) s
           in Some (if l \<noteq> s \<and> l \<noteq> [] \<and> last l = CHR 0x0D then butlast l else l))"

definition parse_answer :: "'v sidecar_json \<Rightarrow> bytes \<Rightarrow> sealer_error + 'v" where
  "parse_answer J stdout =
     rbind (ok_or (ProveError ''empty sidecar response'') (first_line (from_utf8_lossy stdout))) (\<lambda>first.
     rbind (map_err (\<lambda>e. ProveError (''bad sidecar json: '' @ e))
       (j_parse (sj_ops J) (bytes_of_string first))) (\<lambda>v.
     if Option.bind (j_get (sj_ops J) v ''ok'') (sj_bool J) \<noteq> Some True
     then Inl (ProveError (''sidecar: '' @
       (case Option.bind (j_get (sj_ops J) v ''error'') (j_str (sj_ops J)) of
          Some m \<Rightarrow> m | None \<Rightarrow> ''unknown sidecar error'')))
     else Inr v))"

definition sidecar_call ::
    "'v sidecar_json \<Rightarrow> (nat \<Rightarrow> string) \<Rightarrow> (string \<Rightarrow> nat \<Rightarrow> sidecar_request \<Rightarrow> sidecar_run) \<Rightarrow>
       sidecar_sealer \<Rightarrow> sidecar_request \<Rightarrow> sealer_error + 'v" where
  "sidecar_call J show_timeout run sc req =
     (case run (sc_bin sc) (sc_timeout_secs sc) req of
        SpawnFailed e \<Rightarrow> Inl (ProveError (''spawn citrate-sealer: '' @ e))
      | NoStdin \<Rightarrow> Inl (ProveError ''no sidecar stdin'')
      | WriteFailed e \<Rightarrow> Inl (ProveError (''write to sidecar: '' @ e))
      | CallTimedOut \<Rightarrow> Inl (ProveError (''citrate-sealer did not answer within '' @
          show_timeout (sc_timeout_secs sc) @ ''; killed (PBA-L6b-039)''))
      | WaitFailed e \<Rightarrow> Inl (ProveError (''sidecar wait: '' @ e))
      | Exited success status stdout stderr \<Rightarrow>
          if \<not> success
          then Inl (ProveError (''sidecar exited '' @ status @ '': '' @ from_utf8_lossy stderr))
          else parse_answer J stdout)"

section \<open>The answer\<close>

definition strip_0x :: "string \<Rightarrow> string" where
  "strip_0x s = (case strip_prefix ''0x'' s of Some r \<Rightarrow> r | None \<Rightarrow> s)"

definition field_bytes32 ::
    "'v json_ops \<Rightarrow> (string \<Rightarrow> string + bytes) \<Rightarrow> 'v \<Rightarrow> string \<Rightarrow> sealer_error + bytes" where
  "field_bytes32 J unhex v key =
     rbind (ok_or (ProveError (''sidecar missing '' @ key)) (Option.bind (j_get J v key) (j_str J))) (\<lambda>s.
     rbind (map_err (\<lambda>e. ProveError (''bad '' @ key @ '' hex: '' @ e)) (unhex (strip_0x s))) (\<lambda>bs.
     if length bs = 32 then Inr bs else Inl (ProveError (key @ '' not 32 bytes''))))"

definition field_proof :: "'v json_ops \<Rightarrow> (string \<Rightarrow> string + bytes) \<Rightarrow> 'v \<Rightarrow> sealer_error + bytes" where
  "field_proof J unhex v =
     rbind (ok_or (ProveError ''sidecar missing proof'') (Option.bind (j_get J v ''proof'') (j_str J))) (\<lambda>s.
     map_err (\<lambda>e. ProveError (''bad proof hex: '' @ e)) (unhex (strip_0x s)))"

definition read_artifacts :: "'v json_ops \<Rightarrow> (string \<Rightarrow> string + bytes) \<Rightarrow> 'v \<Rightarrow> sealer_error + seal_artifacts" where
  "read_artifacts J unhex v =
     rbind (field_bytes32 J unhex v ''replica_id'') (\<lambda>rid.
     rbind (field_bytes32 J unhex v ''comm_d'') (\<lambda>d.
     rbind (field_bytes32 J unhex v ''comm_r'') (\<lambda>r.
     rbind (field_bytes32 J unhex v ''comm_c'') (\<lambda>c.
     rbind (field_proof J unhex v) (\<lambda>pf.
       Inr \<lparr>sa_replica_id = rid, sa_comm_d = d, sa_comm_r = r, sa_comm_c = c, sa_porep_proof = pf\<rparr>)))))"

definition sidecar_seal ::
    "(bytes \<Rightarrow> string) \<Rightarrow> (string \<Rightarrow> string + bytes) \<Rightarrow> 'v sidecar_json \<Rightarrow> (nat \<Rightarrow> string) \<Rightarrow>
       (string \<Rightarrow> nat \<Rightarrow> sidecar_request \<Rightarrow> sidecar_run) \<Rightarrow> sidecar_sealer \<Rightarrow> seal_inputs_rec \<Rightarrow>
       sealer_error + seal_artifacts" where
  "sidecar_seal hx unhex J show_timeout run sc inputs =
     rbind (sidecar_call J show_timeout run sc (sidecar_request_json hx ''seal'' inputs 0))
       (read_artifacts (sj_ops J) unhex)"

definition sidecar_prove_post ::
    "(bytes \<Rightarrow> string) \<Rightarrow> (string \<Rightarrow> string + bytes) \<Rightarrow> 'v sidecar_json \<Rightarrow> (nat \<Rightarrow> string) \<Rightarrow>
       (string \<Rightarrow> nat \<Rightarrow> sidecar_request \<Rightarrow> sidecar_run) \<Rightarrow> sidecar_sealer \<Rightarrow> seal_inputs_rec \<Rightarrow> u64 \<Rightarrow>
       sealer_error + bytes" where
  "sidecar_prove_post hx unhex J show_timeout run sc inputs challenge_index =
     rbind (sidecar_call J show_timeout run sc (sidecar_request_json hx ''prove_post'' inputs challenge_index))
       (field_proof (sj_ops J) unhex)"

text \<open>The adapter as the prover of the run loop.\<close>

definition sidecar_prover ::
    "(bytes \<Rightarrow> string) \<Rightarrow> (string \<Rightarrow> string + bytes) \<Rightarrow> 'v sidecar_json \<Rightarrow> (nat \<Rightarrow> string) \<Rightarrow>
       (string \<Rightarrow> nat \<Rightarrow> sidecar_request \<Rightarrow> sidecar_run) \<Rightarrow> sidecar_sealer \<Rightarrow> sealer" where
  "sidecar_prover hx unhex J show_timeout run sc =
     \<lparr>sealer_seal = sidecar_seal hx unhex J show_timeout run sc,
      sealer_prove_post = sidecar_prove_post hx unhex J show_timeout run sc\<rparr>"

section \<open>What is accepted\<close>

lemma sidecar_call_Inr:
  "sidecar_call J show_timeout run sc req = Inr v \<longleftrightarrow>
     (\<exists>status stdout stderr. run (sc_bin sc) (sc_timeout_secs sc) req = Exited True status stdout stderr \<and>
        parse_answer J stdout = Inr v)"
  by (auto simp: sidecar_call_def split: sidecar_run.splits)

lemma parse_answer_ok:
  "parse_answer J stdout = Inr v \<Longrightarrow> Option.bind (j_get (sj_ops J) v ''ok'') (sj_bool J) = Some True"
  by (auto simp: parse_answer_def split: if_splits)

lemma field_bytes32_Inr:
  "field_bytes32 J unhex v key = Inr bs \<longleftrightarrow> length bs = 32 \<and>
     (\<exists>x s. j_get J v key = Some x \<and> j_str J x = Some s \<and> unhex (strip_0x s) = Inr bs)"
  by (auto simp: field_bytes32_def bind_eq_Some_conv split: if_splits)

lemma read_artifacts_lengths:
  "read_artifacts J unhex v = Inr a \<Longrightarrow> words32 [sa_replica_id a, sa_comm_d a, sa_comm_r a, sa_comm_c a]"
  by (auto simp: read_artifacts_def field_bytes32_Inr)

section \<open>Properties\<close>

text \<open>C38: A seal the adapter returns is a prover's word-sized answer: the child exited successfully on
  the request at challenge index zero, its first line says ok, and the four roots are 32 bytes each,
  so the \<open>sealCommit\<close> calldata built from them reads back argument by argument.\<close>

theorem sidecar_seal_typed:
  assumes "sidecar_seal hx unhex J show_timeout run sc inputs = Inr a" "hash32 kec"
    and "length cid = 32" "length (sa_porep_proof a) < 2 ^ 128"
  shows "words32 [sa_replica_id a, sa_comm_d a, sa_comm_r a, sa_comm_c a] \<and>
    (\<exists>status stdout stderr v. run (sc_bin sc) (sc_timeout_secs sc) (sidecar_request_json hx ''seal'' inputs 0) =
       Exited True status stdout stderr \<and> parse_answer J stdout = Inr v \<and>
       Option.bind (j_get (sj_ops J) v ''ok'') (sj_bool J) = Some True) \<and>
    (let block = drop 4 (encode_seal_commit kec cid sector (sa_replica_id a) epoch (sa_comm_d a)
           (sa_comm_r a) (sa_comm_c a) (sa_porep_proof a))
     in abi_word block 2 = sa_replica_id a \<and> abi_word block 4 = sa_comm_d a \<and>
        abi_word block 5 = sa_comm_r a \<and> abi_word block 6 = sa_comm_c a \<and>
        abi_dynamic block 7 = Some (sa_porep_proof a))"
proof -
  obtain v where v: "sidecar_call J show_timeout run sc (sidecar_request_json hx ''seal'' inputs 0) = Inr v"
    "read_artifacts (sj_ops J) unhex v = Inr a"
    using assms(1) by (auto simp: sidecar_seal_def)
  note w = read_artifacts_lengths [OF v(2)]
  let ?block = "drop 4 (encode_seal_commit kec cid sector (sa_replica_id a) epoch (sa_comm_d a)
           (sa_comm_r a) (sa_comm_c a) (sa_porep_proof a))"
  have r: "map (abi_word ?block) [0..<8] = seal_commit_head cid sector (sa_replica_id a) epoch
      (sa_comm_d a) (sa_comm_r a) (sa_comm_c a)" "abi_dynamic ?block 7 = Some (sa_porep_proof a)"
    using read_seal_commit [OF assms(2), of cid "sa_replica_id a" "sa_comm_d a" "sa_comm_r a" "sa_comm_c a"
        "sa_porep_proof a" sector epoch] assms(3,4) w by (simp_all add: Let_def)
  have "abi_word ?block i = seal_commit_head cid sector (sa_replica_id a) epoch
      (sa_comm_d a) (sa_comm_r a) (sa_comm_c a) ! i" if "i < 8" for i
    using that r(1) by (metis (no_types) nth_map_upt add_0 diff_zero)
  then have "abi_word ?block 2 = sa_replica_id a" "abi_word ?block 4 = sa_comm_d a"
    "abi_word ?block 5 = sa_comm_r a" "abi_word ?block 6 = sa_comm_c a"
    by (simp_all add: seal_commit_head_def)
  with w r(2) v(1) parse_answer_ok show ?thesis by (auto simp: sidecar_call_Inr)
qed

definition sample_sidecar_json :: "string sidecar_json" where
  "sample_sidecar_json = \<lparr>sj_ops = \<lparr>j_parse = (\<lambda>bs. Inr (string_of_bytes bs)), j_get = (\<lambda>v _. Some v),
     j_str = Some, j_i64 = (\<lambda>_. None), j_show = (\<lambda>v. v)\<rparr>, sj_bool = (\<lambda>_. Some True)\<rparr>"

lemma sample_sidecar_seal:
  "sidecar_seal (\<lambda>_. []) (\<lambda>_. Inr (replicate 32 1)) sample_sidecar_json (\<lambda>_. [])
     (\<lambda>_ _ _. Exited True [] [49] []) \<lparr>sc_bin = [], sc_timeout_secs = 1\<rparr> inputs =
   Inr \<lparr>sa_replica_id = replicate 32 1, sa_comm_d = replicate 32 1, sa_comm_r = replicate 32 1,
     sa_comm_c = replicate 32 1, sa_porep_proof = replicate 32 1\<rparr>"
proof -
  have "from_utf8_lossy [49] \<noteq> []"
    by (subst from_utf8_lossy.simps) (simp add: utf8_step_def string_of_bytes_def)
  then obtain l where "first_line (from_utf8_lossy [49]) = Some l"
    by (auto simp: first_line_def Let_def)
  then show ?thesis
    by (simp add: sidecar_seal_def sidecar_call_def parse_answer_def sample_sidecar_json_def
        read_artifacts_def field_bytes32_def field_proof_def)
qed

lemma sidecar_seal_typed_witness:
  "words32 [replicate 32 1 :: bytes, replicate 32 1, replicate 32 1, replicate 32 1]"
  using sidecar_seal_typed [OF sample_sidecar_seal, of "\<lambda>_. replicate 32 0" "replicate 32 2"]
  by (simp add: hash32_def)

end
