(* ===== verification/Spec2Isabelle.thy ===== *)
theory Spec2Isabelle
  imports Handoff Sidecar
begin

text \<open>
  Verification of the Citrate node agent, the daemon of one seller node on a compute marketplace. It
  reads the chain, bids on jobs at cost plus a margin, runs the inference of a job it has won, commits to
  the result and reveals it, keeps itself alive with heartbeats and collects its rewards. It holds no
  keys: every write becomes an entry of a queue that a separate signing surface fetches over a local
  HTTP interface, signs, broadcasts and reports back. A second program of the same workspace, the
  pinner, proves storage of replicas.

  \<^bold>\<open>Parts and theories.\<close> Each theory models one module of the workspace, with the names of its source.

  \<^item> \<open>Prelude\<close> and \<open>Text\<close>: errors as sums (\<open>rbind\<close> is Rust's question mark), saturating and checked
    arithmetic, big-endian bytes, decimal text, trimming, UTF-8, integer parsing and path joining as the
    standard library does them; the locales \<open>invariant_ops\<close> (an
    invariant kept by every operation of a state) and \<open>idempotent_sink\<close> (asking twice is asking once),
    which the queue, the executor and the relay interpret.
  \<^item> \<open>Config\<close>, \<open>Clock\<close>, \<open>Bidder\<close>, \<open>Bridge\<close>: \<open>crates/config\<close>, \<open>node-agent/clock.rs\<close>, \<open>crates/bidder\<close>,
    \<open>node-agent/bridge.rs\<close>. Settings and their schedule windows, the time of day, pricing and the gates
    of a bid, and the conversion of chain values.
  \<^item> \<open>Abi\<close>, \<open>Selectors\<close>, \<open>Marketplace\<close>, \<open>Chain_Reads\<close>, \<open>Chain_Pinning\<close>: \<open>crates/chainio\<close> (\<open>abi\<close>,
    \<open>selectors\<close>, \<open>marketplace\<close>, \<open>verifier\<close>, \<open>accounting\<close>, \<open>model_registry\<close>, \<open>pinning\<close>). Encoders and
    decoders of calldata and returns; the locale \<open>word_codec\<close> is the contract between a word encoder and
    its reader and is interpreted on each pair.
  \<^item> \<open>Net_Addr\<close>, \<open>Outbound\<close>, \<open>Rpc\<close>: the address parsers of the standard library, \<open>chainio/outbound.rs\<close>
    (which URLs are allowed, reading a body under a cap) and \<open>chainio/rpc.rs\<close>.
  \<^item> \<open>Lifecycle\<close>: \<open>crates/lifecycle\<close> and \<open>crates/earnings\<close>, the pure planners.
  \<^item> \<open>Models\<close>, \<open>Commitment_Proof\<close>, \<open>Runtime\<close>: \<open>crates/executor\<close> (\<open>models\<close>, \<open>proof\<close>, \<open>runtime\<close>).
    Provisioning of weights against a digest, the commitment, the inference adapter.
  \<^item> \<open>Profiler\<close>: \<open>node-agent/profiler.rs\<close>, the execution-time estimates. Its numbers are \<open>f64\<close>: a mantissa
    and an exponent, every operation exact and then rounded to 53 bits, ties to even, as IEEE 754 has it.
  \<^item> \<open>Nonce_Store\<close>, \<open>Execution\<close>, \<open>Execution_Safety\<close>, \<open>Settlement\<close>: \<open>node-agent/nonce.rs\<close> and
    \<open>node-agent/execution.rs\<close>. What is on disk for a job and one step of the executor; then the invariant
    of all runs, and the way of one job together with the chain (\<open>next_state\<close>, \<open>chain_follows\<close>: the
    settlement rules the sources document) from its assignment to its completion.
  \<^item> \<open>Supervision_State\<close>, \<open>Supervision_Queue\<close>: \<open>supervision/state.rs\<close>, the shared state with the signing
    queue. \<open>agent_op\<close> names its operations; a list of them is any interleaving of the loop and the
    handlers, since each takes the lock for one call. \<open>agent_inv\<close> is the invariant.
  \<^item> \<open>Supervision_Auth\<close>, \<open>Supervision_Server\<close>: \<open>supervision/auth.rs\<close> and \<open>supervision/server.rs\<close>, the
    token on disk and the HTTP surface. A start meets faults in every call and other processes in every
    gap between its calls (\<open>ti_race\<close> before the \<open>open\<close>, \<open>ti_gap\<close> after it).
  \<^item> \<open>Heartbeat\<close>, \<open>Relay\<close>, \<open>Daemon\<close>, \<open>Live\<close>, \<open>Live_Safety\<close>: \<open>crates/heartbeat\<close>, \<open>node-agent/relay.rs\<close>,
    \<open>node-agent/daemon.rs\<close>, \<open>node-agent/live.rs\<close>. The senders that fill the queue, a tick and the loop, the
    views of the chain and the watched directory.
  \<^item> \<open>System\<close>, \<open>Printing\<close>, \<open>Startup\<close>, \<open>Main_Program\<close>: \<open>node-agent/main.rs\<close> and \<open>chainio/addrbook.rs\<close>.
    \<open>System\<close> wires the daemon from the parts above; \<open>Printing\<close> has the runs that print and the lines about
    what was read; \<open>Startup\<close> has the address book, what is read from the environment, and the decision made
    once, with its lines (\<open>decide_once\<close>; \<open>run_once\<close> is its value alone); \<open>Main_Program\<close> is the program: its
    arguments, the run that decides once around it, and the start of the daemon with every early return
    (\<open>process\<close> is what it meets).
  \<^item> \<open>Handoff\<close>: no module of its own; the way of a write from the planner through the queue to the report
    of its broadcast, and the heartbeat of the running daemon.
  \<^item> \<open>Pinning_Plan\<close>, \<open>Pinning_Runloop\<close>, \<open>Sidecar\<close>: \<open>crates/pinning\<close> (\<open>lib\<close>, \<open>runloop\<close>, \<open>sidecar\<close>), the
    planner, one tick and the prover process.

  \<^bold>\<open>How the parts interact.\<close> A round of the loop (\<open>loop_round\<close>) reads the market through \<open>live_refresh\<close>,
  lets \<open>evaluate\<close> decide, and places a bid through \<open>relay_place\<close>; then the job executor takes one step
  (\<open>job_step\<close>: read the chain, plan, and run the inference or ask for one signature), the earnings are
  polled, and a heartbeat is queued. All of it, and the requests of \<open>router\<close>, act on one \<open>agent_state\<close>.
  The locale \<open>loop_parts\<close> of \<open>Daemon\<close> states what the loop needs of its parts, and \<open>System\<close> interprets it on
  the wired daemon: the state is always the result of operations (refinement), so the theorems on
  operation lists hold of the running daemon, and every entry of the queue is one of its own writes.

  \<^bold>\<open>What the groups of theorems show.\<close> The bidder bids exactly when its gates pass and at the reference
  price over the natural numbers; a bid placed over the live view is sound against the job as the chain
  returned it, and the mode that decides once agrees with the daemon. The planner signs exactly the write
  that the settlement rules make due, and what it waits for comes. Over all runs with restarts, failing
  file-system calls and failing reads, one set of artifacts is committed to and revealed for a job;
  inference runs only on the input bound on chain and on verified weights. With healthy surroundings a
  job that was won is completed and paid, restarts included; a torn nonce is the state in which it is
  not. The estimate of the profiler stays within its samples, which are
  whole seconds, a run below a second being 0; a sample of 0 counts as one second, since no estimate is
  below one. A write the planner asks for is
  handed to the signing surface exactly once, and a heartbeat is always on offer. The queue never loses,
  redirects or evicts a pending write; a paused agent places nothing. Without the token no request has an
  effect or learns anything protected. For a daemon that is not root the token is random or the text of
  the entry that was at its path when it was opened, and the path ends at a file of its own that nobody else
  can read; when nobody touches the entry after the \<open>open\<close>, that entry is the one with the token. (The code
  does not refuse a FIFO or a device, and a process that can write the directory can put its own text in for
  the time of the \<open>open\<close>: \<open>special_file_adopted\<close> and \<open>swapped_token_adopted\<close>.) A daemon that was started listens on loopback, talks to encrypted or local endpoints, and asks
  for signatures only on the contracts of the address book on its chain; what the program prints, word
  for word, is what it decided, and a run that fails prints no decision. Codecs read back what they write, and reject what is not canonical. The pinner answers,
  claims and ends, and never bonds a proof that is not bound to stored bytes.

  \<^bold>\<open>Conventions.\<close> Machine integers are words (\<open>u8\<close> to \<open>u128\<close>), with Rust's wrap-around, saturation and
  truncating casts; a \<open>usize\<close> is a natural number whose checked operations test the bound of 64 bits.
  Strings are the bytes of their UTF-8 text. A loop is structural recursion where the code's loop ends by
  its data; the counted loops of \<open>Heartbeat\<close> and \<open>Daemon\<close> may run for ever and are partial functions whose
  value \<open>None\<close> means that they never return, and the theorems say when. The fuel of \<open>follow\<close> in
  \<open>Supervision_Auth\<close> is Linux's own bound of forty links. The 106 steps of \<open>Settlement\<close> are the
  steps of the protocol and the hundred blocks of the dispute window, one block a step at least. The
  profiler's bound asks for samples of at most 2 to the 48 seconds, far below where rounding could carry
  an average past its samples. An action of the outside world (a chain read, an
  HTTP answer, a file-system call, random bytes, the clock, another process) is an argument chosen anew
  for every step, errors included, so a theorem holds for every behaviour of it. Keccak-256 and SHA-256
  are parameters; a theorem that needs a digest of 32 bytes says so (\<open>hash32\<close>), and where a property
  holds up to collisions the theorem names the colliding inputs.

  \<^bold>\<open>Not modelled.\<close> The transport below an HTTP exchange or a JSON-RPC call, JSON parsing (serde) and the
  JSON text of answers, the scheduler of the asynchronous runtime beyond the interleaving of lock
  acquisitions, axum's answers where no handler runs, the vendored address table, Rust's debug text of a
  string, the text of a panic, the line the server task writes to standard error, and the tests. The
  traits of the sources are the parameters of the definitions that use them. The sources under
  \<open>cfg(test)\<close> and the non-Unix variants of the file functions are left out.
\<close>

end
